(* ===== verification/Prelude.thy ===== *)
theory Prelude
  imports Main "HOL-Library.State_Monad"
begin

text \<open>
  What every component shares: Go's machine integers, durations and instants, the Go error
  values that flow through the operator, the pieces of the package \<^verbatim>\<open>strconv\<close> that the
  operator calls, Go maps, panics, and the weakest-precondition calculus for the state monad
  in which the effectful code is written.
\<close>

named_theorems wp_simps \<open>weakest preconditions of the monadic primitives\<close>

section \<open>Machine integers, durations and instants\<close>

text \<open>
  A \<^verbatim>\<open>time.Duration\<close> is an \<^verbatim>\<open>int64\<close> count of nanoseconds, and so is the target platform's
  \<^verbatim>\<open>int\<close>. Values are kept as \<^typ>\<open>int\<close>; every operation that can overflow is wrapped to
  64-bit two's complement. An instant is a number of nanoseconds (\<^verbatim>\<open>time.Time\<close> has its own,
  much wider representation, so instants do not wrap).
\<close>

type_synonym duration = int
type_synonym instant = int

definition wrap64 :: "int \<Rightarrow> int" where
  "wrap64 x = signed_take_bit 63 x"

definition min_int64 :: int where
  "min_int64 = - (2 ^ 63)"

definition max_int64 :: int where
  "max_int64 = 2 ^ 63 - 1"

definition is_int64 :: "int \<Rightarrow> bool" where
  "is_int64 x \<longleftrightarrow> min_int64 \<le> x \<and> x \<le> max_int64"

definition dur_add :: "duration \<Rightarrow> duration \<Rightarrow> duration" where
  "dur_add a b = wrap64 (a + b)"

definition dur_mul :: "duration \<Rightarrow> duration \<Rightarrow> duration" where
  "dur_mul a b = wrap64 (a * b)"

abbreviation Millisecond :: duration where
  "Millisecond \<equiv> 1000000"

abbreviation Second :: duration where
  "Second \<equiv> 1000000000"

text \<open>Go's integer division truncates towards zero.\<close>

definition go_div :: "int \<Rightarrow> int \<Rightarrow> int" where
  "go_div a b = sgn a * sgn b * (\<bar>a\<bar> div \<bar>b\<bar>)"

text \<open>\<^verbatim>\<open>Time.Add\<close>, \<^verbatim>\<open>Time.After\<close> and \<^verbatim>\<open>Time.Sub\<close>; the last one saturates.\<close>

definition time_add :: "instant \<Rightarrow> duration \<Rightarrow> instant" where
  "time_add t d = t + d"

definition time_after :: "instant \<Rightarrow> instant \<Rightarrow> bool" where
  "time_after t u \<longleftrightarrow> u < t"

definition time_sub :: "instant \<Rightarrow> instant \<Rightarrow> duration" where
  "time_sub t u = max min_int64 (min max_int64 (t - u))"

section \<open>Panics\<close>

datatype 'a outcome = Ret 'a | Panic

section \<open>Error values\<close>

text \<open>
  \<^verbatim>\<open>ApiStatus\<close> is an error of the API server with its status reason; \<^verbatim>\<open>Wrapped\<close> is what
  \<^verbatim>\<open>github.com/pkg/errors\<close> makes of an error and a message; \<^verbatim>\<open>Aggregate\<close> is the error list
  of \<^verbatim>\<open>k8s.io/apimachinery/pkg/util/errors\<close>. \<^verbatim>\<open>Unreconcilable\<close> is the controller's own
  error type and \<^verbatim>\<open>NumErr\<close> that of \<^verbatim>\<open>strconv\<close>. A nil error is \<^term>\<open>None\<close>.
\<close>

datatype api_reason = NotFound | Conflict | AlreadyExists | OtherReason

datatype num_error = ErrSyntax | ErrRange

datatype error =
    ApiStatus api_reason string
  | ErrMsg string
  | Unreconcilable string
  | NumErr string string num_error
  | Wrapped error string
  | Aggregate "error list"

type_synonym 'a result = "error + 'a"

fun num_error_str :: "num_error \<Rightarrow> string" where
  "num_error_str ErrSyntax = ''invalid syntax''"
| "num_error_str ErrRange = ''value out of range''"

fun ReasonForError :: "error \<Rightarrow> api_reason option" where
  "ReasonForError (ApiStatus r _) = Some r"
| "ReasonForError (Wrapped e _) = ReasonForError e"
| "ReasonForError _ = None"

definition IsNotFound :: "error \<Rightarrow> bool" where
  "IsNotFound e \<longleftrightarrow> ReasonForError e = Some NotFound"

definition IsConflict :: "error \<Rightarrow> bool" where
  "IsConflict e \<longleftrightarrow> ReasonForError e = Some Conflict"

definition IsAlreadyExists :: "error \<Rightarrow> bool" where
  "IsAlreadyExists e \<longleftrightarrow> ReasonForError e = Some AlreadyExists"

text \<open>\<^verbatim>\<open>errors.Wrapf\<close>: a nil error stays nil.\<close>

definition Wrapf :: "error option \<Rightarrow> string \<Rightarrow> error option" where
  "Wrapf e msg = (case e of None \<Rightarrow> None | Some e' \<Rightarrow> Some (Wrapped e' msg))"

text \<open>\<^verbatim>\<open>utilerrors.NewAggregate\<close> drops nil errors and is nil when none is left.\<close>

definition NewAggregate :: "error option list \<Rightarrow> error option" where
  "NewAggregate errlist =
     (let errs = List.map_filter id errlist in if errs = [] then None else Some (Aggregate errs))"

text \<open>The messages of an aggregate: repeated ones once, in order, in brackets unless single.\<close>

definition join_msgs :: "string list \<Rightarrow> string" where
  "join_msgs ms =
     (let seen = rev (remdups (rev ms));
          body = concat (case seen of [] \<Rightarrow> [] | m # ms' \<Rightarrow> m # map (\<lambda>x. '', '' @ x) ms')
      in if length seen \<le> 1 then body else ''['' @ body @ '']'')"

fun error_str :: "error \<Rightarrow> string"
  and leaf_msgs :: "error \<Rightarrow> string list" where
  "error_str (ApiStatus _ m) = m"
| "error_str (ErrMsg m) = m"
| "error_str (Unreconcilable m) = m"
| "error_str (NumErr f s k) =
     ''strconv.'' @ f @ '': parsing '' @ [CHR 0x22] @ s @ [CHR 0x22] @ '': '' @ num_error_str k"
| "error_str (Wrapped e m) = m @ '': '' @ error_str e"
| "error_str (Aggregate es) = join_msgs (concat (map leaf_msgs es))"
| "leaf_msgs (Aggregate es) = concat (map leaf_msgs es)"
| "leaf_msgs (ApiStatus _ m) = [m]"
| "leaf_msgs (ErrMsg m) = [m]"
| "leaf_msgs (Unreconcilable m) = [m]"
| "leaf_msgs (NumErr f s k) =
     [''strconv.'' @ f @ '': parsing '' @ [CHR 0x22] @ s @ [CHR 0x22] @ '': '' @ num_error_str k]"
| "leaf_msgs (Wrapped e m) = [m @ '': '' @ error_str e]"

text \<open>The error of a fallible call, as Go's second result.\<close>

fun err_of :: "'a result \<Rightarrow> error option" where
  "err_of (Inl e) = Some e"
| "err_of (Inr _) = None"

section \<open>Numbers and booleans as strings\<close>

definition is_digit :: "char \<Rightarrow> bool" where
  "is_digit c \<longleftrightarrow> 48 \<le> (of_char c :: nat) \<and> (of_char c :: nat) \<le> 57"

definition digit_val :: "char \<Rightarrow> int" where
  "digit_val c = int (of_char c) - 48"

fun digits_val :: "int \<Rightarrow> string \<Rightarrow> int" where
  "digits_val acc [] = acc"
| "digits_val acc (c # cs) = digits_val (10 * acc + digit_val c) cs"

text \<open>\<^verbatim>\<open>strconv.Atoi\<close>: an optional sign, decimal digits, within 64 bits.\<close>

definition Atoi :: "string \<Rightarrow> int result" where
  "Atoi s =
     (let (neg, ds) =
            (case s of [] \<Rightarrow> (False, [])
             | c # cs \<Rightarrow> if c = CHR ''-'' then (True, cs)
                       else if c = CHR ''+'' then (False, cs) else (False, s))
      in if ds = [] \<or> \<not> list_all is_digit ds then Inl (NumErr ''Atoi'' s ErrSyntax)
         else let n = (if neg then - digits_val 0 ds else digits_val 0 ds)
              in if is_int64 n then Inr n else Inl (NumErr ''Atoi'' s ErrRange))"

definition digit_char :: "nat \<Rightarrow> char" where
  "digit_char d = char_of (48 + d)"

fun nat_digits :: "nat \<Rightarrow> string" where
  "nat_digits n = (if n < 10 then [digit_char n] else nat_digits (n div 10) @ [digit_char (n mod 10)])"

declare nat_digits.simps [simp del]

text \<open>\<^verbatim>\<open>strconv.Itoa\<close>.\<close>

definition Itoa :: "int \<Rightarrow> string" where
  "Itoa n = (if n < 0 then CHR ''-'' # nat_digits (nat (- n)) else nat_digits (nat n))"

text \<open>\<^verbatim>\<open>strconv.ParseBool\<close>.\<close>

definition ParseBool :: "string \<Rightarrow> bool result" where
  "ParseBool s =
     (if s \<in> set [''1'', ''t'', ''T'', ''true'', ''TRUE'', ''True''] then Inr True
      else if s \<in> set [''0'', ''f'', ''F'', ''false'', ''FALSE'', ''False''] then Inr False
      else Inl (NumErr ''ParseBool'' s ErrSyntax))"

section \<open>Go maps with string keys and values\<close>

text \<open>A nil map is \<^term>\<open>None\<close>: reading from it finds nothing, writing to it panics.\<close>

type_synonym gomap = "(string \<rightharpoonup> string) option"

definition map_get :: "gomap \<Rightarrow> string \<Rightarrow> string option" where
  "map_get m k = (case m of None \<Rightarrow> None | Some f \<Rightarrow> f k)"

text \<open>The one-value form \<^verbatim>\<open>m[k]\<close>: the zero value for a missing key.\<close>

definition map_val :: "gomap \<Rightarrow> string \<Rightarrow> string" where
  "map_val m k = (case map_get m k of None \<Rightarrow> '''' | Some v \<Rightarrow> v)"

section \<open>The state monad\<close>

definition gets :: "('s \<Rightarrow> 'a) \<Rightarrow> ('s, 'a) state" where
  "gets f = State (\<lambda>s. (f s, s))"

definition modify :: "('s \<Rightarrow> 's) \<Rightarrow> ('s, unit) state" where
  "modify f = State (\<lambda>s. ((), f s))"

definition returnM :: "'a \<Rightarrow> ('s, 'a) state" where
  "returnM x = State_Monad.return x"

text \<open>A computation on a part of the state.\<close>

definition zoom :: "('s \<Rightarrow> 't) \<Rightarrow> ('t \<Rightarrow> 's \<Rightarrow> 's) \<Rightarrow> ('t, 'a) state \<Rightarrow> ('s, 'a) state" where
  "zoom g p m = State (\<lambda>s. case run_state m (g s) of (a, t) \<Rightarrow> (a, p t s))"

text \<open>
  \<^term>\<open>wp m Q s\<close>: running \<^term>\<open>m\<close> from \<^term>\<open>s\<close> ends with a result and a state that satisfy
  \<^term>\<open>Q\<close>. Computations are total, so this is total correctness.
\<close>

definition wp :: "('s, 'a) state \<Rightarrow> ('a \<Rightarrow> 's \<Rightarrow> bool) \<Rightarrow> 's \<Rightarrow> bool" where
  "wp m Q s = (case run_state m s of (a, s') \<Rightarrow> Q a s')"

section \<open>Lemmas on integers and time\<close>

lemma is_int64_wrap64 [simp]: "is_int64 (wrap64 x)"
  using signed_take_bit_int_greater_eq_minus_exp [of 63 x] signed_take_bit_int_less_exp [of 63 x]
  by (simp add: is_int64_def wrap64_def min_int64_def max_int64_def)

lemma wrap64_id: "is_int64 x \<Longrightarrow> wrap64 x = x"
  by (simp add: wrap64_def is_int64_def min_int64_def max_int64_def signed_take_bit_int_eq_self)

lemma is_int64_time_sub [simp]: "is_int64 (time_sub t u)"
  by (auto simp: is_int64_def time_sub_def min_int64_def max_int64_def)

lemma go_div_nonneg: "0 \<le> a \<Longrightarrow> 0 < b \<Longrightarrow> go_div a b = a div b"
  by (cases "a = 0") (simp_all add: go_div_def)

section \<open>Lemmas on errors\<close>

lemma ReasonForError_Wrapf [simp]:
  "Wrapf (Some e) m = Some (Wrapped e m)" "Wrapf None m = None"
  by (simp_all add: Wrapf_def)

lemma NewAggregate_None_iff: "NewAggregate es = None \<longleftrightarrow> (\<forall>e \<in> set es. e = None)"
  by (induction es) (auto simp: NewAggregate_def map_filter_simps Let_def split: option.splits if_splits)

section \<open>Lemmas on numerals as strings\<close>

lemma of_char_digit_char: "d < 10 \<Longrightarrow> of_char (digit_char d) = 48 + d"
  by (simp add: digit_char_def)

lemma is_digit_digit_char [simp]: "d < 10 \<Longrightarrow> is_digit (digit_char d)"
  by (simp add: is_digit_def of_char_digit_char)

lemma digit_val_digit_char [simp]: "d < 10 \<Longrightarrow> digit_val (digit_char d) = int d"
  by (simp add: digit_val_def of_char_digit_char)

lemma digits_val_append: "digits_val acc (xs @ ys) = digits_val (digits_val acc xs) ys"
  by (induction xs arbitrary: acc) auto

lemma nat_digits_nonempty [simp]: "nat_digits n \<noteq> []"
  by (subst nat_digits.simps) simp

lemma nat_digits_digits: "list_all is_digit (nat_digits n)"
proof (induction n rule: nat_digits.induct)
  case (1 n)
  then show ?case by (subst nat_digits.simps) auto
qed

lemma digits_val_nat_digits: "digits_val 0 (nat_digits n) = int n"
proof (induction n rule: nat_digits.induct)
  case (1 n)
  show ?case
  proof (cases "n < 10")
    case True
    then show ?thesis by (simp add: nat_digits.simps [of n])
  next
    case False
    then have "digits_val 0 (nat_digits n) = 10 * int (n div 10) + int (n mod 10)"
      using 1 by (simp add: nat_digits.simps [of n] digits_val_append)
    then show ?thesis by presburger
  qed
qed

lemma nat_digits_hd: "\<exists>c cs. nat_digits n = c # cs \<and> is_digit c"
  using nat_digits_digits [of n] by (cases "nat_digits n") auto

lemma sign_not_digit: "is_digit c \<Longrightarrow> c \<noteq> CHR ''-'' \<and> c \<noteq> CHR ''+''"
  by (auto simp: is_digit_def)

lemma Atoi_Itoa [simp]: "is_int64 n \<Longrightarrow> Atoi (Itoa n) = Inr n"
proof (cases "n < 0")
  case True
  assume n: "is_int64 n"
  have "Atoi (Itoa n) = (if is_int64 n then Inr n else Inl (NumErr ''Atoi'' (Itoa n) ErrRange))"
    using True by (simp add: Atoi_def Itoa_def nat_digits_digits digits_val_nat_digits)
  with n show ?thesis by simp
next
  case False
  assume n: "is_int64 n"
  obtain c cs where c: "nat_digits (nat n) = c # cs" "is_digit c"
    using nat_digits_hd by blast
  have "list_all is_digit (c # cs)" "digits_val 0 (c # cs) = n"
    using False nat_digits_digits [of "nat n"] digits_val_nat_digits [of "nat n"] by (simp_all add: c)
  then show ?thesis
    using n False c sign_not_digit [OF c(2)] by (simp add: Atoi_def Itoa_def)
qed

lemma Atoi_int64: "Atoi s = Inr n \<Longrightarrow> is_int64 n"
  by (auto simp: Atoi_def Let_def split: if_splits list.splits)

section \<open>Weakest preconditions\<close>

lemma run_state_returnM [simp]: "run_state (returnM x) s = (x, s)"
  by (simp add: returnM_def)

lemma run_state_gets [simp]: "run_state (gets f) s = (f s, s)"
  by (simp add: gets_def)

lemma run_state_modify [simp]: "run_state (modify f) s = ((), f s)"
  by (simp add: modify_def)

lemma run_state_zoom [simp]:
  "run_state (zoom g p m) s = (case run_state m (g s) of (a, t) \<Rightarrow> (a, p t s))"
  by (simp add: zoom_def)

lemma run_bind_iff:
  "run_state (State_Monad.bind m f) s = (b, s'') \<longleftrightarrow>
     (\<exists>a s'. run_state m s = (a, s') \<and> run_state (f a) s' = (b, s''))"
  by (auto simp: State_Monad.run_state_bind split: prod.splits)

lemma wp_returnM [simp, wp_simps]: "wp (returnM x) Q = Q x"
  by (simp add: wp_def fun_eq_iff)

lemma wp_gets [simp, wp_simps]: "wp (gets f) Q s = Q (f s) s"
  by (simp add: wp_def)

lemma wp_modify [simp, wp_simps]: "wp (modify f) Q s = Q () (f s)"
  by (simp add: wp_def)

lemma wp_bind [simp, wp_simps]:
  "wp (State_Monad.bind m f) Q s = wp m (\<lambda>a. wp (f a) Q) s"
  by (simp add: wp_def split: prod.split)

lemma wp_zoom [wp_simps]: "wp (zoom g p m) Q s = wp m (\<lambda>a t. Q a (p t s)) (g s)"
  by (simp add: wp_def split: prod.split)

lemma wp_if [simp, wp_simps]: "wp (if b then m else n) Q s = (if b then wp m Q s else wp n Q s)"
  by simp

lemma wp_case_sum [simp, wp_simps]:
  "wp (case x of Inl e \<Rightarrow> m e | Inr y \<Rightarrow> n y) Q s
   = (case x of Inl e \<Rightarrow> wp (m e) Q s | Inr y \<Rightarrow> wp (n y) Q s)"
  by (simp split: sum.split)

lemma wp_case_option [simp, wp_simps]:
  "wp (case x of None \<Rightarrow> m | Some y \<Rightarrow> n y) Q s
   = (case x of None \<Rightarrow> wp m Q s | Some y \<Rightarrow> wp (n y) Q s)"
  by (simp split: option.split)

lemma wp_case_prod [simp, wp_simps]:
  "wp (case x of (a, b) \<Rightarrow> m a b) Q s = (case x of (a, b) \<Rightarrow> wp (m a b) Q s)"
  by (simp split: prod.split)

lemma wp_case_outcome [simp, wp_simps]:
  "wp (case x of Ret a \<Rightarrow> m a | Panic \<Rightarrow> n) Q s = (case x of Ret a \<Rightarrow> wp (m a) Q s | Panic \<Rightarrow> wp n Q s)"
  by (simp split: outcome.split)

lemma wp_case_list [simp, wp_simps]:
  "wp (case x of [] \<Rightarrow> m | y # ys \<Rightarrow> n y ys) Q s = (case x of [] \<Rightarrow> wp m Q s | y # ys \<Rightarrow> wp (n y ys) Q s)"
  by (simp split: list.split)

text \<open>Consequence, conjunction and the reading of a triple on a concrete run.\<close>

lemma wp_mono: "wp m P s \<Longrightarrow> (\<And>a s'. P a s' \<Longrightarrow> Q a s') \<Longrightarrow> wp m Q s"
  by (auto simp: wp_def split: prod.splits)

lemma wp_conj: "wp m (\<lambda>a s'. P a s' \<and> Q a s') s \<longleftrightarrow> wp m P s \<and> wp m Q s"
  by (simp add: wp_def split: prod.splits)

lemma wp_run: "wp m Q s \<Longrightarrow> run_state m s = (a, s') \<Longrightarrow> Q a s'"
  by (simp add: wp_def)

lemma wpI: "(\<And>a s'. run_state m s = (a, s') \<Longrightarrow> Q a s') \<Longrightarrow> wp m Q s"
  by (simp add: wp_def split: prod.splits)

lemma wp_True [simp]: "wp m (\<lambda>a s. True) s"
  by (simp add: wp_def split: prod.splits)

section \<open>Frame relations\<close>

text \<open>
  \<^verbatim>\<open>framed R m\<close>: every run of \<^term>\<open>m\<close> relates the state before to the state after by
  \<^term>\<open>R\<close>. For a reflexive and transitive \<^term>\<open>R\<close> this follows the structure of the
  computation, so that a frame property of a handler needs facts on its primitive steps only.
\<close>

named_theorems framed_intros \<open>rules for computations that respect a frame relation\<close>

definition framed :: "('s \<Rightarrow> 's \<Rightarrow> bool) \<Rightarrow> ('s, 'a) state \<Rightarrow> bool" where
  "framed R m \<longleftrightarrow> (\<forall>s. wp m (\<lambda>_. R s) s)"

lemma framedI: "(\<And>s a s'. run_state m s = (a, s') \<Longrightarrow> R s s') \<Longrightarrow> framed R m"
  by (auto simp: framed_def intro: wpI)

lemma framedD: "framed R m \<Longrightarrow> run_state m s = (a, s') \<Longrightarrow> R s s'"
  by (auto simp: framed_def dest: spec [of _ s] wp_run)

lemma framed_wp: "framed R m \<Longrightarrow> wp m (\<lambda>_. R s) s"
  by (simp add: framed_def)

lemma framed_mono: "framed R m \<Longrightarrow> (\<And>s t. R s t \<Longrightarrow> R' s t) \<Longrightarrow> framed R' m"
  by (rule framedI) (blast dest: framedD)

lemma framed_modify [framed_intros]: "(\<And>s. R s (f s)) \<Longrightarrow> framed R (modify f)"
  by (simp add: framed_def)

lemma framed_if [framed_intros]:
  "(b \<Longrightarrow> framed R m) \<Longrightarrow> (\<not> b \<Longrightarrow> framed R n) \<Longrightarrow> framed R (if b then m else n)"
  by simp

lemma framed_case_sum [framed_intros]:
  "(\<And>e. framed R (m e)) \<Longrightarrow> (\<And>y. framed R (n y)) \<Longrightarrow>
   framed R (case x of Inl e \<Rightarrow> m e | Inr y \<Rightarrow> n y)"
  by (cases x) auto

lemma framed_case_option [framed_intros]:
  "framed R m \<Longrightarrow> (\<And>y. framed R (n y)) \<Longrightarrow> framed R (case x of None \<Rightarrow> m | Some y \<Rightarrow> n y)"
  by (cases x) auto

lemma framed_case_prod [framed_intros]:
  "(\<And>a b. framed R (m a b)) \<Longrightarrow> framed R (case x of (a, b) \<Rightarrow> m a b)"
  by (cases x) auto

lemma framed_case_outcome [framed_intros]:
  "(\<And>a. framed R (m a)) \<Longrightarrow> framed R n \<Longrightarrow> framed R (case x of Ret a \<Rightarrow> m a | Panic \<Rightarrow> n)"
  by (cases x) auto

locale frame_relation =
  fixes R :: "'s \<Rightarrow> 's \<Rightarrow> bool"
  assumes frame_refl: "R s s"
    and frame_trans: "R s t \<Longrightarrow> R t u \<Longrightarrow> R s u"
begin

lemma framed_returnM: "framed R (returnM x)"
  by (simp add: framed_def frame_refl)

lemma framed_gets: "framed R (gets f)"
  by (simp add: framed_def frame_refl)

lemma framed_bind: "framed R m \<Longrightarrow> (\<And>a. framed R (f a)) \<Longrightarrow> framed R (State_Monad.bind m f)"
  by (rule framedI) (auto simp: State_Monad.run_state_bind split: prod.splits dest: framedD intro: frame_trans)

end

text \<open>A component of the state that stays as it is.\<close>

definition keeps :: "('s \<Rightarrow> 'v) \<Rightarrow> 's \<Rightarrow> 's \<Rightarrow> bool" where
  "keeps f s s' \<longleftrightarrow> f s' = f s"

interpretation kept: frame_relation "keeps f" for f
  by unfold_locales (auto simp: keeps_def)

lemmas keeps_rules = kept.framed_returnM kept.framed_gets kept.framed_bind

text \<open>Chaining: the first computation by its own triple, the rest from what that gives.\<close>

lemma wp_seq:
  "wp m P s \<Longrightarrow> (\<And>a s'. P a s' \<Longrightarrow> wp (f a) Q s') \<Longrightarrow> wp (State_Monad.bind m f) Q s"
  by (auto intro: wp_mono)

lemma wp_with_run: "wp m Q s \<longleftrightarrow> wp m (\<lambda>a s'. run_state m s = (a, s') \<and> Q a s') s"
  by (auto simp: wp_def split: prod.splits)

text \<open>The same rules in the form in which a proof walks along a computation.\<close>

lemma wp_ifI: "(b \<Longrightarrow> wp m Q s) \<Longrightarrow> (\<not> b \<Longrightarrow> wp n Q s) \<Longrightarrow> wp (if b then m else n) Q s"
  by simp

lemma wp_optionI:
  "(x = None \<Longrightarrow> wp m Q s) \<Longrightarrow> (\<And>y. x = Some y \<Longrightarrow> wp (n y) Q s) \<Longrightarrow> wp (case x of None \<Rightarrow> m | Some y \<Rightarrow> n y) Q s"
  by (cases x) auto

lemma wp_sumI:
  "(\<And>e. x = Inl e \<Longrightarrow> wp (m e) Q s) \<Longrightarrow> (\<And>y. x = Inr y \<Longrightarrow> wp (n y) Q s) \<Longrightarrow>
   wp (case x of Inl e \<Rightarrow> m e | Inr y \<Rightarrow> n y) Q s"
  by (cases x) auto

lemma wp_prodI: "(\<And>a b. x = (a, b) \<Longrightarrow> wp (m a b) Q s) \<Longrightarrow> wp (case x of (a, b) \<Rightarrow> m a b) Q s"
  by (cases x) auto

lemma wp_outcomeI:
  "(\<And>a. x = Ret a \<Longrightarrow> wp (m a) Q s) \<Longrightarrow> (x = Panic \<Longrightarrow> wp n Q s) \<Longrightarrow>
   wp (case x of Ret a \<Rightarrow> m a | Panic \<Rightarrow> n) Q s"
  by (cases x) auto

lemma wp_ignore: "(\<And>a s'. wp (f a) Q s') \<Longrightarrow> wp (State_Monad.bind m f) Q s"
  by (rule wp_seq [where P = "\<lambda>_ _. True"]) simp_all

lemma wp_getsI: "wp (f (g s)) Q s \<Longrightarrow> wp (State_Monad.bind (gets g) f) Q s"
  by simp

lemma wp_returnI: "Q x s \<Longrightarrow> wp (returnM x) Q s"
  by simp

lemmas wp_casesI = wp_ifI wp_optionI wp_sumI wp_prodI wp_outcomeI wp_returnI

end
