(* ===== verification/Stores.thy ===== *)
theory Stores
  imports Prelude
begin

text \<open>
  An explicit store for code whose meaning depends on sharing: pointers, slices and maps are addresses,
  and structs hold addresses. The locale \<^verbatim>\<open>deep_copier\<close> is the contract of a generated \<^verbatim>\<open>DeepCopyInto\<close>:
  the copy means the same and shares no cell with the original.
\<close>

section \<open>The store\<close>

text \<open>
  A store is the list of its cells, the address of a cell its index, and a new cell comes to the end.
  A nil pointer, slice or map is \<^term>\<open>None\<close>.
\<close>

type_synonym addr = nat
type_synonym 'c store = "'c list"

definition load :: "addr \<Rightarrow> ('c store, 'c) state" where
  "load a = gets (\<lambda>h. h ! a)"

definition newCell :: "'c \<Rightarrow> ('c store, addr) state" where
  "newCell c = do {
     a \<leftarrow> gets length;
     modify (\<lambda>h. h @ [c]);
     returnM a
   }"

definition allocated :: "'c store \<Rightarrow> addr set" where
  "allocated h = {..<length h}"

definition newSince :: "'c store \<Rightarrow> 'c store \<Rightarrow> addr set" where
  "newSince h h' = {length h..<length h'}"

text \<open>Between two stores only cells in \<^term>\<open>A\<close> were written, and new ones allocated.\<close>

definition wroteOnly :: "addr set \<Rightarrow> 'c store \<Rightarrow> 'c store \<Rightarrow> bool" where
  "wroteOnly A h h' \<longleftrightarrow> length h \<le> length h' \<and> (\<forall>a < length h. a \<notin> A \<longrightarrow> h' ! a = h ! a)"

lemma wroteOnly_refl [simp]: "wroteOnly A h h"
  by (simp add: wroteOnly_def)

lemma wroteOnly_trans: "wroteOnly A h h1 \<Longrightarrow> wroteOnly A h1 h2 \<Longrightarrow> wroteOnly A h h2"
  by (simp add: wroteOnly_def)

lemma wroteOnly_mono: "wroteOnly A h h' \<Longrightarrow> A \<subseteq> B \<Longrightarrow> wroteOnly B h h'"
  by (auto simp: wroteOnly_def)

lemma wroteOnly_append [simp]: "wroteOnly A h (h @ cs)"
  by (simp add: wroteOnly_def nth_append)

lemma wroteOnly_update [simp]: "a \<in> A \<Longrightarrow> wroteOnly A h (h[a := c])"
  by (auto simp: wroteOnly_def) (metis nth_list_update_neq)

lemma wroteOnly_allocated: "wroteOnly A h h' \<Longrightarrow> allocated h \<subseteq> allocated h'"
  by (auto simp: wroteOnly_def allocated_def)

section \<open>The contract of a deep copy\<close>

text \<open>
  \<^term>\<open>copy\<close> is the method, \<^term>\<open>meaning\<close> what an object means in a store, and \<^term>\<open>reach\<close> the cells it
  can reach. The meaning depends on these cells only. A copy writes no old cell, means the same, and
  reaches new cells only.
\<close>

locale deep_copier =
  fixes copy :: "'s \<Rightarrow> ('c store, 's) state"
    and meaning :: "'c store \<Rightarrow> 's \<Rightarrow> 'v"
    and reach :: "'c store \<Rightarrow> 's \<Rightarrow> addr set"
  assumes local_meaning: "reach h x \<subseteq> allocated h \<Longrightarrow> wroteOnly A h h' \<Longrightarrow> A \<inter> reach h x = {} \<Longrightarrow>
      meaning h' x = meaning h x \<and> reach h' x = reach h x"
    and copied: "reach h x \<subseteq> allocated h \<Longrightarrow> run_state (copy x) h = (y, h') \<Longrightarrow>
      wroteOnly {} h h' \<and> meaning h' y = meaning h x \<and> reach h' y \<subseteq> newSince h h'"
begin

lemma original_kept:
  "reach h x \<subseteq> allocated h \<Longrightarrow> run_state (copy x) h = (y, h') \<Longrightarrow> meaning h' x = meaning h x \<and> reach h' x = reach h x"
  using local_meaning copied by blast

text \<open>
  The copy and the original are independent: writes to cells that are newer than the original leave
  the original alone, and writes to older cells the copy.
\<close>

lemma independent:
  assumes x: "reach h x \<subseteq> allocated h" and run: "run_state (copy x) h = (y, h')"
  shows "wroteOnly (- allocated h) h' h'' \<Longrightarrow> meaning h'' x = meaning h x"
    and "wroteOnly (allocated h) h' h'' \<Longrightarrow> meaning h'' y = meaning h x"
proof -
  note c = copied [OF x run] and o' = original_kept [OF x run]
  have grown: "reach h' x \<subseteq> allocated h'" using o' x wroteOnly_allocated [of "{}" h h'] c by auto
  have "(- allocated h) \<inter> reach h' x = {}" using o' x by auto
  then show "wroteOnly (- allocated h) h' h'' \<Longrightarrow> meaning h'' x = meaning h x"
    using local_meaning [OF grown] o' by metis
  have "reach h' y \<subseteq> allocated h'" "allocated h \<inter> reach h' y = {}"
    using c by (auto simp: newSince_def allocated_def)
  then show "wroteOnly (allocated h) h' h'' \<Longrightarrow> meaning h'' y = meaning h x"
    using local_meaning [of h' y] c by metis
qed

end

lemmas deep_copierI = deep_copier.intro

section \<open>Building deep copies\<close>

text \<open>A value without pointers is copied by assignment.\<close>

lemma deep_plain: "deep_copier returnM (\<lambda>h x. f x) (\<lambda>h x. {})"
  by (rule deep_copierI) auto

text \<open>One part after the other.\<close>

definition both :: "('a \<Rightarrow> ('c store, 'a) state) \<Rightarrow> ('b \<Rightarrow> ('c store, 'b) state) \<Rightarrow> 'a \<times> 'b \<Rightarrow> ('c store, 'a \<times> 'b) state" where
  "both f g p = do { x \<leftarrow> f (fst p); y \<leftarrow> g (snd p); returnM (x, y) }"

text \<open>The elements of a slice one after the other.\<close>

fun copyAll :: "('s \<Rightarrow> ('c store, 's) state) \<Rightarrow> 's list \<Rightarrow> ('c store, 's list) state" where
  "copyAll f [] = returnM []"
| "copyAll f (x # xs) = do { y \<leftarrow> f x; ys \<leftarrow> copyAll f xs; returnM (y # ys) }"

text \<open>
  What is behind a pointer: nil stays nil, otherwise the content is copied into a new cell. The new cell
  comes to the store when its content is complete, as nothing can see it before.
\<close>

definition copyVia :: "('c \<Rightarrow> 's) \<Rightarrow> ('s \<Rightarrow> 'c) \<Rightarrow> ('s \<Rightarrow> ('c store, 's) state) \<Rightarrow> addr option \<Rightarrow> ('c store, addr option) state" where
  "copyVia content cell copy p =
     (case p of
        None \<Rightarrow> returnM None
      | Some a \<Rightarrow> do {
          c \<leftarrow> load a;
          y \<leftarrow> copy (content c);
          b \<leftarrow> newCell (cell y);
          returnM (Some b)
        })"

definition meaningVia :: "('c \<Rightarrow> 's) \<Rightarrow> ('c store \<Rightarrow> 's \<Rightarrow> 'v) \<Rightarrow> 'c store \<Rightarrow> addr option \<Rightarrow> 'v option" where
  "meaningVia content val h p = map_option (\<lambda>a. val h (content (h ! a))) p"

definition reachVia :: "('c \<Rightarrow> 's) \<Rightarrow> ('c store \<Rightarrow> 's \<Rightarrow> addr set) \<Rightarrow> 'c store \<Rightarrow> addr option \<Rightarrow> addr set" where
  "reachVia content reach h p = (case p of None \<Rightarrow> {} | Some a \<Rightarrow> insert a (if a < length h then reach h (content (h ! a)) else {}))"

lemma run_load [simp]: "run_state (load a) h = (h ! a, h)"
  by (simp add: load_def)

lemma run_newCell [simp]: "run_state (newCell c) h = (length h, h @ [c])"
  by (simp add: newCell_def)

lemma newSince_trans: "length h \<le> length h1 \<Longrightarrow> length h1 \<le> length h2 \<Longrightarrow> A \<subseteq> newSince h h1 \<Longrightarrow> B \<subseteq> newSince h1 h2 \<Longrightarrow>
   A \<union> B \<subseteq> newSince h h2"
  by (fastforce simp: newSince_def)

lemma deep_both:
  assumes "deep_copier f v r" and "deep_copier g u t"
  shows "deep_copier (both f g) (\<lambda>h p. (v h (fst p), u h (snd p))) (\<lambda>h p. r h (fst p) \<union> t h (snd p))"
proof (rule deep_copierI)
  fix h h' A and p :: "'a \<times> 'd"
  assume "r h (fst p) \<union> t h (snd p) \<subseteq> allocated h" "wroteOnly A h h'" "A \<inter> (r h (fst p) \<union> t h (snd p)) = {}"
  then show "(v h' (fst p), u h' (snd p)) = (v h (fst p), u h (snd p))
      \<and> r h' (fst p) \<union> t h' (snd p) = r h (fst p) \<union> t h (snd p)"
    using deep_copier.local_meaning [OF assms(1), of h "fst p" A h'] deep_copier.local_meaning [OF assms(2), of h "snd p" A h']
    by (simp add: Int_Un_distrib)
next
  fix h and p q :: "'a \<times> 'd" and h'
  assume reach: "r h (fst p) \<union> t h (snd p) \<subseteq> allocated h" and run: "run_state (both f g p) h = (q, h')"
  obtain x h1 where x: "run_state (f (fst p)) h = (x, h1)" by fastforce
  obtain y where y: "run_state (g (snd p)) h1 = (y, h')" and q: "q = (x, y)"
    using run x by (auto simp: both_def split: prod.splits)
  have 1: "wroteOnly {} h h1" "v h1 x = v h (fst p)" "r h1 x \<subseteq> newSince h h1"
    using deep_copier.copied [OF assms(1) _ x] reach by auto
  have snd: "u h1 (snd p) = u h (snd p)" "t h1 (snd p) = t h (snd p)"
    using deep_copier.local_meaning [OF assms(2) _ 1(1)] reach by auto
  then have "t h1 (snd p) \<subseteq> allocated h1" using reach wroteOnly_allocated [OF 1(1)] by auto
  then have 2: "wroteOnly {} h1 h'" "u h' y = u h1 (snd p)" "t h' y \<subseteq> newSince h1 h'"
    using deep_copier.copied [OF assms(2) _ y] by auto
  have "r h1 x \<subseteq> allocated h1" using 1(3) by (auto simp: newSince_def allocated_def)
  then have fst: "v h' x = v h1 x" "r h' x = r h1 x"
    using deep_copier.local_meaning [OF assms(1) _ 2(1)] by auto
  have "r h' x \<union> t h' y \<subseteq> newSince h h'"
    using newSince_trans [OF _ _ 1(3) 2(3)] 1(1) 2(1) fst by (simp add: wroteOnly_def)
  then show "wroteOnly {} h h' \<and> (v h' (fst q), u h' (snd q)) = (v h (fst p), u h (snd p))
      \<and> r h' (fst q) \<union> t h' (snd q) \<subseteq> newSince h h'"
    using 1 2 snd fst q wroteOnly_trans [OF 1(1) 2(1)] by simp
qed

lemma deep_all:
  assumes "deep_copier f v r"
  shows "deep_copier (copyAll f) (\<lambda>h. map (v h)) (\<lambda>h xs. \<Union> (r h ` set xs))"
proof (rule deep_copierI)
  fix h h' A and xs :: "'a list"
  assume "\<Union> (r h ` set xs) \<subseteq> allocated h" "wroteOnly A h h'" "A \<inter> \<Union> (r h ` set xs) = {}"
  then have "v h' x = v h x \<and> r h' x = r h x" if "x \<in> set xs" for x
    using that deep_copier.local_meaning [OF assms, of h x A h'] by blast
  then show "map (v h') xs = map (v h) xs \<and> \<Union> (r h' ` set xs) = \<Union> (r h ` set xs)" by simp
next
  fix h and xs ys :: "'a list" and h'
  show "\<Union> (r h ` set xs) \<subseteq> allocated h \<Longrightarrow> run_state (copyAll f xs) h = (ys, h') \<Longrightarrow>
      wroteOnly {} h h' \<and> map (v h') ys = map (v h) xs \<and> \<Union> (r h' ` set ys) \<subseteq> newSince h h'"
  proof (induction xs arbitrary: h ys)
    case (Cons x xs)
    obtain y h1 where y: "run_state (f x) h = (y, h1)" by fastforce
    obtain zs where zs: "run_state (copyAll f xs) h1 = (zs, h')" and ys: "ys = y # zs"
      using Cons.prems(2) y by (auto split: prod.splits)
    have 1: "wroteOnly {} h h1" "v h1 y = v h x" "r h1 y \<subseteq> newSince h h1"
      using deep_copier.copied [OF assms _ y] Cons.prems(1) by auto
    have kept: "v h1 z = v h z \<and> r h1 z = r h z" if "z \<in> set xs" for z
      using deep_copier.local_meaning [OF assms _ 1(1)] Cons.prems(1) that by auto
    then have "\<Union> (r h1 ` set xs) \<subseteq> allocated h1"
      using Cons.prems(1) wroteOnly_allocated [OF 1(1)] by auto
    then have 2: "wroteOnly {} h1 h'" "map (v h') zs = map (v h1) xs" "\<Union> (r h' ` set zs) \<subseteq> newSince h1 h'"
      using Cons.IH [OF _ zs] by auto
    have "r h1 y \<subseteq> allocated h1" using 1(3) by (auto simp: newSince_def allocated_def)
    then have y': "v h' y = v h1 y" "r h' y = r h1 y"
      using deep_copier.local_meaning [OF assms _ 2(1)] by auto
    have "r h' y \<union> \<Union> (r h' ` set zs) \<subseteq> newSince h h'"
      using newSince_trans [OF _ _ 1(3) 2(3)] 1(1) 2(1) y' by (simp add: wroteOnly_def)
    then show ?case
      using 1 2 kept y' ys wroteOnly_trans [OF 1(1) 2(1)] by simp
  qed simp
qed

lemma deep_via:
  assumes "deep_copier f v r" and "\<And>x. content (cell x) = x"
  shows "deep_copier (copyVia content cell f) (meaningVia content v) (reachVia content r)"
proof (rule deep_copierI)
  fix h h' A and p :: "addr option"
  assume reach: "reachVia content r h p \<subseteq> allocated h" and w: "wroteOnly A h h'" "A \<inter> reachVia content r h p = {}"
  show "meaningVia content v h' p = meaningVia content v h p \<and> reachVia content r h' p = reachVia content r h p"
  proof (cases p)
    case (Some a)
    then have a: "a < length h" "a \<notin> A" "r h (content (h ! a)) \<subseteq> allocated h" "A \<inter> r h (content (h ! a)) = {}"
      using reach w(2) by (auto simp: reachVia_def allocated_def split: if_splits)
    then have "h' ! a = h ! a" "a < length h'" using w(1) by (auto simp: wroteOnly_def)
    then show ?thesis
      using Some a deep_copier.local_meaning [OF assms(1) a(3) w(1) a(4)] by (simp add: meaningVia_def reachVia_def)
  qed (simp add: meaningVia_def reachVia_def)
next
  fix h and p q :: "addr option" and h'
  assume reach: "reachVia content r h p \<subseteq> allocated h" and run: "run_state (copyVia content cell f p) h = (q, h')"
  show "wroteOnly {} h h' \<and> meaningVia content v h' q = meaningVia content v h p \<and> reachVia content r h' q \<subseteq> newSince h h'"
  proof (cases p)
    case None
    then show ?thesis using run by (simp add: copyVia_def meaningVia_def reachVia_def)
  next
    case (Some a)
    then have a: "r h (content (h ! a)) \<subseteq> allocated h"
      using reach by (auto simp: reachVia_def allocated_def split: if_splits)
    obtain y h1 where y: "run_state (f (content (h ! a))) h = (y, h1)" by fastforce
    have q: "q = Some (length h1)" "h' = h1 @ [cell y]" using run Some y by (simp_all add: copyVia_def)
    have 1: "wroteOnly {} h h1" "v h1 y = v h (content (h ! a))" "r h1 y \<subseteq> newSince h h1"
      using deep_copier.copied [OF assms(1) a y] by auto
    have "r h1 y \<subseteq> allocated h1" using 1(3) by (auto simp: newSince_def allocated_def)
    then have y': "v h' y = v h1 y" "r h' y = r h1 y"
      using deep_copier.local_meaning [OF assms(1), of h1 y "{}" h'] q(2) by auto
    have "wroteOnly {} h h'" using 1(1) q(2) wroteOnly_trans wroteOnly_append by blast
    then show ?thesis
      using Some q 1 y' assms(2) by (auto simp: meaningVia_def reachVia_def newSince_def wroteOnly_def)
  qed
qed

text \<open>A struct: its pointer fields are copied, the other fields assigned.\<close>

lemma deep_struct:
  assumes "deep_copier f v r" and "\<And>x y. get (put y x) = y" and "\<And>x y. rest (put y x) = rest x"
    and "\<And>h x. m h x = F (v h (get x)) (rest x)" and "\<And>h x. t h x = r h (get x)"
    and "\<And>x. g x = do { y \<leftarrow> f (get x); returnM (put y x) }"
  shows "deep_copier g m t"
proof (rule deep_copierI)
  fix h h' A and x
  assume "t h x \<subseteq> allocated h" "wroteOnly A h h'" "A \<inter> t h x = {}"
  then show "m h' x = m h x \<and> t h' x = t h x"
    using deep_copier.local_meaning [OF assms(1), of h "get x" A h'] by (simp add: assms(4,5))
next
  fix h x z h'
  assume "t h x \<subseteq> allocated h" "run_state (g x) h = (z, h')"
  moreover from this(2) obtain y where "run_state (f (get x)) h = (y, h')" "z = put y x"
    by (auto simp: assms(6) split: prod.splits)
  ultimately show "wroteOnly {} h h' \<and> m h' z = m h x \<and> t h' z \<subseteq> newSince h h'"
    using deep_copier.copied [OF assms(1), of h "get x" y h'] by (simp add: assms(2-5))
qed

text \<open>The simplest pointers: what they point to has no pointers itself.\<close>

definition copyPtr :: "addr option \<Rightarrow> ('c store, addr option) state" where
  "copyPtr p =
     (case p of
        None \<Rightarrow> returnM None
      | Some a \<Rightarrow> do { c \<leftarrow> load a; b \<leftarrow> newCell c; returnM (Some b) })"

definition derefPtr :: "'c store \<Rightarrow> addr option \<Rightarrow> 'c option" where
  "derefPtr h p = map_option ((!) h) p"

definition reachPtr :: "'c store \<Rightarrow> addr option \<Rightarrow> addr set" where
  "reachPtr h p = set_option p"

text \<open>The laws of the monad, to bring a method into the form of the rules above.\<close>

lemma monad_laws:
  "State_Monad.bind (returnM x) f = f x"
  "State_Monad.bind (State_Monad.bind m g) k = State_Monad.bind m (\<lambda>x. State_Monad.bind (g x) k)"
  "State_Monad.bind m returnM = m"
  by (rule state.expand; simp add: fun_eq_iff split: prod.split)+

lemma ptr_via: "copyPtr = copyVia id id returnM" "derefPtr = meaningVia id (\<lambda>h x. id x)" "reachPtr = reachVia id (\<lambda>h x. {})"
  by (auto simp: copyPtr_def copyVia_def derefPtr_def meaningVia_def reachPtr_def reachVia_def fun_eq_iff monad_laws split: option.split)

interpretation ptr: deep_copier copyPtr derefPtr reachPtr
  unfolding ptr_via by (rule deep_via [OF deep_plain]) simp

end
