(* ===== verification/K8s_Objects.thy ===== *)
theory K8s_Objects
  imports Prelude
begin

text \<open>
  The Kubernetes objects the operator reads and writes, with the fields it uses, the two custom
  resources of the operator, and the library routines on them that the operator relies on:
  taint matching, status conditions, finalizers, label selectors and node roles.
\<close>

section \<open>Object metadata\<close>

record OwnerReference =
  or_Kind :: string
  or_Name :: string

record ObjectMeta =
  om_Name :: string
  om_Namespace :: string
  om_CreationTimestamp :: instant
  om_DeletionTimestamp :: "instant option"
  om_Annotations :: gomap
  om_Labels :: gomap
  om_Finalizers :: "string list"
  om_OwnerReferences :: "OwnerReference list"

section \<open>Core objects\<close>

text \<open>A taint effect is a string (\<^verbatim>\<open>NoSchedule\<close>, \<^verbatim>\<open>PreferNoSchedule\<close>, \<^verbatim>\<open>NoExecute\<close>).\<close>

record Taint =
  t_Key :: string
  t_Value :: string
  t_Effect :: string
  t_TimeAdded :: "instant option"

record Node =
  n_Meta :: ObjectMeta
  n_Unschedulable :: bool
  n_Taints :: "Taint list"

record Pod =
  p_Meta :: ObjectMeta
  p_NodeName :: string
  p_PodIPs :: "string list"

record VolumeAttachment =
  va_Name :: string
  va_NodeName :: string

record Machine =
  m_Meta :: ObjectMeta
  m_NodeRef :: "string option"

definition MatchTaint :: "Taint \<Rightarrow> Taint \<Rightarrow> bool" where
  "MatchTaint t u \<longleftrightarrow> t_Key t = t_Key u \<and> t_Effect t = t_Effect u"

section \<open>Status conditions\<close>

record Condition =
  c_Type :: string
  c_Status :: string
  c_Reason :: string
  c_Message :: string
  c_LastTransitionTime :: "instant option"
  c_ObservedGeneration :: int

definition ConditionTrue :: string where "ConditionTrue = ''True''"

definition ConditionFalse :: string where "ConditionFalse = ''False''"

definition ConditionUnknown :: string where "ConditionUnknown = ''Unknown''"

fun FindStatusCondition :: "Condition list \<Rightarrow> string \<Rightarrow> Condition option" where
  "FindStatusCondition [] t = None"
| "FindStatusCondition (c # cs) t = (if c_Type c = t then Some c else FindStatusCondition cs t)"

fun IsStatusConditionPresentAndEqual :: "Condition list \<Rightarrow> string \<Rightarrow> string \<Rightarrow> bool" where
  "IsStatusConditionPresentAndEqual [] t st = False"
| "IsStatusConditionPresentAndEqual (c # cs) t st =
     (if c_Type c = t then c_Status c = st else IsStatusConditionPresentAndEqual cs t st)"

definition IsStatusConditionTrue :: "Condition list \<Rightarrow> string \<Rightarrow> bool" where
  "IsStatusConditionTrue cs t = IsStatusConditionPresentAndEqual cs t ConditionTrue"

text \<open>
  The in-place update of the first condition of the given type. The transition time changes only
  with the status.
\<close>

definition updateCondition :: "instant \<Rightarrow> Condition \<Rightarrow> Condition \<Rightarrow> Condition" where
  "updateCondition now new c =
     (let c1 = (if c_Status c \<noteq> c_Status new
                then c\<lparr>c_Status := c_Status new,
                       c_LastTransitionTime :=
                         (case c_LastTransitionTime new of Some t \<Rightarrow> Some t | None \<Rightarrow> Some now)\<rparr>
                else c)
      in c1\<lparr>c_Reason := c_Reason new, c_Message := c_Message new,
             c_ObservedGeneration := c_ObservedGeneration new\<rparr>)"

fun updateFirst :: "instant \<Rightarrow> Condition \<Rightarrow> Condition list \<Rightarrow> Condition list" where
  "updateFirst now new [] = []"
| "updateFirst now new (c # cs) =
     (if c_Type c = c_Type new then updateCondition now new c # cs else c # updateFirst now new cs)"

definition SetStatusCondition :: "instant \<Rightarrow> Condition list \<Rightarrow> Condition \<Rightarrow> Condition list" where
  "SetStatusCondition now cs new =
     (case FindStatusCondition cs (c_Type new) of
        None \<Rightarrow> cs @ [case c_LastTransitionTime new of
                        None \<Rightarrow> new\<lparr>c_LastTransitionTime := Some now\<rparr> | Some _ \<Rightarrow> new]
      | Some _ \<Rightarrow> updateFirst now new cs)"

definition RemoveStatusCondition :: "Condition list \<Rightarrow> string \<Rightarrow> Condition list" where
  "RemoveStatusCondition cs t = filter (\<lambda>c. c_Type c \<noteq> t) cs"

section \<open>The custom resources\<close>

record SnrStatus =
  st_TimeAssumedRebooted :: "instant option"
  st_Phase :: "string option"
  st_LastError :: string
  st_Conditions :: "Condition list"

record SelfNodeRemediation =
  snr_Meta :: ObjectMeta
  snr_RemediationStrategy :: string
  snr_Status :: SnrStatus

record Toleration =
  tol_Key :: string
  tol_Operator :: string
  tol_Value :: string
  tol_Effect :: string

text \<open>Pointer fields of the configuration are options.\<close>

record SelfNodeRemediationConfigSpec =
  cs_WatchdogFilePath :: string
  cs_SafeTimeToAssumeNodeRebootedSeconds :: "int option"
  cs_PeerApiServerTimeout :: "duration option"
  cs_ApiCheckInterval :: "duration option"
  cs_PeerUpdateInterval :: "duration option"
  cs_ApiServerTimeout :: "duration option"
  cs_PeerDialTimeout :: "duration option"
  cs_PeerRequestTimeout :: "duration option"
  cs_MaxApiErrorThreshold :: int
  cs_IsSoftwareRebootEnabled :: bool
  cs_EndpointHealthCheckUrl :: string
  cs_HostPort :: int
  cs_CustomDsTolerations :: "Toleration list"

record SelfNodeRemediationConfig =
  cfg_Meta :: ObjectMeta
  cfg_Spec :: SelfNodeRemediationConfigSpec

definition ConfigCRName :: string where
  "ConfigCRName = ''self-node-remediation-config''"

definition AutomaticRemediationStrategy :: string where
  "AutomaticRemediationStrategy = ''Automatic''"

definition ResourceDeletionRemediationStrategy :: string where
  "ResourceDeletionRemediationStrategy = ''ResourceDeletion''"

definition OutOfServiceTaintRemediationStrategy :: string where
  "OutOfServiceTaintRemediationStrategy = ''OutOfServiceTaint''"

definition ProcessingConditionType :: string where
  "ProcessingConditionType = ''Processing''"

definition SucceededConditionType :: string where
  "SucceededConditionType = ''Succeeded''"

definition DisabledConditionType :: string where
  "DisabledConditionType = ''Disabled''"

section \<open>Finalizers\<close>

definition ContainsFinalizer :: "ObjectMeta \<Rightarrow> string \<Rightarrow> bool" where
  "ContainsFinalizer m f \<longleftrightarrow> f \<in> set (om_Finalizers m)"

definition AddFinalizer :: "ObjectMeta \<Rightarrow> string \<Rightarrow> ObjectMeta" where
  "AddFinalizer m f =
     (if f \<in> set (om_Finalizers m) then m else m\<lparr>om_Finalizers := om_Finalizers m @ [f]\<rparr>)"

definition RemoveFinalizer :: "ObjectMeta \<Rightarrow> string \<Rightarrow> ObjectMeta" where
  "RemoveFinalizer m f = m\<lparr>om_Finalizers := filter (\<lambda>x. x \<noteq> f) (om_Finalizers m)\<rparr>"

section \<open>Label selectors and node roles\<close>

datatype Requirement =
    ReqEquals string string
  | ReqNotEquals string string
  | ReqExists string

fun Requirement_Matches :: "Requirement \<Rightarrow> gomap \<Rightarrow> bool" where
  "Requirement_Matches (ReqEquals k v) ls = (map_get ls k = Some v)"
| "Requirement_Matches (ReqNotEquals k v) ls = (map_get ls k \<noteq> Some v)"
| "Requirement_Matches (ReqExists k) ls = (map_get ls k \<noteq> None)"

fun Selector_Matches :: "Requirement list \<Rightarrow> gomap \<Rightarrow> bool" where
  "Selector_Matches [] ls = True"
| "Selector_Matches (r # rs) ls = (if Requirement_Matches r ls then Selector_Matches rs ls else False)"

definition WorkerRole :: string where
  "WorkerRole = ''node-role.kubernetes.io/worker''"

definition MasterRole :: string where
  "MasterRole = ''node-role.kubernetes.io/master''"

definition ControlPlaneRole :: string where
  "ControlPlaneRole = ''node-role.kubernetes.io/control-plane''"

definition IsControlPlane :: "Node \<Rightarrow> bool" where
  "IsControlPlane node \<longleftrightarrow>
     map_get (om_Labels (n_Meta node)) MasterRole \<noteq> None
     \<or> map_get (om_Labels (n_Meta node)) ControlPlaneRole \<noteq> None"

section \<open>Lemmas on conditions\<close>

lemmas condition_type_defs =
  ProcessingConditionType_def SucceededConditionType_def DisabledConditionType_def

lemma condition_types_distinct [simp]:
  "ProcessingConditionType \<noteq> SucceededConditionType" "SucceededConditionType \<noteq> ProcessingConditionType"
  "ProcessingConditionType \<noteq> DisabledConditionType" "DisabledConditionType \<noteq> ProcessingConditionType"
  "SucceededConditionType \<noteq> DisabledConditionType" "DisabledConditionType \<noteq> SucceededConditionType"
  by (simp_all add: condition_type_defs)

lemma condition_status_distinct [simp]:
  "ConditionTrue \<noteq> ConditionFalse" "ConditionFalse \<noteq> ConditionTrue"
  "ConditionTrue \<noteq> ConditionUnknown" "ConditionUnknown \<noteq> ConditionTrue"
  "ConditionFalse \<noteq> ConditionUnknown" "ConditionUnknown \<noteq> ConditionFalse"
  by (simp_all add: ConditionTrue_def ConditionFalse_def ConditionUnknown_def)

lemma updateCondition_sel [simp]:
  "c_Type (updateCondition now new c) = c_Type c"
  "c_Status (updateCondition now new c) = c_Status new"
  "c_Reason (updateCondition now new c) = c_Reason new"
  by (simp_all add: updateCondition_def Let_def)

lemma present_iff_find:
  "IsStatusConditionPresentAndEqual cs t st \<longleftrightarrow>
   (\<exists>c. FindStatusCondition cs t = Some c \<and> c_Status c = st)"
  by (induction cs) auto

lemma find_append:
  "FindStatusCondition (xs @ ys) t =
     (case FindStatusCondition xs t of None \<Rightarrow> FindStatusCondition ys t | Some c \<Rightarrow> Some c)"
  by (induction xs) auto

lemma find_updateFirst:
  "FindStatusCondition (updateFirst now new cs) t =
     (if t = c_Type new then map_option (updateCondition now new) (FindStatusCondition cs t)
      else FindStatusCondition cs t)"
  by (induction cs) auto

text \<open>Setting a condition gives it the new status and leaves conditions of other types alone.\<close>

lemma find_SetStatusCondition_other [simp]:
  "t \<noteq> c_Type new \<Longrightarrow> FindStatusCondition (SetStatusCondition now cs new) t = FindStatusCondition cs t"
  by (auto simp: SetStatusCondition_def find_append find_updateFirst split: option.splits)

lemma find_SetStatusCondition_same:
  "\<exists>c. FindStatusCondition (SetStatusCondition now cs new) (c_Type new) = Some c
       \<and> c_Status c = c_Status new \<and> c_Reason c = c_Reason new"
  by (auto simp: SetStatusCondition_def find_append find_updateFirst split: option.splits)

lemma present_SetStatusCondition_same [simp]:
  "IsStatusConditionPresentAndEqual (SetStatusCondition now cs new) (c_Type new) st
   \<longleftrightarrow> st = c_Status new"
  using find_SetStatusCondition_same [of now cs new] by (auto simp: present_iff_find)

lemma present_SetStatusCondition_other [simp]:
  "t \<noteq> c_Type new \<Longrightarrow>
   IsStatusConditionPresentAndEqual (SetStatusCondition now cs new) t st
   \<longleftrightarrow> IsStatusConditionPresentAndEqual cs t st"
  by (simp add: present_iff_find)

lemma present_unique:
  "IsStatusConditionPresentAndEqual cs t st \<Longrightarrow> IsStatusConditionPresentAndEqual cs t st' \<Longrightarrow> st = st'"
  by (auto simp: present_iff_find)

lemma updateFirst_types [simp]: "map c_Type (updateFirst now new cs) = map c_Type cs"
  by (induction cs) auto

text \<open>Condition types stay unique, as the list-map annotation of the API requires.\<close>

lemma find_None_iff: "FindStatusCondition cs t = None \<longleftrightarrow> t \<notin> set (map c_Type cs)"
  by (induction cs) auto

lemma SetStatusCondition_distinct:
  "distinct (map c_Type cs) \<Longrightarrow> distinct (map c_Type (SetStatusCondition now cs new))"
  by (auto simp: SetStatusCondition_def find_None_iff split: option.splits)

lemma find_RemoveStatusCondition [simp]:
  "FindStatusCondition (RemoveStatusCondition cs t) u = (if u = t then None else FindStatusCondition cs u)"
  by (induction cs) (auto simp: RemoveStatusCondition_def)

section \<open>Lemmas on finalizers, selectors and taints\<close>

lemma ContainsFinalizer_Add [simp]: "ContainsFinalizer (AddFinalizer m f) f"
  by (simp add: ContainsFinalizer_def AddFinalizer_def)

lemma ContainsFinalizer_Remove [simp]:
  "ContainsFinalizer (RemoveFinalizer m f) g \<longleftrightarrow> f \<noteq> g \<and> ContainsFinalizer m g"
  by (auto simp: ContainsFinalizer_def RemoveFinalizer_def)

lemma Selector_Matches_iff: "Selector_Matches rs ls \<longleftrightarrow> (\<forall>r \<in> set rs. Requirement_Matches r ls)"
  by (induction rs) auto

lemma MatchTaint_refl [simp]: "MatchTaint t t"
  by (simp add: MatchTaint_def)

lemma MatchTaint_sym: "MatchTaint t u \<longleftrightarrow> MatchTaint u t"
  by (auto simp: MatchTaint_def)

end
