(* ===== verification/K8s_Client.thy ===== *)
theory K8s_Client
  imports K8s_Objects
begin

text \<open>
  The parts of the outside world the operator calls: the API server behind the controller-runtime
  client, the clock and the process environment. None of it is code of the repository, so it is a
  parameter: a record of computations on a state of an arbitrary type \<^typ>\<open>'w\<close>, about which the
  definitions assume nothing. A write answers with the object as the API server stored it, which
  the client decodes over the caller's copy.
\<close>

record 'w client =
  cl_Now :: "('w, instant) state"
  cl_GetSnr :: "string \<Rightarrow> string \<Rightarrow> ('w, SelfNodeRemediation result) state"
  cl_GetConfig :: "string \<Rightarrow> string \<Rightarrow> ('w, SelfNodeRemediationConfig result) state"
  cl_GetNode :: "string \<Rightarrow> ('w, Node result) state"
  cl_GetMachine :: "string \<Rightarrow> string \<Rightarrow> ('w, Machine result) state"
  cl_ListNodes :: "Requirement list \<Rightarrow> ('w, Node list result) state"
  cl_ListPods :: "Requirement list \<Rightarrow> ('w, Pod list result) state"
  cl_ListSnrs :: "('w, SelfNodeRemediation list result) state"
  cl_ListVolumeAttachments :: "('w, VolumeAttachment list result) state"
  cl_ListNamespaces :: "('w, string list result) state"
  cl_UpdateNode :: "Node \<Rightarrow> ('w, Node result) state"
  cl_PatchNode :: "Node \<Rightarrow> Node \<Rightarrow> ('w, Node result) state"
  cl_UpdateSnr :: "SelfNodeRemediation \<Rightarrow> ('w, SelfNodeRemediation result) state"
  cl_StatusUpdateSnr :: "SelfNodeRemediation \<Rightarrow> ('w, SelfNodeRemediation result) state"
  cl_StatusPatchSnr :: "SelfNodeRemediation \<Rightarrow> SelfNodeRemediation \<Rightarrow> ('w, SelfNodeRemediation result) state"
  cl_DeleteAllOfPods :: "string \<Rightarrow> string \<Rightarrow> ('w, unit result) state"

text \<open>The environment of the process: \<^verbatim>\<open>os.LookupEnv\<close> and \<^verbatim>\<open>os.Getenv\<close>.\<close>

type_synonym env = "string \<Rightarrow> string option"

definition Getenv :: "env \<Rightarrow> string \<Rightarrow> string" where
  "Getenv env k = (case env k of None \<Rightarrow> '''' | Some v \<Rightarrow> v)"

end
