(* ===== verification/Node_Utils.thy ===== *)
theory Node_Utils
  imports K8s_Client
begin

text \<open>
  The helpers of \<^verbatim>\<open>pkg/utils\<close> around nodes, pods and the host: the annotations by which an agent
  tells the manager whether its node can reboot and how long its watchdog waits
  (\<^verbatim>\<open>annotations.go\<close>), the agent pod of a node (\<^verbatim>\<open>pods.go\<close>), the deployment namespace
  (\<^verbatim>\<open>namespaces.go\<close>) and the uptime of the host (\<^verbatim>\<open>uptime.go\<close>).
\<close>

section \<open>Environment and host\<close>

definition GetDeploymentNamespace :: "env \<Rightarrow> string result" where
  "GetDeploymentNamespace env =
     (case env ''DEPLOYMENT_NAMESPACE'' of
        None \<Rightarrow> Inl (ErrMsg ''DEPLOYMENT_NAMESPACE must be set'')
      | Some ns \<Rightarrow> Inr ns)"

text \<open>The answer of the \<^verbatim>\<open>sysinfo\<close> system call is a parameter.\<close>

definition GetLinuxUptime :: "int result \<Rightarrow> duration result" where
  "GetLinuxUptime sysinfo =
     (case sysinfo of Inl err \<Rightarrow> Inl err | Inr upSeconds \<Rightarrow> Inr (dur_mul upSeconds Second))"

definition IsSoftwareRebootEnabled :: "env \<Rightarrow> bool result" where
  "IsSoftwareRebootEnabled env =
     (case ParseBool (Getenv env ''IS_SOFTWARE_REBOOT_ENABLED'') of
        Inl err \<Rightarrow>
          Inl (Wrapped err (''failed to convert IS_SOFTWARE_REBOOT_ENABLED env value to boolean. value is: ''
                 @ Getenv env ''IS_SOFTWARE_REBOOT_ENABLED''))
      | Inr b \<Rightarrow> Inr b)"

section \<open>Node annotations\<close>

definition IsRebootCapableAnnotation :: string where
  "IsRebootCapableAnnotation = ''is-reboot-capable.self-node-remediation.medik8s.io''"

definition WatchdogTimeoutSecondsAnnotation :: string where
  "WatchdogTimeoutSecondsAnnotation = ''self-node-remediation.medik8s.io/watchdog-timeout''"

text \<open>
  \<^verbatim>\<open>int(math.Ceil(d.Seconds()))\<close>, exact for the durations a watchdog reports (whole seconds); the
  floating-point rounding of very long fractional durations is not modelled.
\<close>

definition ceilSeconds :: "duration \<Rightarrow> int" where
  "ceilSeconds d = - ((- d) div Second)"

text \<open>The node object as it is sent to the API server.\<close>

definition annotateNode :: "bool \<Rightarrow> bool \<Rightarrow> duration \<Rightarrow> Node \<Rightarrow> Node" where
  "annotateNode watchdogInitiated softwareRebootEnabled watchdogTimeout node =
     (let annotations = (case om_Annotations (n_Meta node) of None \<Rightarrow> Map.empty | Some m \<Rightarrow> m);
          annotations = annotations(IsRebootCapableAnnotation \<mapsto>
            (if watchdogInitiated \<or> softwareRebootEnabled then ''true'' else ''false''));
          annotations = annotations(WatchdogTimeoutSecondsAnnotation \<mapsto> Itoa (ceilSeconds watchdogTimeout))
      in node\<lparr>n_Meta := (n_Meta node)\<lparr>om_Annotations := Some annotations\<rparr>\<rparr>)"

definition UpdateNodeAnnotations ::
  "'w client \<Rightarrow> env \<Rightarrow> bool \<Rightarrow> duration \<Rightarrow> string \<Rightarrow> ('w, error option) state" where
  "UpdateNodeAnnotations cl env watchdogInitiated watchdogTimeout nodeName = do {
     r \<leftarrow> cl_GetNode cl nodeName;
     case r of
       Inl err \<Rightarrow> returnM (Some (Wrapped err (''failed to retrieve my node: '' @ nodeName)))
     | Inr node \<Rightarrow>
         (case IsSoftwareRebootEnabled env of
            Inl err \<Rightarrow> returnM (Some err)
          | Inr softwareRebootEnabled \<Rightarrow> do {
              u \<leftarrow> cl_UpdateNode cl (annotateNode watchdogInitiated softwareRebootEnabled watchdogTimeout node);
              returnM (Wrapf (err_of u) (''failed to add node annotation to node: '' @ om_Name (n_Meta node)))
            })
   }"

definition GetWatchdogTimeout :: "Node \<Rightarrow> duration result" where
  "GetWatchdogTimeout node =
     (case om_Annotations (n_Meta node) of
        None \<Rightarrow> Inl (ErrMsg ''node has no annotations'')
      | Some _ \<Rightarrow>
          (case Atoi (map_val (om_Annotations (n_Meta node)) WatchdogTimeoutSecondsAnnotation) of
             Inl err \<Rightarrow> Inl (Wrapped err (''failed to convert watchdog timeout to int. value is: ''
                          @ map_val (om_Annotations (n_Meta node)) WatchdogTimeoutSecondsAnnotation))
           | Inr timeout \<Rightarrow> Inr (dur_mul timeout Second)))"

section \<open>The agent pod of a node\<close>

definition agentSelector :: "Requirement list" where
  "agentSelector =
     [ReqEquals ''app.kubernetes.io/name'' ''self-node-remediation'',
      ReqEquals ''app.kubernetes.io/component'' ''agent'']"

fun findPodOnNode :: "string \<Rightarrow> Pod list \<Rightarrow> Pod option" where
  "findPodOnNode nodeName [] = None"
| "findPodOnNode nodeName (pod # pods) =
     (if p_NodeName pod = nodeName then Some pod else findPodOnNode nodeName pods)"

definition GetSelfNodeRemediationAgentPod :: "'w client \<Rightarrow> string \<Rightarrow> ('w, Pod result) state" where
  "GetSelfNodeRemediationAgentPod cl nodeName = do {
     r \<leftarrow> cl_ListPods cl agentSelector;
     returnM (case r of
         Inl err \<Rightarrow> Inl err
       | Inr pods \<Rightarrow>
           (case findPodOnNode nodeName pods of
              Some pod \<Rightarrow> Inr pod
            | None \<Rightarrow> Inl (ErrMsg ''failed to find self node remediation pod matching the given node'')))
   }"

section \<open>Lemmas\<close>

lemma ceilSeconds_mod: "ceilSeconds d * Second = d + (- d) mod Second"
  unfolding ceilSeconds_def using div_mult_mod_eq [of "- d" Second] by linarith

lemma ceilSeconds_ge: "d \<le> ceilSeconds d * Second"
  using pos_mod_sign [of Second "- d"] by (simp add: ceilSeconds_mod)

lemma ceilSeconds_less: "ceilSeconds d * Second < d + Second"
  using pos_mod_bound [of Second "- d"] by (simp add: ceilSeconds_mod)

lemma ceilSeconds_int64: "0 \<le> d \<Longrightarrow> is_int64 d \<Longrightarrow> is_int64 (ceilSeconds d)"
  using ceilSeconds_ge [of d] ceilSeconds_less [of d]
  by (auto simp: is_int64_def min_int64_def max_int64_def)

lemma annotation_keys_distinct [simp]:
  "WatchdogTimeoutSecondsAnnotation \<noteq> IsRebootCapableAnnotation"
  "IsRebootCapableAnnotation \<noteq> WatchdogTimeoutSecondsAnnotation"
  by (simp_all add: WatchdogTimeoutSecondsAnnotation_def IsRebootCapableAnnotation_def)

lemma map_val_annotateNode [simp]:
  "map_val (om_Annotations (n_Meta (annotateNode w s d node))) IsRebootCapableAnnotation
     = (if w \<or> s then ''true'' else ''false'')"
  "map_val (om_Annotations (n_Meta (annotateNode w s d node))) WatchdogTimeoutSecondsAnnotation
     = Itoa (ceilSeconds d)"
  by (auto simp: annotateNode_def map_val_def map_get_def Let_def)

lemma annotateNode_has_annotations [simp]:
  "om_Annotations (n_Meta (annotateNode w s d node)) \<noteq> None"
  by (simp add: annotateNode_def Let_def)

text \<open>What the manager reads back is the agent's timeout, rounded up to whole seconds.\<close>

lemma GetWatchdogTimeout_annotateNode:
  assumes "0 \<le> d" "is_int64 (ceilSeconds d * Second)"
  shows "GetWatchdogTimeout (annotateNode w s d node) = Inr (ceilSeconds d * Second)"
proof -
  have d: "is_int64 (ceilSeconds d)"
    using assms ceilSeconds_ge [of d] by (auto simp: is_int64_def min_int64_def max_int64_def)
  obtain m where m: "om_Annotations (n_Meta (annotateNode w s d node)) = Some m"
    using annotateNode_has_annotations by blast
  have "map_val (Some m) WatchdogTimeoutSecondsAnnotation = Itoa (ceilSeconds d)"
    using map_val_annotateNode(2) [of w s d node] by (simp only: m)
  then show ?thesis
    using assms(2) d by (simp add: GetWatchdogTimeout_def m dur_mul_def wrap64_id)
qed

lemma findPodOnNode_Some: "findPodOnNode n ps = Some p \<Longrightarrow> p \<in> set ps \<and> p_NodeName p = n"
  by (induction ps) (auto split: if_splits)

lemma findPodOnNode_None: "findPodOnNode n ps = None \<longleftrightarrow> (\<forall>p \<in> set ps. p_NodeName p \<noteq> n)"
  by (induction ps) auto

section \<open>Properties\<close>


definition emptyMeta :: ObjectMeta where
  "emptyMeta = \<lparr>om_Name = '''', om_Namespace = '''', om_CreationTimestamp = 0, om_DeletionTimestamp = None,
                om_Annotations = None, om_Labels = None, om_Finalizers = [], om_OwnerReferences = []\<rparr>"


end
