(* ===== verification/Deep_Copy.thy ===== *)
theory Deep_Copy
  imports Stores Node_Utils
begin

text \<open>
  The generated deep copies of the custom resources (\<^verbatim>\<open>api/v1alpha1/zz_generated.deepcopy.go\<close>) over an
  explicit store. The rest of the library works on values; that a copy means the same value and shares
  nothing with its original is what makes this right for objects that the code copies before it
  changes or patches them.
\<close>

section \<open>The structs\<close>

text \<open>
  The structs as they lie in the store, with addresses for pointers and slices. The structs of the
  API machinery are type variables: \<open>'m\<close> for \<^verbatim>\<open>ObjectMeta\<close>, \<open>'l\<close> for \<^verbatim>\<open>ListMeta\<close>, \<open>'t\<close> for \<^verbatim>\<open>Toleration\<close>.
  A \<^verbatim>\<open>Condition\<close> has no pointer that matters: its time is immutable and copied by assignment.
\<close>

type_synonym TypeMeta = "string \<times> string"

record SpecStruct =
  ss_RemediationStrategy :: string

record StatusStruct =
  sr_TimeAssumedRebooted :: "addr option"
  sr_Phase :: "addr option"
  sr_LastError :: string
  sr_Conditions :: "addr option"

record 'm SnrStruct =
  sn_TypeMeta :: TypeMeta
  sn_ObjectMeta :: 'm
  sn_Spec :: SpecStruct
  sn_Status :: StatusStruct

record ConfigSpecStruct =
  cf_WatchdogFilePath :: string
  cf_SafeTimeToAssumeNodeRebootedSeconds :: "addr option"
  cf_PeerApiServerTimeout :: "addr option"
  cf_ApiCheckInterval :: "addr option"
  cf_PeerUpdateInterval :: "addr option"
  cf_ApiServerTimeout :: "addr option"
  cf_PeerDialTimeout :: "addr option"
  cf_PeerRequestTimeout :: "addr option"
  cf_MaxApiErrorThreshold :: int
  cf_IsSoftwareRebootEnabled :: bool
  cf_EndpointHealthCheckUrl :: string
  cf_HostPort :: int
  cf_CustomDsTolerations :: "addr option"

record 'm ConfigStruct =
  co_TypeMeta :: TypeMeta
  co_ObjectMeta :: 'm
  co_Spec :: ConfigSpecStruct
  co_Status :: unit

record TemplateResourceStruct =
  tr_Spec :: SpecStruct

record TemplateSpecStruct =
  ts_Template :: TemplateResourceStruct

record 'm TemplateStruct =
  te_TypeMeta :: TypeMeta
  te_ObjectMeta :: 'm
  te_Spec :: TemplateSpecStruct
  te_Status :: unit

record 'l ListStruct =
  li_TypeMeta :: TypeMeta
  li_ListMeta :: 'l
  li_Items :: "addr option"

text \<open>A cell of the store; \<open>'x\<close> are the cells of the API machinery.\<close>

datatype ('m, 'l, 't, 'x) cell =
    IntCell int
  | DurationCell duration
  | TimeCell instant
  | StringCell string
  | ConditionsCell "Condition list"
  | TolerationsCell (tolerationsOf: "'t list")
  | SnrsCell (snrsOf: "'m SnrStruct list")
  | ConfigsCell (configsOf: "'m ConfigStruct list")
  | TemplatesCell (templatesOf: "'m TemplateStruct list")
  | SpecCell (specOf: SpecStruct)
  | StatusCell (statusStructOf: StatusStruct)
  | SnrCell (snrOf: "'m SnrStruct")
  | ConfigSpecCell (configSpecOf: ConfigSpecStruct)
  | ConfigStatusCell (configStatusOf: unit)
  | ConfigCell (configOf: "'m ConfigStruct")
  | TemplateResourceCell (templateResourceOf: TemplateResourceStruct)
  | TemplateSpecCell (templateSpecOf: TemplateSpecStruct)
  | TemplateStatusCell (templateStatusOf: unit)
  | TemplateCell (templateOf: "'m TemplateStruct")
  | SnrListCell (snrListOf: "'l ListStruct")
  | ConfigListCell (configListOf: "'l ListStruct")
  | TemplateListCell (templateListOf: "'l ListStruct")
  | ExtCell 'x

type_synonym ('m, 'l, 't, 'x) heap = "('m, 'l, 't, 'x) cell store"

text \<open>The objects that \<^verbatim>\<open>DeepCopyObject\<close> wraps in the interface \<^verbatim>\<open>runtime.Object\<close>.\<close>

datatype Object =
    SnrObject addr
  | SnrListObject addr
  | ConfigObject addr
  | ConfigListObject addr
  | TemplateObject addr
  | TemplateListObject addr

section \<open>The remediation\<close>

definition SelfNodeRemediationSpec_DeepCopyInto :: "SpecStruct \<Rightarrow> ('c store, SpecStruct) state" where
  "SelfNodeRemediationSpec_DeepCopyInto x = returnM x"

definition SelfNodeRemediationSpec_DeepCopy :: "addr option \<Rightarrow> (('m, 'l, 't, 'x) heap, addr option) state" where
  "SelfNodeRemediationSpec_DeepCopy = copyVia specOf SpecCell SelfNodeRemediationSpec_DeepCopyInto"

definition SelfNodeRemediationStatus_DeepCopyInto :: "StatusStruct \<Rightarrow> ('c store, StatusStruct) state" where
  "SelfNodeRemediationStatus_DeepCopyInto x = do {
     timeAssumedRebooted \<leftarrow> copyPtr (sr_TimeAssumedRebooted x);
     phase \<leftarrow> copyPtr (sr_Phase x);
     conditions \<leftarrow> copyPtr (sr_Conditions x);
     returnM (x\<lparr>sr_TimeAssumedRebooted := timeAssumedRebooted, sr_Phase := phase, sr_Conditions := conditions\<rparr>)
   }"

definition SelfNodeRemediationStatus_DeepCopy :: "addr option \<Rightarrow> (('m, 'l, 't, 'x) heap, addr option) state" where
  "SelfNodeRemediationStatus_DeepCopy = copyVia statusStructOf StatusCell SelfNodeRemediationStatus_DeepCopyInto"

definition SelfNodeRemediation_DeepCopyInto ::
  "('m \<Rightarrow> ('c store, 'm) state) \<Rightarrow> 'm SnrStruct \<Rightarrow> ('c store, 'm SnrStruct) state" where
  "SelfNodeRemediation_DeepCopyInto copyMeta x = do {
     meta \<leftarrow> copyMeta (sn_ObjectMeta x);
     status \<leftarrow> SelfNodeRemediationStatus_DeepCopyInto (sn_Status x);
     returnM (x\<lparr>sn_ObjectMeta := meta, sn_Status := status\<rparr>)
   }"

definition SelfNodeRemediation_DeepCopy ::
  "('m \<Rightarrow> (('m, 'l, 't, 'x) heap, 'm) state) \<Rightarrow> addr option \<Rightarrow> (('m, 'l, 't, 'x) heap, addr option) state" where
  "SelfNodeRemediation_DeepCopy copyMeta = copyVia snrOf SnrCell (SelfNodeRemediation_DeepCopyInto copyMeta)"

text \<open>A typed nil is not wrapped: it would not be a nil interface.\<close>

definition asObject :: "(addr \<Rightarrow> Object) \<Rightarrow> ('c store, addr option) state \<Rightarrow> ('c store, Object option) state" where
  "asObject wrap deepCopy = do {
     c \<leftarrow> deepCopy;
     returnM (case c of Some a \<Rightarrow> Some (wrap a) | None \<Rightarrow> None)
   }"

definition SelfNodeRemediation_DeepCopyObject ::
  "('m \<Rightarrow> (('m, 'l, 't, 'x) heap, 'm) state) \<Rightarrow> addr option \<Rightarrow> (('m, 'l, 't, 'x) heap, Object option) state" where
  "SelfNodeRemediation_DeepCopyObject copyMeta p = asObject SnrObject (SelfNodeRemediation_DeepCopy copyMeta p)"

definition SelfNodeRemediationList_DeepCopyInto ::
  "('l \<Rightarrow> (('m, 'l, 't, 'x) heap, 'l) state) \<Rightarrow> ('m \<Rightarrow> (('m, 'l, 't, 'x) heap, 'm) state) \<Rightarrow>
   'l ListStruct \<Rightarrow> (('m, 'l, 't, 'x) heap, 'l ListStruct) state" where
  "SelfNodeRemediationList_DeepCopyInto copyListMeta copyMeta x = do {
     meta \<leftarrow> copyListMeta (li_ListMeta x);
     items \<leftarrow> copyVia snrsOf SnrsCell (copyAll (SelfNodeRemediation_DeepCopyInto copyMeta)) (li_Items x);
     returnM (x\<lparr>li_ListMeta := meta, li_Items := items\<rparr>)
   }"

definition SelfNodeRemediationList_DeepCopy ::
  "('l \<Rightarrow> (('m, 'l, 't, 'x) heap, 'l) state) \<Rightarrow> ('m \<Rightarrow> (('m, 'l, 't, 'x) heap, 'm) state) \<Rightarrow>
   addr option \<Rightarrow> (('m, 'l, 't, 'x) heap, addr option) state" where
  "SelfNodeRemediationList_DeepCopy copyListMeta copyMeta =
     copyVia snrListOf SnrListCell (SelfNodeRemediationList_DeepCopyInto copyListMeta copyMeta)"

definition SelfNodeRemediationList_DeepCopyObject ::
  "('l \<Rightarrow> (('m, 'l, 't, 'x) heap, 'l) state) \<Rightarrow> ('m \<Rightarrow> (('m, 'l, 't, 'x) heap, 'm) state) \<Rightarrow>
   addr option \<Rightarrow> (('m, 'l, 't, 'x) heap, Object option) state" where
  "SelfNodeRemediationList_DeepCopyObject copyListMeta copyMeta p =
     asObject SnrListObject (SelfNodeRemediationList_DeepCopy copyListMeta copyMeta p)"

section \<open>The configuration\<close>

definition SelfNodeRemediationConfigSpec_DeepCopyInto ::
  "('t \<Rightarrow> (('m, 'l, 't, 'x) heap, 't) state) \<Rightarrow> ConfigSpecStruct \<Rightarrow> (('m, 'l, 't, 'x) heap, ConfigSpecStruct) state" where
  "SelfNodeRemediationConfigSpec_DeepCopyInto copyToleration x = do {
     safeTime \<leftarrow> copyPtr (cf_SafeTimeToAssumeNodeRebootedSeconds x);
     peerApiServerTimeout \<leftarrow> copyPtr (cf_PeerApiServerTimeout x);
     apiCheckInterval \<leftarrow> copyPtr (cf_ApiCheckInterval x);
     peerUpdateInterval \<leftarrow> copyPtr (cf_PeerUpdateInterval x);
     apiServerTimeout \<leftarrow> copyPtr (cf_ApiServerTimeout x);
     peerDialTimeout \<leftarrow> copyPtr (cf_PeerDialTimeout x);
     peerRequestTimeout \<leftarrow> copyPtr (cf_PeerRequestTimeout x);
     tolerations \<leftarrow> copyVia tolerationsOf TolerationsCell (copyAll copyToleration) (cf_CustomDsTolerations x);
     returnM (x\<lparr>cf_SafeTimeToAssumeNodeRebootedSeconds := safeTime, cf_PeerApiServerTimeout := peerApiServerTimeout,
       cf_ApiCheckInterval := apiCheckInterval, cf_PeerUpdateInterval := peerUpdateInterval,
       cf_ApiServerTimeout := apiServerTimeout, cf_PeerDialTimeout := peerDialTimeout,
       cf_PeerRequestTimeout := peerRequestTimeout, cf_CustomDsTolerations := tolerations\<rparr>)
   }"

definition SelfNodeRemediationConfigSpec_DeepCopy ::
  "('t \<Rightarrow> (('m, 'l, 't, 'x) heap, 't) state) \<Rightarrow> addr option \<Rightarrow> (('m, 'l, 't, 'x) heap, addr option) state" where
  "SelfNodeRemediationConfigSpec_DeepCopy copyToleration =
     copyVia configSpecOf ConfigSpecCell (SelfNodeRemediationConfigSpec_DeepCopyInto copyToleration)"

definition SelfNodeRemediationConfigStatus_DeepCopyInto :: "unit \<Rightarrow> ('c store, unit) state" where
  "SelfNodeRemediationConfigStatus_DeepCopyInto x = returnM x"

definition SelfNodeRemediationConfigStatus_DeepCopy :: "addr option \<Rightarrow> (('m, 'l, 't, 'x) heap, addr option) state" where
  "SelfNodeRemediationConfigStatus_DeepCopy =
     copyVia configStatusOf ConfigStatusCell SelfNodeRemediationConfigStatus_DeepCopyInto"

definition SelfNodeRemediationConfig_DeepCopyInto ::
  "('m \<Rightarrow> (('m, 'l, 't, 'x) heap, 'm) state) \<Rightarrow> ('t \<Rightarrow> (('m, 'l, 't, 'x) heap, 't) state) \<Rightarrow>
   'm ConfigStruct \<Rightarrow> (('m, 'l, 't, 'x) heap, 'm ConfigStruct) state" where
  "SelfNodeRemediationConfig_DeepCopyInto copyMeta copyToleration x = do {
     meta \<leftarrow> copyMeta (co_ObjectMeta x);
     spec \<leftarrow> SelfNodeRemediationConfigSpec_DeepCopyInto copyToleration (co_Spec x);
     returnM (x\<lparr>co_ObjectMeta := meta, co_Spec := spec\<rparr>)
   }"

definition SelfNodeRemediationConfig_DeepCopy ::
  "('m \<Rightarrow> (('m, 'l, 't, 'x) heap, 'm) state) \<Rightarrow> ('t \<Rightarrow> (('m, 'l, 't, 'x) heap, 't) state) \<Rightarrow>
   addr option \<Rightarrow> (('m, 'l, 't, 'x) heap, addr option) state" where
  "SelfNodeRemediationConfig_DeepCopy copyMeta copyToleration =
     copyVia configOf ConfigCell (SelfNodeRemediationConfig_DeepCopyInto copyMeta copyToleration)"

definition SelfNodeRemediationConfig_DeepCopyObject ::
  "('m \<Rightarrow> (('m, 'l, 't, 'x) heap, 'm) state) \<Rightarrow> ('t \<Rightarrow> (('m, 'l, 't, 'x) heap, 't) state) \<Rightarrow>
   addr option \<Rightarrow> (('m, 'l, 't, 'x) heap, Object option) state" where
  "SelfNodeRemediationConfig_DeepCopyObject copyMeta copyToleration p =
     asObject ConfigObject (SelfNodeRemediationConfig_DeepCopy copyMeta copyToleration p)"

definition SelfNodeRemediationConfigList_DeepCopyInto ::
  "('l \<Rightarrow> (('m, 'l, 't, 'x) heap, 'l) state) \<Rightarrow> ('m \<Rightarrow> (('m, 'l, 't, 'x) heap, 'm) state) \<Rightarrow>
   ('t \<Rightarrow> (('m, 'l, 't, 'x) heap, 't) state) \<Rightarrow> 'l ListStruct \<Rightarrow> (('m, 'l, 't, 'x) heap, 'l ListStruct) state" where
  "SelfNodeRemediationConfigList_DeepCopyInto copyListMeta copyMeta copyToleration x = do {
     meta \<leftarrow> copyListMeta (li_ListMeta x);
     items \<leftarrow> copyVia configsOf ConfigsCell (copyAll (SelfNodeRemediationConfig_DeepCopyInto copyMeta copyToleration)) (li_Items x);
     returnM (x\<lparr>li_ListMeta := meta, li_Items := items\<rparr>)
   }"

definition SelfNodeRemediationConfigList_DeepCopy ::
  "('l \<Rightarrow> (('m, 'l, 't, 'x) heap, 'l) state) \<Rightarrow> ('m \<Rightarrow> (('m, 'l, 't, 'x) heap, 'm) state) \<Rightarrow>
   ('t \<Rightarrow> (('m, 'l, 't, 'x) heap, 't) state) \<Rightarrow> addr option \<Rightarrow> (('m, 'l, 't, 'x) heap, addr option) state" where
  "SelfNodeRemediationConfigList_DeepCopy copyListMeta copyMeta copyToleration =
     copyVia configListOf ConfigListCell (SelfNodeRemediationConfigList_DeepCopyInto copyListMeta copyMeta copyToleration)"

definition SelfNodeRemediationConfigList_DeepCopyObject ::
  "('l \<Rightarrow> (('m, 'l, 't, 'x) heap, 'l) state) \<Rightarrow> ('m \<Rightarrow> (('m, 'l, 't, 'x) heap, 'm) state) \<Rightarrow>
   ('t \<Rightarrow> (('m, 'l, 't, 'x) heap, 't) state) \<Rightarrow> addr option \<Rightarrow> (('m, 'l, 't, 'x) heap, Object option) state" where
  "SelfNodeRemediationConfigList_DeepCopyObject copyListMeta copyMeta copyToleration p =
     asObject ConfigListObject (SelfNodeRemediationConfigList_DeepCopy copyListMeta copyMeta copyToleration p)"

section \<open>The template\<close>

definition SelfNodeRemediationTemplateResource_DeepCopyInto :: "TemplateResourceStruct \<Rightarrow> ('c store, TemplateResourceStruct) state" where
  "SelfNodeRemediationTemplateResource_DeepCopyInto x = returnM x"

definition SelfNodeRemediationTemplateResource_DeepCopy :: "addr option \<Rightarrow> (('m, 'l, 't, 'x) heap, addr option) state" where
  "SelfNodeRemediationTemplateResource_DeepCopy =
     copyVia templateResourceOf TemplateResourceCell SelfNodeRemediationTemplateResource_DeepCopyInto"

definition SelfNodeRemediationTemplateSpec_DeepCopyInto :: "TemplateSpecStruct \<Rightarrow> ('c store, TemplateSpecStruct) state" where
  "SelfNodeRemediationTemplateSpec_DeepCopyInto x = returnM x"

definition SelfNodeRemediationTemplateSpec_DeepCopy :: "addr option \<Rightarrow> (('m, 'l, 't, 'x) heap, addr option) state" where
  "SelfNodeRemediationTemplateSpec_DeepCopy =
     copyVia templateSpecOf TemplateSpecCell SelfNodeRemediationTemplateSpec_DeepCopyInto"

definition SelfNodeRemediationTemplateStatus_DeepCopyInto :: "unit \<Rightarrow> ('c store, unit) state" where
  "SelfNodeRemediationTemplateStatus_DeepCopyInto x = returnM x"

definition SelfNodeRemediationTemplateStatus_DeepCopy :: "addr option \<Rightarrow> (('m, 'l, 't, 'x) heap, addr option) state" where
  "SelfNodeRemediationTemplateStatus_DeepCopy =
     copyVia templateStatusOf TemplateStatusCell SelfNodeRemediationTemplateStatus_DeepCopyInto"

definition SelfNodeRemediationTemplate_DeepCopyInto ::
  "('m \<Rightarrow> ('c store, 'm) state) \<Rightarrow> 'm TemplateStruct \<Rightarrow> ('c store, 'm TemplateStruct) state" where
  "SelfNodeRemediationTemplate_DeepCopyInto copyMeta x = do {
     meta \<leftarrow> copyMeta (te_ObjectMeta x);
     returnM (x\<lparr>te_ObjectMeta := meta\<rparr>)
   }"

definition SelfNodeRemediationTemplate_DeepCopy ::
  "('m \<Rightarrow> (('m, 'l, 't, 'x) heap, 'm) state) \<Rightarrow> addr option \<Rightarrow> (('m, 'l, 't, 'x) heap, addr option) state" where
  "SelfNodeRemediationTemplate_DeepCopy copyMeta =
     copyVia templateOf TemplateCell (SelfNodeRemediationTemplate_DeepCopyInto copyMeta)"

definition SelfNodeRemediationTemplate_DeepCopyObject ::
  "('m \<Rightarrow> (('m, 'l, 't, 'x) heap, 'm) state) \<Rightarrow> addr option \<Rightarrow> (('m, 'l, 't, 'x) heap, Object option) state" where
  "SelfNodeRemediationTemplate_DeepCopyObject copyMeta p =
     asObject TemplateObject (SelfNodeRemediationTemplate_DeepCopy copyMeta p)"

definition SelfNodeRemediationTemplateList_DeepCopyInto ::
  "('l \<Rightarrow> (('m, 'l, 't, 'x) heap, 'l) state) \<Rightarrow> ('m \<Rightarrow> (('m, 'l, 't, 'x) heap, 'm) state) \<Rightarrow>
   'l ListStruct \<Rightarrow> (('m, 'l, 't, 'x) heap, 'l ListStruct) state" where
  "SelfNodeRemediationTemplateList_DeepCopyInto copyListMeta copyMeta x = do {
     meta \<leftarrow> copyListMeta (li_ListMeta x);
     items \<leftarrow> copyVia templatesOf TemplatesCell (copyAll (SelfNodeRemediationTemplate_DeepCopyInto copyMeta)) (li_Items x);
     returnM (x\<lparr>li_ListMeta := meta, li_Items := items\<rparr>)
   }"

definition SelfNodeRemediationTemplateList_DeepCopy ::
  "('l \<Rightarrow> (('m, 'l, 't, 'x) heap, 'l) state) \<Rightarrow> ('m \<Rightarrow> (('m, 'l, 't, 'x) heap, 'm) state) \<Rightarrow>
   addr option \<Rightarrow> (('m, 'l, 't, 'x) heap, addr option) state" where
  "SelfNodeRemediationTemplateList_DeepCopy copyListMeta copyMeta =
     copyVia templateListOf TemplateListCell (SelfNodeRemediationTemplateList_DeepCopyInto copyListMeta copyMeta)"

definition SelfNodeRemediationTemplateList_DeepCopyObject ::
  "('l \<Rightarrow> (('m, 'l, 't, 'x) heap, 'l) state) \<Rightarrow> ('m \<Rightarrow> (('m, 'l, 't, 'x) heap, 'm) state) \<Rightarrow>
   addr option \<Rightarrow> (('m, 'l, 't, 'x) heap, Object option) state" where
  "SelfNodeRemediationTemplateList_DeepCopyObject copyListMeta copyMeta p =
     asObject TemplateListObject (SelfNodeRemediationTemplateList_DeepCopy copyListMeta copyMeta p)"

section \<open>What the structs mean\<close>

text \<open>
  The contents of the cells, and from them the values of the model. A struct of the API machinery means
  what its argument \<open>metaMeaning\<close>, \<open>listMeaning\<close> or \<open>tolMeaning\<close> says. Next to the value stands what the
  value does not show: the type, and whether a slice is nil.
\<close>

fun intIn :: "('m, 'l, 't, 'x) cell \<Rightarrow> int" where "intIn (IntCell n) = n" | "intIn _ = 0"

fun durationIn :: "('m, 'l, 't, 'x) cell \<Rightarrow> duration" where "durationIn (DurationCell d) = d" | "durationIn _ = 0"

fun timeIn :: "('m, 'l, 't, 'x) cell \<Rightarrow> instant" where "timeIn (TimeCell t) = t" | "timeIn _ = 0"

fun stringIn :: "('m, 'l, 't, 'x) cell \<Rightarrow> string" where "stringIn (StringCell s) = s" | "stringIn _ = ''''"

fun conditionsIn :: "('m, 'l, 't, 'x) cell \<Rightarrow> Condition list" where
  "conditionsIn (ConditionsCell cs) = cs" | "conditionsIn _ = []"

definition statusMeaning :: "('m, 'l, 't, 'x) heap \<Rightarrow> StatusStruct \<Rightarrow> SnrStatus \<times> bool" where
  "statusMeaning h x =
     (\<lparr>st_TimeAssumedRebooted = map_option timeIn (derefPtr h (sr_TimeAssumedRebooted x)),
       st_Phase = map_option stringIn (derefPtr h (sr_Phase x)), st_LastError = sr_LastError x,
       st_Conditions = (case derefPtr h (sr_Conditions x) of None \<Rightarrow> [] | Some c \<Rightarrow> conditionsIn c)\<rparr>,
      derefPtr h (sr_Conditions x) = None)"

definition statusReach :: "'c store \<Rightarrow> StatusStruct \<Rightarrow> addr set" where
  "statusReach h x = reachPtr h (sr_TimeAssumedRebooted x) \<union> (reachPtr h (sr_Phase x) \<union> reachPtr h (sr_Conditions x))"

definition snrMeaning ::
  "(('m, 'l, 't, 'x) heap \<Rightarrow> 'm \<Rightarrow> ObjectMeta) \<Rightarrow> ('m, 'l, 't, 'x) heap \<Rightarrow> 'm SnrStruct \<Rightarrow>
   TypeMeta \<times> SelfNodeRemediation \<times> bool" where
  "snrMeaning metaMeaning h x =
     (sn_TypeMeta x,
      \<lparr>snr_Meta = metaMeaning h (sn_ObjectMeta x), snr_RemediationStrategy = ss_RemediationStrategy (sn_Spec x),
       snr_Status = fst (statusMeaning h (sn_Status x))\<rparr>,
      snd (statusMeaning h (sn_Status x)))"

definition snrReach :: "('c store \<Rightarrow> 'm \<Rightarrow> addr set) \<Rightarrow> 'c store \<Rightarrow> 'm SnrStruct \<Rightarrow> addr set" where
  "snrReach metaReach h x = metaReach h (sn_ObjectMeta x) \<union> statusReach h (sn_Status x)"

definition configSpecMeaning ::
  "(('m, 'l, 't, 'x) heap \<Rightarrow> 't \<Rightarrow> Toleration) \<Rightarrow> ('m, 'l, 't, 'x) heap \<Rightarrow> ConfigSpecStruct \<Rightarrow>
   SelfNodeRemediationConfigSpec \<times> bool" where
  "configSpecMeaning tolMeaning h x =
     (let tolerations = meaningVia tolerationsOf (\<lambda>h. map (tolMeaning h)) h (cf_CustomDsTolerations x) in
      (\<lparr>cs_WatchdogFilePath = cf_WatchdogFilePath x,
        cs_SafeTimeToAssumeNodeRebootedSeconds = map_option intIn (derefPtr h (cf_SafeTimeToAssumeNodeRebootedSeconds x)),
        cs_PeerApiServerTimeout = map_option durationIn (derefPtr h (cf_PeerApiServerTimeout x)),
        cs_ApiCheckInterval = map_option durationIn (derefPtr h (cf_ApiCheckInterval x)),
        cs_PeerUpdateInterval = map_option durationIn (derefPtr h (cf_PeerUpdateInterval x)),
        cs_ApiServerTimeout = map_option durationIn (derefPtr h (cf_ApiServerTimeout x)),
        cs_PeerDialTimeout = map_option durationIn (derefPtr h (cf_PeerDialTimeout x)),
        cs_PeerRequestTimeout = map_option durationIn (derefPtr h (cf_PeerRequestTimeout x)),
        cs_MaxApiErrorThreshold = cf_MaxApiErrorThreshold x,
        cs_IsSoftwareRebootEnabled = cf_IsSoftwareRebootEnabled x,
        cs_EndpointHealthCheckUrl = cf_EndpointHealthCheckUrl x, cs_HostPort = cf_HostPort x,
        cs_CustomDsTolerations = (case tolerations of None \<Rightarrow> [] | Some ts \<Rightarrow> ts)\<rparr>,
       tolerations = None))"

definition configSpecReach ::
  "(('m, 'l, 't, 'x) heap \<Rightarrow> 't \<Rightarrow> addr set) \<Rightarrow> ('m, 'l, 't, 'x) heap \<Rightarrow> ConfigSpecStruct \<Rightarrow> addr set" where
  "configSpecReach tolReach h x =
     reachPtr h (cf_SafeTimeToAssumeNodeRebootedSeconds x) \<union> (reachPtr h (cf_PeerApiServerTimeout x)
     \<union> (reachPtr h (cf_ApiCheckInterval x) \<union> (reachPtr h (cf_PeerUpdateInterval x)
     \<union> (reachPtr h (cf_ApiServerTimeout x) \<union> (reachPtr h (cf_PeerDialTimeout x)
     \<union> (reachPtr h (cf_PeerRequestTimeout x)
     \<union> reachVia tolerationsOf (\<lambda>h ts. \<Union> (tolReach h ` set ts)) h (cf_CustomDsTolerations x)))))))"

definition configMeaning ::
  "(('m, 'l, 't, 'x) heap \<Rightarrow> 'm \<Rightarrow> ObjectMeta) \<Rightarrow> (('m, 'l, 't, 'x) heap \<Rightarrow> 't \<Rightarrow> Toleration) \<Rightarrow>
   ('m, 'l, 't, 'x) heap \<Rightarrow> 'm ConfigStruct \<Rightarrow> TypeMeta \<times> SelfNodeRemediationConfig \<times> bool" where
  "configMeaning metaMeaning tolMeaning h x =
     (co_TypeMeta x,
      \<lparr>cfg_Meta = metaMeaning h (co_ObjectMeta x), cfg_Spec = fst (configSpecMeaning tolMeaning h (co_Spec x))\<rparr>,
      snd (configSpecMeaning tolMeaning h (co_Spec x)))"

definition configReach ::
  "(('m, 'l, 't, 'x) heap \<Rightarrow> 'm \<Rightarrow> addr set) \<Rightarrow> (('m, 'l, 't, 'x) heap \<Rightarrow> 't \<Rightarrow> addr set) \<Rightarrow>
   ('m, 'l, 't, 'x) heap \<Rightarrow> 'm ConfigStruct \<Rightarrow> addr set" where
  "configReach metaReach tolReach h x = metaReach h (co_ObjectMeta x) \<union> configSpecReach tolReach h (co_Spec x)"

definition templateMeaning ::
  "('c store \<Rightarrow> 'm \<Rightarrow> ObjectMeta) \<Rightarrow> 'c store \<Rightarrow> 'm TemplateStruct \<Rightarrow> TypeMeta \<times> ObjectMeta \<times> string" where
  "templateMeaning metaMeaning h x =
     (te_TypeMeta x, metaMeaning h (te_ObjectMeta x), ss_RemediationStrategy (tr_Spec (ts_Template (te_Spec x))))"

definition templateReach :: "('c store \<Rightarrow> 'm \<Rightarrow> addr set) \<Rightarrow> 'c store \<Rightarrow> 'm TemplateStruct \<Rightarrow> addr set" where
  "templateReach metaReach h x = metaReach h (te_ObjectMeta x)"

text \<open>A list, with the meaning of its items.\<close>

definition listMeaningOf ::
  "('c \<Rightarrow> 's list) \<Rightarrow> ('c store \<Rightarrow> 'l \<Rightarrow> 'v) \<Rightarrow> ('c store \<Rightarrow> 's \<Rightarrow> 'u) \<Rightarrow> 'c store \<Rightarrow> 'l ListStruct \<Rightarrow>
   TypeMeta \<times> 'v \<times> 'u list option" where
  "listMeaningOf itemsOf listMeaning itemMeaning h x =
     (li_TypeMeta x, listMeaning h (li_ListMeta x), meaningVia itemsOf (\<lambda>h. map (itemMeaning h)) h (li_Items x))"

definition listReachOf ::
  "('c \<Rightarrow> 's list) \<Rightarrow> ('c store \<Rightarrow> 'l \<Rightarrow> addr set) \<Rightarrow> ('c store \<Rightarrow> 's \<Rightarrow> addr set) \<Rightarrow> 'c store \<Rightarrow> 'l ListStruct \<Rightarrow> addr set" where
  "listReachOf itemsOf listReach itemReach h x =
     listReach h (li_ListMeta x) \<union> reachVia itemsOf (\<lambda>h xs. \<Union> (itemReach h ` set xs)) h (li_Items x)"

section \<open>The methods are deep copies\<close>

lemmas struct_laws = both_def monad_laws

lemma deep_status: "deep_copier SelfNodeRemediationStatus_DeepCopyInto statusMeaning statusReach"
  by (rule deep_struct [OF deep_both [OF ptr.deep_copier_axioms deep_both [OF ptr.deep_copier_axioms ptr.deep_copier_axioms]],
        where get = "\<lambda>x. (sr_TimeAssumedRebooted x, sr_Phase x, sr_Conditions x)"
          and put = "\<lambda>(t, p, c) x. x\<lparr>sr_TimeAssumedRebooted := t, sr_Phase := p, sr_Conditions := c\<rparr>"
          and rest = sr_LastError
          and F = "\<lambda>(t, p, c) e. (\<lparr>st_TimeAssumedRebooted = map_option timeIn t, st_Phase = map_option stringIn p,
             st_LastError = e, st_Conditions = (case c of None \<Rightarrow> [] | Some c \<Rightarrow> conditionsIn c)\<rparr>, c = None)"])
    (auto simp: statusMeaning_def statusReach_def SelfNodeRemediationStatus_DeepCopyInto_def struct_laws)

interpretation statusCopy: deep_copier SelfNodeRemediationStatus_DeepCopyInto statusMeaning statusReach
  by (rule deep_status)

lemma deep_snr:
  assumes "deep_copier copyMeta metaMeaning metaReach"
  shows "deep_copier (SelfNodeRemediation_DeepCopyInto copyMeta) (snrMeaning metaMeaning) (snrReach metaReach)"
  by (rule deep_struct [OF deep_both [OF assms deep_status],
        where get = "\<lambda>x. (sn_ObjectMeta x, sn_Status x)" and put = "\<lambda>(m, s) x. x\<lparr>sn_ObjectMeta := m, sn_Status := s\<rparr>"
          and rest = "\<lambda>x. (sn_TypeMeta x, sn_Spec x)"
          and F = "\<lambda>(m, s) (tm, spec). (tm, \<lparr>snr_Meta = m, snr_RemediationStrategy = ss_RemediationStrategy spec,
             snr_Status = fst s\<rparr>, snd s)"])
    (auto simp: snrMeaning_def snrReach_def SelfNodeRemediation_DeepCopyInto_def struct_laws)

lemma deep_configSpec:
  assumes "deep_copier copyToleration tolMeaning tolReach"
  shows "deep_copier (SelfNodeRemediationConfigSpec_DeepCopyInto copyToleration) (configSpecMeaning tolMeaning)
     (configSpecReach tolReach)"
proof -
  note p = ptr.deep_copier_axioms
  have tols: "deep_copier (copyVia tolerationsOf TolerationsCell (copyAll copyToleration))
      (meaningVia tolerationsOf (\<lambda>h. map (tolMeaning h))) (reachVia tolerationsOf (\<lambda>h ts. \<Union> (tolReach h ` set ts)))"
    by (rule deep_via [OF deep_all [OF assms]]) simp
  show ?thesis
    by (rule deep_struct [OF deep_both [OF p deep_both [OF p deep_both [OF p deep_both [OF p deep_both [OF p
            deep_both [OF p deep_both [OF p tols]]]]]]],
          where get = "\<lambda>x. (cf_SafeTimeToAssumeNodeRebootedSeconds x, cf_PeerApiServerTimeout x, cf_ApiCheckInterval x,
              cf_PeerUpdateInterval x, cf_ApiServerTimeout x, cf_PeerDialTimeout x, cf_PeerRequestTimeout x, cf_CustomDsTolerations x)"
            and put = "\<lambda>(s, pa, ac, pu, as, pd, pr, ts) x. x\<lparr>cf_SafeTimeToAssumeNodeRebootedSeconds := s,
              cf_PeerApiServerTimeout := pa, cf_ApiCheckInterval := ac, cf_PeerUpdateInterval := pu, cf_ApiServerTimeout := as,
              cf_PeerDialTimeout := pd, cf_PeerRequestTimeout := pr, cf_CustomDsTolerations := ts\<rparr>"
            and rest = "\<lambda>x. (cf_WatchdogFilePath x, cf_MaxApiErrorThreshold x, cf_IsSoftwareRebootEnabled x,
              cf_EndpointHealthCheckUrl x, cf_HostPort x)"
            and F = "\<lambda>(s, pa, ac, pu, as, pd, pr, ts) (wd, me, sw, url, port).
              (\<lparr>cs_WatchdogFilePath = wd, cs_SafeTimeToAssumeNodeRebootedSeconds = map_option intIn s,
                cs_PeerApiServerTimeout = map_option durationIn pa, cs_ApiCheckInterval = map_option durationIn ac,
                cs_PeerUpdateInterval = map_option durationIn pu, cs_ApiServerTimeout = map_option durationIn as,
                cs_PeerDialTimeout = map_option durationIn pd, cs_PeerRequestTimeout = map_option durationIn pr,
                cs_MaxApiErrorThreshold = me, cs_IsSoftwareRebootEnabled = sw, cs_EndpointHealthCheckUrl = url,
                cs_HostPort = port, cs_CustomDsTolerations = (case ts of None \<Rightarrow> [] | Some ts \<Rightarrow> ts)\<rparr>, ts = None)"])
      (auto simp: configSpecMeaning_def configSpecReach_def SelfNodeRemediationConfigSpec_DeepCopyInto_def struct_laws Let_def)
qed

lemma deep_config:
  assumes "deep_copier copyMeta metaMeaning metaReach" and "deep_copier copyToleration tolMeaning tolReach"
  shows "deep_copier (SelfNodeRemediationConfig_DeepCopyInto copyMeta copyToleration) (configMeaning metaMeaning tolMeaning)
     (configReach metaReach tolReach)"
  by (rule deep_struct [OF deep_both [OF assms(1) deep_configSpec [OF assms(2)]],
        where get = "\<lambda>x. (co_ObjectMeta x, co_Spec x)" and put = "\<lambda>(m, s) x. x\<lparr>co_ObjectMeta := m, co_Spec := s\<rparr>"
          and rest = "\<lambda>x. co_TypeMeta x"
          and F = "\<lambda>(m, s) tm. (tm, \<lparr>cfg_Meta = m, cfg_Spec = fst s\<rparr>, snd s)"])
    (auto simp: configMeaning_def configReach_def SelfNodeRemediationConfig_DeepCopyInto_def struct_laws)

lemma deep_template:
  assumes "deep_copier copyMeta metaMeaning metaReach"
  shows "deep_copier (SelfNodeRemediationTemplate_DeepCopyInto copyMeta) (templateMeaning metaMeaning) (templateReach metaReach)"
  by (rule deep_struct [OF assms, where get = te_ObjectMeta and put = "\<lambda>m x. x\<lparr>te_ObjectMeta := m\<rparr>"
          and rest = "\<lambda>x. (te_TypeMeta x, te_Spec x)"
          and F = "\<lambda>m (tm, spec). (tm, m, ss_RemediationStrategy (tr_Spec (ts_Template spec)))"])
    (auto simp: templateMeaning_def templateReach_def SelfNodeRemediationTemplate_DeepCopyInto_def)

text \<open>The three lists differ in their items only.\<close>

definition copyList ::
  "('c \<Rightarrow> 's list) \<Rightarrow> ('s list \<Rightarrow> 'c) \<Rightarrow> ('l \<Rightarrow> ('c store, 'l) state) \<Rightarrow> ('s \<Rightarrow> ('c store, 's) state) \<Rightarrow>
   'l ListStruct \<Rightarrow> ('c store, 'l ListStruct) state" where
  "copyList itemsOf itemsCell copyListMeta copyItem x = do {
     meta \<leftarrow> copyListMeta (li_ListMeta x);
     items \<leftarrow> copyVia itemsOf itemsCell (copyAll copyItem) (li_Items x);
     returnM (x\<lparr>li_ListMeta := meta, li_Items := items\<rparr>)
   }"

lemma lists_alike:
  "SelfNodeRemediationList_DeepCopyInto cl cm = copyList snrsOf SnrsCell cl (SelfNodeRemediation_DeepCopyInto cm)"
  "SelfNodeRemediationConfigList_DeepCopyInto cl cm ct = copyList configsOf ConfigsCell cl (SelfNodeRemediationConfig_DeepCopyInto cm ct)"
  "SelfNodeRemediationTemplateList_DeepCopyInto cl cm = copyList templatesOf TemplatesCell cl (SelfNodeRemediationTemplate_DeepCopyInto cm)"
  by (simp_all add: fun_eq_iff copyList_def SelfNodeRemediationList_DeepCopyInto_def
      SelfNodeRemediationConfigList_DeepCopyInto_def SelfNodeRemediationTemplateList_DeepCopyInto_def)

lemma deep_list:
  assumes "deep_copier copyListMeta listMeaning listReach" and "deep_copier copyItem itemMeaning itemReach"
    and "\<And>xs. itemsOf (itemsCell xs) = xs"
  shows "deep_copier (copyList itemsOf itemsCell copyListMeta copyItem) (listMeaningOf itemsOf listMeaning itemMeaning)
     (listReachOf itemsOf listReach itemReach)"
  by (rule deep_struct [OF deep_both [OF assms(1) deep_via [OF deep_all [OF assms(2)] assms(3)]],
        where get = "\<lambda>x. (li_ListMeta x, li_Items x)" and put = "\<lambda>(m, i) x. x\<lparr>li_ListMeta := m, li_Items := i\<rparr>"
          and rest = li_TypeMeta and F = "\<lambda>(m, i) tm. (tm, m, i)"])
    (auto simp: listMeaningOf_def listReachOf_def copyList_def struct_laws)

lemma nil_via: "run_state (copyVia content cell f p) h = (q, h') \<Longrightarrow> q = None \<longleftrightarrow> p = None"
  by (auto simp: copyVia_def split: option.splits prod.splits)

lemma nil_object: "run_state (asObject wrap m) h = (ob, h') \<Longrightarrow> \<exists>q. run_state m h = (q, h') \<and> ob = map_option wrap q"
  by (auto simp: asObject_def split: option.splits prod.splits)

text \<open>What a caller gets: nil for nil, otherwise an equal object that shares nothing with the original.\<close>

definition independentCopy ::
  "('c store \<Rightarrow> addr option \<Rightarrow> 'v) \<Rightarrow> ('c store \<Rightarrow> addr option \<Rightarrow> addr set) \<Rightarrow> 'c store \<Rightarrow> addr option \<Rightarrow>
   addr option \<Rightarrow> 'c store \<Rightarrow> bool" where
  "independentCopy meaning reach h p q h' \<longleftrightarrow>
     (q = None \<longleftrightarrow> p = None) \<and> wroteOnly {} h h' \<and> meaning h' q = meaning h p
     \<and> reach h' q \<subseteq> newSince h h' \<and> reach h' p = reach h p \<and> reach h' q \<inter> reach h' p = {}
     \<and> (\<forall>h''. wroteOnly (- allocated h) h' h'' \<longrightarrow> meaning h'' p = meaning h p)
     \<and> (\<forall>h''. wroteOnly (allocated h) h' h'' \<longrightarrow> meaning h'' q = meaning h p)"

lemma via_independent:
  assumes "deep_copier f v r" and "\<And>x. content (cell x) = x"
    and reach: "reachVia content r h p \<subseteq> allocated h" and run: "run_state (copyVia content cell f p) h = (q, h')"
  shows "independentCopy (meaningVia content v) (reachVia content r) h p q h'"
proof -
  note d = deep_via [OF assms(1,2)]
  have "allocated h \<inter> newSince h h' = {}" by (auto simp: allocated_def newSince_def)
  then show ?thesis
    using deep_copier.copied [OF d reach run] deep_copier.original_kept [OF d reach run]
      deep_copier.independent [OF d reach run] nil_via [OF run] reach
    unfolding independentCopy_def by fastforce
qed

text \<open>The pointers that \<^verbatim>\<open>DeepCopy\<close> and \<^verbatim>\<open>DeepCopyObject\<close> take, and what they mean.\<close>

abbreviation snrPtrMeaning where
  "snrPtrMeaning metaMeaning \<equiv> meaningVia snrOf (snrMeaning metaMeaning)"

abbreviation snrPtrReach where
  "snrPtrReach metaReach \<equiv> reachVia snrOf (snrReach metaReach)"

abbreviation snrListMeaning where
  "snrListMeaning listMeaning metaMeaning \<equiv> meaningVia snrListOf (listMeaningOf snrsOf listMeaning (snrMeaning metaMeaning))"

abbreviation snrListReach where
  "snrListReach listReach metaReach \<equiv> reachVia snrListOf (listReachOf snrsOf listReach (snrReach metaReach))"

abbreviation configListMeaning where
  "configListMeaning listMeaning metaMeaning tolMeaning \<equiv>
     meaningVia configListOf (listMeaningOf configsOf listMeaning (configMeaning metaMeaning tolMeaning))"

abbreviation configListReach where
  "configListReach listReach metaReach tolReach \<equiv>
     reachVia configListOf (listReachOf configsOf listReach (configReach metaReach tolReach))"

lemma object_independent:
  assumes "deep_copier f v r" and "\<And>x. content (cell x) = x" and "reachVia content r h p \<subseteq> allocated h"
    and "run_state (asObject wrap (copyVia content cell f p)) h = (ob, h')"
  shows "\<exists>q. ob = map_option wrap q \<and> independentCopy (meaningVia content v) (reachVia content r) h p q h'"
  using nil_object [OF assms(4)] via_independent [OF assms(1-3)] by blast

lemma template_list_copies_independent:
  assumes "deep_copier copyListMeta listMeaning listReach" and "deep_copier copyMeta metaMeaning metaReach"
    and "reachVia templateListOf (listReachOf templatesOf listReach (templateReach metaReach)) h p \<subseteq> allocated h"
    and "run_state (SelfNodeRemediationTemplateList_DeepCopyObject copyListMeta copyMeta p) h = (ob, h')"
  shows "\<exists>q. ob = map_option TemplateListObject q
     \<and> independentCopy (meaningVia templateListOf (listMeaningOf templatesOf listMeaning (templateMeaning metaMeaning)))
         (reachVia templateListOf (listReachOf templatesOf listReach (templateReach metaReach))) h p q h'"
  by (rule object_independent [OF deep_list [where itemsCell = TemplatesCell, OF assms(1) deep_template [OF assms(2)]] _ assms(3), where cell = TemplateListCell])
    (use assms(4) in \<open>simp_all add: SelfNodeRemediationTemplateList_DeepCopyObject_def SelfNodeRemediationTemplateList_DeepCopy_def lists_alike\<close>)

lemma remediation_copies_independent:
  assumes "deep_copier copyMeta metaMeaning metaReach" and "snrPtrReach metaReach h p \<subseteq> allocated h"
    and "run_state (SelfNodeRemediation_DeepCopy copyMeta p) h = (q, h')"
  shows "independentCopy (snrPtrMeaning metaMeaning) (snrPtrReach metaReach) h p q h'"
  by (rule via_independent [OF deep_snr [OF assms(1)] _ assms(2), where cell = SnrCell])
    (use assms(3) in \<open>simp_all add: SelfNodeRemediation_DeepCopy_def\<close>)

section \<open>Properties\<close>

text \<open>
  C37: the generated copy of a list of remediations is deep. When the copies of the API machinery's
  metadata are deep, \<^verbatim>\<open>DeepCopyObject\<close> answers a nil interface for nil, and otherwise a list in new
  memory that means the same, shares no cell with the original, and stays the same whatever is later
  written to the older memory, as the original does whatever is written to the newer.
\<close>

theorem remediation_list_copies_independent:
  assumes "deep_copier copyListMeta listMeaning listReach" and "deep_copier copyMeta metaMeaning metaReach"
    and "snrListReach listReach metaReach h p \<subseteq> allocated h"
    and "run_state (SelfNodeRemediationList_DeepCopyObject copyListMeta copyMeta p) h = (ob, h')"
  shows "\<exists>q. ob = map_option SnrListObject q
     \<and> independentCopy (snrListMeaning listMeaning metaMeaning) (snrListReach listReach metaReach) h p q h'"
  by (rule object_independent [OF deep_list [where itemsCell = SnrsCell, OF assms(1) deep_snr [OF assms(2)]] _ assms(3), where cell = SnrListCell])
    (use assms(4) in \<open>simp_all add: SelfNodeRemediationList_DeepCopyObject_def SelfNodeRemediationList_DeepCopy_def lists_alike\<close>)

text \<open>
  An instance: the metadata are a pointer to the labels, a list's metadata have no pointers, and the
  store holds a list with one remediation.
\<close>

type_synonym exampleHeap = "(addr option, unit, addr option, gomap) heap"

fun labelsIn :: "(addr option, unit, addr option, gomap) cell \<Rightarrow> gomap" where
  "labelsIn (ExtCell m) = m" | "labelsIn _ = None"

definition labelledMeta :: "exampleHeap \<Rightarrow> addr option \<Rightarrow> ObjectMeta" where
  "labelledMeta h p = emptyMeta\<lparr>om_Labels := (case derefPtr h p of None \<Rightarrow> None | Some c \<Rightarrow> labelsIn c)\<rparr>"

lemma labelledMeta_deep: "deep_copier copyPtr labelledMeta reachPtr"
  by (rule deep_struct [OF ptr.deep_copier_axioms, where get = "\<lambda>p. p" and put = "\<lambda>q p. q" and rest = "\<lambda>p. ()"
        and F = "\<lambda>v u. emptyMeta\<lparr>om_Labels := (case v of None \<Rightarrow> None | Some c \<Rightarrow> labelsIn c)\<rparr>"])
    (simp_all add: labelledMeta_def monad_laws)

definition exampleHeap :: exampleHeap where
  "exampleHeap =
     [TimeCell 5, StringCell ''Pre-Reboot-Completed'', ConditionsCell [], ExtCell (Some [''l'' \<mapsto> ''v'']),
      SnrsCell [\<lparr>sn_TypeMeta = (''SelfNodeRemediation'', ''v1alpha1''), sn_ObjectMeta = Some 3,
        sn_Spec = \<lparr>ss_RemediationStrategy = ''Automatic''\<rparr>,
        sn_Status = \<lparr>sr_TimeAssumedRebooted = Some 0, sr_Phase = Some 1, sr_LastError = '''', sr_Conditions = Some 2\<rparr>\<rparr>],
      SnrListCell \<lparr>li_TypeMeta = (''SelfNodeRemediationList'', ''v1alpha1''), li_ListMeta = (), li_Items = Some 4\<rparr>]"

lemmas copy_run_defs = exampleHeap_def SelfNodeRemediationList_DeepCopyObject_def SelfNodeRemediationList_DeepCopy_def
  SelfNodeRemediationList_DeepCopyInto_def SelfNodeRemediation_DeepCopyInto_def SelfNodeRemediationStatus_DeepCopyInto_def
  asObject_def copyVia_def copyPtr_def

theorem remediation_list_copies_independent_witness:
  "\<exists>h'. run_state (SelfNodeRemediationList_DeepCopyObject returnM copyPtr (Some 5)) exampleHeap = (Some (SnrListObject 11), h')
     \<and> independentCopy (snrListMeaning (\<lambda>h u. u) labelledMeta) (snrListReach (\<lambda>h u. {}) reachPtr) exampleHeap (Some 5) (Some 11) h'"
proof -
  have "snrListReach (\<lambda>h u. {}) reachPtr exampleHeap (Some 5) \<subseteq> allocated exampleHeap"
    by (auto simp: reachVia_def listReachOf_def snrReach_def statusReach_def reachPtr_def allocated_def exampleHeap_def)
  from remediation_list_copies_independent [OF deep_plain labelledMeta_deep this prod.collapse [symmetric]]
  obtain q where q: "fst (run_state (SelfNodeRemediationList_DeepCopyObject returnM copyPtr (Some 5)) exampleHeap) = map_option SnrListObject q"
    "independentCopy (snrListMeaning (\<lambda>h u. u) labelledMeta) (snrListReach (\<lambda>h u. {}) reachPtr) exampleHeap (Some 5) q
      (snd (run_state (SelfNodeRemediationList_DeepCopyObject returnM copyPtr (Some 5)) exampleHeap))"
    by blast
  have "fst (run_state (SelfNodeRemediationList_DeepCopyObject returnM copyPtr (Some 5)) exampleHeap) = Some (SnrListObject 11)"
    by (simp add: copy_run_defs)
  moreover from this q(1) have "q = Some 11" by (cases q) simp_all
  ultimately show ?thesis using q(2) by (metis prod.collapse)
qed

text \<open>
  The same holds for a list of configurations, with its seven pointers to numbers and durations
  and the slice of tolerations, each of which is copied or stays nil.
\<close>

theorem config_list_copies_independent:
  assumes "deep_copier copyListMeta listMeaning listReach" and "deep_copier copyMeta metaMeaning metaReach"
    and "deep_copier copyToleration tolMeaning tolReach"
    and "configListReach listReach metaReach tolReach h p \<subseteq> allocated h"
    and "run_state (SelfNodeRemediationConfigList_DeepCopyObject copyListMeta copyMeta copyToleration p) h = (ob, h')"
  shows "\<exists>q. ob = map_option ConfigListObject q
     \<and> independentCopy (configListMeaning listMeaning metaMeaning tolMeaning) (configListReach listReach metaReach tolReach) h p q h'"
  by (rule object_independent [OF deep_list [where itemsCell = ConfigsCell, OF assms(1) deep_config [OF assms(2,3)]] _ assms(4), where cell = ConfigListCell])
    (use assms(5) in \<open>simp_all add: SelfNodeRemediationConfigList_DeepCopyObject_def SelfNodeRemediationConfigList_DeepCopy_def lists_alike\<close>)

text \<open>The configuration of the instance has one duration and one toleration with a pointer.\<close>

definition labelledToleration :: "exampleHeap \<Rightarrow> addr option \<Rightarrow> Toleration" where
  "labelledToleration h p =
     \<lparr>tol_Key = (case derefPtr h p of Some (StringCell s) \<Rightarrow> s | _ \<Rightarrow> ''''), tol_Operator = '''', tol_Value = '''', tol_Effect = ''''\<rparr>"

lemma labelledToleration_deep: "deep_copier copyPtr labelledToleration reachPtr"
  by (rule deep_struct [OF ptr.deep_copier_axioms, where get = "\<lambda>p. p" and put = "\<lambda>q p. q" and rest = "\<lambda>p. ()"
        and F = "\<lambda>v u. \<lparr>tol_Key = (case v of Some (StringCell s) \<Rightarrow> s | _ \<Rightarrow> ''''), tol_Operator = '''', tol_Value = '''', tol_Effect = ''''\<rparr>"])
    (simp_all add: labelledToleration_def monad_laws)

definition configHeap :: exampleHeap where
  "configHeap =
     [DurationCell 15, StringCell ''key'', TolerationsCell [Some 1, None],
      ConfigsCell [\<lparr>co_TypeMeta = (''SelfNodeRemediationConfig'', ''v1alpha1''), co_ObjectMeta = None,
        co_Spec = \<lparr>cf_WatchdogFilePath = ''/dev/watchdog'', cf_SafeTimeToAssumeNodeRebootedSeconds = None,
          cf_PeerApiServerTimeout = None, cf_ApiCheckInterval = Some 0, cf_PeerUpdateInterval = None,
          cf_ApiServerTimeout = None, cf_PeerDialTimeout = None, cf_PeerRequestTimeout = None,
          cf_MaxApiErrorThreshold = 3, cf_IsSoftwareRebootEnabled = True, cf_EndpointHealthCheckUrl = '''',
          cf_HostPort = 30001, cf_CustomDsTolerations = Some 2\<rparr>, co_Status = ()\<rparr>],
      ConfigListCell \<lparr>li_TypeMeta = (''SelfNodeRemediationConfigList'', ''v1alpha1''), li_ListMeta = (), li_Items = Some 3\<rparr>]"

lemmas config_copy_defs = configHeap_def SelfNodeRemediationConfigList_DeepCopyObject_def SelfNodeRemediationConfigList_DeepCopy_def
  SelfNodeRemediationConfigList_DeepCopyInto_def SelfNodeRemediationConfig_DeepCopyInto_def
  SelfNodeRemediationConfigSpec_DeepCopyInto_def asObject_def copyVia_def copyPtr_def

abbreviation configHeapCopy where
  "configHeapCopy \<equiv> run_state (SelfNodeRemediationConfigList_DeepCopyObject returnM copyPtr copyPtr (Some 4)) configHeap"

theorem config_list_copies_independent_witness:
  "\<exists>h'. configHeapCopy = (Some (ConfigListObject 9), h')
     \<and> independentCopy (configListMeaning (\<lambda>h u. u) labelledMeta labelledToleration) (configListReach (\<lambda>h u. {}) reachPtr reachPtr)
         configHeap (Some 4) (Some 9) h'"
proof -
  have "configListReach (\<lambda>h u. {}) reachPtr reachPtr configHeap (Some 4) \<subseteq> allocated configHeap"
    by (auto simp: reachVia_def listReachOf_def configReach_def configSpecReach_def reachPtr_def allocated_def configHeap_def)
  from config_list_copies_independent [OF deep_plain labelledMeta_deep labelledToleration_deep this prod.collapse [symmetric]]
  obtain q where q: "fst configHeapCopy = map_option ConfigListObject q"
    "independentCopy (configListMeaning (\<lambda>h u. u) labelledMeta labelledToleration) (configListReach (\<lambda>h u. {}) reachPtr reachPtr)
      configHeap (Some 4) q (snd configHeapCopy)"
    by blast
  have "fst configHeapCopy = Some (ConfigListObject 9)"
    by (simp add: config_copy_defs)
  moreover from this q(1) have "q = Some 9" by (cases q) simp_all
  ultimately show ?thesis using q(2) by (metis prod.collapse)
qed

end
