(* ===== verification/Owner_And_Name.thy ===== *)
theory Owner_And_Name
  imports K8s_Client
begin

text \<open>
  From a remediation to the node it is about (\<^verbatim>\<open>controllers/owner_and_name.go\<close>): the owner decides
  whether the name comes from the remediation itself or from the machine of the node.
\<close>

section \<open>Definitions\<close>

definition NodeNameAnnotation :: string where
  "NodeNameAnnotation = ''remediation.medik8s.io/node-name''"

fun findOwner :: "string \<Rightarrow> OwnerReference list \<Rightarrow> OwnerReference option" where
  "findOwner kind [] = None"
| "findOwner kind (ref # refs) = (if or_Kind ref = kind then Some ref else findOwner kind refs)"

definition isOwnedByNHC :: "SelfNodeRemediation \<Rightarrow> OwnerReference option" where
  "isOwnedByNHC snr = findOwner ''NodeHealthCheck'' (om_OwnerReferences (snr_Meta snr))"

definition isOwnedByMachine :: "SelfNodeRemediation \<Rightarrow> OwnerReference option" where
  "isOwnedByMachine snr = findOwner ''Machine'' (om_OwnerReferences (snr_Meta snr))"

definition getNodeNameDirect :: "SelfNodeRemediation \<Rightarrow> string" where
  "getNodeNameDirect snr =
     (case map_get (om_Annotations (snr_Meta snr)) NodeNameAnnotation of
        Some nodeName \<Rightarrow> nodeName
      | None \<Rightarrow> om_Name (snr_Meta snr))"

definition getNodeNameFromMachine ::
  "'w client \<Rightarrow> OwnerReference \<Rightarrow> string \<Rightarrow> ('w, string result) state" where
  "getNodeNameFromMachine cl ref ns = do {
     r \<leftarrow> cl_GetMachine cl ns (or_Name ref);
     returnM (case r of
         Inl err \<Rightarrow> Inl err
       | Inr machine \<Rightarrow>
           (case m_NodeRef machine of
              None \<Rightarrow> Inl (ErrMsg ''nodeRef is nil'')
            | Some nodeName \<Rightarrow> Inr nodeName))
   }"

definition getNodeName :: "'w client \<Rightarrow> SelfNodeRemediation \<Rightarrow> ('w, string result) state" where
  "getNodeName cl snr =
     (case isOwnedByNHC snr of
        Some _ \<Rightarrow> returnM (Inr (getNodeNameDirect snr))
      | None \<Rightarrow>
          (case isOwnedByMachine snr of
             Some ref \<Rightarrow> getNodeNameFromMachine cl ref (om_Namespace (snr_Meta snr))
           | None \<Rightarrow> returnM (Inr (getNodeNameDirect snr))))"

text \<open>The result is whether the remediation matches, and the node name where it was looked up.\<close>

definition IsSNRMatching ::
  "'w client \<Rightarrow> SelfNodeRemediation \<Rightarrow> string \<Rightarrow> string \<Rightarrow> ('w, (bool \<times> string) result) state" where
  "IsSNRMatching cl snr nodeName machineName =
     (if (case isOwnedByMachine snr of Some ref \<Rightarrow> machineName = or_Name ref | None \<Rightarrow> False)
      then returnM (Inr (True, ''''))
      else do {
        r \<leftarrow> getNodeName cl snr;
        returnM (case r of
            Inl err \<Rightarrow> Inl err
          | Inr snrNodeName \<Rightarrow> Inr (snrNodeName = nodeName, snrNodeName))
      })"

section \<open>Lemmas\<close>

lemma findOwner_Some: "findOwner k refs = Some ref \<Longrightarrow> ref \<in> set refs \<and> or_Kind ref = k"
  by (induction refs) (auto split: if_splits)

lemma findOwner_None: "findOwner k refs = None \<longleftrightarrow> (\<forall>ref \<in> set refs. or_Kind ref \<noteq> k)"
  by (induction refs) auto

text \<open>Remediations not owned by a machine, or owned by a health check as well, need no API call.\<close>

lemma getNodeName_direct:
  "isOwnedByNHC snr \<noteq> None \<or> isOwnedByMachine snr = None \<Longrightarrow>
   run_state (getNodeName cl snr) w = (Inr (getNodeNameDirect snr), w)"
  by (auto simp: getNodeName_def split: option.splits)

lemma IsSNRMatching_direct:
  "isOwnedByMachine snr = None \<Longrightarrow>
   run_state (IsSNRMatching cl snr nodeName machineName) w
     = (Inr (getNodeNameDirect snr = nodeName, getNodeNameDirect snr), w)"
  by (simp add: IsSNRMatching_def getNodeName_direct)

text \<open>A positive answer is about the given node or about the given machine.\<close>

lemma IsSNRMatching_True:
  assumes "run_state (IsSNRMatching cl snr nodeName machineName) w = (Inr (True, n), w')"
  shows "(\<exists>ref. isOwnedByMachine snr = Some ref \<and> or_Name ref = machineName)
     \<or> n = nodeName \<and> run_state (getNodeName cl snr) w = (Inr nodeName, w')"
  using assms by (auto simp: IsSNRMatching_def split: if_splits option.splits prod.splits sum.splits)

end
