(* ===== verification/Taints.thy ===== *)
theory Taints
  imports K8s_Objects
begin

text \<open>
  Taint lists and the support flags of the out-of-service taint (\<^verbatim>\<open>pkg/utils/taints.go\<close>).
\<close>

section \<open>Taint lists\<close>

fun TaintExists :: "Taint list \<Rightarrow> Taint \<Rightarrow> bool" where
  "TaintExists [] taintToFind = False"
| "TaintExists (taint # taints) taintToFind =
     (if MatchTaint taint taintToFind then True else TaintExists taints taintToFind)"

fun deleteTaintLoop :: "Taint list \<Rightarrow> Taint \<Rightarrow> Taint list \<Rightarrow> bool \<Rightarrow> Taint list \<times> bool" where
  "deleteTaintLoop [] taintToDelete newTaints deleted = (newTaints, deleted)"
| "deleteTaintLoop (taint # taints) taintToDelete newTaints deleted =
     (if MatchTaint taintToDelete taint then deleteTaintLoop taints taintToDelete newTaints True
      else deleteTaintLoop taints taintToDelete (newTaints @ [taint]) deleted)"

definition DeleteTaint :: "Taint list \<Rightarrow> Taint \<Rightarrow> Taint list \<times> bool" where
  "DeleteTaint taints taintToDelete = deleteTaintLoop taints taintToDelete [] False"

section \<open>Support of the out-of-service taint\<close>

record OutOfServiceFlags =
  IsOutOfServiceTaintSupported :: bool
  IsOutOfServiceTaintGA :: bool

record VersionInfo =
  vi_Major :: string
  vi_Minor :: string

definition minK8sMajorVersionOutOfServiceTaint :: int where
  "minK8sMajorVersionOutOfServiceTaint = 1"

definition minK8sMinorVersionSupportingOutOfServiceTaint :: int where
  "minK8sMinorVersionSupportingOutOfServiceTaint = 26"

definition minK8sMinorVersionGAOutOfServiceTaint :: int where
  "minK8sMinorVersionGAOutOfServiceTaint = 28"

text \<open>The match of the pattern for leading digits.\<close>

definition leadingDigits :: "string \<Rightarrow> string" where
  "leadingDigits s = takeWhile is_digit s"

definition setOutOfTaintFlags ::
  "VersionInfo \<Rightarrow> OutOfServiceFlags \<Rightarrow> error option \<times> OutOfServiceFlags" where
  "setOutOfTaintFlags version flags =
     (case Atoi (vi_Major version) of
        Inl err \<Rightarrow> (Some err, flags)
      | Inr majorVer \<Rightarrow>
          (case Atoi (leadingDigits (vi_Minor version)) of
             Inl err \<Rightarrow> (Some err, flags)
           | Inr minorVer \<Rightarrow>
               (None,
                flags\<lparr>IsOutOfServiceTaintSupported :=
                         (majorVer > minK8sMajorVersionOutOfServiceTaint
                          \<or> majorVer = minK8sMajorVersionOutOfServiceTaint
                            \<and> minorVer \<ge> minK8sMinorVersionSupportingOutOfServiceTaint),
                       IsOutOfServiceTaintGA :=
                         (majorVer > minK8sMajorVersionOutOfServiceTaint
                          \<or> majorVer = minK8sMajorVersionOutOfServiceTaint
                            \<and> minorVer \<ge> minK8sMinorVersionGAOutOfServiceTaint)\<rparr>)))"

text \<open>
  One attempt: what \<^verbatim>\<open>kubernetes.NewForConfig\<close> and \<^verbatim>\<open>ServerVersion\<close> answer is a parameter, each
  a possibly nil pointer with a possibly nil error.
\<close>

record VersionAttempt =
  va_ClientSet :: "bool"
  va_ClientErr :: "error option"
  va_Version :: "VersionInfo option"
  va_VersionErr :: "error option"

definition initOutOfServiceTaintFlags ::
  "VersionAttempt \<Rightarrow> OutOfServiceFlags \<Rightarrow> error option \<times> OutOfServiceFlags" where
  "initOutOfServiceTaintFlags a flags =
     (if va_ClientErr a \<noteq> None \<or> \<not> va_ClientSet a
      then (if \<not> va_ClientSet a then Some (ErrMsg ''k8s client set is nil'') else va_ClientErr a, flags)
      else case va_Version a of
             None \<Rightarrow> (Some (ErrMsg ''k8s server version is nil''), flags)
           | Some v \<Rightarrow> if va_VersionErr a \<noteq> None then (va_VersionErr a, flags)
                       else setOutOfTaintFlags v flags)"

text \<open>
  The retries: one element per attempt that the poll starts before its deadline (interval 2 s,
  deadline 10 s, first attempt at once). The poll stops at the first success; the error returned
  is that of the last attempt.
\<close>

fun pollFlags ::
  "error option \<Rightarrow> VersionAttempt list \<Rightarrow> OutOfServiceFlags \<Rightarrow> error option \<times> OutOfServiceFlags" where
  "pollFlags err [] flags = (err, flags)"
| "pollFlags err (a # as) flags =
     (case initOutOfServiceTaintFlags a flags of
        (Some e, flags') \<Rightarrow> pollFlags (Some e) as flags'
      | (None, flags') \<Rightarrow> (None, flags'))"

definition InitOutOfServiceTaintFlagsWithRetry ::
  "VersionAttempt list \<Rightarrow> OutOfServiceFlags \<Rightarrow> error option \<times> OutOfServiceFlags" where
  "InitOutOfServiceTaintFlagsWithRetry attempts flags = pollFlags None attempts flags"

section \<open>Lemmas on taint lists\<close>

lemma TaintExists_iff: "TaintExists ts t \<longleftrightarrow> (\<exists>u \<in> set ts. MatchTaint u t)"
  by (induction ts) auto

lemma deleteTaintLoop_eq:
  "deleteTaintLoop ts t acc d = (acc @ filter (\<lambda>u. \<not> MatchTaint t u) ts, d \<or> TaintExists ts t)"
  by (induction ts arbitrary: acc d) (auto simp: MatchTaint_sym)

lemma DeleteTaint_eq: "DeleteTaint ts t = (filter (\<lambda>u. \<not> MatchTaint t u) ts, TaintExists ts t)"
  by (simp add: DeleteTaint_def deleteTaintLoop_eq)

lemma TaintExists_append [simp]: "TaintExists (ts @ us) t \<longleftrightarrow> TaintExists ts t \<or> TaintExists us t"
  by (auto simp: TaintExists_iff)

lemma TaintExists_filter_same [simp]: "\<not> TaintExists (filter (\<lambda>u. \<not> MatchTaint t u) ts) t"
  by (auto simp: TaintExists_iff MatchTaint_sym)

lemma TaintExists_filter_other:
  "\<not> MatchTaint t v \<Longrightarrow> TaintExists (filter (\<lambda>u. \<not> MatchTaint t u) ts) v \<longleftrightarrow> TaintExists ts v"
  by (auto simp: TaintExists_iff MatchTaint_def)

section \<open>Lemmas on the flags\<close>

definition flags_ok :: "OutOfServiceFlags \<Rightarrow> bool" where
  "flags_ok f \<longleftrightarrow> (IsOutOfServiceTaintGA f \<longrightarrow> IsOutOfServiceTaintSupported f)"

lemmas version_consts = minK8sMajorVersionOutOfServiceTaint_def
  minK8sMinorVersionSupportingOutOfServiceTaint_def minK8sMinorVersionGAOutOfServiceTaint_def

lemma setOutOfTaintFlags_ok:
  "flags_ok f \<Longrightarrow> flags_ok (snd (setOutOfTaintFlags v f))"
  by (auto simp: setOutOfTaintFlags_def flags_ok_def version_consts split: sum.splits)

lemma initOutOfServiceTaintFlags_ok:
  "flags_ok f \<Longrightarrow> flags_ok (snd (initOutOfServiceTaintFlags a f))"
  by (auto simp: initOutOfServiceTaintFlags_def setOutOfTaintFlags_ok split: option.splits)

lemma initOutOfServiceTaintFlags_err:
  "initOutOfServiceTaintFlags a f = (Some e, f') \<Longrightarrow> f' = f"
  by (auto simp: initOutOfServiceTaintFlags_def setOutOfTaintFlags_def
      split: option.splits if_splits sum.splits)

lemma pollFlags_ok: "flags_ok f \<Longrightarrow> flags_ok (snd (pollFlags e as f))"
proof (induction as arbitrary: e f)
  case (Cons a as)
  then show ?case
    using initOutOfServiceTaintFlags_ok [of f a] by (auto split: prod.splits option.splits)
qed simp

text \<open>The poll fails only when every attempt fails, and then the flags are as before.\<close>

lemma pollFlags_fail:
  "pollFlags e as f = (Some e', f') \<Longrightarrow>
   f' = f \<and> (\<forall>a \<in> set as. fst (initOutOfServiceTaintFlags a f) \<noteq> None)"
proof (induction as arbitrary: e f)
  case (Cons a as)
  then show ?case by (auto split: prod.splits option.splits dest: initOutOfServiceTaintFlags_err)
qed simp

section \<open>Properties\<close>

text \<open>
  Deleting a taint removes every taint with its key and effect and keeps all others in their
  order; it reports a deletion exactly when there was such a taint; and deleting a taint that was
  just appended gives the list without it back.
\<close>

theorem DeleteTaint_contract:
  "fst (DeleteTaint ts t) = filter (\<lambda>u. \<not> MatchTaint t u) ts
   \<and> (snd (DeleteTaint ts t) \<longleftrightarrow> TaintExists ts t)
   \<and> \<not> TaintExists (fst (DeleteTaint ts t)) t
   \<and> fst (DeleteTaint (ts @ [t]) t) = (if TaintExists ts t then fst (DeleteTaint ts t) else ts)"
proof -
  have "fst (DeleteTaint (ts @ [t]) t) = ts" if "\<not> TaintExists ts t"
    using that by (auto simp: DeleteTaint_eq TaintExists_iff MatchTaint_def intro!: filter_True)
  then show ?thesis
    by (auto simp: DeleteTaint_eq MatchTaint_refl)
qed

text \<open>
  The start-up poll for the version of the server. When it reports an error, every attempt
  failed and the flags are as they were; when it reports none although there were attempts, one of
  them succeeded and decided the flags. Since both are decided together the taint is never called
  generally available where it is not supported.
\<close>

theorem taint_flags_poll:
  assumes "InitOutOfServiceTaintFlagsWithRetry attempts f = (err, f')" and "attempts \<noteq> []"
  shows "(if err = None
          then \<exists>a \<in> set attempts. initOutOfServiceTaintFlags a f = (None, f')
          else f' = f \<and> (\<forall>a \<in> set attempts. fst (initOutOfServiceTaintFlags a f) \<noteq> None))
     \<and> (flags_ok f \<longrightarrow> flags_ok f')"
proof -
  have success: "\<exists>a \<in> set as. initOutOfServiceTaintFlags a f = (None, f')"
    if "pollFlags e as f = (None, f')" "as \<noteq> []" for e as
    using that
  proof (induction as arbitrary: e)
    case (Cons a as)
    show ?case
    proof (cases "initOutOfServiceTaintFlags a f")
      case (Pair r g)
      with Cons show ?thesis
        by (cases r; cases as) (auto dest: initOutOfServiceTaintFlags_err)
    qed
  qed simp
  show ?thesis
  proof (cases err)
    case None
    with success assms pollFlags_ok [of f None attempts] show ?thesis
      by (simp add: InitOutOfServiceTaintFlagsWithRetry_def)
  next
    case (Some e)
    with pollFlags_fail [of None attempts f e f'] assms show ?thesis
      by (auto simp: InitOutOfServiceTaintFlagsWithRetry_def)
  qed
qed

definition exampleAttempt :: "string \<Rightarrow> VersionAttempt" where
  "exampleAttempt minor =
     \<lparr>va_ClientSet = True, va_ClientErr = None, va_Version = Some \<lparr>vi_Major = ''1'', vi_Minor = minor\<rparr>,
      va_VersionErr = None\<rparr>"

definition noFlags :: OutOfServiceFlags where
  "noFlags = \<lparr>IsOutOfServiceTaintSupported = False, IsOutOfServiceTaintGA = False\<rparr>"

lemma Atoi_small_literals: "Atoi ''1'' = Inr 1" "Atoi ''27'' = Inr 27"
  by code_simp+

theorem taint_flags_poll_witness:
  "InitOutOfServiceTaintFlagsWithRetry [(exampleAttempt ''27+'')\<lparr>va_ClientSet := False\<rparr>, exampleAttempt ''27+''] noFlags
     = (None, \<lparr>IsOutOfServiceTaintSupported = True, IsOutOfServiceTaintGA = False\<rparr>)
   \<and> flags_ok \<lparr>IsOutOfServiceTaintSupported = True, IsOutOfServiceTaintGA = False\<rparr>"
proof -
  have r: "InitOutOfServiceTaintFlagsWithRetry [(exampleAttempt ''27+'')\<lparr>va_ClientSet := False\<rparr>, exampleAttempt ''27+''] noFlags
     = (None, \<lparr>IsOutOfServiceTaintSupported = True, IsOutOfServiceTaintGA = False\<rparr>)"
    by (simp add: InitOutOfServiceTaintFlagsWithRetry_def initOutOfServiceTaintFlags_def exampleAttempt_def noFlags_def
        setOutOfTaintFlags_def leadingDigits_def Atoi_small_literals version_consts is_digit_def)
  from taint_flags_poll [OF r] r show ?thesis by (simp add: flags_ok_def noFlags_def)
qed

end
