(* ===== verification/Batches.thy ===== *)
theory Batches
  imports Prelude
begin

text \<open>
  How an agent splits its peers into batches (\<^verbatim>\<open>pkg/utils/peers.go\<close>). The size of the next
  batch is used twice: by the agent, which asks its peers batch by batch, and by the manager,
  which counts the batches to know how long the agent may need. The interface between the two
  is the locale \<^verbatim>\<open>batching\<close>.
\<close>

section \<open>Batch sizes\<close>

definition MinNrOfNodesInBatch :: int where
  "MinNrOfNodesInBatch = 3"

definition MaxNrOfBatchesAfterFirst :: int where
  "MaxNrOfBatchesAfterFirst = 10"

definition GetNextBatchSize :: "int \<Rightarrow> int \<Rightarrow> int" where
  "GetNextBatchSize totalNrOfNodes remainingNrOfNodes =
     (let isFirstBatch = (totalNrOfNodes = remainingNrOfNodes);
          batchSize =
            (if isFirstBatch then MinNrOfNodesInBatch
             else let b = go_div (totalNrOfNodes - MinNrOfNodesInBatch) MaxNrOfBatchesAfterFirst
                  in if b < MinNrOfNodesInBatch then MinNrOfNodesInBatch else b)
      in if remainingNrOfNodes < batchSize then remainingNrOfNodes else batchSize)"

lemma GetNextBatchSize_pos: "0 < r \<Longrightarrow> 0 < GetNextBatchSize t r"
  by (simp add: GetNextBatchSize_def Let_def MinNrOfNodesInBatch_def)

lemma GetNextBatchSize_le: "GetNextBatchSize t r \<le> r"
  by (simp add: GetNextBatchSize_def Let_def)

text \<open>The loop of \<^verbatim>\<open>GetNrOfBatches\<close>, with its two local variables as arguments.\<close>

function nrOfBatchesLoop :: "int \<Rightarrow> int \<Rightarrow> int \<Rightarrow> int" where
  "nrOfBatchesLoop totalNrOfNodes nrOfRemainingNodes nrOfBatches =
     (if 0 < nrOfRemainingNodes
      then nrOfBatchesLoop totalNrOfNodes
             (nrOfRemainingNodes - GetNextBatchSize totalNrOfNodes nrOfRemainingNodes) (nrOfBatches + 1)
      else nrOfBatches)"
  by pat_completeness auto
termination
proof (relation "measure (\<lambda>(t, r, n). nat r)")
  fix t r n :: int
  assume "0 < r"
  then show "((t, r - GetNextBatchSize t r, n + 1), t, r, n) \<in> measure (\<lambda>(t, r, n). nat r)"
    using GetNextBatchSize_pos [of r t] by simp
qed simp

declare nrOfBatchesLoop.simps [simp del]

definition GetNrOfBatches :: "int \<Rightarrow> int" where
  "GetNrOfBatches totalNrOfNodes = nrOfBatchesLoop totalNrOfNodes totalNrOfNodes 0"

section \<open>The interface between asking and counting\<close>

text \<open>
  The sizes of the batches a client makes when it asks \<^term>\<open>next t r\<close> of its \<^term>\<open>r\<close> remaining
  peers at a time. The guard on the size makes the definition total for every \<^term>\<open>next\<close>.
\<close>

function batchSizes :: "(int \<Rightarrow> int \<Rightarrow> int) \<Rightarrow> int \<Rightarrow> int \<Rightarrow> int list" where
  "batchSizes next t r =
     (if 0 < r \<and> 0 < next t r then next t r # batchSizes next t (r - next t r) else [])"
  by pat_completeness auto
termination
  by (relation "measure (\<lambda>(next, t, r). nat r)") auto

declare batchSizes.simps [simp del]

locale batching =
  fixes nextBatch :: "int \<Rightarrow> int \<Rightarrow> int"
  assumes nextBatch_pos: "0 < r \<Longrightarrow> 0 < nextBatch t r"
    and nextBatch_le: "0 < r \<Longrightarrow> nextBatch t r \<le> r"
begin

lemma batchSizes_step:
  "0 < r \<Longrightarrow> batchSizes nextBatch t r = nextBatch t r # batchSizes nextBatch t (r - nextBatch t r)"
  by (simp add: batchSizes.simps [of nextBatch t r] nextBatch_pos)

lemma batchSizes_done: "r \<le> 0 \<Longrightarrow> batchSizes nextBatch t r = []"
  by (simp add: batchSizes.simps)

text \<open>Induction over the batches.\<close>

lemma batch_induct [case_names finished step]:
  assumes "\<And>r. r \<le> 0 \<Longrightarrow> P r" "\<And>r. 0 < r \<Longrightarrow> P (r - nextBatch t r) \<Longrightarrow> P r"
  shows "P r"
proof (induction "nat r" arbitrary: r rule: less_induct)
  case less
  show ?case
  proof (cases "0 < r")
    case True
    with nextBatch_pos [of r t] have "nat (r - nextBatch t r) < nat r" by simp
    with less True assms(2) show ?thesis by blast
  qed (use assms(1) in auto)
qed

text \<open>Every peer is in exactly one batch, and no batch is empty.\<close>

lemma batchSizes_sum: "0 \<le> r \<Longrightarrow> sum_list (batchSizes nextBatch t r) = r"
  by (induction r rule: batch_induct [where t = t]) (auto simp: batchSizes_done batchSizes_step nextBatch_le)

lemma batchSizes_all_pos: "b \<in> set (batchSizes nextBatch t r) \<Longrightarrow> 0 < b"
  by (induction r rule: batch_induct [where t = t]) (auto simp: batchSizes_done batchSizes_step nextBatch_pos)

lemma batchSizes_length_le: "0 \<le> r \<Longrightarrow> int (length (batchSizes nextBatch t r)) \<le> r"
proof (induction r rule: batch_induct [where t = t])
  case (step r)
  then show ?case using nextBatch_pos [of r t] nextBatch_le [of r t] by (simp add: batchSizes_step)
qed (simp add: batchSizes_done)

end

interpretation snrBatch: batching GetNextBatchSize
  by unfold_locales (simp_all add: GetNextBatchSize_pos GetNextBatchSize_le)

section \<open>Counting agrees with asking\<close>

lemma nrOfBatchesLoop_length:
  "nrOfBatchesLoop t r n = n + int (length (batchSizes GetNextBatchSize t r))"
  by (induction r arbitrary: n rule: snrBatch.batch_induct [where t = t])
    (simp_all add: nrOfBatchesLoop.simps [of t] snrBatch.batchSizes_done snrBatch.batchSizes_step)

lemma GetNrOfBatches_length: "GetNrOfBatches t = int (length (batchSizes GetNextBatchSize t t))"
  by (simp add: GetNrOfBatches_def nrOfBatchesLoop_length)

section \<open>A closed form\<close>

definition laterBatchSize :: "int \<Rightarrow> int" where
  "laterBatchSize n = max 3 ((n - 3) div 10)"

lemma GetNextBatchSize_first: "GetNextBatchSize t t = min t 3"
  by (simp add: GetNextBatchSize_def Let_def MinNrOfNodesInBatch_def)

lemma GetNextBatchSize_later: "3 < t \<Longrightarrow> r \<noteq> t \<Longrightarrow> GetNextBatchSize t r = min r (laterBatchSize t)"
  by (auto simp: GetNextBatchSize_def Let_def MinNrOfNodesInBatch_def MaxNrOfBatchesAfterFirst_def
      laterBatchSize_def go_div_nonneg)

lemma laterBatchSize_ge3: "3 \<le> laterBatchSize t"
  by (simp add: laterBatchSize_def)

lemma ceil_div_step: "0 < r \<Longrightarrow> 0 < (b::int) \<Longrightarrow> (r - min r b + b - 1) div b + 1 = (r + b - 1) div b"
proof (cases "r \<le> b")
  case True
  assume "0 < r" "0 < b"
  with True have "(b - 1) div b = 0" "(r + b - 1) div b = 1"
    by (auto simp: div_pos_pos_trivial int_div_pos_eq [where q = 1 and r = "r - 1"])
  with True show ?thesis by simp
next
  case False
  assume "0 < r" "0 < b"
  have "(r + b - 1) div b = (r - 1 + 1 * b) div b" by (simp add: algebra_simps)
  also have "\<dots> = 1 + (r - 1) div b" using \<open>0 < b\<close> by (simp only: div_mult_self1)
  finally show ?thesis using False by simp
qed

lemma later_batches:
  assumes "3 < t"
  shows "r < t \<Longrightarrow> 0 \<le> r \<Longrightarrow> int (length (batchSizes GetNextBatchSize t r))
         = (r + laterBatchSize t - 1) div laterBatchSize t"
proof (induction r rule: snrBatch.batch_induct [where t = t])
  case (finished r)
  with laterBatchSize_ge3 [of t] show ?case by (simp add: snrBatch.batchSizes_done div_pos_pos_trivial)
next
  case (step r)
  let ?b = "laterBatchSize t"
  have g: "GetNextBatchSize t r = min r ?b" using assms step.prems by (simp add: GetNextBatchSize_later)
  moreover have "r - min r ?b < t" using step.hyps step.prems laterBatchSize_ge3 [of t] by linarith
  ultimately have "int (length (batchSizes GetNextBatchSize t (r - min r ?b))) = (r - min r ?b + ?b - 1) div ?b"
    using step.IH by simp
  with step g show ?case
    using ceil_div_step [of r ?b] laterBatchSize_ge3 [of t] by (simp add: snrBatch.batchSizes_step)
qed

lemma GetNrOfBatches_closed:
  "GetNrOfBatches n =
     (if n \<le> 0 then 0 else if n \<le> 3 then 1
      else 1 + (n - 3 + laterBatchSize n - 1) div laterBatchSize n)"
proof (cases "0 < n")
  case True
  show ?thesis
  proof (cases "n \<le> 3")
    case False
    with later_batches [of n "n - 3"] show ?thesis
      by (simp add: GetNrOfBatches_length snrBatch.batchSizes_step GetNextBatchSize_first)
  qed (use True in \<open>simp add: GetNrOfBatches_length snrBatch.batchSizes_step GetNextBatchSize_first
       snrBatch.batchSizes_done\<close>)
qed (simp add: GetNrOfBatches_length snrBatch.batchSizes_done)

lemma later_count_le: "3 < n \<Longrightarrow> (n - 3 + laterBatchSize n - 1) div laterBatchSize n \<le> 13"
proof -
  assume n: "3 < n"
  let ?b = "laterBatchSize n"
  have "n - 3 \<le> 10 * ((n - 3) div 10) + 9" by presburger
  then have "n - 3 \<le> 13 * ?b" by (auto simp: laterBatchSize_def max_def)
  then have "(n - 3 + ?b - 1) div ?b \<le> (14 * ?b - 1) div ?b"
    using laterBatchSize_ge3 [of n] by (intro zdiv_mono1) auto
  also have "\<dots> = 13"
    using laterBatchSize_ge3 [of n] by (intro int_div_pos_eq [where r = "?b - 1"]) auto
  finally show ?thesis .
qed

lemma GetNrOfBatches_le: "GetNrOfBatches n \<le> 14"
  using later_count_le [of n] by (simp add: GetNrOfBatches_closed)

lemma GetNrOfBatches_nonneg: "0 \<le> GetNrOfBatches n"
  by (simp add: GetNrOfBatches_length)

section \<open>Properties\<close>

text \<open>
  C33: the number of batches that the manager counts is the number of batches the agent makes of its
  peers. Every peer is in exactly one of them, the number has a closed form (a first batch of three,
  then batches of a tenth of the cluster, at least three), and it never exceeds fourteen, however
  large the cluster is.
\<close>

theorem batches_counted:
  "GetNrOfBatches n = int (length (batchSizes GetNextBatchSize n n))
   \<and> sum_list (batchSizes GetNextBatchSize n n) = max 0 n
   \<and> GetNrOfBatches n =
       (if n \<le> 0 then 0 else if n \<le> 3 then 1
        else 1 + (n - 3 + max 3 ((n - 3) div 10) - 1) div max 3 ((n - 3) div 10))
   \<and> GetNrOfBatches n \<le> 14"
proof -
  have "sum_list (batchSizes GetNextBatchSize n n) = max 0 n"
    using snrBatch.batchSizes_sum [of n n] snrBatch.batchSizes_done [of n n] by (cases "0 \<le> n") simp_all
  moreover have "GetNrOfBatches n =
       (if n \<le> 0 then 0 else if n \<le> 3 then 1
        else 1 + (n - 3 + max 3 ((n - 3) div 10) - 1) div max 3 ((n - 3) div 10))"
    using GetNrOfBatches_closed [of n] unfolding laterBatchSize_def .
  ultimately show ?thesis
    using GetNrOfBatches_length GetNrOfBatches_le by blast
qed

lemma laterBatchSize_big: "43 \<le> n \<Longrightarrow> laterBatchSize n = (n - 3) div 10"
  by (simp add: laterBatchSize_def)

lemma GetNrOfBatches_ge11: "43 \<le> n \<Longrightarrow> 11 \<le> GetNrOfBatches n"
proof -
  assume n: "43 \<le> n"
  let ?b = "laterBatchSize n"
  have b: "3 \<le> ?b" "10 * ?b \<le> n - 3"
    using n laterBatchSize_ge3 by (simp_all add: laterBatchSize_big)
  then have "(11 * ?b - 1) div ?b \<le> (n - 3 + ?b - 1) div ?b"
    by (intro zdiv_mono1) auto
  moreover have "(11 * ?b - 1) div ?b = 10"
    using b(1) by (intro int_div_pos_eq [where r = "?b - 1"]) auto
  ultimately show ?thesis using n by (simp add: GetNrOfBatches_closed)
qed

lemma GetNrOfBatches_small_mono: "n \<le> 42 \<Longrightarrow> GetNrOfBatches (n - 1) \<le> GetNrOfBatches n"
proof -
  assume "n \<le> 42"
  then have "laterBatchSize n = 3" "laterBatchSize (n - 1) = 3" by (simp_all add: laterBatchSize_def)
  then show ?thesis by (auto simp: GetNrOfBatches_closed intro: zdiv_mono1)
qed

text \<open>
  C36: the manager counts the batches for all worker nodes, while the failing agent asks one peer
  less. The count is not monotone, so the agent may make more batches than the manager allows time
  for, but never more than three more; with forty-three worker nodes it makes fourteen where the
  manager counts eleven.
\<close>

theorem batch_estimate_gap:
  "GetNrOfBatches (n - 1) \<le> GetNrOfBatches n + 3
   \<and> GetNrOfBatches (43 - 1) = 14 \<and> GetNrOfBatches 43 = 11"
proof -
  have "GetNrOfBatches (n - 1) \<le> GetNrOfBatches n + 3"
    using GetNrOfBatches_small_mono [of n] GetNrOfBatches_le [of "n - 1"] GetNrOfBatches_ge11 [of n]
    by (cases "n \<le> 42") auto
  then show ?thesis
    by (simp add: GetNrOfBatches_closed laterBatchSize_def)
qed

end
