(* ===== verification/Calculator.thy ===== *)
theory Calculator
  imports Node_Utils Batches
begin

text \<open>
  How long the manager waits before it assumes that an unhealthy node has rebooted
  (\<^verbatim>\<open>pkg/reboot/calculator.go\<close>). The remediation controller uses the calculator through the locale
  \<^verbatim>\<open>reboot_calculator\<close>: a duration it answers is never below the calculated minimum.
\<close>

section \<open>The interface the controller relies on\<close>

locale reboot_calculator =
  fixes getDuration :: "Node \<Rightarrow> ('w, duration result outcome) state"
    and minimum :: "Node \<Rightarrow> 'w \<Rightarrow> duration"
  assumes getDuration_ge:
    "run_state (getDuration node) w = (Ret (Inr d), w') \<Longrightarrow> minimum node w \<le> d"

section \<open>The calculator\<close>

definition MaxTimeForNoPeersResponse :: duration where
  "MaxTimeForNoPeersResponse = 30 * Second"

definition defaultWatchdogTimeout :: duration where
  "defaultWatchdogTimeout = 60 * Second"

record 'w calculator =
  calc_client :: "'w client"
  calc_snrConfig :: "SelfNodeRemediationConfig option"

definition NewCalculator :: "'w client \<Rightarrow> 'w calculator" where
  "NewCalculator cl = \<lparr>calc_client = cl, calc_snrConfig = None\<rparr>"

definition SetConfig :: "SelfNodeRemediationConfig option \<Rightarrow> 'w calculator \<Rightarrow> 'w calculator" where
  "SetConfig config r = r\<lparr>calc_snrConfig := config\<rparr>"

definition calcNumOfBatches :: "'w client \<Rightarrow> ('w, int result) state" where
  "calcNumOfBatches cl = do {
     r \<leftarrow> cl_ListNodes cl [ReqExists WorkerRole];
     returnM (case r of
         Inl err \<Rightarrow> Inl (Wrapped err ''failed to list worker nodes'')
       | Inr nodes \<Rightarrow> Inr (GetNrOfBatches (int (length nodes))))
   }"

text \<open>A missing pointer field of the configuration is a nil dereference.\<close>

definition calculateMinimumRebootDuration ::
  "'w client \<Rightarrow> SelfNodeRemediationConfigSpec \<Rightarrow> duration \<Rightarrow> ('w, duration result outcome) state" where
  "calculateMinimumRebootDuration cl spec watchdogTimeout =
     (case (cs_ApiCheckInterval spec, cs_ApiServerTimeout spec) of
        (Some apiCheckInterval, Some apiServerTimeout) \<Rightarrow> do {
          let apiCheckDuration = dur_mul (dur_add apiCheckInterval apiServerTimeout) (cs_MaxApiErrorThreshold spec);
          r \<leftarrow> calcNumOfBatches cl;
          case r of
            Inl err \<Rightarrow> returnM (Ret (Inl (Wrapped err ''failed to calculate number of batches'')))
          | Inr numBatches \<Rightarrow>
              (case (cs_PeerDialTimeout spec, cs_PeerRequestTimeout spec) of
                 (Some peerDialTimeout, Some peerRequestTimeout) \<Rightarrow>
                   let peerRequestsDuration = dur_mul numBatches (dur_add peerDialTimeout peerRequestTimeout);
                       peerRequestsDuration =
                         (if peerRequestsDuration < MaxTimeForNoPeersResponse then MaxTimeForNoPeersResponse
                          else peerRequestsDuration);
                       rebootDuration = dur_add watchdogTimeout (30 * Second)
                   in returnM (Ret (Inr (dur_add (dur_add apiCheckDuration peerRequestsDuration) rebootDuration)))
               | _ \<Rightarrow> returnM Panic)
        }
      | _ \<Rightarrow> returnM Panic)"

definition watchdogTimeoutOrDefault :: "Node \<Rightarrow> duration" where
  "watchdogTimeoutOrDefault node =
     (case GetWatchdogTimeout node of Inl err \<Rightarrow> defaultWatchdogTimeout | Inr d \<Rightarrow> d)"

definition GetRebootDuration :: "'w calculator \<Rightarrow> Node \<Rightarrow> ('w, duration result outcome) state" where
  "GetRebootDuration r node =
     (case calc_snrConfig r of
        None \<Rightarrow> returnM (Ret (Inl (ErrMsg ''SelfNodeRemediationConfig not set yet, can't calculate minimum reboot duration'')))
      | Some config \<Rightarrow> do {
          m \<leftarrow> calculateMinimumRebootDuration (calc_client r) (cfg_Spec config) (watchdogTimeoutOrDefault node);
          returnM (case m of
              Panic \<Rightarrow> Panic
            | Ret (Inl err) \<Rightarrow> Ret (Inl (Wrapped err ''failed to calculate minimum reboot duration''))
            | Ret (Inr minimumCalculatedRebootDuration) \<Rightarrow>
                (case cs_SafeTimeToAssumeNodeRebootedSeconds (cfg_Spec config) of
                   None \<Rightarrow> Ret (Inr minimumCalculatedRebootDuration)
                 | Some specRebootDurationSeconds \<Rightarrow>
                     let specRebootDuration = dur_mul specRebootDurationSeconds Second
                     in if specRebootDuration < minimumCalculatedRebootDuration
                        then Ret (Inr minimumCalculatedRebootDuration)
                        else Ret (Inr specRebootDuration)))
        })"

text \<open>The calculated minimum in a given state of the cluster, 0 where there is none.\<close>

definition minimumAt :: "'w calculator \<Rightarrow> Node \<Rightarrow> 'w \<Rightarrow> duration" where
  "minimumAt r node w =
     (case calc_snrConfig r of
        None \<Rightarrow> 0
      | Some config \<Rightarrow>
          (case fst (run_state (calculateMinimumRebootDuration (calc_client r) (cfg_Spec config)
                                  (watchdogTimeoutOrDefault node)) w) of
             Ret (Inr d) \<Rightarrow> d
           | _ \<Rightarrow> 0))"

section \<open>Lemmas\<close>

text \<open>The duration is the larger one of the minimum and the configured time.\<close>

lemma GetRebootDuration_max:
  assumes "run_state (GetRebootDuration r node) w = (Ret (Inr d), w')"
  shows "\<exists>config. calc_snrConfig r = Some config
     \<and> d = (case cs_SafeTimeToAssumeNodeRebootedSeconds (cfg_Spec config) of
              None \<Rightarrow> minimumAt r node w
            | Some s \<Rightarrow> max (minimumAt r node w) (dur_mul s Second))"
  using assms
  by (auto simp: GetRebootDuration_def minimumAt_def Let_def
      split: option.splits prod.splits outcome.splits sum.splits if_splits)

interpretation calc: reboot_calculator "GetRebootDuration r" "minimumAt r" for r :: "'w calculator"
  by unfold_locales (auto dest!: GetRebootDuration_max split: option.splits)

text \<open>A configuration whose pointer fields are set, with sensible values.\<close>

definition specComplete :: "SelfNodeRemediationConfigSpec \<Rightarrow> bool" where
  "specComplete spec \<longleftrightarrow>
     cs_ApiCheckInterval spec \<noteq> None \<and> cs_ApiServerTimeout spec \<noteq> None
     \<and> cs_PeerDialTimeout spec \<noteq> None \<and> cs_PeerRequestTimeout spec \<noteq> None"

text \<open>
  The minimum without overflow, as the comments of the code describe it: detecting the problem,
  asking the peers batch by batch, the watchdog, and thirty seconds to reboot.
\<close>

definition idealMinimum :: "SelfNodeRemediationConfigSpec \<Rightarrow> int \<Rightarrow> duration \<Rightarrow> duration" where
  "idealMinimum spec numBatches watchdogTimeout =
     cs_MaxApiErrorThreshold spec * (the (cs_ApiCheckInterval spec) + the (cs_ApiServerTimeout spec))
     + max (30 * Second) (numBatches * (the (cs_PeerDialTimeout spec) + the (cs_PeerRequestTimeout spec)))
     + watchdogTimeout + 30 * Second"

definition specNonneg :: "SelfNodeRemediationConfigSpec \<Rightarrow> bool" where
  "specNonneg spec \<longleftrightarrow>
     0 \<le> the (cs_ApiCheckInterval spec) \<and> 0 \<le> the (cs_ApiServerTimeout spec)
     \<and> 0 \<le> the (cs_PeerDialTimeout spec) \<and> 0 \<le> the (cs_PeerRequestTimeout spec)
     \<and> 1 \<le> cs_MaxApiErrorThreshold spec"

lemma wrap64_bounded: "0 \<le> x \<Longrightarrow> x \<le> max_int64 \<Longrightarrow> wrap64 x = x"
  by (simp add: wrap64_id is_int64_def min_int64_def max_int64_def)

lemma mult_ge_right: "1 \<le> (k::int) \<Longrightarrow> 0 \<le> x \<Longrightarrow> x \<le> k * x"
  using mult_right_mono [of 1 k x] by simp

lemma run_calculateMinimum:
  assumes "cs_ApiCheckInterval spec = Some i" "cs_ApiServerTimeout spec = Some t"
    "cs_PeerDialTimeout spec = Some p" "cs_PeerRequestTimeout spec = Some q"
    "run_state (cl_ListNodes cl [ReqExists WorkerRole]) w = (Inr nodes, w')"
  shows "run_state (calculateMinimumRebootDuration cl spec watchdogTimeout) w =
     (Ret (Inr (dur_add
        (dur_add (dur_mul (dur_add i t) (cs_MaxApiErrorThreshold spec))
           (max (30 * Second) (dur_mul (GetNrOfBatches (int (length nodes))) (dur_add p q))))
        (dur_add watchdogTimeout (30 * Second)))), w')"
  using assms
  by (simp add: calculateMinimumRebootDuration_def calcNumOfBatches_def Let_def max_def
      MaxTimeForNoPeersResponse_def)

lemma calculateMinimum_ideal:
  assumes complete: "specComplete spec" and nonneg: "specNonneg spec" "0 \<le> watchdogTimeout"
    and nodes: "run_state (cl_ListNodes cl [ReqExists WorkerRole]) w = (Inr nodes, w')"
    and fits: "idealMinimum spec (GetNrOfBatches (int (length nodes))) watchdogTimeout \<le> max_int64"
    and peers: "the (cs_PeerDialTimeout spec) + the (cs_PeerRequestTimeout spec) \<le> max_int64"
  shows "run_state (calculateMinimumRebootDuration cl spec watchdogTimeout) w
     = (Ret (Inr (idealMinimum spec (GetNrOfBatches (int (length nodes))) watchdogTimeout)), w')"
proof -
  obtain i t p q where s: "cs_ApiCheckInterval spec = Some i" "cs_ApiServerTimeout spec = Some t"
      "cs_PeerDialTimeout spec = Some p" "cs_PeerRequestTimeout spec = Some q"
    using complete by (auto simp: specComplete_def)
  let ?k = "cs_MaxApiErrorThreshold spec" and ?b = "GetNrOfBatches (int (length nodes))"
  have n: "0 \<le> i" "0 \<le> t" "0 \<le> p" "0 \<le> q" "1 \<le> ?k"
    using nonneg by (auto simp: specNonneg_def s)
  have a: "0 \<le> ?k * (i + t)" "i + t \<le> ?k * (i + t)"
    using n mult_ge_right [of ?k "i + t"] by simp_all
  have b: "0 \<le> ?b * (p + q)"
    using n GetNrOfBatches_nonneg by simp
  have f: "?k * (i + t) + max (30 * Second) (?b * (p + q)) + watchdogTimeout + 30 * Second \<le> max_int64"
    using fits by (simp add: idealMinimum_def s)
  have m: "0 \<le> max (30 * Second) (?b * (p + q))" "?b * (p + q) \<le> max (30 * Second) (?b * (p + q))" by simp_all
  have "dur_mul (dur_add i t) ?k = ?k * (i + t)"
    using a m n f nonneg(2) by (simp add: dur_mul_def dur_add_def wrap64_bounded mult.commute)
  moreover have "dur_mul ?b (dur_add p q) = ?b * (p + q)"
    using a b m n f nonneg(2) peers by (simp add: dur_mul_def dur_add_def s wrap64_bounded)
  moreover have "dur_add watchdogTimeout (30 * Second) = watchdogTimeout + 30 * Second"
    using a m f nonneg(2) by (simp add: dur_add_def wrap64_bounded)
  moreover have "dur_add (?k * (i + t)) (max (30 * Second) (?b * (p + q)))
      = ?k * (i + t) + max (30 * Second) (?b * (p + q))"
    using a m f nonneg(2) by (simp add: dur_add_def wrap64_bounded)
  moreover have "dur_add (?k * (i + t) + max (30 * Second) (?b * (p + q))) (watchdogTimeout + 30 * Second)
      = ?k * (i + t) + max (30 * Second) (?b * (p + q)) + watchdogTimeout + 30 * Second"
    using a m f nonneg(2) by (simp add: dur_add_def wrap64_bounded add.assoc)
  ultimately show ?thesis
    by (simp only: run_calculateMinimum [OF s nodes] idealMinimum_def s option.sel)
qed

section \<open>Properties\<close>

text \<open>
  The time the manager waits is the larger one of the calculated minimum and the configured
  \<^verbatim>\<open>SafeTimeToAssumeNodeRebootedSeconds\<close>, so a configured value can only lengthen it. This holds for
  every configured value, also where the conversion to nanoseconds overflows.
\<close>

theorem rebootDuration_is_max:
  assumes "run_state (GetRebootDuration r node) w = (Ret (Inr d), w')"
    and "calc_snrConfig r = Some config"
  shows "d = (case cs_SafeTimeToAssumeNodeRebootedSeconds (cfg_Spec config) of
                None \<Rightarrow> minimumAt r node w
              | Some s \<Rightarrow> max (minimumAt r node w) (dur_mul s Second))
         \<and> minimumAt r node w \<le> d"
  using GetRebootDuration_max [OF assms(1)] assms(2) by (auto split: option.splits)

definition defaultSpec :: SelfNodeRemediationConfigSpec where
  "defaultSpec =
     \<lparr>cs_WatchdogFilePath = ''/dev/watchdog'', cs_SafeTimeToAssumeNodeRebootedSeconds = None,
      cs_PeerApiServerTimeout = Some (5 * Second), cs_ApiCheckInterval = Some (15 * Second),
      cs_PeerUpdateInterval = Some (900 * Second), cs_ApiServerTimeout = Some (5 * Second),
      cs_PeerDialTimeout = Some (5 * Second), cs_PeerRequestTimeout = Some (5 * Second),
      cs_MaxApiErrorThreshold = 3, cs_IsSoftwareRebootEnabled = True, cs_EndpointHealthCheckUrl = '''',
      cs_HostPort = 30001, cs_CustomDsTolerations = []\<rparr>"

definition exampleNode :: "string \<Rightarrow> Node" where
  "exampleNode t = \<lparr>n_Meta = emptyMeta\<lparr>om_Annotations := Some [WatchdogTimeoutSecondsAnnotation \<mapsto> t]\<rparr>,
                    n_Unschedulable = False, n_Taints = []\<rparr>"

text \<open>A cluster that answers every call with its list of nodes.\<close>

definition staticClient :: "Node list \<Rightarrow> 'w client" where
  "staticClient nodes =
     \<lparr>cl_Now = returnM 0, cl_GetSnr = (\<lambda>_ _. returnM (Inl (ApiStatus NotFound '''')))
      , cl_GetConfig = (\<lambda>_ _. returnM (Inl (ApiStatus NotFound '''')))
      , cl_GetNode = (\<lambda>_. returnM (Inl (ApiStatus NotFound '''')))
      , cl_GetMachine = (\<lambda>_ _. returnM (Inl (ApiStatus NotFound '''')))
      , cl_ListNodes = (\<lambda>_. returnM (Inr nodes)), cl_ListPods = (\<lambda>_. returnM (Inr []))
      , cl_ListSnrs = returnM (Inr []), cl_ListVolumeAttachments = returnM (Inr [])
      , cl_ListNamespaces = returnM (Inr []), cl_UpdateNode = (\<lambda>n. returnM (Inr n))
      , cl_PatchNode = (\<lambda>_ n. returnM (Inr n)), cl_UpdateSnr = (\<lambda>s. returnM (Inr s))
      , cl_StatusUpdateSnr = (\<lambda>s. returnM (Inr s)), cl_StatusPatchSnr = (\<lambda>_ s. returnM (Inr s))
      , cl_DeleteAllOfPods = (\<lambda>_ _. returnM (Inr ()))\<rparr>"

definition exampleCalculator :: "SelfNodeRemediationConfigSpec \<Rightarrow> nat \<Rightarrow> unit calculator" where
  "exampleCalculator spec n =
     \<lparr>calc_client = staticClient (replicate n (exampleNode ''10'')),
      calc_snrConfig = Some \<lparr>cfg_Meta = emptyMeta, cfg_Spec = spec\<rparr>\<rparr>"

lemma GetWatchdogTimeout_exampleNode [simp]:
  "is_int64 (n * Second) \<Longrightarrow> is_int64 n \<Longrightarrow> watchdogTimeoutOrDefault (exampleNode (Itoa n)) = n * Second"
  by (simp add: watchdogTimeoutOrDefault_def GetWatchdogTimeout_def exampleNode_def map_val_def
      map_get_def dur_mul_def wrap64_id)

lemma Itoa_10: "Itoa 10 = ''10''"
  by code_simp

lemma watchdogTimeout_exampleNode_10: "watchdogTimeoutOrDefault (exampleNode ''10'') = 10 * Second"
  using GetWatchdogTimeout_exampleNode [of 10]
  by (simp only: Itoa_10) (simp add: is_int64_def min_int64_def max_int64_def)

lemma staticClient_ListNodes [simp]: "cl_ListNodes (staticClient ns) sel = returnM (Inr ns)"
  by (simp add: staticClient_def)

text \<open>
  C34: for a complete configuration with non-negative times and no overflow the calculated minimum is
  the formula of the code's comments, in exact arithmetic: the error threshold times the API check
  with its timeout, plus the larger one of thirty seconds and the peer batches times dialling and
  requesting, plus the watchdog timeout, plus thirty seconds.
\<close>

theorem minimumRebootDuration_formula:
  assumes "specComplete spec" and "specNonneg spec" and "0 \<le> watchdogTimeout"
    and "run_state (cl_ListNodes cl [ReqExists WorkerRole]) w = (Inr nodes, w')"
    and "idealMinimum spec (GetNrOfBatches (int (length nodes))) watchdogTimeout \<le> max_int64"
    and "the (cs_PeerDialTimeout spec) + the (cs_PeerRequestTimeout spec) \<le> max_int64"
  shows "run_state (calculateMinimumRebootDuration cl spec watchdogTimeout) w
     = (Ret (Inr (idealMinimum spec (GetNrOfBatches (int (length nodes))) watchdogTimeout)), w')"
  using assms by (rule calculateMinimum_ideal)

text \<open>The two clusters of the repository's own calculator tests: 130 and 351 seconds.\<close>

lemma GetNrOfBatches_small: "GetNrOfBatches 2 = 1" "GetNrOfBatches 20 = 7"
  by (simp_all add: GetNrOfBatches_closed laterBatchSize_def)

theorem minimumRebootDuration_formula_witness:
  "run_state (calculateMinimumRebootDuration (staticClient (replicate 2 (exampleNode ''10''))) defaultSpec (10 * Second)) ()
     = (Ret (Inr (130 * Second)), ())
   \<and> run_state (calculateMinimumRebootDuration (staticClient (replicate 20 (exampleNode ''10'')))
        (defaultSpec\<lparr>cs_ApiCheckInterval := Some (25 * Second), cs_ApiServerTimeout := Some (7 * Second),
           cs_MaxApiErrorThreshold := 4, cs_PeerDialTimeout := Some (11 * Second),
           cs_PeerRequestTimeout := Some (13 * Second)\<rparr>) (25 * Second)) ()
     = (Ret (Inr (351 * Second)), ())"
  by (intro conjI
      trans [OF minimumRebootDuration_formula [where nodes = "replicate 2 (exampleNode ''10'')" and w' = "()"]]
      trans [OF minimumRebootDuration_formula [where nodes = "replicate 20 (exampleNode ''10'')" and w' = "()"]])
    (simp_all add: defaultSpec_def specComplete_def specNonneg_def idealMinimum_def GetNrOfBatches_small
      max_int64_def)

definition shortSpec :: SelfNodeRemediationConfigSpec where
  "shortSpec = defaultSpec\<lparr>cs_SafeTimeToAssumeNodeRebootedSeconds := Some 100\<rparr>"

theorem rebootDuration_is_max_witness:
  "run_state (GetRebootDuration (exampleCalculator shortSpec 2) (exampleNode ''10'')) ()
     = (Ret (Inr (130 * Second)), ())
   \<and> minimumAt (exampleCalculator shortSpec 2) (exampleNode ''10'') () \<le> 130 * Second"
proof -
  let ?r = "exampleCalculator shortSpec 2"
  have m: "run_state (calculateMinimumRebootDuration (staticClient (replicate 2 (exampleNode ''10''))) shortSpec (10 * Second)) ()
      = (Ret (Inr (130 * Second)), ())"
    by (subst calculateMinimum_ideal [where nodes = "replicate 2 (exampleNode ''10'')" and w' = "()"])
      (simp_all add: shortSpec_def defaultSpec_def specComplete_def specNonneg_def idealMinimum_def
        GetNrOfBatches_small max_int64_def)
  have s: "cs_SafeTimeToAssumeNodeRebootedSeconds shortSpec = Some 100" "dur_mul 100 Second = 100 * Second"
    by (simp_all add: shortSpec_def dur_mul_def wrap64_bounded max_int64_def)
  have c: "calc_snrConfig ?r = Some \<lparr>cfg_Meta = emptyMeta, cfg_Spec = shortSpec\<rparr>"
    by (simp add: exampleCalculator_def)
  have run: "run_state (GetRebootDuration ?r (exampleNode ''10'')) () = (Ret (Inr (130 * Second)), ())"
    using m s watchdogTimeout_exampleNode_10 by (simp add: GetRebootDuration_def exampleCalculator_def)
  show ?thesis using run rebootDuration_is_max [OF run c] by simp
qed

end
