(* ===== verification/Snr_Controller.thy ===== *)
theory Snr_Controller
  imports Owner_And_Name Taints Node_Utils Calculator
begin

text \<open>
  The remediation controller (\<^verbatim>\<open>controllers/selfnoderemediation_controller.go\<close>): the manager's
  reconcile loop, which fences an unhealthy node phase by phase, and the agent's, which reboots the
  node it runs on. Each handler is one computation on the state below, with every API call, event,
  early return and error of the source.
\<close>

section \<open>Constants\<close>

definition SNRFinalizer :: string where
  "SNRFinalizer = ''self-node-remediation.medik8s.io/snr-finalizer''"

definition nhcTimeOutAnnotation :: string where
  "nhcTimeOutAnnotation = ''remediation.medik8s.io/nhc-timed-out''"

definition excludeRemediationLabel :: string where
  "excludeRemediationLabel = ''remediation.medik8s.io/exclude-from-remediation''"

definition NodeUnschedulableTaint :: Taint where
  "NodeUnschedulableTaint = \<lparr>t_Key = ''node.kubernetes.io/unschedulable'', t_Value = '''',
     t_Effect = ''NoSchedule'', t_TimeAdded = None\<rparr>"

definition NodeNoExecuteTaint :: Taint where
  "NodeNoExecuteTaint = \<lparr>t_Key = ''medik8s.io/remediation'', t_Value = ''self-node-remediation'',
     t_Effect = ''NoExecute'', t_TimeAdded = None\<rparr>"

definition OutOfServiceTaint :: Taint where
  "OutOfServiceTaint = \<lparr>t_Key = ''node.kubernetes.io/out-of-service'', t_Value = ''nodeshutdown'',
     t_Effect = ''NoExecute'', t_TimeAdded = None\<rparr>"

datatype conditionReason =
    remediationStarted
  | remediationTimeoutByNHC
  | remediationFinishedSuccessfully
  | remediationSkippedNodeNotFound
  | snrDisabledNoConfig

fun conditionReason_str :: "conditionReason \<Rightarrow> string" where
  "conditionReason_str remediationStarted = ''RemediationStarted''"
| "conditionReason_str remediationTimeoutByNHC = ''RemediationTimeoutByNHC''"
| "conditionReason_str remediationFinishedSuccessfully = ''RemediationFinishedSuccessfully''"
| "conditionReason_str remediationSkippedNodeNotFound = ''RemediationSkippedNodeNotFound''"
| "conditionReason_str snrDisabledNoConfig = ''ConfigurationNotFound''"

datatype remediationPhase =
    fencingStartedPhase
  | preRebootCompletedPhase
  | rebootCompletedPhase
  | fencingCompletedPhase
  | unknownPhase

fun remediationPhase_str :: "remediationPhase \<Rightarrow> string" where
  "remediationPhase_str fencingStartedPhase = ''Fencing-Started''"
| "remediationPhase_str preRebootCompletedPhase = ''Pre-Reboot-Completed''"
| "remediationPhase_str rebootCompletedPhase = ''Reboot-Completed''"
| "remediationPhase_str fencingCompletedPhase = ''Fencing-Completed''"
| "remediationPhase_str unknownPhase = ''Unknown''"

section \<open>The state of a reconcile\<close>

text \<open>
  What is observable from outside: events and the mutating requests, with the error they got. The
  trace is a history variable, in the order of the calls.
\<close>

datatype eventObject = OnSnr | OnNode

datatype action =
    AEvent string eventObject string string
  | AUpdateNode Node "error option"
  | APatchNode Node Node "error option"
  | AUpdateSnr SelfNodeRemediation "error option"
  | AStatusPatchSnr SelfNodeRemediation SelfNodeRemediation "error option"
  | AStatusUpdateSnr SelfNodeRemediation "error option"
  | ADeletePods string string "error option"
  | AReboot

record 'w rs =
  rs_world :: 'w
  rs_snr :: SelfNodeRemediation
  rs_node :: Node
  rs_trace :: "action list"

text \<open>
  The reconciler: the client, the two interfaces it is built with (the duration calculator of the
  manager and the rebooter of the agent), and the process-wide values it reads.
\<close>

record 'w reconciler =
  r_Client :: "'w client"
  r_GetRebootDuration :: "Node \<Rightarrow> ('w, duration result outcome) state"
  r_Reboot :: "('w, error option outcome) state"
  r_Sysinfo :: "('w, int result) state"
  r_MyNodeName :: string
  r_IsAgent :: bool
  r_Env :: env
  r_Flags :: OutOfServiceFlags

record Result =
  res_Requeue :: bool
  res_RequeueAfter :: duration

definition emptyResult :: Result where
  "emptyResult = \<lparr>res_Requeue = False, res_RequeueAfter = 0\<rparr>"

definition requeueAfter :: "duration \<Rightarrow> Result" where
  "requeueAfter d = \<lparr>res_Requeue = False, res_RequeueAfter = d\<rparr>"

type_synonym reconcileResult = "(Result \<times> error option) outcome"

section \<open>Effects\<close>

definition onWorld :: "('w, 'a) state \<Rightarrow> ('w rs, 'a) state" where
  "onWorld m = zoom rs_world (\<lambda>w s. s\<lparr>rs_world := w\<rparr>) m"

definition emit :: "action \<Rightarrow> ('w rs, unit) state" where
  "emit a = modify (\<lambda>s. s\<lparr>rs_trace := rs_trace s @ [a]\<rparr>)"

definition NormalEvent :: "eventObject \<Rightarrow> string \<Rightarrow> string \<Rightarrow> ('w rs, unit) state" where
  "NormalEvent obj reason message = emit (AEvent ''Normal'' obj reason (''[remediation] '' @ message))"

definition WarningEvent :: "eventObject \<Rightarrow> string \<Rightarrow> string \<Rightarrow> ('w rs, unit) state" where
  "WarningEvent obj reason message = emit (AEvent ''Warning'' obj reason (''[remediation] '' @ message))"

text \<open>An event on a pointer: the recorder dereferences it to build the object reference.\<close>

definition NormalEventOnNodePtr :: "Node option \<Rightarrow> string \<Rightarrow> string \<Rightarrow> ('w rs, unit outcome) state" where
  "NormalEventOnNodePtr node reason message =
     (case node of
        None \<Rightarrow> returnM Panic
      | Some _ \<Rightarrow> do { NormalEvent OnNode reason message; returnM (Ret ()) })"

definition setSnr :: "SelfNodeRemediation \<Rightarrow> ('w rs, unit) state" where
  "setSnr x = modify (\<lambda>s. s\<lparr>rs_snr := x\<rparr>)"

definition setNode :: "Node \<Rightarrow> ('w rs, unit) state" where
  "setNode n = modify (\<lambda>s. s\<lparr>rs_node := n\<rparr>)"

definition modifyStatus :: "(SnrStatus \<Rightarrow> SnrStatus) \<Rightarrow> ('w rs, unit) state" where
  "modifyStatus f = modify (\<lambda>s. s\<lparr>rs_snr := (rs_snr s)\<lparr>snr_Status := f (snr_Status (rs_snr s))\<rparr>\<rparr>)"

definition setPhase :: "remediationPhase \<Rightarrow> ('w rs, unit) state" where
  "setPhase p = modifyStatus (\<lambda>st. st\<lparr>st_Phase := Some (remediationPhase_str p)\<rparr>)"

text \<open>The writing calls of the client on the caller's copies.\<close>

definition clientUpdateNode :: "'w reconciler \<Rightarrow> ('w rs, error option) state" where
  "clientUpdateNode r = do {
     node \<leftarrow> gets rs_node;
     res \<leftarrow> onWorld (cl_UpdateNode (r_Client r) node);
     emit (AUpdateNode node (err_of res));
     case res of Inl err \<Rightarrow> returnM (Some err) | Inr node' \<Rightarrow> do { setNode node'; returnM None }
   }"

definition clientPatchNode :: "'w reconciler \<Rightarrow> Node \<Rightarrow> ('w rs, error option) state" where
  "clientPatchNode r orig = do {
     node \<leftarrow> gets rs_node;
     res \<leftarrow> onWorld (cl_PatchNode (r_Client r) orig node);
     emit (APatchNode orig node (err_of res));
     case res of Inl err \<Rightarrow> returnM (Some err) | Inr node' \<Rightarrow> do { setNode node'; returnM None }
   }"

definition clientUpdateSnr :: "'w reconciler \<Rightarrow> ('w rs, error option) state" where
  "clientUpdateSnr r = do {
     snr \<leftarrow> gets rs_snr;
     res \<leftarrow> onWorld (cl_UpdateSnr (r_Client r) snr);
     emit (AUpdateSnr snr (err_of res));
     case res of Inl err \<Rightarrow> returnM (Some err) | Inr snr' \<Rightarrow> do { setSnr snr'; returnM None }
   }"

definition clientStatusPatchSnr :: "'w reconciler \<Rightarrow> SelfNodeRemediation \<Rightarrow> ('w rs, error option) state" where
  "clientStatusPatchSnr r orig = do {
     snr \<leftarrow> gets rs_snr;
     res \<leftarrow> onWorld (cl_StatusPatchSnr (r_Client r) orig snr);
     emit (AStatusPatchSnr orig snr (err_of res));
     case res of Inl err \<Rightarrow> returnM (Some err) | Inr snr' \<Rightarrow> do { setSnr snr'; returnM None }
   }"

text \<open>Nothing calls this one; the changed object is the one in the state.\<close>

definition patchSnrStatus :: "'w reconciler \<Rightarrow> SelfNodeRemediation \<Rightarrow> ('w rs, error option) state" where
  "patchSnrStatus r org = clientStatusPatchSnr r org"

definition updateSnrStatus :: "'w reconciler \<Rightarrow> ('w rs, error option) state" where
  "updateSnrStatus r = do {
     snr \<leftarrow> gets rs_snr;
     res \<leftarrow> onWorld (cl_StatusUpdateSnr (r_Client r) snr);
     emit (AStatusUpdateSnr snr (err_of res));
     case res of Inl err \<Rightarrow> returnM (Some err) | Inr snr' \<Rightarrow> do { setSnr snr'; returnM None }
   }"

definition Now :: "'w reconciler \<Rightarrow> ('w rs, instant) state" where
  "Now r = onWorld (cl_Now (r_Client r))"

section \<open>Phases, conditions and timeouts\<close>

definition getPhase :: "SelfNodeRemediation \<Rightarrow> remediationPhase" where
  "getPhase snr =
     (case st_Phase (snr_Status snr) of
        None \<Rightarrow> fencingStartedPhase
      | Some p \<Rightarrow>
          if p = remediationPhase_str preRebootCompletedPhase then preRebootCompletedPhase
          else if p = remediationPhase_str rebootCompletedPhase then rebootCompletedPhase
          else if p = remediationPhase_str fencingCompletedPhase then fencingCompletedPhase
          else unknownPhase)"

definition newCondition :: "string \<Rightarrow> string \<Rightarrow> string \<Rightarrow> string \<Rightarrow> Condition" where
  "newCondition typ status reason message =
     \<lparr>c_Type = typ, c_Status = status, c_Reason = reason, c_Message = message,
      c_LastTransitionTime = None, c_ObservedGeneration = 0\<rparr>"

definition setStatusCondition :: "'w reconciler \<Rightarrow> Condition \<Rightarrow> ('w rs, unit) state" where
  "setStatusCondition r c = do {
     now \<leftarrow> Now r;
     modifyStatus (\<lambda>st. st\<lparr>st_Conditions := SetStatusCondition now (st_Conditions st) c\<rparr>)
   }"

text \<open>The statuses of the conditions Processing and Succeeded for each reason.\<close>

fun conditionStatuses :: "conditionReason \<Rightarrow> (string \<times> string) option" where
  "conditionStatuses remediationStarted = Some (ConditionTrue, ConditionUnknown)"
| "conditionStatuses remediationFinishedSuccessfully = Some (ConditionFalse, ConditionTrue)"
| "conditionStatuses remediationTimeoutByNHC = Some (ConditionFalse, ConditionFalse)"
| "conditionStatuses remediationSkippedNodeNotFound = Some (ConditionFalse, ConditionFalse)"
| "conditionStatuses snrDisabledNoConfig = None"

definition updateConditions :: "'w reconciler \<Rightarrow> conditionReason \<Rightarrow> ('w rs, error option) state" where
  "updateConditions r processingTypeReason =
     (case conditionStatuses processingTypeReason of
        None \<Rightarrow> returnM (Some (ErrMsg (''unknown condition reason:'' @ conditionReason_str processingTypeReason)))
      | Some (processingConditionStatus, succeededConditionStatus) \<Rightarrow> do {
          conditions \<leftarrow> gets (\<lambda>s. st_Conditions (snr_Status (rs_snr s)));
          if IsStatusConditionPresentAndEqual conditions ProcessingConditionType processingConditionStatus
             \<and> IsStatusConditionPresentAndEqual conditions SucceededConditionType succeededConditionStatus
          then returnM None
          else do {
            setStatusCondition r (newCondition ProcessingConditionType processingConditionStatus
              (conditionReason_str processingTypeReason) '''');
            setStatusCondition r (newCondition SucceededConditionType succeededConditionStatus
              (conditionReason_str processingTypeReason) '''');
            returnM None
          }
        })"

definition isConfigurationExist :: "'w reconciler \<Rightarrow> ('w rs, bool result) state" where
  "isConfigurationExist r =
     (case GetDeploymentNamespace (r_Env r) of
        Inl err \<Rightarrow> returnM (Inl err)
      | Inr ns \<Rightarrow> do {
          res \<leftarrow> onWorld (cl_GetConfig (r_Client r) ns ConfigCRName);
          returnM (case res of
              Inl err \<Rightarrow> if IsNotFound err then Inr False else Inl err
            | Inr snrConfig \<Rightarrow>
                if om_DeletionTimestamp (cfg_Meta snrConfig) \<noteq> None then Inr False else Inr True)
        })"

definition isStoppedByNHC :: "SelfNodeRemediation \<Rightarrow> bool" where
  "isStoppedByNHC snr \<longleftrightarrow>
     om_Annotations (snr_Meta snr) \<noteq> None \<and> om_DeletionTimestamp (snr_Meta snr) = None
     \<and> map_get (om_Annotations (snr_Meta snr)) nhcTimeOutAnnotation \<noteq> None"

definition getRuntimeStrategy :: "'w reconciler \<Rightarrow> SelfNodeRemediation \<Rightarrow> string" where
  "getRuntimeStrategy r snr =
     (let strategy = snr_RemediationStrategy snr in
      if strategy \<noteq> AutomaticRemediationStrategy then strategy
      else if IsOutOfServiceTaintGA (r_Flags r) then OutOfServiceTaintRemediationStrategy
      else ResourceDeletionRemediationStrategy)"

text \<open>The status pointer \<^verbatim>\<open>TimeAssumedRebooted\<close> is dereferenced without a check; the clock is read twice.\<close>

definition wasNodeRebooted :: "'w reconciler \<Rightarrow> ('w rs, (bool \<times> duration) outcome) state" where
  "wasNodeRebooted r = do {
     t \<leftarrow> gets (\<lambda>s. st_TimeAssumedRebooted (snr_Status (rs_snr s)));
     case t of
       None \<Rightarrow> returnM Panic
     | Some maxNodeRebootTime \<Rightarrow> do {
         now \<leftarrow> Now r;
         if time_after maxNodeRebootTime now
         then do {
           now' \<leftarrow> Now r;
           returnM (Ret (False, dur_add (time_sub maxNodeRebootTime now') Second))
         }
         else returnM (Ret (True, 0))
       }
   }"

definition isResourceDeletionExpired :: "'w reconciler \<Rightarrow> ('w rs, (bool \<times> duration) outcome) state" where
  "isResourceDeletionExpired r = do {
     t \<leftarrow> gets (\<lambda>s. st_TimeAssumedRebooted (snr_Status (rs_snr s)));
     case t of
       None \<Rightarrow> returnM Panic
     | Some t' \<Rightarrow> do {
         now \<leftarrow> Now r;
         if time_after (time_add t' (300 * Second)) now
         then returnM (Ret (False, 5 * Second))
         else returnM (Ret (True, 0))
       }
   }"

definition setTimeAssumedRebooted :: "'w reconciler \<Rightarrow> ('w rs, error option outcome) state" where
  "setTimeAssumedRebooted r = do {
     t \<leftarrow> gets (\<lambda>s. st_TimeAssumedRebooted (snr_Status (rs_snr s)));
     if t \<noteq> None then returnM (Ret None)
     else do {
       node \<leftarrow> gets rs_node;
       d \<leftarrow> onWorld (r_GetRebootDuration r node);
       case d of
         Ret res \<Rightarrow>
           (case res of
              Inl err \<Rightarrow> returnM (Ret (Some err))
            | Inr rebootDuration \<Rightarrow> do {
                now \<leftarrow> Now r;
                modifyStatus (\<lambda>st. st\<lparr>st_TimeAssumedRebooted := Some (time_add now rebootDuration)\<rparr>);
                NormalEvent OnSnr ''UpdateTimeAssumedRebooted'' ''Remediation process - about to update required fencing time on snr'';
                returnM (Ret None)
              })
       | Panic \<Rightarrow> returnM Panic
     }
   }"

section \<open>Taints, finalizer and schedulability\<close>

definition addTaint :: "'w reconciler \<Rightarrow> Taint \<Rightarrow> string \<Rightarrow> string \<Rightarrow> ('w rs, error option) state" where
  "addTaint r taint reason message = do {
     node \<leftarrow> gets rs_node;
     if TaintExists (n_Taints node) taint then returnM None
     else do {
       now \<leftarrow> Now r;
       setNode (node\<lparr>n_Taints := n_Taints node @ [taint\<lparr>t_TimeAdded := Some now\<rparr>]\<rparr>);
       err \<leftarrow> clientPatchNode r node;
       case err of
         None \<Rightarrow> do { NormalEvent OnNode reason message; returnM None }
       | Some e \<Rightarrow> returnM (Some e)
     }
   }"

definition removeTaint :: "'w reconciler \<Rightarrow> Taint \<Rightarrow> string \<Rightarrow> string \<Rightarrow> ('w rs, error option) state" where
  "removeTaint r taint reason message = do {
     node \<leftarrow> gets rs_node;
     if \<not> TaintExists (n_Taints node) taint then returnM None
     else (case DeleteTaint (n_Taints node) taint of (taints, deleted) \<Rightarrow>
       if \<not> deleted then returnM None
       else do {
         setNode (node\<lparr>n_Taints := taints\<rparr>);
         err \<leftarrow> clientPatchNode r node;
         case err of
           None \<Rightarrow> do { NormalEvent OnNode reason message; returnM None }
         | Some e \<Rightarrow> returnM (Some e)
       })
   }"

definition addNoExecuteTaint :: "'w reconciler \<Rightarrow> ('w rs, error option) state" where
  "addNoExecuteTaint r = addTaint r NodeNoExecuteTaint ''AddNoExecute''
     ''Remediation process - NoExecute taint added to the unhealthy node''"

definition removeNoExecuteTaint :: "'w reconciler \<Rightarrow> ('w rs, error option) state" where
  "removeNoExecuteTaint r = removeTaint r NodeNoExecuteTaint ''RemoveNoExecuteTaint''
     ''Remediation process - remove NoExecute taint from healthy remediated node''"

definition addOutOfServiceTaint :: "'w reconciler \<Rightarrow> ('w rs, error option) state" where
  "addOutOfServiceTaint r = addTaint r OutOfServiceTaint ''AddOutOfService''
     ''Remediation process - add out-of-service taint to unhealthy node''"

definition removeOutOfServiceTaint :: "'w reconciler \<Rightarrow> ('w rs, error option) state" where
  "removeOutOfServiceTaint r = removeTaint r OutOfServiceTaint ''RemoveOutOfService''
     ''Remediation process - remove out-of-service taint from node''"

definition removeFinalizer :: "'w reconciler \<Rightarrow> ('w rs, error option) state" where
  "removeFinalizer r = do {
     modify (\<lambda>s. s\<lparr>rs_snr := (rs_snr s)\<lparr>snr_Meta := RemoveFinalizer (snr_Meta (rs_snr s)) SNRFinalizer\<rparr>\<rparr>);
     clientUpdateSnr r
   }"

definition addFinalizer :: "'w reconciler \<Rightarrow> ('w rs, Result \<times> error option) state" where
  "addFinalizer r = do {
     snr \<leftarrow> gets rs_snr;
     if om_DeletionTimestamp (snr_Meta snr) \<noteq> None then returnM (emptyResult, None)
     else do {
       setSnr (snr\<lparr>snr_Meta := AddFinalizer (snr_Meta snr) SNRFinalizer\<rparr>);
       err \<leftarrow> clientUpdateSnr r;
       case err of
         None \<Rightarrow> do {
           NormalEvent OnSnr ''AddFinalizer'' ''Remediation process - successful adding finalizer'';
           returnM (emptyResult\<lparr>res_Requeue := True\<rparr>, None)
         }
       | Some e \<Rightarrow> if IsConflict e then returnM (requeueAfter (1 * Second), None)
                   else returnM (emptyResult, Some e)
     }
   }"

definition markNodeAsUnschedulable :: "'w reconciler \<Rightarrow> ('w rs, Result \<times> error option) state" where
  "markNodeAsUnschedulable r = do {
     node \<leftarrow> gets rs_node;
     if n_Unschedulable node then returnM (requeueAfter (1 * Second), None)
     else do {
       setNode (node\<lparr>n_Unschedulable := True\<rparr>);
       err \<leftarrow> clientUpdateNode r;
       case err of
         None \<Rightarrow> do {
           NormalEvent OnNode ''MarkUnschedulable'' ''Remediation process - unhealthy node marked as unschedulable'';
           returnM (requeueAfter (1 * Second), None)
         }
       | Some e \<Rightarrow> if IsConflict e then returnM (requeueAfter (1 * Second), None)
                   else returnM (emptyResult, Some e)
     }
   }"

definition isNodeRebootCapable :: "'w reconciler \<Rightarrow> ('w rs, bool) state" where
  "isNodeRebootCapable r = do {
     node \<leftarrow> gets rs_node;
     res \<leftarrow> onWorld (GetSelfNodeRemediationAgentPod (r_Client r) (om_Name (n_Meta node)));
     case res of
       Inl err \<Rightarrow> returnM False
     | Inr pod \<Rightarrow>
         if om_Annotations (n_Meta node) = None
            \<or> map_val (om_Annotations (n_Meta node)) IsRebootCapableAnnotation \<noteq> ''true''
         then returnM False
         else returnM True
   }"

section \<open>Removing the resources of a node\<close>

text \<open>\<^verbatim>\<open>resources.DeletePods\<close>: one bulk deletion per namespace, stopping at the first error.\<close>

fun deletePodsLoop :: "'w reconciler \<Rightarrow> string \<Rightarrow> string list \<Rightarrow> ('w rs, error option) state" where
  "deletePodsLoop r nodeName [] = returnM None"
| "deletePodsLoop r nodeName (ns # namespaces) = do {
     res \<leftarrow> onWorld (cl_DeleteAllOfPods (r_Client r) ns nodeName);
     emit (ADeletePods ns nodeName (err_of res));
     case err_of res of
       None \<Rightarrow> deletePodsLoop r nodeName namespaces
     | Some err \<Rightarrow> returnM (Some err)
   }"

definition DeletePods :: "'w reconciler \<Rightarrow> string \<Rightarrow> ('w rs, error option) state" where
  "DeletePods r nodeName = do {
     res \<leftarrow> onWorld (cl_ListNamespaces (r_Client r));
     case res of
       Inl err \<Rightarrow> returnM (Some err)
     | Inr namespaces \<Rightarrow> deletePodsLoop r nodeName namespaces
   }"

definition deleteResourcesWrapper :: "'w reconciler \<Rightarrow> ('w rs, (duration \<times> error option) outcome) state" where
  "deleteResourcesWrapper r = do {
     node \<leftarrow> gets rs_node;
     err \<leftarrow> DeletePods r (om_Name (n_Meta node));
     returnM (Ret (0, err))
   }"

definition isPodTerminating :: "Pod \<Rightarrow> bool" where
  "isPodTerminating pod \<longleftrightarrow> om_DeletionTimestamp (p_Meta pod) \<noteq> None"

definition isResourceDeletionCompleted :: "'w reconciler \<Rightarrow> ('w rs, bool) state" where
  "isResourceDeletionCompleted r = do {
     node \<leftarrow> gets rs_node;
     pods \<leftarrow> onWorld (cl_ListPods (r_Client r) []);
     case pods of
       Inl err \<Rightarrow> returnM False
     | Inr items \<Rightarrow>
         if \<exists>pod \<in> set items. p_NodeName pod = om_Name (n_Meta node) \<and> isPodTerminating pod
         then returnM False
         else do {
           vas \<leftarrow> onWorld (cl_ListVolumeAttachments (r_Client r));
           case vas of
             Inl err \<Rightarrow> returnM False
           | Inr vaItems \<Rightarrow> returnM (\<not> (\<exists>va \<in> set vaItems. va_NodeName va = om_Name (n_Meta node)))
         }
   }"

definition useOutOfServiceTaint :: "'w reconciler \<Rightarrow> ('w rs, (duration \<times> error option) outcome) state" where
  "useOutOfServiceTaint r = do {
     err \<leftarrow> addOutOfServiceTaint r;
     case err of
       Some e \<Rightarrow> returnM (Ret (0, Some e))
     | None \<Rightarrow> do {
         completed \<leftarrow> isResourceDeletionCompleted r;
         if \<not> completed
         then do {
           expired \<leftarrow> isResourceDeletionExpired r;
           case expired of
             Ret (isExpired, timeLeft) \<Rightarrow>
               if \<not> isExpired then returnM (Ret (timeLeft, None))
               else returnM (Ret (0, Some (ErrMsg ''Not ready to delete out-of-service taint'')))
           | Panic \<Rightarrow> returnM Panic
         }
         else do {
           err' \<leftarrow> removeOutOfServiceTaint r;
           returnM (Ret (0, err'))
         }
       }
   }"

section \<open>The phases of a remediation\<close>

definition prepareReboot :: "'w reconciler \<Rightarrow> ('w rs, reconcileResult) state" where
  "prepareReboot r = do {
     capable \<leftarrow> isNodeRebootCapable r;
     if \<not> capable then returnM (Ret (emptyResult, Some (ErrMsg ''Node is not capable to reboot itself'')))
     else do {
       snr \<leftarrow> gets rs_snr;
       if \<not> ContainsFinalizer (snr_Meta snr) SNRFinalizer
       then do { res \<leftarrow> addFinalizer r; returnM (Ret res) }
       else do {
         err \<leftarrow> addNoExecuteTaint r;
         case err of
           Some e \<Rightarrow> returnM (Ret (emptyResult, Some e))
         | None \<Rightarrow> do {
             node \<leftarrow> gets rs_node;
             if \<not> n_Unschedulable node \<or> \<not> TaintExists (n_Taints node) NodeUnschedulableTaint
             then do { res \<leftarrow> markNodeAsUnschedulable r; returnM (Ret res) }
             else do {
               timeSet \<leftarrow> setTimeAssumedRebooted r;
               case timeSet of
                 Ret err' \<Rightarrow>
                   (case err' of
                      Some e \<Rightarrow> returnM (Ret (emptyResult, Some e))
                    | None \<Rightarrow> do { setPhase preRebootCompletedPhase; returnM (Ret (emptyResult, None)) })
               | Panic \<Rightarrow> returnM Panic
             }
           }
       }
     }
   }"

definition handleFencingStartedPhase :: "'w reconciler \<Rightarrow> ('w rs, reconcileResult) state" where
  "handleFencingStartedPhase r = prepareReboot r"

definition waitForNodeRebooted :: "'w reconciler \<Rightarrow> ('w rs, reconcileResult) state" where
  "waitForNodeRebooted r = do {
     res \<leftarrow> wasNodeRebooted r;
     case res of
       Ret (wasRebooted, timeLeft) \<Rightarrow>
         if \<not> wasRebooted then returnM (Ret (requeueAfter timeLeft, None))
         else do { setPhase rebootCompletedPhase; returnM (Ret (emptyResult, None)) }
     | Panic \<Rightarrow> returnM Panic
   }"

definition handlePreRebootCompletedPhase :: "'w reconciler \<Rightarrow> ('w rs, reconcileResult) state" where
  "handlePreRebootCompletedPhase r = waitForNodeRebooted r"

definition handleRebootCompletedPhase ::
  "'w reconciler \<Rightarrow> ('w rs, (duration \<times> error option) outcome) state \<Rightarrow> ('w rs, reconcileResult) state" where
  "handleRebootCompletedPhase r rmNodeResources = do {
     removed \<leftarrow> rmNodeResources;
     case removed of
       Ret (waitTime, err) \<Rightarrow>
         (case err of
            Some e \<Rightarrow> returnM (Ret (emptyResult, Some e))
          | None \<Rightarrow>
              if waitTime \<noteq> 0 then returnM (Ret (requeueAfter waitTime, None))
              else do {
                NormalEvent OnNode ''DeleteResources'' ''Remediation process - finished deleting unhealthy node resources'';
                setPhase fencingCompletedPhase;
                err' \<leftarrow> updateConditions r remediationFinishedSuccessfully;
                returnM (Ret (emptyResult, err'))
              })
     | Panic \<Rightarrow> returnM Panic
   }"

definition recoverNodeTail :: "'w reconciler \<Rightarrow> ('w rs, Result \<times> error option) state" where
  "recoverNodeTail r = do {
     node \<leftarrow> gets rs_node;
     if TaintExists (n_Taints node) NodeUnschedulableTaint then returnM (requeueAfter Second, None)
     else do {
       err \<leftarrow> removeNoExecuteTaint r;
       case err of
         Some e \<Rightarrow> returnM (emptyResult, Some e)
       | None \<Rightarrow> do {
           snr \<leftarrow> gets rs_snr;
           if ContainsFinalizer (snr_Meta snr) SNRFinalizer
           then do {
             err' \<leftarrow> removeFinalizer r;
             case err' of
               Some e \<Rightarrow> returnM (emptyResult, Some e)
             | None \<Rightarrow> do {
                 NormalEvent OnSnr ''RemoveFinalizer'' ''Remediation process - remove finalizer from snr'';
                 NormalEvent OnSnr ''RemediationFinished'' ''Remediation finished'';
                 returnM (emptyResult, None)
               }
           }
           else returnM (emptyResult, None)
         }
     }
   }"

text \<open>First the node is made schedulable again; what follows is \<^verbatim>\<open>recoverNodeTail\<close>.\<close>

definition recoverNode :: "'w reconciler \<Rightarrow> ('w rs, Result \<times> error option) state" where
  "recoverNode r = do {
     node \<leftarrow> gets rs_node;
     if n_Unschedulable node
     then do {
       setNode (node\<lparr>n_Unschedulable := False\<rparr>);
       err \<leftarrow> clientUpdateNode r;
       case err of
         Some e \<Rightarrow> if IsConflict e then returnM (requeueAfter Second, None)
                   else returnM (emptyResult, Some e)
       | None \<Rightarrow> do {
           NormalEvent OnNode ''MarkNodeSchedulable'' ''Remediation process - mark healthy remediated node as schedulable'';
           recoverNodeTail r
         }
     }
     else recoverNodeTail r
   }"

definition handleFencingCompletedPhase :: "'w reconciler \<Rightarrow> ('w rs, reconcileResult) state" where
  "handleFencingCompletedPhase r = do {
     snr \<leftarrow> gets rs_snr;
     if om_DeletionTimestamp (snr_Meta snr) \<noteq> None
     then do { res \<leftarrow> recoverNode r; returnM (Ret res) }
     else returnM (Ret (emptyResult, None))
   }"

definition remediateWithResourceRemoval ::
  "'w reconciler \<Rightarrow> ('w rs, (duration \<times> error option) outcome) state \<Rightarrow> ('w rs, reconcileResult) state" where
  "remediateWithResourceRemoval r rmNodeResources = do {
     phase \<leftarrow> gets (\<lambda>s. getPhase (rs_snr s));
     case phase of
       fencingStartedPhase \<Rightarrow> handleFencingStartedPhase r
     | preRebootCompletedPhase \<Rightarrow> handlePreRebootCompletedPhase r
     | rebootCompletedPhase \<Rightarrow> handleRebootCompletedPhase r rmNodeResources
     | fencingCompletedPhase \<Rightarrow> handleFencingCompletedPhase r
     | unknownPhase \<Rightarrow> returnM (Ret (emptyResult, Some (ErrMsg ''unknown phase'')))
   }"

definition remediateWithResourceDeletion :: "'w reconciler \<Rightarrow> ('w rs, reconcileResult) state" where
  "remediateWithResourceDeletion r = remediateWithResourceRemoval r (deleteResourcesWrapper r)"

definition remediateWithOutOfServiceTaint :: "'w reconciler \<Rightarrow> ('w rs, reconcileResult) state" where
  "remediateWithOutOfServiceTaint r = remediateWithResourceRemoval r (useOutOfServiceTaint r)"

section \<open>The manager\<close>

definition getNodeFromSnr :: "'w reconciler \<Rightarrow> ('w rs, Node result) state" where
  "getNodeFromSnr r = do {
     snr \<leftarrow> gets rs_snr;
     name \<leftarrow> onWorld (getNodeName (r_Client r) snr);
     case name of
       Inl err \<Rightarrow> returnM (Inl err)
     | Inr nodeName \<Rightarrow> onWorld (cl_GetNode (r_Client r) nodeName)
   }"

definition updateSnrStatusLastError ::
  "'w reconciler \<Rightarrow> error option \<Rightarrow> ('w rs, error option) state" where
  "updateSnrStatusLastError r err = do {
     snr \<leftarrow> gets rs_snr;
     let lastErrorVal = (case err of None \<Rightarrow> '''' | Some e \<Rightarrow> error_str e);
     updateErr \<leftarrow> (if st_LastError (snr_Status snr) \<noteq> lastErrorVal
                   then do {
                     modifyStatus (\<lambda>st. st\<lparr>st_LastError := lastErrorVal\<rparr>);
                     clientStatusPatchSnr r snr
                   }
                   else returnM None);
     case updateErr of
       Some e \<Rightarrow> returnM (Some e)
     | None \<Rightarrow> returnM (case err of Some (Unreconcilable m) \<Rightarrow> None | _ \<Rightarrow> err)
   }"

text \<open>The strategy switch; the error of an unsupported strategy is local to its branch.\<close>

definition remediate :: "'w reconciler \<Rightarrow> ('w rs, reconcileResult) state" where
  "remediate r = do {
     strategy \<leftarrow> gets (\<lambda>s. getRuntimeStrategy r (rs_snr s));
     if strategy = ResourceDeletionRemediationStrategy then remediateWithResourceDeletion r
     else if strategy = OutOfServiceTaintRemediationStrategy then remediateWithOutOfServiceTaint r
     else returnM (Ret (emptyResult, None))
   }"

text \<open>The target node could not be read: only its absence is reported in the conditions.\<close>

definition nodeLookupFailed :: "'w reconciler \<Rightarrow> error \<Rightarrow> ('w rs, reconcileResult) state" where
  "nodeLookupFailed r err =
     (if IsNotFound err
      then do {
        updateErr \<leftarrow> updateConditions r remediationSkippedNodeNotFound;
        case updateErr of
          Some e \<Rightarrow> returnM (Ret (emptyResult, Some e))
        | None \<Rightarrow> do {
            WarningEvent OnSnr ''RemediationCannotStart'' ''Could not get remediation target Node'';
            e \<leftarrow> updateSnrStatusLastError r (Some err);
            returnM (Ret (emptyResult, e))
          }
      }
      else do {
        e \<leftarrow> updateSnrStatusLastError r (Some err);
        returnM (Ret (emptyResult, e))
      })"

text \<open>The target node is known: an excluded node is skipped, any other one remediated.\<close>

definition remediateNode :: "'w reconciler \<Rightarrow> Node \<Rightarrow> ('w rs, reconcileResult) state" where
  "remediateNode r node = do {
     setNode node;
     if map_val (om_Labels (n_Meta node)) excludeRemediationLabel = ''true''
     then do {
       NormalEvent OnSnr ''RemediationSkipped'' ''remediation skipped this node is excluded from remediation'';
       returnM (Ret (emptyResult, None))
     }
     else do {
       snr \<leftarrow> gets rs_snr;
       (if \<not> ContainsFinalizer (snr_Meta snr) SNRFinalizer
        then NormalEvent OnSnr ''RemediationStarted'' ''Remediation started by SNR manager''
        else returnM ());
       outcome \<leftarrow> remediate r;
       case outcome of
         Ret (result, err) \<Rightarrow> do {
           e \<leftarrow> updateSnrStatusLastError r err;
           returnM (Ret (result, e))
         }
       | Panic \<Rightarrow> returnM Panic
     }
   }"

text \<open>From the lookup of the node to the end of the reconcile.\<close>

definition reconcileNode :: "'w reconciler \<Rightarrow> ('w rs, reconcileResult) state" where
  "reconcileNode r = do {
     res \<leftarrow> getNodeFromSnr r;
     case res of
       Inl err \<Rightarrow> nodeLookupFailed r err
     | Inr node \<Rightarrow> remediateNode r node
   }"

text \<open>The reconcile once a configuration exists: a timed-out remediation stops, any other one goes on.\<close>

definition stopByNHC :: "'w reconciler \<Rightarrow> ('w rs, reconcileResult) state" where
  "stopByNHC r = do {
     snr \<leftarrow> gets rs_snr;
     if om_DeletionTimestamp (snr_Meta snr) \<noteq> None
     then do { err \<leftarrow> removeFinalizer r; returnM (Ret (emptyResult, err)) }
     else do {
       NormalEvent OnSnr ''RemediationStopped'' ''NHC added the timed-out annotation, remediation will be stopped'';
       err \<leftarrow> updateConditions r remediationTimeoutByNHC;
       returnM (Ret (emptyResult, err))
     }
   }"

definition reconcileEnabled :: "'w reconciler \<Rightarrow> ('w rs, reconcileResult) state" where
  "reconcileEnabled r = do {
     snr \<leftarrow> gets rs_snr;
     if isStoppedByNHC snr then stopByNHC r
     else do {
       err \<leftarrow> (if getPhase snr \<noteq> fencingCompletedPhase
              then updateConditions r remediationStarted else returnM None);
       case err of
         Some e \<Rightarrow> returnM (Ret (emptyResult, Some e))
       | None \<Rightarrow> reconcileNode r
     }
   }"

text \<open>The reconcile of an existing remediation, without the deferred status update.\<close>

definition reconcileManagerBody :: "'w reconciler \<Rightarrow> ('w rs, reconcileResult) state" where
  "reconcileManagerBody r = do {
     configExists \<leftarrow> isConfigurationExist r;
     case configExists of
       Inl err \<Rightarrow> returnM (Ret (emptyResult, Some err))
     | Inr exists \<Rightarrow>
         if \<not> exists
         then do {
           setStatusCondition r (newCondition DisabledConditionType ConditionTrue
             (conditionReason_str snrDisabledNoConfig)
             ''SelfNodeRemediation is disabled because configuration does not exist'');
           returnM (Ret (emptyResult, None))
         }
         else reconcileEnabled r
   }"

text \<open>The deferred function: it also runs while a panic unwinds.\<close>

definition deferredStatusUpdate :: "'w reconciler \<Rightarrow> reconcileResult \<Rightarrow> ('w rs, reconcileResult) state" where
  "deferredStatusUpdate r out = do {
     updateErr \<leftarrow> updateSnrStatus r;
     returnM (case out of
         Ret (returnResult, returnErr) \<Rightarrow>
           (case updateErr of
              None \<Rightarrow> out
            | Some e \<Rightarrow>
                if IsConflict e
                then let minRequeue = (if res_RequeueAfter returnResult > 0 \<and> Second > res_RequeueAfter returnResult
                                       then res_RequeueAfter returnResult else Second)
                     in if returnErr = None
                        then Ret (returnResult\<lparr>res_RequeueAfter := minRequeue\<rparr>, None)
                        else out
                else Ret (returnResult, NewAggregate [Some e, returnErr]))
       | Panic \<Rightarrow> Panic)
   }"

definition ReconcileManager :: "'w reconciler \<Rightarrow> string \<Rightarrow> string \<Rightarrow> ('w rs, reconcileResult) state" where
  "ReconcileManager r ns name = do {
     res \<leftarrow> onWorld (cl_GetSnr (r_Client r) ns name);
     case res of
       Inl err \<Rightarrow> returnM (Ret (emptyResult, if IsNotFound err then None else Some err))
     | Inr snr \<Rightarrow> do {
         setSnr snr;
         out \<leftarrow> reconcileManagerBody r;
         deferredStatusUpdate r out
       }
   }"

section \<open>The agent\<close>

definition didIRebootMyself :: "'w reconciler \<Rightarrow> ('w rs, bool result) state" where
  "didIRebootMyself r = do {
     sysinfo \<leftarrow> onWorld (r_Sysinfo r);
     case GetLinuxUptime sysinfo of
       Inl err \<Rightarrow> returnM (Inl err)
     | Inr uptime \<Rightarrow> do {
         now \<leftarrow> Now r;
         snr \<leftarrow> gets rs_snr;
         returnM (Inr (uptime < time_sub now (om_CreationTimestamp (snr_Meta snr))))
       }
   }"

definition rebootIfNeeded :: "'w reconciler \<Rightarrow> Node option \<Rightarrow> ('w rs, reconcileResult) state" where
  "rebootIfNeeded r node = do {
     res \<leftarrow> didIRebootMyself r;
     case res of
       Inl err \<Rightarrow> returnM (Ret (emptyResult, Some err))
     | Inr shouldAvoidReboot \<Rightarrow>
         if shouldAvoidReboot then returnM (Ret (emptyResult, None))
         else do {
           ev \<leftarrow> NormalEventOnNodePtr node ''NodeReboot''
                  ''Remediation process - about to attempt fencing the unhealthy node by rebooting it'';
           case ev of
             Ret _ \<Rightarrow> do {
               emit AReboot;
               out \<leftarrow> onWorld (r_Reboot r);
               returnM (case out of
                   Ret err \<Rightarrow> Ret (requeueAfter (30 * Second), err)
                 | Panic \<Rightarrow> Panic)
             }
           | Panic \<Rightarrow> returnM Panic
         }
   }"

definition ReconcileAgent :: "'w reconciler \<Rightarrow> string \<Rightarrow> string \<Rightarrow> ('w rs, reconcileResult) state" where
  "ReconcileAgent r ns name = do {
     res \<leftarrow> onWorld (cl_GetSnr (r_Client r) ns name);
     case res of
       Inl err \<Rightarrow> returnM (Ret (emptyResult, if IsNotFound err then None else Some err))
     | Inr snr \<Rightarrow>
         if om_DeletionTimestamp (snr_Meta snr) \<noteq> None then returnM (Ret (emptyResult, None))
         else do {
           setSnr snr;
           match \<leftarrow> onWorld (IsSNRMatching (r_Client r) snr (r_MyNodeName r) '''');
           case match of
             Inl err \<Rightarrow> returnM (Ret (emptyResult, Some err))
           | Inr snrMatches \<Rightarrow>
               if \<not> fst snrMatches then returnM (Ret (emptyResult, None))
               else if getPhase snr = preRebootCompletedPhase
               then do {
                 node \<leftarrow> getNodeFromSnr r;
                 rebootIfNeeded r (case node of Inl _ \<Rightarrow> None | Inr n \<Rightarrow> Some n)
               }
               else returnM (Ret (emptyResult, None))
         }
   }"

definition Reconcile :: "'w reconciler \<Rightarrow> string \<Rightarrow> string \<Rightarrow> ('w rs, reconcileResult) state" where
  "Reconcile r ns name = (if r_IsAgent r then ReconcileAgent r ns name else ReconcileManager r ns name)"

end
