(* ===== verification/Snr_Frames.thy ===== *)
theory Snr_Frames
  imports Snr_Controller
begin

text \<open>
  What each step of the remediation controller leaves alone: the part of the remediation object, of
  the node and of the outside world it does not touch, and the kinds of requests it sends. Every
  fact follows the structure of the code by the rules of \<^verbatim>\<open>Prelude\<close>, so the properties of the
  controller reduce to the few steps that matter.
\<close>

section \<open>Relations\<close>

text \<open>The requests sent between two states all satisfy a predicate.\<close>

definition emits :: "(action \<Rightarrow> bool) \<Rightarrow> 'w rs \<Rightarrow> 'w rs \<Rightarrow> bool" where
  "emits P s s' \<longleftrightarrow> (\<exists>as. rs_trace s' = rs_trace s @ as \<and> list_all P as)"

interpretation emitted: frame_relation "emits P" for P
  by unfold_locales (auto simp: emits_def)

lemmas emits_rules = emitted.framed_returnM emitted.framed_gets emitted.framed_bind

text \<open>Everything of a remediation but its conditions.\<close>

definition sansConditions :: "SelfNodeRemediation \<Rightarrow> SelfNodeRemediation" where
  "sansConditions snr = snr\<lparr>snr_Status := (snr_Status snr)\<lparr>st_Conditions := []\<rparr>\<rparr>"

definition snrSansConditions :: "'w rs \<Rightarrow> SelfNodeRemediation" where
  "snrSansConditions s = sansConditions (rs_snr s)"

fun isEvent :: "action \<Rightarrow> bool" where
  "isEvent (AEvent t obj reason message) = True"
| "isEvent a = False"

text \<open>The requests that give up the workload of a node: deleting its pods, or tainting it out of service.\<close>

fun removesResources :: "action \<Rightarrow> bool" where
  "removesResources (ADeletePods ns nodeName err) = True"
| "removesResources (APatchNode orig node err) =
     (TaintExists (n_Taints node) OutOfServiceTaint \<and> \<not> TaintExists (n_Taints orig) OutOfServiceTaint)"
| "removesResources a = False"

text \<open>The requests that change more than the status of the remediation: its metadata, the node, the pods.\<close>

fun intervenes :: "action \<Rightarrow> bool" where
  "intervenes (AUpdateNode node err) = True"
| "intervenes (APatchNode orig node err) = True"
| "intervenes (ADeletePods ns nodeName err) = True"
| "intervenes (AUpdateSnr snr err) = True"
| "intervenes a = False"

section \<open>Primitive steps\<close>

lemma framed_onWorld [framed_intros]: "(\<And>s w. R s (s\<lparr>rs_world := w\<rparr>)) \<Longrightarrow> framed R (onWorld m)"
  by (rule framedI) (auto simp: onWorld_def split: prod.splits)

lemma framed_emit [framed_intros]: "(\<And>s. R s (s\<lparr>rs_trace := rs_trace s @ [a]\<rparr>)) \<Longrightarrow> framed R (emit a)"
  by (simp add: emit_def framed_modify)

lemma framed_setSnr [framed_intros]: "(\<And>s. R s (s\<lparr>rs_snr := x\<rparr>)) \<Longrightarrow> framed R (setSnr x)"
  by (simp add: setSnr_def framed_modify)

lemma framed_setNode [framed_intros]: "(\<And>s. R s (s\<lparr>rs_node := x\<rparr>)) \<Longrightarrow> framed R (setNode x)"
  by (simp add: setNode_def framed_modify)

lemma framed_modifyStatus [framed_intros]:
  "(\<And>s. R s (s\<lparr>rs_snr := (rs_snr s)\<lparr>snr_Status := f (snr_Status (rs_snr s))\<rparr>\<rparr>)) \<Longrightarrow> framed R (modifyStatus f)"
  by (simp add: modifyStatus_def framed_modify)

lemma emits_primitives [simp]:
  "emits P s (s\<lparr>rs_world := w\<rparr>)" "emits P s (s\<lparr>rs_snr := x\<rparr>)" "emits P s (s\<lparr>rs_node := n\<rparr>)"
  "emits P s (s\<lparr>rs_trace := rs_trace s @ [a]\<rparr>) \<longleftrightarrow> P a"
  by (simp_all add: emits_def)

lemma keeps_primitives [simp]:
  "keeps rs_snr s (s\<lparr>rs_world := w\<rparr>)" "keeps rs_snr s (s\<lparr>rs_node := n\<rparr>)" "keeps rs_snr s (s\<lparr>rs_trace := t\<rparr>)"
  "keeps rs_node s (s\<lparr>rs_world := w\<rparr>)" "keeps rs_node s (s\<lparr>rs_snr := x\<rparr>)" "keeps rs_node s (s\<lparr>rs_trace := t\<rparr>)"
  "keeps rs_world s (s\<lparr>rs_snr := x\<rparr>)" "keeps rs_world s (s\<lparr>rs_node := n\<rparr>)" "keeps rs_world s (s\<lparr>rs_trace := t\<rparr>)"
  by (simp_all add: keeps_def)

lemmas event_defs = NormalEvent_def WarningEvent_def
lemmas client_defs = clientUpdateNode_def clientPatchNode_def clientUpdateSnr_def
  clientStatusPatchSnr_def updateSnrStatus_def Now_def

section \<open>The requests of each operation\<close>

lemma emits_condition_ops:
  "framed (emits P) (setStatusCondition r c)" "framed (emits P) (updateConditions r reason)"
  "framed (emits P) (isConfigurationExist r)" "framed (emits P) (getNodeFromSnr r)"
  "framed (emits P) (isNodeRebootCapable r)" "framed (emits P) (isResourceDeletionCompleted r)"
  "framed (emits P) (isResourceDeletionExpired r)" "framed (emits P) (wasNodeRebooted r)"
  by (auto intro!: framed_intros emits_rules simp: setStatusCondition_def updateConditions_def
      isConfigurationExist_def getNodeFromSnr_def isNodeRebootCapable_def isResourceDeletionCompleted_def
      isResourceDeletionExpired_def wasNodeRebooted_def Now_def split: option.split)

lemma emits_addTaint:
  assumes "\<And>node now e. \<not> TaintExists (n_Taints node) taint \<Longrightarrow>
      P (APatchNode node (node\<lparr>n_Taints := n_Taints node @ [taint\<lparr>t_TimeAdded := Some now\<rparr>]\<rparr>) e)"
    and "\<And>t obj m. P (AEvent t obj reason m)"
  shows "framed (emits P) (addTaint r taint reason message)"
  by (rule framedI) (use assms in \<open>auto simp: addTaint_def client_defs event_defs onWorld_def emit_def
      setNode_def emits_def split: prod.splits if_splits sum.splits option.splits\<close>)

lemma emits_removeTaint:
  assumes "\<And>node e. P (APatchNode node (node\<lparr>n_Taints := fst (DeleteTaint (n_Taints node) taint)\<rparr>) e)"
    and "\<And>t obj m. P (AEvent t obj reason m)"
  shows "framed (emits P) (removeTaint r taint reason message)"
proof (rule framedI)
  fix s a s' assume run: "run_state (removeTaint r taint reason message) s = (a, s')"
  obtain taints deleted where d: "DeleteTaint (n_Taints (rs_node s)) taint = (taints, deleted)"
    by (cases "DeleteTaint (n_Taints (rs_node s)) taint")
  then have "P (APatchNode (rs_node s) (rs_node s\<lparr>n_Taints := taints\<rparr>) e)" for e
    using assms(1) [of "rs_node s" e] by simp
  with run assms(2) d show "emits P s s'"
    by (auto simp: removeTaint_def client_defs event_defs onWorld_def emit_def
      setNode_def emits_def split: prod.splits if_splits sum.splits option.splits)
qed

lemma emits_finalizer_ops:
  assumes "\<And>x e. P (AUpdateSnr x e)" and "\<And>t obj reason m. P (AEvent t obj reason m)"
  shows "framed (emits P) (addFinalizer r)" "framed (emits P) (removeFinalizer r)"
  using assms by (auto intro!: framed_intros emits_rules simp: addFinalizer_def removeFinalizer_def
      client_defs event_defs split: option.split)

lemma emits_markNodeAsUnschedulable:
  assumes "\<And>x e. P (AUpdateNode x e)" and "\<And>t obj reason m. P (AEvent t obj reason m)"
  shows "framed (emits P) (markNodeAsUnschedulable r)"
  using assms by (auto intro!: framed_intros emits_rules simp: markNodeAsUnschedulable_def
      client_defs event_defs split: option.split)

lemma emits_setTimeAssumedRebooted:
  assumes "\<And>t obj reason m. P (AEvent t obj reason m)"
  shows "framed (emits P) (setTimeAssumedRebooted r)"
  using assms by (auto intro!: framed_intros emits_rules simp: setTimeAssumedRebooted_def
      client_defs event_defs split: option.split)

lemma emits_updateSnrStatusLastError:
  assumes "\<And>x y e. P (AStatusPatchSnr x y e)"
  shows "framed (emits P) (updateSnrStatusLastError r err)"
  using assms by (auto intro!: framed_intros emits_rules simp: updateSnrStatusLastError_def
      client_defs Let_def split: option.split)

lemma emits_updateSnrStatus:
  assumes "\<And>x e. P (AStatusUpdateSnr x e)"
  shows "framed (emits P) (updateSnrStatus r)" "framed (emits P) (deferredStatusUpdate r out)"
proof -
  show 1: "framed (emits P) (updateSnrStatus r)"
    using assms by (auto intro!: framed_intros emits_rules simp: client_defs split: option.split)
  show "framed (emits P) (deferredStatusUpdate r out)"
    by (auto intro!: framed_intros emits_rules 1 simp: deferredStatusUpdate_def)
qed

lemma emits_DeletePods:
  assumes "\<And>ns e. P (ADeletePods ns nodeName e)"
  shows "framed (emits P) (DeletePods r nodeName)"
proof -
  have "framed (emits P) (deletePodsLoop r nodeName nss)" for nss
    by (induction nss) (auto intro!: framed_intros emits_rules simp: assms)
  then show ?thesis
    by (auto intro!: framed_intros emits_rules simp: DeletePods_def)
qed

section \<open>What stays of the remediation object\<close>

lemma keepsSnr_reads:
  "framed (keeps rs_snr) (isConfigurationExist r)" "framed (keeps rs_snr) (getNodeFromSnr r)"
  "framed (keeps rs_snr) (isNodeRebootCapable r)" "framed (keeps rs_snr) (isResourceDeletionCompleted r)"
  "framed (keeps rs_snr) (isResourceDeletionExpired r)" "framed (keeps rs_snr) (wasNodeRebooted r)"
  by (auto intro!: framed_intros keeps_rules simp: isConfigurationExist_def getNodeFromSnr_def
      isNodeRebootCapable_def isResourceDeletionCompleted_def isResourceDeletionExpired_def
      wasNodeRebooted_def Now_def split: option.split)

lemma keepsSnr_node_ops:
  "framed (keeps rs_snr) (addTaint r taint reason message)"
  "framed (keeps rs_snr) (removeTaint r taint reason message)"
  "framed (keeps rs_snr) (markNodeAsUnschedulable r)"
  by (auto intro!: framed_intros keeps_rules simp: addTaint_def removeTaint_def
      markNodeAsUnschedulable_def client_defs event_defs split: option.split)

lemma keepsSnr_DeletePods: "framed (keeps rs_snr) (DeletePods r nodeName)"
proof -
  have "framed (keeps rs_snr) (deletePodsLoop r nodeName nss)" for nss
    by (induction nss) (auto intro!: framed_intros keeps_rules)
  then show ?thesis
    by (auto intro!: framed_intros keeps_rules simp: DeletePods_def)
qed

lemma sansConditions_upd [simp]:
  "sansConditions (snr\<lparr>snr_Status := (snr_Status snr)\<lparr>st_Conditions := cs\<rparr>\<rparr>) = sansConditions snr"
  by (simp add: sansConditions_def)

lemma sansConditions_sel:
  assumes "sansConditions snr = sansConditions snr'"
  shows "snr_Meta snr = snr_Meta snr'" "snr_RemediationStrategy snr = snr_RemediationStrategy snr'"
    "st_Phase (snr_Status snr) = st_Phase (snr_Status snr')"
    "st_TimeAssumedRebooted (snr_Status snr) = st_TimeAssumedRebooted (snr_Status snr')"
    "st_LastError (snr_Status snr) = st_LastError (snr_Status snr')"
  using assms unfolding sansConditions_def
  by (cases snr; cases snr'; cases "snr_Status snr"; cases "snr_Status snr'"; simp)+

lemma sansConditions_reads:
  assumes "sansConditions snr = sansConditions snr'"
  shows "getPhase snr = getPhase snr'" "getRuntimeStrategy r snr = getRuntimeStrategy r snr'"
    "isStoppedByNHC snr = isStoppedByNHC snr'" "isOwnedByNHC snr = isOwnedByNHC snr'"
    "isOwnedByMachine snr = isOwnedByMachine snr'" "getNodeNameDirect snr = getNodeNameDirect snr'"
  using sansConditions_sel [OF assms]
  by (simp_all add: getPhase_def getRuntimeStrategy_def isStoppedByNHC_def isOwnedByNHC_def
      isOwnedByMachine_def getNodeNameDirect_def cong: option.case_cong)

lemma getNodeName_sansConditions:
  "sansConditions snr = sansConditions snr' \<Longrightarrow> getNodeName cl snr = getNodeName cl snr'"
  using sansConditions_sel(1) [of snr snr'] sansConditions_reads(4-6) [of snr snr']
  by (simp add: getNodeName_def cong: option.case_cong)

lemma keeps_updateConditions:
  "framed (keeps snrSansConditions) (setStatusCondition r c)"
  "framed (keeps snrSansConditions) (updateConditions r reason)"
  "framed (keeps rs_node) (updateConditions r reason)"
  by (auto intro!: framed_intros keeps_rules simp: setStatusCondition_def updateConditions_def Now_def
      snrSansConditions_def keeps_def split: option.split)

lemma keeps_weaken: "keeps rs_snr s s' \<Longrightarrow> keeps snrSansConditions s s'"
  by (simp add: keeps_def snrSansConditions_def)

lemma wp_keepsSnr: "framed (keeps rs_snr) m \<Longrightarrow> wp m (\<lambda>_ s'. rs_snr s' = rs_snr s) s"
  by (auto intro!: wpI dest: framedD simp: keeps_def)

end
