(* ===== verification/Example_Cluster.thy ===== *)
theory Example_Cluster
  imports Snr_Controller
begin

text \<open>
  A concrete cluster on which the properties of the controller are instantiated: one remediation, one
  node and an API server that treats the status as a subresource, as the custom resource declares. An
  update of the object ignores its status, a status update changes nothing else, and a merge patch
  changes the fields in which the two given objects differ. No operation of the controller refers to
  this theory.
\<close>

record cluster =
  k_now :: instant
  k_snr :: SelfNodeRemediation
  k_node :: Node
  k_pods :: "Pod list"
  k_vas :: "VolumeAttachment list"
  k_namespaces :: "string list"
  k_deleted :: "(string \<times> string) list"
  k_rebooted :: bool

definition notFound :: "'a result" where
  "notFound = Inl (ApiStatus NotFound ''not found'')"

text \<open>A write of the remediation \<^term>\<open>x\<close>: \<^term>\<open>f\<close> gives the new object from the stored one.\<close>

definition writeSnr ::
  "SelfNodeRemediation \<Rightarrow> (SelfNodeRemediation \<Rightarrow> SelfNodeRemediation) \<Rightarrow> (cluster, SelfNodeRemediation result) state" where
  "writeSnr x f = do {
     y \<leftarrow> gets k_snr;
     if om_Namespace (snr_Meta x) = om_Namespace (snr_Meta y) \<and> om_Name (snr_Meta x) = om_Name (snr_Meta y)
     then do { modify (\<lambda>k. k\<lparr>k_snr := f y\<rparr>); returnM (Inr (f y)) }
     else returnM notFound
   }"

definition storeNode :: "Node \<Rightarrow> (cluster, Node result) state" where
  "storeNode x = do { modify (\<lambda>k. k\<lparr>k_node := x\<rparr>); returnM (Inr x) }"

definition patched :: "'v \<Rightarrow> 'v \<Rightarrow> 'v \<Rightarrow> 'v" where
  "patched orig new stored = (if orig = new then stored else new)"

definition patchedStatus :: "SnrStatus \<Rightarrow> SnrStatus \<Rightarrow> SnrStatus \<Rightarrow> SnrStatus" where
  "patchedStatus orig new stored =
     \<lparr>st_TimeAssumedRebooted =
        patched (st_TimeAssumedRebooted orig) (st_TimeAssumedRebooted new) (st_TimeAssumedRebooted stored),
      st_Phase = patched (st_Phase orig) (st_Phase new) (st_Phase stored),
      st_LastError = patched (st_LastError orig) (st_LastError new) (st_LastError stored),
      st_Conditions = patched (st_Conditions orig) (st_Conditions new) (st_Conditions stored)\<rparr>"

definition emptyStatus :: SnrStatus where
  "emptyStatus = \<lparr>st_TimeAssumedRebooted = None, st_Phase = None, st_LastError = '''', st_Conditions = []\<rparr>"

definition exampleConfig :: SelfNodeRemediationConfig where
  "exampleConfig = \<lparr>cfg_Meta = emptyMeta\<lparr>om_Name := ConfigCRName\<rparr>, cfg_Spec = defaultSpec\<rparr>"

definition clusterClient :: "cluster client" where
  "clusterClient =
     \<lparr>cl_Now = gets k_now,
      cl_GetSnr = (\<lambda>ns name. gets (\<lambda>k. if om_Namespace (snr_Meta (k_snr k)) = ns \<and> om_Name (snr_Meta (k_snr k)) = name
                                      then Inr (k_snr k) else notFound)),
      cl_GetConfig = (\<lambda>ns name. returnM (Inr exampleConfig)),
      cl_GetNode = (\<lambda>name. gets (\<lambda>k. if om_Name (n_Meta (k_node k)) = name then Inr (k_node k) else notFound)),
      cl_GetMachine = (\<lambda>ns name. returnM notFound),
      cl_ListNodes = (\<lambda>sel. gets (\<lambda>k. Inr [k_node k])),
      cl_ListPods = (\<lambda>sel. gets (\<lambda>k. Inr (k_pods k))),
      cl_ListSnrs = gets (\<lambda>k. Inr [k_snr k]),
      cl_ListVolumeAttachments = gets (\<lambda>k. Inr (k_vas k)),
      cl_ListNamespaces = gets (\<lambda>k. Inr (k_namespaces k)),
      cl_UpdateNode = storeNode,
      cl_PatchNode = (\<lambda>orig new. storeNode new),
      cl_UpdateSnr = (\<lambda>x. writeSnr x (\<lambda>y. x\<lparr>snr_Status := snr_Status y\<rparr>)),
      cl_StatusUpdateSnr = (\<lambda>x. writeSnr x (\<lambda>y. y\<lparr>snr_Status := snr_Status x\<rparr>)),
      cl_StatusPatchSnr = (\<lambda>orig x. writeSnr x
         (\<lambda>y. y\<lparr>snr_Status := patchedStatus (snr_Status orig) (snr_Status x) (snr_Status y)\<rparr>)),
      cl_DeleteAllOfPods = (\<lambda>ns n. do { modify (\<lambda>k. k\<lparr>k_deleted := k_deleted k @ [(ns, n)]\<rparr>); returnM (Inr ()) })\<rparr>"

text \<open>The node is reboot capable, as the agent on it reported; the remediation names the node.\<close>

definition worker1 :: Node where
  "worker1 = \<lparr>n_Meta = emptyMeta\<lparr>om_Name := ''worker-1'',
                om_Annotations := Some [IsRebootCapableAnnotation \<mapsto> ''true'']\<rparr>,
              n_Unschedulable = False, n_Taints = []\<rparr>"

definition cordonedWorker1 :: Node where
  "cordonedWorker1 = worker1\<lparr>n_Unschedulable := True, n_Taints := [NodeUnschedulableTaint, NodeNoExecuteTaint]\<rparr>"

definition agentPod :: Pod where
  "agentPod = \<lparr>p_Meta = emptyMeta\<lparr>om_Name := ''agent''\<rparr>, p_NodeName = ''worker-1'', p_PodIPs = []\<rparr>"

definition exampleSnr :: "string \<Rightarrow> string option \<Rightarrow> instant option \<Rightarrow> SelfNodeRemediation" where
  "exampleSnr strategy phase t =
     \<lparr>snr_Meta = emptyMeta\<lparr>om_Name := ''worker-1'', om_Namespace := ''op'', om_Finalizers := [SNRFinalizer]\<rparr>,
      snr_RemediationStrategy = strategy,
      snr_Status = emptyStatus\<lparr>st_Phase := phase, st_TimeAssumedRebooted := t\<rparr>\<rparr>"

definition exampleWorld :: "SelfNodeRemediation \<Rightarrow> Node \<Rightarrow> instant \<Rightarrow> cluster" where
  "exampleWorld snr node now =
     \<lparr>k_now = now, k_snr = snr, k_node = node, k_pods = [agentPod], k_vas = [], k_namespaces = [''default''],
      k_deleted = [], k_rebooted = False\<rparr>"

definition exampleReconciler :: "bool \<Rightarrow> cluster reconciler" where
  "exampleReconciler isAgent =
     \<lparr>r_Client = clusterClient, r_GetRebootDuration = (\<lambda>node. returnM (Ret (Inr (180 * Second)))),
      r_Reboot = do { modify (\<lambda>k. k\<lparr>k_rebooted := True\<rparr>); returnM (Ret None) },
      r_Sysinfo = returnM (Inr 1000000), r_MyNodeName = ''worker-1'', r_IsAgent = isAgent,
      r_Env = [''DEPLOYMENT_NAMESPACE'' \<mapsto> ''op''],
      r_Flags = \<lparr>IsOutOfServiceTaintSupported = True, IsOutOfServiceTaintGA = False\<rparr>\<rparr>"

definition startState :: "cluster \<Rightarrow> cluster rs" where
  "startState k = \<lparr>rs_world = k, rs_snr = k_snr k, rs_node = k_node k, rs_trace = []\<rparr>"

lemma startState_sel [simp]:
  "rs_world (startState k) = k" "rs_snr (startState k) = k_snr k" "rs_node (startState k) = k_node k"
  "rs_trace (startState k) = []"
  by (simp_all add: startState_def)

lemmas example_defs = exampleReconciler_def clusterClient_def exampleWorld_def exampleSnr_def startState_def
  writeSnr_def storeNode_def emptyStatus_def emptyMeta_def worker1_def cordonedWorker1_def exampleConfig_def
  notFound_def patchedStatus_def patched_def agentPod_def

lemmas manager_defs = ReconcileManager_def reconcileManagerBody_def reconcileEnabled_def stopByNHC_def
  reconcileNode_def nodeLookupFailed_def remediateNode_def remediate_def deferredStatusUpdate_def
  updateSnrStatusLastError_def getNodeFromSnr_def remediateWithResourceDeletion_def
  remediateWithOutOfServiceTaint_def remediateWithResourceRemoval_def handleFencingStartedPhase_def
  handlePreRebootCompletedPhase_def handleRebootCompletedPhase_def handleFencingCompletedPhase_def
  recoverNode_def recoverNodeTail_def waitForNodeRebooted_def prepareReboot_def useOutOfServiceTaint_def
  deleteResourcesWrapper_def DeletePods_def isNodeRebootCapable_def markNodeAsUnschedulable_def
  addFinalizer_def removeFinalizer_def addTaint_def removeTaint_def addNoExecuteTaint_def
  removeNoExecuteTaint_def addOutOfServiceTaint_def removeOutOfServiceTaint_def setTimeAssumedRebooted_def
  isResourceDeletionExpired_def isResourceDeletionCompleted_def wasNodeRebooted_def getRuntimeStrategy_def
  isStoppedByNHC_def isConfigurationExist_def updateConditions_def setStatusCondition_def getPhase_def
  Now_def updateSnrStatus_def clientStatusPatchSnr_def clientUpdateSnr_def clientPatchNode_def
  clientUpdateNode_def setPhase_def modifyStatus_def setNode_def setSnr_def NormalEvent_def WarningEvent_def
  emit_def onWorld_def

lemmas example_run_defs = example_defs manager_defs GetDeploymentNamespace_def getNodeName_def isOwnedByNHC_def
  isOwnedByMachine_def getNodeNameDirect_def map_get_def map_val_def ContainsFinalizer_def
  ResourceDeletionRemediationStrategy_def OutOfServiceTaintRemediationStrategy_def AutomaticRemediationStrategy_def
  ConfigCRName_def SNRFinalizer_def

text \<open>A remediation whose node is assumed to have rebooted: its pods are deleted and fencing completes.\<close>

definition rebootedWorld :: cluster where
  "rebootedWorld = exampleWorld (exampleSnr ResourceDeletionRemediationStrategy (Some ''Reboot-Completed'') (Some 100))
     cordonedWorker1 200"

text \<open>A new remediation of a node that is already cordoned and tainted.\<close>

definition preparedWorld :: cluster where
  "preparedWorld = exampleWorld (exampleSnr ResourceDeletionRemediationStrategy None None) cordonedWorker1 200"

lemma rebootedWorld_run:
  "\<exists>t. rs_trace (snd (run_state (ReconcileManager (exampleReconciler False) ''op'' ''worker-1'') (startState rebootedWorld)))
     = ADeletePods ''default'' ''worker-1'' None # t"
  by (simp add: rebootedWorld_def example_run_defs)

end
