(* ===== verification/Snr_Safety.thy ===== *)
theory Snr_Safety
  imports Snr_Frames Example_Cluster
begin

text \<open>
  Safety of the remediation controller for every API server: which requests the manager sends in
  which situation, and when an agent reboots its node. Nothing is assumed of the client here.
\<close>

section \<open>Requests of the phases\<close>

lemma not_removes_event [simp]: "\<not> removesResources (AEvent t obj reason m)"
  by simp

lemma taints_differ [simp]:
  "\<not> MatchTaint NodeNoExecuteTaint OutOfServiceTaint"
  "\<not> MatchTaint (NodeNoExecuteTaint\<lparr>t_TimeAdded := t\<rparr>) OutOfServiceTaint"
  "MatchTaint (OutOfServiceTaint\<lparr>t_TimeAdded := t\<rparr>) OutOfServiceTaint"
  "MatchTaint (NodeNoExecuteTaint\<lparr>t_TimeAdded := t\<rparr>) NodeNoExecuteTaint"
  by (simp_all add: MatchTaint_def NodeNoExecuteTaint_def OutOfServiceTaint_def)

text \<open>The preparation of the reboot, the wait for it and the recovery never give up workload.\<close>

definition harmless :: "action \<Rightarrow> bool" where
  "harmless a \<longleftrightarrow> \<not> removesResources a"

lemma harmless_taints:
  "framed (emits harmless) (addNoExecuteTaint r)" "framed (emits harmless) (removeNoExecuteTaint r)"
  "framed (emits harmless) (removeOutOfServiceTaint r)"
  by (auto intro!: emits_addTaint emits_removeTaint simp: addNoExecuteTaint_def removeNoExecuteTaint_def
      removeOutOfServiceTaint_def harmless_def DeleteTaint_eq TaintExists_filter_other)

lemmas harmless_ops = emits_condition_ops [where P = harmless] harmless_taints
  emits_finalizer_ops [where P = harmless] emits_markNodeAsUnschedulable [where P = harmless]
  emits_setTimeAssumedRebooted [where P = harmless] emits_updateSnrStatusLastError [where P = harmless]
  emits_updateSnrStatus [where P = harmless]

lemma harmless_prepareReboot: "framed (emits harmless) (prepareReboot r)"
  unfolding prepareReboot_def setPhase_def
  by (intro framed_intros emits_rules harmless_ops) (simp_all add: harmless_def)

lemma harmless_waitForNodeRebooted: "framed (emits harmless) (waitForNodeRebooted r)"
  unfolding waitForNodeRebooted_def setPhase_def
  by (intro framed_intros emits_rules harmless_ops) simp_all

lemma harmless_recoverNode: "framed (emits harmless) (recoverNode r)"
proof -
  have "framed (emits harmless) (recoverNodeTail r)"
    unfolding recoverNodeTail_def event_defs
    by (intro framed_intros emits_rules harmless_ops) (simp_all add: harmless_def)
  then show ?thesis
    unfolding recoverNode_def event_defs client_defs
    by (intro framed_intros emits_rules harmless_ops) (simp_all add: harmless_def)
qed

lemma emits_deleteResourcesWrapper:
  assumes "\<And>ns n e. P (ADeletePods ns n e)"
  shows "framed (emits P) (deleteResourcesWrapper r)"
  unfolding deleteResourcesWrapper_def by (intro framed_intros emits_rules emits_DeletePods assms)

lemma emits_useOutOfServiceTaint:
  assumes "\<And>x y e. P (APatchNode x y e)" and "\<And>t obj reason m. P (AEvent t obj reason m)"
  shows "framed (emits P) (useOutOfServiceTaint r)"
  unfolding useOutOfServiceTaint_def addOutOfServiceTaint_def removeOutOfServiceTaint_def
  by (intro framed_intros emits_rules emits_condition_ops emits_addTaint emits_removeTaint assms)

lemma emits_handleRebootCompletedPhase:
  assumes "framed (emits P) rm" and "\<And>t obj reason m. P (AEvent t obj reason m)"
  shows "framed (emits P) (handleRebootCompletedPhase r rm)"
  unfolding handleRebootCompletedPhase_def setPhase_def event_defs
  by (intro framed_intros emits_rules emits_condition_ops assms) (simp_all add: assms)

section \<open>Requests of a reconcile\<close>

text \<open>The strategy a request that gives up workload belongs to.\<close>

fun strategyOf :: "action \<Rightarrow> string" where
  "strategyOf (ADeletePods ns nodeName err) = ResourceDeletionRemediationStrategy"
| "strategyOf a = OutOfServiceTaintRemediationStrategy"

definition justified :: "'w reconciler \<Rightarrow> SelfNodeRemediation \<Rightarrow> action \<Rightarrow> bool" where
  "justified r snr a \<longleftrightarrow>
     (removesResources a \<longrightarrow>
        getPhase snr = rebootCompletedPhase \<and> getRuntimeStrategy r snr = strategyOf a \<and> \<not> isStoppedByNHC snr)"

lemma emits_mono: "emits P s s' \<Longrightarrow> (\<And>a. P a \<Longrightarrow> Q a) \<Longrightarrow> emits Q s s'"
  by (auto simp: emits_def elim!: list.pred_mono_strong)

lemma framed_emits_mono: "framed (emits P) m \<Longrightarrow> (\<And>a. P a \<Longrightarrow> Q a) \<Longrightarrow> framed (emits Q) m"
  by (erule framed_mono) (rule emits_mono)

lemma harmless_justified: "harmless a \<Longrightarrow> justified r snr a"
  by (simp add: harmless_def justified_def)

lemmas justified_harmless = framed_emits_mono [OF _ harmless_justified]

lemma justified_rebootCompleted:
  assumes "getPhase snr = rebootCompletedPhase" and "\<not> isStoppedByNHC snr"
  shows "getRuntimeStrategy r snr = ResourceDeletionRemediationStrategy \<Longrightarrow>
      framed (emits (justified r snr)) (handleRebootCompletedPhase r (deleteResourcesWrapper r))"
    and "getRuntimeStrategy r snr = OutOfServiceTaintRemediationStrategy \<Longrightarrow>
      framed (emits (justified r snr)) (handleRebootCompletedPhase r (useOutOfServiceTaint r))"
  using assms by (auto intro!: emits_handleRebootCompletedPhase emits_deleteResourcesWrapper
      emits_useOutOfServiceTaint simp: justified_def)

lemma justified_removal:
  assumes "getPhase snr = rebootCompletedPhase \<Longrightarrow>
      framed (emits (justified r snr)) (handleRebootCompletedPhase r rm)" and "getPhase (rs_snr s) = getPhase snr"
  shows "wp (remediateWithResourceRemoval r rm) (\<lambda>_. emits (justified r snr) s) s"
proof -
  have fenced: "framed (emits harmless) (handleFencingCompletedPhase r)"
    unfolding handleFencingCompletedPhase_def
    by (intro framed_intros emits_rules harmless_recoverNode)
  show ?thesis
    using assms justified_harmless [OF fenced] justified_harmless [OF harmless_prepareReboot]
      justified_harmless [OF harmless_waitForNodeRebooted] emitted.frame_refl
    by (auto simp: remediateWithResourceRemoval_def handleFencingStartedPhase_def
        handlePreRebootCompletedPhase_def intro!: framed_wp split: remediationPhase.split)
qed

lemma justified_remediate:
  assumes "sansConditions (rs_snr s) = sansConditions snr" and "\<not> isStoppedByNHC snr"
  shows "wp (remediate r) (\<lambda>_. emits (justified r snr) s) s"
proof -
  have p: "getPhase (rs_snr s) = getPhase snr" and g: "getRuntimeStrategy r (rs_snr s) = getRuntimeStrategy r snr"
    by (rule sansConditions_reads [OF assms(1)])+
  consider (del) "getRuntimeStrategy r snr = ResourceDeletionRemediationStrategy"
    | (oos) "getRuntimeStrategy r snr = OutOfServiceTaintRemediationStrategy"
      "getRuntimeStrategy r snr \<noteq> ResourceDeletionRemediationStrategy"
    | (other) "getRuntimeStrategy r snr \<noteq> ResourceDeletionRemediationStrategy"
      "getRuntimeStrategy r snr \<noteq> OutOfServiceTaintRemediationStrategy" by blast
  then show ?thesis
  proof cases
    case del
    then show ?thesis
      using justified_removal [OF justified_rebootCompleted(1) [OF _ assms(2) del] p]
      by (simp add: remediate_def remediateWithResourceDeletion_def g)
  next
    case oos
    then show ?thesis
      using justified_removal [OF justified_rebootCompleted(2) [OF _ assms(2) oos(1)] p]
      by (simp add: remediate_def remediateWithOutOfServiceTaint_def g)
  next
    case other
    then show ?thesis by (simp add: remediate_def g emitted.frame_refl)
  qed
qed

text \<open>Sequencing: a step that keeps the remediation up to its conditions, or one that may change it.\<close>

lemma wp_emits_seq:
  assumes "wp m (\<lambda>_. emits P s) s" and "\<And>a s1. run_state m s = (a, s1) \<Longrightarrow> wp (f a) (\<lambda>_. emits P s1) s1"
  shows "wp (State_Monad.bind m f) (\<lambda>_. emits P s) s"
  using iffD1 [OF wp_with_run assms(1)]
  by (rule wp_seq) (use assms(2) in \<open>blast intro: wp_mono emitted.frame_trans\<close>)

lemma wp_emits_kept:
  assumes "framed (emits P) m" and "framed (keeps snrSansConditions) m" and "sansConditions (rs_snr s) = c"
    and "\<And>a s1. sansConditions (rs_snr s1) = c \<Longrightarrow> wp (f a) (\<lambda>_. emits P s1) s1"
  shows "wp (State_Monad.bind m f) (\<lambda>_. emits P s) s"
proof (rule wp_emits_seq [OF framed_wp [OF assms(1)]])
  fix a s1 assume "run_state m s = (a, s1)"
  then have "sansConditions (rs_snr s1) = c"
    using framedD [OF assms(2)] assms(3) by (simp add: keeps_def snrSansConditions_def)
  then show "wp (f a) (\<lambda>_. emits P s1) s1" by (rule assms(4))
qed

lemma keepsSans_reads:
  "framed (keeps snrSansConditions) (isConfigurationExist r)" "framed (keeps snrSansConditions) (getNodeFromSnr r)"
  by (rule framed_mono [OF keepsSnr_reads(1)], erule keeps_weaken)
    (rule framed_mono [OF keepsSnr_reads(2)], erule keeps_weaken)

lemma keepsSans_prims:
  "framed (keeps snrSansConditions) (setNode n)" "framed (keeps snrSansConditions) (gets g)"
  "framed (keeps snrSansConditions) (NormalEvent obj reason m)" "framed (keeps snrSansConditions) (returnM x)"
  by (auto intro!: framed_intros keeps_rules simp: event_defs keeps_def snrSansConditions_def)

lemma emits_nodeLookupFailed:
  assumes "\<And>t obj reason m. P (AEvent t obj reason m)" and "\<And>x y e. P (AStatusPatchSnr x y e)"
  shows "framed (emits P) (nodeLookupFailed r err)"
  unfolding nodeLookupFailed_def event_defs
  by (intro framed_intros emits_rules emits_condition_ops emits_updateSnrStatusLastError)
    (simp_all add: assms)

lemma justified_remediateNode:
  assumes "sansConditions (rs_snr s) = sansConditions snr" and "\<not> isStoppedByNHC snr"
  shows "wp (remediateNode r node) (\<lambda>_. emits (justified r snr) s) s"
proof -
  let ?P = "justified r snr"
  have last: "framed (emits ?P) (updateSnrStatusLastError r err)" for err
    by (rule emits_updateSnrStatusLastError) (simp add: justified_def)
  have ev: "framed (emits ?P) (NormalEvent obj reason m)" for obj reason m
    by (simp add: event_defs framed_emit justified_def)
  have ev': "framed K (if b then NormalEvent obj reason m else returnM ())"
    if "framed K (NormalEvent obj reason m)" "framed K (returnM ())"
    for K :: "'a rs \<Rightarrow> 'a rs \<Rightarrow> bool" and b obj reason m
    using that by simp
  show ?thesis
    unfolding remediateNode_def
    apply (rule wp_emits_kept [OF _ keepsSans_prims(1) assms(1)])
     apply (simp add: framed_setNode)
    apply (simp only: wp_if)
    apply (split if_split, intro conjI impI)
     apply (rule framed_wp, intro framed_intros emits_rules ev)
    apply (rule wp_emits_kept [OF emits_rules(2) keepsSans_prims(2)], assumption)
    apply (rule wp_emits_kept [OF ev' ev'], (rule ev emits_rules keepsSans_prims | assumption)+)
    apply (rule wp_emits_seq [OF justified_remediate [OF _ assms(2)]], assumption)
    apply (rule framed_wp, intro framed_intros emits_rules last)
    done
qed

lemma justified_reconcileNode:
  assumes "sansConditions (rs_snr s) = sansConditions snr" and "\<not> isStoppedByNHC snr"
  shows "wp (reconcileNode r) (\<lambda>_. emits (justified r snr) s) s"
proof -
  have fail: "framed (emits (justified r snr)) (nodeLookupFailed r err)" for err
    by (rule emits_nodeLookupFailed) (simp_all add: justified_def)
  show ?thesis
    unfolding reconcileNode_def
    by (rule wp_emits_kept [OF emits_condition_ops(4) keepsSans_reads(2) assms(1)])
      (auto simp: framed_wp [OF fail] assms(2) intro!: justified_remediateNode split: sum.split)
qed

lemma emits_stopByNHC:
  assumes "\<And>x e. P (AUpdateSnr x e)" and "\<And>t obj reason m. P (AEvent t obj reason m)"
  shows "framed (emits P) (stopByNHC r)"
  unfolding stopByNHC_def event_defs
  by (intro framed_intros emits_rules emits_finalizer_ops [where P = P, OF assms] emits_condition_ops)
    (simp_all add: assms)

lemma justified_reconcileEnabled:
  assumes "sansConditions (rs_snr s) = sansConditions snr"
  shows "wp (reconcileEnabled r) (\<lambda>_. emits (justified r snr) s) s"
proof -
  let ?P = "justified r snr"
  have stop: "framed (emits ?P) (stopByNHC r)"
    by (rule emits_stopByNHC) (simp_all add: justified_def)
  have keep: "framed (keeps snrSansConditions) (if b then updateConditions r remediationStarted else returnM None)"
    and emit: "framed (emits ?P) (if b then updateConditions r remediationStarted else returnM None)" for b
    by (simp_all add: keeps_updateConditions keepsSans_prims emits_condition_ops emits_rules)
  have "wp (case err of Some e \<Rightarrow> returnM (Ret (emptyResult, Some e)) | None \<Rightarrow> reconcileNode r)
      (\<lambda>_. emits ?P s1) s1"
    if "sansConditions (rs_snr s1) = sansConditions snr" "\<not> isStoppedByNHC snr" for err s1
    using that justified_reconcileNode by (auto simp: emitted.frame_refl split: option.split)
  then have go: "wp (do { err \<leftarrow> (if b then updateConditions r remediationStarted else returnM None);
      case err of Some e \<Rightarrow> returnM (Ret (emptyResult, Some e)) | None \<Rightarrow> reconcileNode r })
      (\<lambda>_. emits ?P s) s" if "\<not> isStoppedByNHC snr" for b
    using that wp_emits_kept [OF emit keep assms] by blast
  show ?thesis
    using go [of "getPhase (rs_snr s) \<noteq> fencingCompletedPhase"] framed_wp [OF stop] sansConditions_reads(3) [OF assms]
    by (cases "isStoppedByNHC snr") (simp_all add: reconcileEnabled_def)
qed

lemma justified_body:
  assumes "rs_snr s = snr"
  shows "wp (reconcileManagerBody r) (\<lambda>_. emits (justified r snr) s) s"
proof -
  have "framed (emits (justified r snr)) (do { setStatusCondition r c; returnM x })" for c and x :: reconcileResult
    by (intro emits_rules emits_condition_ops)
  then show ?thesis
    unfolding reconcileManagerBody_def
    by (intro wp_emits_kept [OF emits_condition_ops(3) keepsSans_reads(1), where c = "sansConditions snr"])
      (auto simp: assms emitted.frame_refl framed_wp simp del: wp_bind
        intro: justified_reconcileEnabled split: sum.split)
qed

lemma justified_ReconcileManager:
  "wp (ReconcileManager r ns name) (\<lambda>_ s'. emits
     (\<lambda>a. removesResources a \<longrightarrow> (\<exists>snr w. run_state (cl_GetSnr (r_Client r) ns name) (rs_world s) = (Inr snr, w)
        \<and> justified r snr a)) s s') s"
proof -
  let ?P = "\<lambda>a. removesResources a \<longrightarrow>
      (\<exists>snr w. run_state (cl_GetSnr (r_Client r) ns name) (rs_world s) = (Inr snr, w) \<and> justified r snr a)"
  obtain x w where g: "run_state (cl_GetSnr (r_Client r) ns name) (rs_world s) = (x, w)"
    by fastforce
  show ?thesis
  proof (cases x)
    case (Inl e)
    then show ?thesis
      using g by (simp add: ReconcileManager_def onWorld_def wp_def emits_def)
  next
    case (Inr snr)
    let ?s = "s\<lparr>rs_world := w, rs_snr := snr\<rparr>"
    have body: "wp (reconcileManagerBody r) (\<lambda>_. emits ?P ?s) ?s"
      by (rule wp_mono [OF justified_body [of ?s snr]])
        (auto elim!: emits_mono simp: g Inr)
    have "framed (emits ?P) (deferredStatusUpdate r out)" for out
      by (rule emits_updateSnrStatus) simp
    then have "wp (do { out \<leftarrow> reconcileManagerBody r; deferredStatusUpdate r out }) (\<lambda>_. emits ?P ?s) ?s"
      by (intro wp_emits_seq [OF body] framed_wp)
    then show ?thesis
      using g Inr by (simp add: ReconcileManager_def onWorld_def setSnr_def wp_def emits_def split: prod.splits)
  qed
qed

section \<open>Workload is given up only after the reboot\<close>

lemma removal_facts:
  assumes "run_state (ReconcileManager r ns name) s = (out, s')"
    and "rs_trace s' = rs_trace s @ as" and "a \<in> set as" and "removesResources a"
  shows "\<exists>snr w. run_state (cl_GetSnr (r_Client r) ns name) (rs_world s) = (Inr snr, w)
     \<and> st_Phase (snr_Status snr) = Some ''Reboot-Completed''
     \<and> getRuntimeStrategy r snr = strategyOf a \<and> \<not> isStoppedByNHC snr"
proof -
  obtain snr w where g: "run_state (cl_GetSnr (r_Client r) ns name) (rs_world s) = (Inr snr, w)"
    and j: "justified r snr a"
    using wp_run [OF justified_ReconcileManager assms(1)] assms(2-4) by (fastforce simp: emits_def list_all_iff)
  have "getPhase snr = rebootCompletedPhase"
    using j assms(4) by (simp add: justified_def)
  then have "st_Phase (snr_Status snr) = Some ''Reboot-Completed''"
    by (auto simp: getPhase_def split: option.splits if_splits)
  with g j assms(4) show ?thesis by (auto simp: justified_def)
qed

text \<open>
  C6: whatever the API server answers, a reconcile of the manager deletes pods or adds the
  out-of-service taint only when the remediation it loaded is in the phase Reboot-Completed, is not
  stopped by the node health check and runs with the strategy the request belongs to.
\<close>

theorem workload_removed_only_after_reboot:
  assumes "run_state (ReconcileManager r ns name) s = (out, s')"
    and "rs_trace s' = rs_trace s @ as" and "a \<in> set as" and "removesResources a"
  shows "\<exists>snr w. run_state (cl_GetSnr (r_Client r) ns name) (rs_world s) = (Inr snr, w)
     \<and> st_Phase (snr_Status snr) = Some ''Reboot-Completed''
     \<and> getRuntimeStrategy r snr = strategyOf a \<and> \<not> isStoppedByNHC snr"
  using assms by (rule removal_facts)

theorem workload_removed_only_after_reboot_witness:
  "\<exists>snr w. run_state (cl_GetSnr (r_Client (exampleReconciler False)) ''op'' ''worker-1'') rebootedWorld = (Inr snr, w)
     \<and> st_Phase (snr_Status snr) = Some ''Reboot-Completed''
     \<and> getRuntimeStrategy (exampleReconciler False) snr = ResourceDeletionRemediationStrategy
     \<and> \<not> isStoppedByNHC snr"
proof -
  let ?m = "ReconcileManager (exampleReconciler False) ''op'' ''worker-1''"
  obtain t where t: "rs_trace (snd (run_state ?m (startState rebootedWorld)))
      = ADeletePods ''default'' ''worker-1'' None # t"
    using rebootedWorld_run by blast
  show ?thesis
    using workload_removed_only_after_reboot [OF surjective_pairing, of "exampleReconciler False" "''op''"
        "''worker-1''" "startState rebootedWorld" "ADeletePods ''default'' ''worker-1'' None # t"
        "ADeletePods ''default'' ''worker-1'' None"] t
    by simp
qed

section \<open>Which remediations touch the node\<close>

abbreviation anyAction :: "action \<Rightarrow> bool" where
  "anyAction \<equiv> \<lambda>a. True"

lemma emits_any_handlers:
  "framed (emits anyAction) (prepareReboot r)" "framed (emits anyAction) (waitForNodeRebooted r)"
  "framed (emits anyAction) (handleFencingCompletedPhase r)"
  "framed (emits anyAction) (handleRebootCompletedPhase r (deleteResourcesWrapper r))"
  "framed (emits anyAction) (handleRebootCompletedPhase r (useOutOfServiceTaint r))"
  unfolding handleFencingCompletedPhase_def
  by (intro framed_emits_mono [OF harmless_prepareReboot] framed_emits_mono [OF harmless_waitForNodeRebooted]
      framed_emits_mono [OF harmless_recoverNode] emits_handleRebootCompletedPhase
      emits_deleteResourcesWrapper emits_useOutOfServiceTaint emits_rules framed_intros TrueI)+

lemma framed_case_phase [framed_intros]:
  "framed R a \<Longrightarrow> framed R b \<Longrightarrow> framed R c \<Longrightarrow> framed R d \<Longrightarrow> framed R e \<Longrightarrow>
   framed R (case p of fencingStartedPhase \<Rightarrow> a | preRebootCompletedPhase \<Rightarrow> b | rebootCompletedPhase \<Rightarrow> c
     | fencingCompletedPhase \<Rightarrow> d | unknownPhase \<Rightarrow> e)"
  by (cases p) auto

lemma emits_any_remediate: "framed (emits anyAction) (remediate r)"
  unfolding remediate_def remediateWithResourceDeletion_def remediateWithOutOfServiceTaint_def
    remediateWithResourceRemoval_def handleFencingStartedPhase_def handlePreRebootCompletedPhase_def
  by (intro framed_intros emits_rules emits_any_handlers)

lemma emits_any_remediateNode: "framed (emits anyAction) (remediateNode r node)"
  unfolding remediateNode_def event_defs
  by (intro framed_intros emits_rules emits_any_remediate emits_updateSnrStatusLastError) simp_all

definition guarded :: "bool \<Rightarrow> action \<Rightarrow> bool" where
  "guarded G a \<longleftrightarrow> (intervenes a \<longrightarrow> G)"

lemma guarded_other [simp]:
  "guarded G (AEvent t obj reason m)" "guarded G (AStatusPatchSnr x y e)"
  "guarded G (AStatusUpdateSnr x e)" "guarded True = anyAction"
  by (auto simp: guarded_def fun_eq_iff)

lemma guarded_remediateNode:
  assumes "map_val (om_Labels (n_Meta node)) excludeRemediationLabel \<noteq> ''true'' \<Longrightarrow> G"
  shows "framed (emits (guarded G)) (remediateNode r node)"
proof (cases G)
  case True
  then show ?thesis by (simp add: emits_any_remediateNode)
next
  case False
  have "framed (emits (guarded G)) (do { setNode node; NormalEvent OnSnr reason m; returnM x })"
    for reason m and x :: reconcileResult
    unfolding event_defs by (intro framed_intros emits_rules) simp_all
  moreover have "map_val (om_Labels (n_Meta node)) excludeRemediationLabel = ''true''"
    using assms False by blast
  ultimately show ?thesis by (simp add: remediateNode_def)
qed

text \<open>The guard: a configuration was read, and so was a node that is not excluded.\<close>

definition nodeReadable :: "'w reconciler \<Rightarrow> bool" where
  "nodeReadable r \<longleftrightarrow> (\<exists>name w node w'. run_state (cl_GetNode (r_Client r) name) w = (Inr node, w')
     \<and> map_val (om_Labels (n_Meta node)) excludeRemediationLabel \<noteq> ''true'')"

lemma getNodeFromSnr_Inr:
  "run_state (getNodeFromSnr r) s = (Inr node, s') \<Longrightarrow>
   \<exists>name w w'. run_state (getNodeName (r_Client r) (rs_snr s)) (rs_world s) = (Inr name, w)
     \<and> run_state (cl_GetNode (r_Client r) name) w = (Inr node, w')"
  by (auto simp: getNodeFromSnr_def onWorld_def split: prod.splits sum.splits)

lemma guarded_reconcileNode: "framed (emits (guarded (nodeReadable r))) (reconcileNode r)"
proof (rule framedI)
  fix s s' :: "'a rs" and out assume run: "run_state (reconcileNode r) s = (out, s')"
  obtain x s1 where x: "run_state (getNodeFromSnr r) s = (x, s1)" by fastforce
  have "framed (emits (guarded (nodeReadable r))) (remediateNode r node)" if "x = Inr node" for node
    using getNodeFromSnr_Inr [OF x [unfolded that]]
    by (intro guarded_remediateNode) (auto simp: nodeReadable_def)
  moreover have "framed (emits (guarded (nodeReadable r))) (nodeLookupFailed r err)" for err
    by (rule emits_nodeLookupFailed) simp_all
  ultimately have "emits (guarded (nodeReadable r)) s1 s'"
    using run x by (auto simp: reconcileNode_def dest: framedD split: sum.splits)
  with framedD [OF emits_condition_ops(4) x] show "emits (guarded (nodeReadable r)) s s'"
    by (rule emitted.frame_trans)
qed

lemma guarded_reconcileEnabled:
  "wp (reconcileEnabled r) (\<lambda>_. emits (guarded (nodeReadable r \<and> \<not> isStoppedByNHC (rs_snr s))) s) s"
proof (cases "isStoppedByNHC (rs_snr s)")
  case True
  then have "om_DeletionTimestamp (snr_Meta (rs_snr s)) = None" by (simp add: isStoppedByNHC_def)
  moreover have "framed (emits (guarded False)) (do {
      NormalEvent OnSnr reason m; err \<leftarrow> updateConditions r c; returnM (Ret (emptyResult, err)) })" for reason m c
    unfolding event_defs by (intro framed_intros emits_rules emits_condition_ops) simp_all
  ultimately have "wp (stopByNHC r) (\<lambda>_. emits (guarded False) s) s"
    unfolding stopByNHC_def by (intro wp_getsI wp_ifI framed_wp [where R = "emits (guarded False)"]) simp_all
  with True show ?thesis by (simp add: reconcileEnabled_def)
next
  case False
  let ?P = "guarded (nodeReadable r)"
  have "framed (emits ?P) (do { err \<leftarrow> (if b then updateConditions r remediationStarted else returnM None);
      case err of Some e \<Rightarrow> returnM (Ret (emptyResult, Some e)) | None \<Rightarrow> reconcileNode r })" for b
    by (intro framed_intros emits_rules emits_condition_ops guarded_reconcileNode)
  from framed_wp [OF this [of "getPhase (rs_snr s) \<noteq> fencingCompletedPhase"], of s] False show ?thesis
    by (simp add: reconcileEnabled_def)
qed

text \<open>The configuration read at the start of a reconcile exists and is not being deleted.\<close>

definition configured :: "'w reconciler \<Rightarrow> 'w \<Rightarrow> bool" where
  "configured r w \<longleftrightarrow> (\<exists>ns cfg w'. GetDeploymentNamespace (r_Env r) = Inr ns
     \<and> run_state (cl_GetConfig (r_Client r) ns ConfigCRName) w = (Inr cfg, w')
     \<and> om_DeletionTimestamp (cfg_Meta cfg) = None)"

lemma isConfigurationExist_True:
  "run_state (isConfigurationExist r) s = (Inr True, s') \<Longrightarrow> configured r (rs_world s)"
  by (auto simp: isConfigurationExist_def configured_def onWorld_def split: sum.splits prod.splits if_splits)

lemma guarded_body:
  "wp (reconcileManagerBody r)
     (\<lambda>_. emits (guarded (configured r (rs_world s) \<and> nodeReadable r \<and> \<not> isStoppedByNHC (rs_snr s))) s) s"
proof (rule wpI)
  let ?G = "configured r (rs_world s) \<and> nodeReadable r \<and> \<not> isStoppedByNHC (rs_snr s)"
  fix out s' assume run: "run_state (reconcileManagerBody r) s = (out, s')"
  obtain x s1 where x: "run_state (isConfigurationExist r) s = (x, s1)" by fastforce
  have "framed (emits (guarded ?G)) (do { setStatusCondition r c; returnM o' })" for c and o' :: reconcileResult
    by (intro emits_rules emits_condition_ops)
  moreover have "rs_snr s1 = rs_snr s"
    using framedD [OF keepsSnr_reads(1) x] by (simp add: keeps_def)
  moreover have "configured r (rs_world s)" if "x = Inr True"
    using x isConfigurationExist_True that by blast
  ultimately have "emits (guarded ?G) s1 s'"
    using run x guarded_reconcileEnabled [of r s1]
    by (cases x) (auto simp: reconcileManagerBody_def emitted.frame_refl simp del: State_Monad.run_state_bind
        dest: framedD wp_run split: if_splits simp: State_Monad.run_state_bind [of "isConfigurationExist r"])
  with framedD [OF emits_condition_ops(3) x] show "emits (guarded ?G) s s'"
    by (rule emitted.frame_trans)
qed

lemma guarded_ReconcileManager:
  "wp (ReconcileManager r ns name) (\<lambda>_. emits (\<lambda>a. intervenes a \<longrightarrow>
     (\<exists>snr w. run_state (cl_GetSnr (r_Client r) ns name) (rs_world s) = (Inr snr, w)
        \<and> configured r w \<and> nodeReadable r \<and> \<not> isStoppedByNHC snr)) s) s"
proof -
  obtain x w where g: "run_state (cl_GetSnr (r_Client r) ns name) (rs_world s) = (x, w)"
    by fastforce
  show ?thesis
  proof (cases x)
    case (Inl e)
    then show ?thesis
      using g by (simp add: ReconcileManager_def onWorld_def wp_def emits_def)
  next
    case (Inr snr)
    let ?s = "s\<lparr>rs_world := w, rs_snr := snr\<rparr>"
    let ?P = "guarded (configured r w \<and> nodeReadable r \<and> \<not> isStoppedByNHC snr)"
    have "framed (emits ?P) (deferredStatusUpdate r out)" for out
      by (rule emits_updateSnrStatus) simp
    then have "wp (do { out \<leftarrow> reconcileManagerBody r; deferredStatusUpdate r out }) (\<lambda>_. emits ?P ?s) ?s"
      using guarded_body [of r ?s] by (intro wp_emits_seq) (simp_all add: framed_wp)
    then show ?thesis
      using g Inr by (simp add: ReconcileManager_def onWorld_def setSnr_def wp_def emits_def guarded_def
          list_all_iff split: prod.splits)
  qed
qed



section \<open>The agent\<close>

lemmas agent_defs = ReconcileAgent_def rebootIfNeeded_def didIRebootMyself_def getNodeFromSnr_def onWorld_def
  Now_def setSnr_def emit_def event_defs NormalEventOnNodePtr_def GetLinuxUptime_def getPhase_def

text \<open>The host has been up at least since the given time, by the system call and the clock.\<close>

definition hostUpSince :: "'w reconciler \<Rightarrow> instant \<Rightarrow> 'w \<Rightarrow> bool" where
  "hostUpSince r t w = (case run_state (r_Sysinfo r) w of
       (Inl err, w') \<Rightarrow> False
     | (Inr uptime, w') \<Rightarrow> time_sub (fst (run_state (cl_Now (r_Client r)) w')) t \<le> dur_mul uptime Second)"

definition rebootTrace :: "action list" where
  "rebootTrace = [AEvent ''Normal'' OnNode ''NodeReboot''
     ''[remediation] Remediation process - about to attempt fencing the unhealthy node by rebooting it'', AReboot]"

lemma rebootIfNeeded_AReboot:
  assumes "run_state (rebootIfNeeded r node) s = (out, s')"
    and "rs_trace s = []" and "AReboot \<in> set (rs_trace s')"
  shows "hostUpSince r (om_CreationTimestamp (snr_Meta (rs_snr s))) (rs_world s) \<and> rs_trace s' = rebootTrace"
  using assms
  by (auto simp: agent_defs hostUpSince_def rebootTrace_def
      split: prod.splits sum.splits if_splits option.splits outcome.splits)


definition preRebootWorld :: "Node \<Rightarrow> cluster" where
  "preRebootWorld node = exampleWorld
     (exampleSnr ResourceDeletionRemediationStrategy (Some ''Pre-Reboot-Completed'') (Some 300)) node 200"

lemmas agent_run_defs = example_defs agent_defs preRebootWorld_def getNodeName_def isOwnedByNHC_def isOwnedByMachine_def
  getNodeNameDirect_def IsSNRMatching_def map_get_def time_sub_def dur_mul_def wrap64_def


text \<open>
  When a reboot is due but the agent cannot look up its node object, the reconcile panics in the
  event recorder, and no reboot is attempted: the lookup error is only logged and the missing node
  handed on.
\<close>

theorem agent_panics_without_node:
  assumes "run_state (cl_GetSnr (r_Client r) ns name) (rs_world s) = (Inr snr, w)"
    and "om_DeletionTimestamp (snr_Meta snr) = None"
    and "run_state (IsSNRMatching (r_Client r) snr (r_MyNodeName r) '''') w = (Inr (True, n), w1)"
    and "getPhase snr = preRebootCompletedPhase"
    and "run_state (getNodeFromSnr r) (s\<lparr>rs_snr := snr, rs_world := w1\<rparr>) = (Inl err, s2)"
    and "run_state (didIRebootMyself r) s2 = (Inr False, s3)"
  shows "run_state (ReconcileAgent r ns name) s = (Panic, s3) \<and> rs_trace s3 = rs_trace s"
proof -
  have 1: "framed (keeps rs_trace) (getNodeFromSnr r)" and 2: "framed (keeps rs_trace) (didIRebootMyself r)"
    by (auto intro!: framed_intros keeps_rules simp: getNodeFromSnr_def didIRebootMyself_def Now_def keeps_def
        split: sum.split)
  have "rs_trace s3 = rs_trace s"
    using framedD [OF 1 assms(5)] framedD [OF 2 assms(6)] by (simp add: keeps_def)
  then show ?thesis
    using assms by (simp add: ReconcileAgent_def rebootIfNeeded_def onWorld_def setSnr_def NormalEventOnNodePtr_def)
qed

theorem agent_panics_without_node_witness:
  "\<exists>s'. run_state (ReconcileAgent (exampleReconciler True) ''op'' ''worker-1'')
     (startState (preRebootWorld (worker1\<lparr>n_Meta := emptyMeta\<rparr>))) = (Panic, s')"
proof -
  let ?r = "exampleReconciler True" and ?s = "startState (preRebootWorld (worker1\<lparr>n_Meta := emptyMeta\<rparr>))"
  let ?snr = "exampleSnr ResourceDeletionRemediationStrategy (Some ''Pre-Reboot-Completed'') (Some 300)"
  have 1: "run_state (cl_GetSnr (r_Client ?r) ''op'' ''worker-1'') (rs_world ?s) = (Inr ?snr, rs_world ?s)"
    by (simp add: agent_run_defs)
  have 2: "om_DeletionTimestamp (snr_Meta ?snr) = None" "getPhase ?snr = preRebootCompletedPhase"
    by (simp_all add: agent_run_defs)
  have 3: "run_state (IsSNRMatching (r_Client ?r) ?snr (r_MyNodeName ?r) '''') (rs_world ?s)
      = (Inr (True, ''worker-1''), rs_world ?s)"
    by (simp add: agent_run_defs)
  have 4: "run_state (getNodeFromSnr ?r) (?s\<lparr>rs_snr := ?snr, rs_world := rs_world ?s\<rparr>) = (notFound, ?s)"
    by (simp add: agent_run_defs)
  have 5: "run_state (didIRebootMyself ?r) ?s = (Inr False, ?s)"
    by (simp add: agent_run_defs min_int64_def max_int64_def)
  show ?thesis
    using agent_panics_without_node [OF 1 2(1) 3 2(2) 4 [unfolded notFound_def] 5] by blast
qed

section \<open>The manager does not panic\<close>

text \<open>The stored time is set where the code dereferences it.\<close>

definition timeAvailable :: "SelfNodeRemediation \<Rightarrow> bool" where
  "timeAvailable snr \<longleftrightarrow>
     (getPhase snr \<in> {preRebootCompletedPhase, rebootCompletedPhase} \<longrightarrow>
        st_TimeAssumedRebooted (snr_Status snr) \<noteq> None)"

abbreviation notPanic :: "'a outcome \<Rightarrow> 's \<Rightarrow> bool" where
  "notPanic out s \<equiv> out \<noteq> Panic"

definition calculatorReturns :: "'w reconciler \<Rightarrow> bool" where
  "calculatorReturns r \<longleftrightarrow> (\<forall>node w. fst (run_state (r_GetRebootDuration r node) w) \<noteq> Panic)"

lemma setTime_notPanic: "calculatorReturns r \<Longrightarrow> wp (setTimeAssumedRebooted r) notPanic s"
proof -
  assume "calculatorReturns r"
  then have d: "wp (onWorld (r_GetRebootDuration r node)) notPanic s1" for node and s1 :: "'a rs"
    by (auto simp: calculatorReturns_def onWorld_def wp_def split: prod.splits) (metis fst_conv)
  show ?thesis
    unfolding setTimeAssumedRebooted_def
    by (rule wp_seq [OF d] wp_ignore wp_casesI | simp)+
qed

lemma prepareReboot_notPanic:
  assumes "calculatorReturns r" shows "wp (prepareReboot r) notPanic s"
  unfolding prepareReboot_def
  by (rule wp_seq [OF setTime_notPanic [OF assms]] wp_ignore wp_casesI | simp)+

lemma waitForNodeRebooted_notPanic:
  assumes "st_TimeAssumedRebooted (snr_Status (rs_snr s)) \<noteq> None"
  shows "wp (waitForNodeRebooted r) notPanic s"
proof -
  have "wp (wasNodeRebooted r) notPanic s"
    unfolding wasNodeRebooted_def
    by (rule wp_getsI, rule wp_optionI) (use assms in simp, (rule wp_ignore wp_casesI | simp)+)
  then show ?thesis
    unfolding waitForNodeRebooted_def by (rule wp_seq) (rule wp_ignore wp_casesI | simp)+
qed

lemma expired_notPanic:
  assumes "st_TimeAssumedRebooted (snr_Status (rs_snr s)) \<noteq> None"
  shows "wp (isResourceDeletionExpired r) notPanic s"
  unfolding isResourceDeletionExpired_def
  by (rule wp_getsI, rule wp_optionI) (use assms in simp, (rule wp_ignore wp_casesI | simp)+)

text \<open>The two ways to remove the resources of a node, and what the phase handler needs of them.\<close>

locale resource_removal =
  fixes rm :: "('w rs, (duration \<times> error option) outcome) state"
  assumes rm_keeps_snr: "framed (keeps rs_snr) rm"
    and rm_returns: "st_TimeAssumedRebooted (snr_Status (rs_snr s)) \<noteq> None \<Longrightarrow> wp rm notPanic s"
begin

lemma handler_returns:
  "st_TimeAssumedRebooted (snr_Status (rs_snr s)) \<noteq> None \<Longrightarrow> wp (handleRebootCompletedPhase r rm) notPanic s"
  unfolding handleRebootCompletedPhase_def
  by (rule wp_seq [OF rm_returns] wp_ignore wp_casesI | assumption | simp)+

text \<open>The phase leaves Reboot-Completed only when the removal reports success without a waiting time.\<close>

lemma handler_completes:
  "wp (handleRebootCompletedPhase r rm) (\<lambda>out s'. st_Phase (snr_Status (rs_snr s')) \<noteq> st_Phase (snr_Status (rs_snr s)) \<longrightarrow>
     st_Phase (snr_Status (rs_snr s')) = Some ''Fencing-Completed'' \<and> fst (run_state rm s) = Ret (0, None)) s"
proof -
  obtain x s1 where x: "run_state rm s = (x, s1)" by fastforce
  have s1: "rs_snr s1 = rs_snr s" using framedD [OF rm_keeps_snr x] by (simp add: keeps_def)
  have upd: "st_Phase (snr_Status (rs_snr s3)) = st_Phase (snr_Status (rs_snr s2))"
    if "run_state (updateConditions r reason) s2 = (a, s3)" for reason a and s2 s3 :: "'w rs"
    by (rule sansConditions_sel(3)
        [OF framedD [OF keeps_updateConditions(2) that, unfolded keeps_def snrSansConditions_def]])
  show ?thesis
    using x s1
    by (auto simp: handleRebootCompletedPhase_def wp_def setPhase_def modifyStatus_def event_defs emit_def dest!: upd
        split: outcome.splits prod.splits option.splits)
qed

end

interpretation podDeletion: resource_removal "deleteResourcesWrapper r" for r
  by unfold_locales
    (auto intro!: framed_intros keeps_rules keepsSnr_DeletePods wp_ignore wp_returnI
      simp: deleteResourcesWrapper_def simp del: wp_bind)

lemma useOutOfServiceTaint_keeps: "framed (keeps rs_snr) (useOutOfServiceTaint r)"
  unfolding useOutOfServiceTaint_def addOutOfServiceTaint_def removeOutOfServiceTaint_def
  by (intro framed_intros keeps_rules keepsSnr_node_ops keepsSnr_reads)

lemma useOutOfServiceTaint_returns:
  assumes "st_TimeAssumedRebooted (snr_Status (rs_snr s)) \<noteq> None"
  shows "wp (useOutOfServiceTaint r) notPanic s"
proof -
  have add: "framed (keeps rs_snr) (addOutOfServiceTaint r)"
    unfolding addOutOfServiceTaint_def by (rule keepsSnr_node_ops)
  show ?thesis
    unfolding useOutOfServiceTaint_def
    apply (rule wp_seq [where P = "\<lambda>_ s'. st_TimeAssumedRebooted (snr_Status (rs_snr s')) \<noteq> None"])
     apply (rule wp_mono [OF framed_wp [OF add]])
    using assms apply (simp add: keeps_def)
    apply (rule wp_optionI)
     apply (rule wp_seq [where P = "\<lambda>_ s'. st_TimeAssumedRebooted (snr_Status (rs_snr s')) \<noteq> None"])
      apply (rule wp_mono [OF framed_wp [OF keepsSnr_reads(4)]])
      apply (simp add: keeps_def)
     apply (rule wp_ifI)
      apply (rule wp_seq [OF expired_notPanic], assumption)
      apply (rule wp_ignore wp_casesI | simp)+
    done
qed

interpretation outOfService: resource_removal "useOutOfServiceTaint r" for r
  by unfold_locales (rule useOutOfServiceTaint_keeps, rule useOutOfServiceTaint_returns)

lemma remediate_returns:
  assumes "calculatorReturns r" and "timeAvailable (rs_snr s)"
  shows "wp (remediate r) notPanic s"
proof -
  have "wp (remediateWithResourceRemoval r rm) notPanic s"
    if "\<And>s. st_TimeAssumedRebooted (snr_Status (rs_snr s)) \<noteq> None \<Longrightarrow> wp (handleRebootCompletedPhase r rm) notPanic s" for rm
    using assms that [of s] prepareReboot_notPanic [of r s] waitForNodeRebooted_notPanic [of s r]
    by (auto simp: remediateWithResourceRemoval_def handleFencingStartedPhase_def handlePreRebootCompletedPhase_def
        handleFencingCompletedPhase_def timeAvailable_def split: remediationPhase.split)
  then show ?thesis
    using podDeletion.handler_returns [of _ r r] outOfService.handler_returns [of _ r r]
    by (simp add: remediate_def remediateWithResourceDeletion_def remediateWithOutOfServiceTaint_def)
qed

lemma timeAvailable_kept:
  assumes "framed (keeps snrSansConditions) m" and "timeAvailable (rs_snr s)"
  shows "wp m (\<lambda>_ s'. timeAvailable (rs_snr s')) s"
proof (rule wpI)
  fix a s' assume "run_state m s = (a, s')"
  then have "sansConditions (rs_snr s') = sansConditions (rs_snr s)"
    using framedD [OF assms(1)] by (simp add: keeps_def snrSansConditions_def)
  from sansConditions_sel(4) [OF this] sansConditions_reads(1) [OF this] assms(2) show "timeAvailable (rs_snr s')"
    by (simp add: timeAvailable_def)
qed

lemmas wp_time_seq = wp_seq [OF timeAvailable_kept]

lemma reconcileNode_returns:
  assumes "calculatorReturns r" and "timeAvailable (rs_snr s)"
  shows "wp (reconcileNode r) notPanic s"
proof -
  have "wp (remediateNode r node) notPanic s1" if "timeAvailable (rs_snr s1)" for node and s1 :: "'a rs"
    unfolding remediateNode_def
    apply (rule wp_time_seq [OF keepsSans_prims(1) that])
    apply (rule wp_ifI)
     apply (rule wp_ignore, simp)
    apply (rule wp_getsI)
    apply (rule wp_time_seq, rule framed_if, rule keepsSans_prims, rule keepsSans_prims, assumption)
    apply (rule wp_seq [OF remediate_returns [OF assms(1)]], assumption)
    apply (rule wp_ignore wp_casesI | simp)+
    done
  moreover have "wp (nodeLookupFailed r err) notPanic s1" for err and s1 :: "'a rs"
    unfolding nodeLookupFailed_def by (rule wp_ignore wp_casesI | simp)+
  ultimately show ?thesis
    unfolding reconcileNode_def
    by (intro wp_time_seq [OF keepsSans_reads(2) assms(2)] wp_sumI) simp_all
qed

lemma reconcileEnabled_returns:
  assumes "calculatorReturns r" and "timeAvailable (rs_snr s)"
  shows "wp (reconcileEnabled r) notPanic s"
proof -
  have stop: "wp (stopByNHC r) notPanic s"
    unfolding stopByNHC_def by (rule wp_ignore wp_casesI | simp)+
  have cond: "framed (keeps snrSansConditions) (if b then updateConditions r remediationStarted else returnM None)" for b
    by (simp add: keeps_updateConditions keepsSans_prims)
  show ?thesis
    unfolding reconcileEnabled_def
    by (intro wp_getsI wp_ifI stop wp_time_seq [OF cond assms(2)] wp_optionI reconcileNode_returns [OF assms(1)] wp_returnI)
      simp_all
qed

lemma body_returns:
  assumes "calculatorReturns r" and "timeAvailable (rs_snr s)"
  shows "wp (reconcileManagerBody r) notPanic s"
  unfolding reconcileManagerBody_def
  apply (rule wp_time_seq [OF keepsSans_reads(1) assms(2)])
  apply (rule wp_sumI, simp)
  apply (rule wp_ifI, rule wp_ignore, simp)
  apply (rule reconcileEnabled_returns [OF assms(1)], assumption)
  done

lemma manager_not_panic:
  assumes "run_state (cl_GetSnr (r_Client r) ns name) (rs_world s) = (Inr snr, w)"
    and "getPhase snr \<in> {preRebootCompletedPhase, rebootCompletedPhase} \<Longrightarrow>
         st_TimeAssumedRebooted (snr_Status snr) \<noteq> None"
    and "\<And>node w. fst (run_state (r_GetRebootDuration r node) w) \<noteq> Panic"
  shows "\<exists>result err s'. run_state (ReconcileManager r ns name) s = (Ret (result, err), s')"
proof -
  let ?s = "s\<lparr>rs_world := w, rs_snr := snr\<rparr>"
  have "wp (reconcileManagerBody r) notPanic ?s"
    using assms(2,3) by (intro body_returns) (auto simp: calculatorReturns_def timeAvailable_def)
  then have "wp (do { out \<leftarrow> reconcileManagerBody r; deferredStatusUpdate r out }) notPanic ?s"
    unfolding deferredStatusUpdate_def
    by (rule wp_seq) (rule wp_ignore, auto intro!: wp_returnI simp: Let_def split: outcome.split option.split)
  then show ?thesis
    using assms(1)
    by (auto simp: ReconcileManager_def onWorld_def setSnr_def wp_def split: prod.splits)
      (metis outcome.exhaust surj_pair)
qed

end
