(* ===== verification/Snr_Handlers.thy ===== *)
theory Snr_Handlers
  imports Snr_Safety
begin

text \<open>
  The functional behaviour of single handlers of the remediation controller: the condition table, the
  preparation of the reboot, the recovery of the node, and the answer of a reconcile whose status
  update fails.
\<close>

section \<open>Conditions\<close>

lemma find_setStatusCondition:
  "wp (setStatusCondition r c) (\<lambda>_ s'. (\<forall>t. t \<noteq> c_Type c \<longrightarrow>
       FindStatusCondition (st_Conditions (snr_Status (rs_snr s'))) t
         = FindStatusCondition (st_Conditions (snr_Status (rs_snr s))) t)
     \<and> IsStatusConditionPresentAndEqual (st_Conditions (snr_Status (rs_snr s'))) (c_Type c) (c_Status c)) s"
  by (auto simp: setStatusCondition_def Now_def onWorld_def modifyStatus_def wp_def split: prod.splits)

text \<open>
  \<^verbatim>\<open>updateConditions\<close> fails for the reason of a missing configuration and succeeds for the four
  others. Afterwards Processing and Succeeded have the statuses of the reason, and every condition of
  another type is as it was.
\<close>

theorem updateConditions_table:
  assumes "run_state (updateConditions r reason) s = (err, s')"
  shows "case conditionStatuses reason of
       None \<Rightarrow> reason = snrDisabledNoConfig \<and> err \<noteq> None \<and> s' = s
     | Some (processing, succeeded) \<Rightarrow>
         err = None
         \<and> IsStatusConditionPresentAndEqual (st_Conditions (snr_Status (rs_snr s'))) ProcessingConditionType processing
         \<and> IsStatusConditionPresentAndEqual (st_Conditions (snr_Status (rs_snr s'))) SucceededConditionType succeeded
         \<and> (\<forall>t. t \<noteq> ProcessingConditionType \<longrightarrow> t \<noteq> SucceededConditionType \<longrightarrow>
              FindStatusCondition (st_Conditions (snr_Status (rs_snr s'))) t
                = FindStatusCondition (st_Conditions (snr_Status (rs_snr s))) t)"
proof (cases "conditionStatuses reason")
  case None
  then show ?thesis using assms by (cases reason) (auto simp: updateConditions_def)
next
  case (Some p)
  obtain a b where p: "p = (a, b)" by (cases p)
  have "wp (updateConditions r reason) (\<lambda>err s'. err = None
      \<and> IsStatusConditionPresentAndEqual (st_Conditions (snr_Status (rs_snr s'))) ProcessingConditionType a
      \<and> IsStatusConditionPresentAndEqual (st_Conditions (snr_Status (rs_snr s'))) SucceededConditionType b
      \<and> (\<forall>t. t \<noteq> ProcessingConditionType \<longrightarrow> t \<noteq> SucceededConditionType \<longrightarrow>
           FindStatusCondition (st_Conditions (snr_Status (rs_snr s'))) t
             = FindStatusCondition (st_Conditions (snr_Status (rs_snr s))) t)) s"
    unfolding updateConditions_def Some p option.case prod.case
    by (intro wp_getsI wp_ifI wp_returnI wp_seq [OF find_setStatusCondition])
      (auto simp: newCondition_def present_iff_find)
  from wp_run [OF this assms] show ?thesis by (simp add: Some p)
qed

theorem updateConditions_table_witness:
  "\<exists>s'. run_state (updateConditions (exampleReconciler False) remediationStarted) (startState rebootedWorld) = (None, s')
     \<and> IsStatusConditionPresentAndEqual (st_Conditions (snr_Status (rs_snr s'))) ProcessingConditionType ConditionTrue
     \<and> IsStatusConditionPresentAndEqual (st_Conditions (snr_Status (rs_snr s'))) SucceededConditionType ConditionUnknown"
proof -
  obtain e s' where run: "run_state (updateConditions (exampleReconciler False) remediationStarted)
      (startState rebootedWorld) = (e, s')" by fastforce
  from updateConditions_table [OF this] run show ?thesis by auto
qed

section \<open>The answer of a reconcile\<close>

text \<open>
  The deferred status update changes the answer of a reconcile only when it fails. On a conflict
  an answer without error is requeued after one second, or earlier when the reconcile asked for that;
  every other failure is reported together with the reconcile's own error.
\<close>

theorem deferredStatusUpdate_answer:
  assumes "run_state (deferredStatusUpdate r (Ret (result, err))) s = (out, s')"
    and "run_state (updateSnrStatus r) s = (updateErr, s')"
  shows "case updateErr of
       None \<Rightarrow> out = Ret (result, err)
     | Some e \<Rightarrow>
         if \<not> IsConflict e then \<exists>e'. out = Ret (result, Some e')
         else if err \<noteq> None then out = Ret (result, err)
         else out = Ret (result\<lparr>res_RequeueAfter :=
                (if 0 < res_RequeueAfter result then min (res_RequeueAfter result) Second else Second)\<rparr>, None)"
proof -
  have "NewAggregate [Some e, err] \<noteq> None" for e
    using NewAggregate_None_iff [of "[Some e, err]"] by simp
  then have agg: "\<exists>e'. NewAggregate [Some e, err] = Some e'" for e by blast
  show ?thesis
    using assms agg by (auto simp: deferredStatusUpdate_def Let_def min_def split: option.splits if_splits)
qed

text \<open>A cluster in which another writer is always first.\<close>

definition conflictingReconciler :: "cluster reconciler" where
  "conflictingReconciler = (exampleReconciler False)\<lparr>r_Client :=
     clusterClient\<lparr>cl_StatusUpdateSnr := (\<lambda>x. returnM (Inl (ApiStatus Conflict ''modified'')))\<rparr>\<rparr>"

theorem deferredStatusUpdate_answer_witness:
  "\<exists>s'. run_state (deferredStatusUpdate conflictingReconciler (Ret (emptyResult, None))) (startState rebootedWorld)
     = (Ret (requeueAfter Second, None), s')"
proof -
  let ?s = "startState rebootedWorld"
  obtain out s' where run: "run_state (deferredStatusUpdate conflictingReconciler (Ret (emptyResult, None))) ?s = (out, s')"
    by fastforce
  have upd: "run_state (updateSnrStatus conflictingReconciler) ?s = (Some (ApiStatus Conflict ''modified''), s')"
    using run by (auto simp: deferredStatusUpdate_def updateSnrStatus_def conflictingReconciler_def onWorld_def emit_def)
  from deferredStatusUpdate_answer [OF run upd] run show ?thesis
    by (auto simp: IsConflict_def emptyResult_def requeueAfter_def)
qed

section \<open>Preparing the reboot\<close>

text \<open>What \<^verbatim>\<open>addNoExecuteTaint\<close> leaves behind when it succeeds.\<close>

definition taintedOrPatched :: "Taint \<Rightarrow> Node \<Rightarrow> action list \<Rightarrow> bool" where
  "taintedOrPatched taint node as \<longleftrightarrow> TaintExists (n_Taints node) taint
     \<or> (\<exists>n. APatchNode node n None \<in> set as \<and> TaintExists (n_Taints n) taint)"

lemma addNoExecuteTaint_done:
  "wp (addNoExecuteTaint r) (\<lambda>err s'. rs_snr s' = rs_snr s \<and> (err = None \<longrightarrow>
     (\<exists>as. rs_trace s' = rs_trace s @ as \<and> taintedOrPatched NodeNoExecuteTaint (rs_node s) as))) s"
  by (auto simp: addNoExecuteTaint_def addTaint_def taintedOrPatched_def clientPatchNode_def Now_def setNode_def
      onWorld_def emit_def event_defs wp_def TaintExists_iff split: prod.splits sum.splits option.splits)

lemma isNodeRebootCapable_True:
  "wp (isNodeRebootCapable r) (\<lambda>capable s'. rs_snr s' = rs_snr s \<and> rs_node s' = rs_node s \<and> rs_trace s' = rs_trace s
     \<and> (capable \<longrightarrow> map_val (om_Annotations (n_Meta (rs_node s))) IsRebootCapableAnnotation = ''true'')) s"
  by (auto simp: isNodeRebootCapable_def onWorld_def wp_def split: prod.splits sum.splits)

lemma setTimeAssumedRebooted_done:
  "wp (setTimeAssumedRebooted r) (\<lambda>out s'. rs_node s' = rs_node s
     \<and> st_Phase (snr_Status (rs_snr s')) = st_Phase (snr_Status (rs_snr s))
     \<and> (\<exists>as. rs_trace s' = rs_trace s @ as)
     \<and> (out = Ret None \<longrightarrow> st_TimeAssumedRebooted (snr_Status (rs_snr s')) \<noteq> None)) s"
  by (auto simp: setTimeAssumedRebooted_def onWorld_def wp_def Now_def modifyStatus_def event_defs emit_def
      split: prod.splits outcome.splits sum.splits)

text \<open>
  C31: a remediation that has its finalizer leaves the first phase only with everything prepared: the
  node is annotated as able to reboot, is unschedulable and carries the taint that Kubernetes adds for
  that, it carried the NoExecute taint or a patch that adds it succeeded, and the time at which it
  counts as rebooted is stored with the new phase.
\<close>

theorem reboot_is_prepared:
  assumes "run_state (prepareReboot r) s = (out, s')"
    and "ContainsFinalizer (snr_Meta (rs_snr s)) SNRFinalizer"
    and "st_Phase (snr_Status (rs_snr s')) \<noteq> st_Phase (snr_Status (rs_snr s))"
  shows "st_Phase (snr_Status (rs_snr s')) = Some ''Pre-Reboot-Completed''
     \<and> st_TimeAssumedRebooted (snr_Status (rs_snr s')) \<noteq> None
     \<and> map_val (om_Annotations (n_Meta (rs_node s))) IsRebootCapableAnnotation = ''true''
     \<and> n_Unschedulable (rs_node s') \<and> TaintExists (n_Taints (rs_node s')) NodeUnschedulableTaint
     \<and> (TaintExists (n_Taints (rs_node s)) NodeNoExecuteTaint
        \<or> (\<exists>n. APatchNode (rs_node s) n None \<in> set (rs_trace s') \<and> TaintExists (n_Taints n) NodeNoExecuteTaint))"
proof -
  let ?Q = "\<lambda>out s'. st_Phase (snr_Status (rs_snr s')) \<noteq> st_Phase (snr_Status (rs_snr s)) \<longrightarrow>
      st_Phase (snr_Status (rs_snr s')) = Some ''Pre-Reboot-Completed''
     \<and> st_TimeAssumedRebooted (snr_Status (rs_snr s')) \<noteq> None
     \<and> map_val (om_Annotations (n_Meta (rs_node s))) IsRebootCapableAnnotation = ''true''
     \<and> n_Unschedulable (rs_node s') \<and> TaintExists (n_Taints (rs_node s')) NodeUnschedulableTaint
     \<and> (TaintExists (n_Taints (rs_node s)) NodeNoExecuteTaint
        \<or> (\<exists>n. APatchNode (rs_node s) n None \<in> set (rs_trace s') \<and> TaintExists (n_Taints n) NodeNoExecuteTaint))"
  have mark: "wp (markNodeAsUnschedulable r) (\<lambda>_ s1. rs_snr s1 = rs_snr s0) s0" for s0
    by (rule wp_keepsSnr [OF keepsSnr_node_ops(3)])
  have "wp (prepareReboot r) ?Q s"
    unfolding prepareReboot_def
    apply (rule wp_seq [OF isNodeRebootCapable_True])
    apply (rule wp_ifI, simp)
    apply (rule wp_getsI, rule wp_ifI)
     apply (simp add: assms(2))
    apply (rule wp_seq [OF addNoExecuteTaint_done])
    apply (rule wp_optionI)
     apply (rule wp_getsI, rule wp_ifI)
      apply (rule wp_seq [OF mark], simp)
     apply (rule wp_seq [OF setTimeAssumedRebooted_done])
     apply (rule wp_outcomeI, rule wp_optionI)
       apply (auto simp: setPhase_def modifyStatus_def taintedOrPatched_def)
    done
  from wp_run [OF this assms(1)] assms(3) show ?thesis by blast
qed

theorem reboot_is_prepared_witness:
  "\<exists>s'. run_state (prepareReboot (exampleReconciler False)) (startState preparedWorld) = (Ret (emptyResult, None), s')
     \<and> st_Phase (snr_Status (rs_snr s')) = Some ''Pre-Reboot-Completed'' \<and> n_Unschedulable (rs_node s')"
proof -
  let ?s = "startState preparedWorld"
  obtain s' where run: "run_state (prepareReboot (exampleReconciler False)) ?s = (Ret (emptyResult, None), s')"
    and p: "st_Phase (snr_Status (rs_snr s')) = Some ''Pre-Reboot-Completed''"
    by (simp add: preparedWorld_def example_run_defs GetSelfNodeRemediationAgentPod_def MatchTaint_def
        NodeUnschedulableTaint_def NodeNoExecuteTaint_def)
  have "ContainsFinalizer (snr_Meta (rs_snr ?s)) SNRFinalizer" "st_Phase (snr_Status (rs_snr ?s)) = None"
    by (simp_all add: preparedWorld_def example_defs ContainsFinalizer_def)
  then show ?thesis
    using reboot_is_prepared [OF run] run p by simp
qed

section \<open>Recovering the node\<close>

lemma recoverNodeTail_order:
  "wp (recoverNodeTail r) (\<lambda>_ s'. \<exists>as. rs_trace s' = rs_trace s @ as \<and> (\<forall>x e. AUpdateSnr x e \<in> set as \<longrightarrow>
       \<not> ContainsFinalizer (snr_Meta x) SNRFinalizer
     \<and> \<not> TaintExists (n_Taints (rs_node s)) NodeUnschedulableTaint
     \<and> (TaintExists (n_Taints (rs_node s)) NodeNoExecuteTaint \<longrightarrow>
          (\<exists>n. APatchNode (rs_node s) n None \<in> set as \<and> \<not> TaintExists (n_Taints n) NodeNoExecuteTaint)))) s"
  by (auto simp: recoverNodeTail_def removeNoExecuteTaint_def removeTaint_def removeFinalizer_def clientUpdateSnr_def
      clientPatchNode_def DeleteTaint_eq setNode_def setSnr_def onWorld_def emit_def event_defs wp_def
      split: prod.splits sum.splits option.splits if_splits)


definition deletedSnr :: SelfNodeRemediation where
  "deletedSnr = (exampleSnr ResourceDeletionRemediationStrategy (Some ''Fencing-Completed'') (Some 100))
     \<lparr>snr_Meta := emptyMeta\<lparr>om_Name := ''worker-1'', om_Namespace := ''op'', om_Finalizers := [SNRFinalizer],
        om_DeletionTimestamp := Some 150\<rparr>\<rparr>"

text \<open>The node after Kubernetes removed its own taint, which it does once the node is schedulable.\<close>

definition healthyWorld :: cluster where
  "healthyWorld = exampleWorld deletedSnr (worker1\<lparr>n_Taints := [NodeNoExecuteTaint]\<rparr>) 200"


end
