(* ===== verification/Snr_Status.thy ===== *)
theory Snr_Status
  imports Snr_Frames Example_Cluster
begin

text \<open>
  The type of a remediation's status (\<^verbatim>\<open>api/v1alpha1/selfnoderemediation_types.go\<close>): a known phase,
  conditions with a valid status and a reason, at most one of each type, and the two conditions
  Processing and Succeeded in one of the four combinations that \<^verbatim>\<open>updateConditions\<close> sets. Every reconcile
  of the manager keeps it, in memory, in what it writes and in the store.
\<close>

section \<open>Well-formed statuses\<close>

definition wfCondition :: "Condition \<Rightarrow> bool" where
  "wfCondition c \<longleftrightarrow> c_Type c \<noteq> '''' \<and> c_Status c \<in> {ConditionTrue, ConditionFalse, ConditionUnknown} \<and> c_Reason c \<noteq> ''''"

definition statusOf :: "Condition list \<Rightarrow> string \<Rightarrow> string option" where
  "statusOf cs t = map_option c_Status (FindStatusCondition cs t)"

definition progress :: "Condition list \<Rightarrow> string option \<times> string option" where
  "progress cs = (statusOf cs ProcessingConditionType, statusOf cs SucceededConditionType)"

text \<open>Not started, processing, succeeded, and given up.\<close>

definition progressOk :: "string option \<times> string option \<Rightarrow> bool" where
  "progressOk p \<longleftrightarrow> p \<in> {(None, None), (Some ConditionTrue, Some ConditionUnknown),
     (Some ConditionFalse, Some ConditionTrue), (Some ConditionFalse, Some ConditionFalse)}"

definition wfConditions :: "Condition list \<Rightarrow> bool" where
  "wfConditions cs \<longleftrightarrow> list_all wfCondition cs \<and> distinct (map c_Type cs) \<and> progressOk (progress cs)"

definition wfSnr :: "SelfNodeRemediation \<Rightarrow> bool" where
  "wfSnr snr \<longleftrightarrow> getPhase snr \<noteq> unknownPhase \<and> wfConditions (st_Conditions (snr_Status snr))"

lemma wfSnr_upd [simp]:
  "wfSnr (snr\<lparr>snr_Meta := m\<rparr>) = wfSnr snr"
  "wfSnr (snr\<lparr>snr_Status := (snr_Status snr)\<lparr>st_LastError := e\<rparr>\<rparr>) = wfSnr snr"
  "wfSnr (snr\<lparr>snr_Status := (snr_Status snr)\<lparr>st_TimeAssumedRebooted := t\<rparr>\<rparr>) = wfSnr snr"
  by (simp_all add: wfSnr_def getPhase_def)

lemma wfSnr_setPhase:
  "p \<in> {preRebootCompletedPhase, rebootCompletedPhase, fencingCompletedPhase} \<Longrightarrow> wfSnr snr \<Longrightarrow>
   wfSnr (snr\<lparr>snr_Status := (snr_Status snr)\<lparr>st_Phase := Some (remediationPhase_str p)\<rparr>\<rparr>)"
  by (auto simp: wfSnr_def getPhase_def)

lemma wfSnr_setConditions:
  "(wfSnr snr \<Longrightarrow> wfConditions cs) \<Longrightarrow> wfSnr snr \<Longrightarrow> wfSnr (snr\<lparr>snr_Status := (snr_Status snr)\<lparr>st_Conditions := cs\<rparr>\<rparr>)"
  by (simp add: wfSnr_def getPhase_def)

section \<open>Setting conditions\<close>

lemma wfCondition_update: "wfCondition c \<Longrightarrow> wfCondition new \<Longrightarrow> wfCondition (updateCondition now new c)"
  by (simp add: wfCondition_def)

lemma all_wf_updateFirst: "list_all wfCondition cs \<Longrightarrow> wfCondition new \<Longrightarrow> list_all wfCondition (updateFirst now new cs)"
  by (induction cs) (auto simp: wfCondition_update)

lemma all_wf_Set: "list_all wfCondition cs \<Longrightarrow> wfCondition new \<Longrightarrow> list_all wfCondition (SetStatusCondition now cs new)"
  by (auto simp: SetStatusCondition_def all_wf_updateFirst wfCondition_def split: option.split)

lemma statusOf_Set [simp]:
  "statusOf (SetStatusCondition now cs new) t = (if t = c_Type new then Some (c_Status new) else statusOf cs t)"
  using find_SetStatusCondition_same [of now cs new] by (auto simp: statusOf_def)

lemma newCondition_sel [simp]:
  "c_Type (newCondition t st reason m) = t" "c_Status (newCondition t st reason m) = st"
  "c_Reason (newCondition t st reason m) = reason"
  by (simp_all add: newCondition_def)

lemma reason_not_empty [simp]: "conditionReason_str reason \<noteq> ''''"
  by (cases reason) simp_all

lemma conditionStatuses_ok:
  "conditionStatuses reason = Some (p, q) \<Longrightarrow> progressOk (Some p, Some q)
     \<and> p \<in> {ConditionTrue, ConditionFalse, ConditionUnknown} \<and> q \<in> {ConditionTrue, ConditionFalse, ConditionUnknown}"
  by (cases reason) (auto simp: progressOk_def)

lemma type_not_empty [simp]: "ProcessingConditionType \<noteq> ''''" "SucceededConditionType \<noteq> ''''" "DisabledConditionType \<noteq> ''''"
  by (simp_all add: condition_type_defs)

text \<open>Both conditions at once, as \<^verbatim>\<open>updateConditions\<close> sets them, and the condition of a disabled remediation.\<close>

lemma wfConditions_both:
  assumes "wfConditions cs" and "conditionStatuses reason = Some (p, q)"
  shows "wfConditions (SetStatusCondition t2 (SetStatusCondition t1 cs
     (newCondition ProcessingConditionType p (conditionReason_str reason) ''''))
     (newCondition SucceededConditionType q (conditionReason_str reason) ''''))"
  using assms conditionStatuses_ok [OF assms(2)]
  by (auto simp: wfConditions_def progress_def wfCondition_def intro!: all_wf_Set SetStatusCondition_distinct)

lemma wfSnr_both:
  "wfSnr snr \<Longrightarrow> conditionStatuses reason = Some (p, q) \<Longrightarrow>
   wfSnr (snr\<lparr>snr_Status := (snr_Status snr)\<lparr>st_Conditions :=
     SetStatusCondition t2 (SetStatusCondition t1 (st_Conditions (snr_Status snr))
       (newCondition ProcessingConditionType p (conditionReason_str reason) []))
       (newCondition SucceededConditionType q (conditionReason_str reason) [])\<rparr>\<rparr>)"
  by (rule wfSnr_setConditions, rule wfConditions_both) (simp_all add: wfSnr_def)

lemma wfConditions_disabled:
  "wfConditions cs \<Longrightarrow> wfConditions (SetStatusCondition t cs
     (newCondition DisabledConditionType ConditionTrue (conditionReason_str reason) m))"
  by (auto simp: wfConditions_def progress_def wfCondition_def intro!: all_wf_Set SetStatusCondition_distinct)

section \<open>The store\<close>

definition wfWrite :: "action \<Rightarrow> bool" where
  "wfWrite a = (case a of AStatusPatchSnr orig x e \<Rightarrow> wfSnr x | AStatusUpdateSnr x e \<Rightarrow> wfSnr x | _ \<Rightarrow> True)"

lemma wfWrite_simps [simp]:
  "wfWrite (AStatusPatchSnr orig x e) = wfSnr x" "wfWrite (AStatusUpdateSnr x e) = wfSnr x"
  "wfWrite (AEvent t obj reason m)" "wfWrite (AUpdateNode n e)" "wfWrite (APatchNode orig' n e)"
  "wfWrite (AUpdateSnr x e)" "wfWrite (ADeletePods ns nm e)" "wfWrite AReboot"
  by (simp_all add: wfWrite_def)

text \<open>
  \<^term>\<open>J\<close> holds of a world whose stored remediation has a well-formed status. The calls keep it, given
  a well-formed object where they write one, and then answer with well-formed objects.
\<close>

definition stays :: "('w \<Rightarrow> bool) \<Rightarrow> 'w \<Rightarrow> 'w \<Rightarrow> bool" where
  "stays J w w' \<longleftrightarrow> (J w \<longrightarrow> J w')"

interpretation staying: frame_relation "stays J" for J
  by unfold_locales (auto simp: stays_def)

definition answersTyped :: "('w \<Rightarrow> bool) \<Rightarrow> ('w, SelfNodeRemediation result) state \<Rightarrow> bool" where
  "answersTyped J m \<longleftrightarrow> (\<forall>w x w'. J w \<longrightarrow> run_state m w = (x, w') \<longrightarrow> J w' \<and> (case x of Inl e \<Rightarrow> True | Inr snr \<Rightarrow> wfSnr snr))"

definition typedReads :: "'w client \<Rightarrow> ('w \<Rightarrow> bool) \<Rightarrow> bool" where
  "typedReads c J \<longleftrightarrow>
     framed (stays J) (cl_Now c) \<and> (\<forall>ns n. answersTyped J (cl_GetSnr c ns n))
   \<and> (\<forall>ns n. framed (stays J) (cl_GetConfig c ns n)) \<and> (\<forall>n. framed (stays J) (cl_GetNode c n))
   \<and> (\<forall>ns n. framed (stays J) (cl_GetMachine c ns n)) \<and> (\<forall>sel. framed (stays J) (cl_ListPods c sel))
   \<and> framed (stays J) (cl_ListVolumeAttachments c) \<and> framed (stays J) (cl_ListNamespaces c)"

definition typedWrites :: "'w client \<Rightarrow> ('w \<Rightarrow> bool) \<Rightarrow> bool" where
  "typedWrites c J \<longleftrightarrow>
     (\<forall>n. framed (stays J) (cl_UpdateNode c n)) \<and> (\<forall>orig n. framed (stays J) (cl_PatchNode c orig n))
   \<and> (\<forall>ns n. framed (stays J) (cl_DeleteAllOfPods c ns n))
   \<and> (\<forall>x. wfSnr x \<longrightarrow> answersTyped J (cl_UpdateSnr c x)) \<and> (\<forall>x. wfSnr x \<longrightarrow> answersTyped J (cl_StatusUpdateSnr c x))
   \<and> (\<forall>orig x. wfSnr orig \<longrightarrow> wfSnr x \<longrightarrow> answersTyped J (cl_StatusPatchSnr c orig x))"

definition typedStore :: "'w reconciler \<Rightarrow> ('w \<Rightarrow> bool) \<Rightarrow> bool" where
  "typedStore r J \<longleftrightarrow> typedReads (r_Client r) J \<and> typedWrites (r_Client r) J
     \<and> (\<forall>node. framed (stays J) (r_GetRebootDuration r node))"

text \<open>A step that keeps memory and store well-formed, and whose writes are well-formed.\<close>

definition typed :: "('w \<Rightarrow> bool) \<Rightarrow> 'w rs \<Rightarrow> 'w rs \<Rightarrow> bool" where
  "typed J s s' \<longleftrightarrow> (J (rs_world s) \<and> wfSnr (rs_snr s) \<longrightarrow> J (rs_world s') \<and> wfSnr (rs_snr s') \<and> emits wfWrite s s')"

interpretation typing: frame_relation "typed J" for J
  by unfold_locales (auto simp: typed_def emitted.frame_refl elim: emitted.frame_trans)

lemmas typing_rules = typing.framed_returnM typing.framed_gets typing.framed_bind
lemmas branch_rules = framed_if framed_case_sum framed_case_option framed_case_prod framed_case_outcome

section \<open>Every operation keeps the type\<close>

lemma typed_primitives [simp]:
  "typed J s (s\<lparr>rs_node := n\<rparr>)" "typed J s (s\<lparr>rs_trace := rs_trace s @ [a]\<rparr>) \<longleftrightarrow> (J (rs_world s) \<and> wfSnr (rs_snr s) \<longrightarrow> wfWrite a)"
  by (auto simp: typed_def)

lemma typed_setSnr: "(wfSnr (rs_snr s) \<Longrightarrow> wfSnr x) \<Longrightarrow> typed J s (s\<lparr>rs_snr := x\<rparr>)"
  by (auto simp: typed_def)

lemma typed_onWorld: "framed (stays J) m \<Longrightarrow> framed (typed J) (onWorld m)"
  by (rule framedI) (auto simp: onWorld_def typed_def stays_def dest: framedD split: prod.splits)

lemma typed_steps:
  "framed (typed J) (setNode n)" "framed (typed J) (NormalEvent obj reason m)" "framed (typed J) (WarningEvent obj reason m)"
  by (auto intro!: framed_emit framed_setNode simp: event_defs)

lemma typed_emit: "wfWrite a \<Longrightarrow> framed (typed J) (emit a)"
  by (rule framed_emit) simp

lemma typed_setPhase:
  "p \<in> {preRebootCompletedPhase, rebootCompletedPhase, fencingCompletedPhase} \<Longrightarrow> framed (typed J) (setPhase p)"
  unfolding setPhase_def by (intro framed_modifyStatus typed_setSnr wfSnr_setPhase)

lemma reads_stay:
  assumes "typedStore r J"
  shows "framed (stays J) (cl_Now (r_Client r))" "framed (stays J) (cl_GetConfig (r_Client r) ns n)"
    "framed (stays J) (cl_GetNode (r_Client r) n)" "framed (stays J) (cl_GetMachine (r_Client r) ns n)"
    "framed (stays J) (cl_ListPods (r_Client r) sel)" "framed (stays J) (cl_ListVolumeAttachments (r_Client r))"
    "framed (stays J) (cl_ListNamespaces (r_Client r))" "framed (stays J) (r_GetRebootDuration r node)"
    "framed (stays J) (cl_UpdateNode (r_Client r) node)" "framed (stays J) (cl_PatchNode (r_Client r) orig node)"
    "framed (stays J) (cl_DeleteAllOfPods (r_Client r) ns n)"
  using assms by (auto simp: typedStore_def typedReads_def typedWrites_def)

text \<open>Writing the remediation and taking the answer as the new copy in memory.\<close>

lemma typed_write:
  assumes "\<And>x. wfSnr x \<Longrightarrow> answersTyped J (write x)" and "\<And>x e. wfSnr x \<Longrightarrow> wfWrite (a x e)"
  shows "framed (typed J) (do {
     snr \<leftarrow> gets rs_snr;
     res \<leftarrow> onWorld (write snr);
     emit (a snr (err_of res));
     case res of Inl err \<Rightarrow> returnM (Some err) | Inr snr' \<Rightarrow> do { setSnr snr'; returnM None }
   })"
proof (rule framedI)
  fix s and b :: "error option" and s'
  assume run: "run_state (do {
     snr \<leftarrow> gets rs_snr;
     res \<leftarrow> onWorld (write snr);
     emit (a snr (err_of res));
     case res of Inl err \<Rightarrow> returnM (Some err) | Inr snr' \<Rightarrow> do { setSnr snr'; returnM None }
   }) s = (b, s')"
  obtain x w where x: "run_state (write (rs_snr s)) (rs_world s) = (x, w)" by fastforce
  show "typed J s s'"
  proof (cases "J (rs_world s) \<and> wfSnr (rs_snr s)")
    case True
    then have "J w \<and> (case x of Inl e \<Rightarrow> True | Inr snr \<Rightarrow> wfSnr snr)"
      using assms(1) [of "rs_snr s"] x unfolding answersTyped_def by blast
    then show ?thesis
      using run x True assms(2)
      by (cases x) (auto simp: onWorld_def emit_def setSnr_def typed_def emits_def)
  qed (auto simp: typed_def)
qed

lemma typed_snr_writes:
  assumes "typedStore r J"
  shows "framed (typed J) (clientUpdateSnr r)" "framed (typed J) (updateSnrStatus r)"
  unfolding clientUpdateSnr_def updateSnrStatus_def
  by (rule typed_write; use assms in \<open>simp add: typedStore_def typedWrites_def\<close>)+

lemma typed_StatusPatch:
  assumes "typedStore r J" and "wfSnr orig"
  shows "framed (typed J) (clientStatusPatchSnr r orig)"
  unfolding clientStatusPatchSnr_def
  by (rule typed_write; use assms in \<open>simp add: typedStore_def typedWrites_def\<close>)

lemma typed_Now: "typedStore r J \<Longrightarrow> framed (typed J) (Now r)"
  unfolding Now_def by (intro typed_onWorld reads_stay)

lemma typed_updateConditions:
  assumes "typedStore r J"
  shows "framed (typed J) (updateConditions r reason)"
proof (rule framedI)
  fix s a s' assume run: "run_state (updateConditions r reason) s = (a, s')"
  have now: "J w1 \<Longrightarrow> run_state (cl_Now (r_Client r)) w1 = (t, w2) \<Longrightarrow> J w2" for w1 t w2
    using framedD [OF reads_stay(1) [OF assms]] by (auto simp: stays_def)
  show "typed J s s'"
    using run
    by (cases "conditionStatuses reason")
      (auto simp: updateConditions_def setStatusCondition_def Now_def onWorld_def modifyStatus_def typed_def emits_def
        split: prod.splits if_splits intro: now wfSnr_both)
qed

lemma typed_disabled:
  assumes "typedStore r J"
  shows "framed (typed J) (setStatusCondition r (newCondition DisabledConditionType ConditionTrue (conditionReason_str reason) m))"
  unfolding setStatusCondition_def
  by (intro typing_rules typed_Now [OF assms] framed_modifyStatus typed_setSnr wfSnr_setConditions wfConditions_disabled)
    (simp_all add: wfSnr_def)

lemma typed_reads:
  assumes "typedStore r J"
  shows "framed (typed J) (isConfigurationExist r)" "framed (typed J) (getNodeFromSnr r)"
    "framed (typed J) (isNodeRebootCapable r)" "framed (typed J) (isResourceDeletionCompleted r)"
    "framed (typed J) (isResourceDeletionExpired r)" "framed (typed J) (wasNodeRebooted r)"
  unfolding isConfigurationExist_def getNodeFromSnr_def isNodeRebootCapable_def isResourceDeletionCompleted_def
    isResourceDeletionExpired_def wasNodeRebooted_def getNodeName_def getNodeNameFromMachine_def
    GetSelfNodeRemediationAgentPod_def
  by (intro branch_rules typing_rules staying.framed_returnM staying.framed_bind typed_onWorld typed_Now
      reads_stay assms)+

lemma typed_node_ops:
  assumes "typedStore r J"
  shows "framed (typed J) (addTaint r taint reason message)" "framed (typed J) (removeTaint r taint reason message)"
    "framed (typed J) (markNodeAsUnschedulable r)" "framed (typed J) (clientUpdateNode r)"
  unfolding addTaint_def removeTaint_def markNodeAsUnschedulable_def clientPatchNode_def clientUpdateNode_def
  by (intro branch_rules typing_rules typed_onWorld typed_Now typed_steps typed_emit reads_stay assms wfWrite_simps)+

lemma typed_DeletePods:
  assumes "typedStore r J"
  shows "framed (typed J) (DeletePods r nodeName)"
proof -
  have "framed (typed J) (deletePodsLoop r nodeName nss)" for nss
    by (induction nss)
      (auto intro!: branch_rules typing_rules typed_onWorld typed_emit reads_stay assms)
  then show ?thesis
    unfolding DeletePods_def by (intro branch_rules typing_rules typed_onWorld reads_stay assms)
qed

lemma typed_finalizer_ops:
  assumes "typedStore r J"
  shows "framed (typed J) (removeFinalizer r)" "framed (typed J) (addFinalizer r)"
proof -
  note upd = typed_snr_writes(1) [OF assms]
  show "framed (typed J) (removeFinalizer r)"
    unfolding removeFinalizer_def by (intro typing_rules framed_modify upd typed_setSnr) simp
  show "framed (typed J) (addFinalizer r)"
  proof (rule framedI)
    fix s a s' assume run: "run_state (addFinalizer r) s = (a, s')"
    let ?s = "s\<lparr>rs_snr := (rs_snr s)\<lparr>snr_Meta := AddFinalizer (snr_Meta (rs_snr s)) SNRFinalizer\<rparr>\<rparr>"
    obtain e s1 where u: "run_state (clientUpdateSnr r) ?s = (e, s1)" by fastforce
    have "typed J s ?s" by (rule typed_setSnr) simp
    then have t: "typed J s s1" using framedD [OF upd u] by (rule typing.frame_trans)
    have "typed J s s1'" if "typed J s1 s1'" for s1' using t that by (rule typing.frame_trans)
    then show "typed J s s'"
      using run u t by (auto simp: addFinalizer_def setSnr_def event_defs emit_def typing.frame_refl split: if_splits option.splits)
  qed
qed

lemma typed_setTime:
  assumes "typedStore r J"
  shows "framed (typed J) (setTimeAssumedRebooted r)"
  unfolding setTimeAssumedRebooted_def
  by (intro branch_rules typing_rules typed_onWorld typed_Now typed_steps framed_modifyStatus typed_setSnr reads_stay assms) simp

lemma typed_recovery:
  assumes "typedStore r J"
  shows "framed (typed J) (recoverNodeTail r)" "framed (typed J) (recoverNode r)" "framed (typed J) (handleFencingCompletedPhase r)"
  unfolding handleFencingCompletedPhase_def recoverNode_def recoverNodeTail_def removeNoExecuteTaint_def
  by (intro branch_rules typing_rules typed_node_ops typed_finalizer_ops typed_steps assms)+

lemma typed_removals:
  assumes "typedStore r J"
  shows "framed (typed J) (deleteResourcesWrapper r)" "framed (typed J) (useOutOfServiceTaint r)"
  unfolding deleteResourcesWrapper_def useOutOfServiceTaint_def addOutOfServiceTaint_def removeOutOfServiceTaint_def
  by (intro branch_rules typing_rules typed_DeletePods typed_reads typed_node_ops assms)+

lemma typed_phases:
  assumes "typedStore r J" and "framed (typed J) rm"
  shows "framed (typed J) (remediateWithResourceRemoval r rm)"
proof -
  note ops = typed_reads [OF assms(1)] typed_node_ops [OF assms(1)] typed_finalizer_ops [OF assms(1)]
    typed_setTime [OF assms(1)] typed_updateConditions [OF assms(1)] typed_steps
  have "framed (typed J) (prepareReboot r)"
    unfolding prepareReboot_def addNoExecuteTaint_def
    by (intro branch_rules typing_rules ops typed_setPhase) simp_all
  moreover have "framed (typed J) (waitForNodeRebooted r)"
    unfolding waitForNodeRebooted_def by (intro branch_rules typing_rules ops typed_setPhase) simp_all
  moreover have "framed (typed J) (handleRebootCompletedPhase r rm)"
    unfolding handleRebootCompletedPhase_def by (intro branch_rules typing_rules ops typed_setPhase assms(2)) simp_all
  ultimately have "framed (typed J) (case p of
       fencingStartedPhase \<Rightarrow> handleFencingStartedPhase r
     | preRebootCompletedPhase \<Rightarrow> handlePreRebootCompletedPhase r
     | rebootCompletedPhase \<Rightarrow> handleRebootCompletedPhase r rm
     | fencingCompletedPhase \<Rightarrow> handleFencingCompletedPhase r
     | unknownPhase \<Rightarrow> returnM (Ret (emptyResult, Some (ErrMsg ''unknown phase''))))" for p
    using typed_recovery(3) [OF assms(1)]
    by (cases p) (simp_all add: handleFencingStartedPhase_def handlePreRebootCompletedPhase_def typing.framed_returnM)
  then show ?thesis
    unfolding remediateWithResourceRemoval_def by (intro typing_rules)
qed

lemma typed_lastError:
  assumes "typedStore r J"
  shows "framed (typed J) (updateSnrStatusLastError r err)"
proof (rule framedI)
  fix s a s' assume run: "run_state (updateSnrStatusLastError r err) s = (a, s')"
  let ?e = "case err of None \<Rightarrow> [] | Some e \<Rightarrow> error_str e"
  let ?s = "s\<lparr>rs_snr := (rs_snr s)\<lparr>snr_Status := (snr_Status (rs_snr s))\<lparr>st_LastError := ?e\<rparr>\<rparr>\<rparr>"
  obtain u s1 where u: "run_state (clientStatusPatchSnr r (rs_snr s)) ?s = (u, s1)" by fastforce
  have "s' = (if st_LastError (snr_Status (rs_snr s)) \<noteq> ?e then s1 else s)"
    using run u by (auto simp: updateSnrStatusLastError_def modifyStatus_def Let_def split: option.splits)
  moreover have "typed J s s1" if "wfSnr (rs_snr s)"
    using framedD [OF typed_StatusPatch [OF assms that] u]
    by (rule typing.frame_trans [rotated]) (rule typed_setSnr, simp)
  ultimately show "typed J s s'" by (auto simp: typed_def emitted.frame_refl)
qed

lemma typed_body:
  assumes "typedStore r J"
  shows "framed (typed J) (reconcileManagerBody r)"
proof -
  note ops = typed_reads [OF assms] typed_finalizer_ops [OF assms] typed_updateConditions [OF assms] typed_steps
    typed_lastError [OF assms] typed_disabled [OF assms]
  have "framed (typed J) (remediate r)"
    unfolding remediate_def remediateWithResourceDeletion_def remediateWithOutOfServiceTaint_def
    by (intro branch_rules typing_rules typed_phases typed_removals assms)
  then have "framed (typed J) (reconcileNode r)"
    unfolding reconcileNode_def nodeLookupFailed_def remediateNode_def
    by (intro branch_rules typing_rules ops)
  then show ?thesis
    unfolding reconcileManagerBody_def reconcileEnabled_def stopByNHC_def
    by (intro branch_rules typing_rules ops)
qed

section \<open>Properties\<close>

text \<open>
  C19: every reconcile of the manager keeps the type of the status. If the stored status has a known
  phase, valid conditions of pairwise different types, and a consistent progress, then so have the
  status after the reconcile and every status the reconcile sends to the API server; and the phase is
  one of those the manager handles.
\<close>

theorem status_type_preserved:
  assumes "typedStore r J" and "J (rs_world s)" and "run_state (ReconcileManager r ns name) s = (out, s')"
  shows "J (rs_world s') \<and> (\<exists>as. rs_trace s' = rs_trace s @ as \<and> list_all wfWrite as)"
proof -
  obtain x w where x: "run_state (cl_GetSnr (r_Client r) ns name) (rs_world s) = (x, w)" by fastforce
  have got: "J w" "x = Inr snr \<Longrightarrow> wfSnr snr" for snr
    using assms(1,2) x unfolding typedStore_def typedReads_def answersTyped_def by fastforce+
  show ?thesis
  proof (cases x)
    case (Inl e)
    then show ?thesis using assms(3) x got(1) by (auto simp: ReconcileManager_def onWorld_def)
  next
    case (Inr snr)
    let ?s = "s\<lparr>rs_world := w, rs_snr := snr\<rparr>"
    obtain b s1 where b: "run_state (reconcileManagerBody r) ?s = (b, s1)" by fastforce
    obtain e s2 where e: "run_state (updateSnrStatus r) s1 = (e, s2)" by fastforce
    have "s' = s2" using assms(3) x Inr b e by (simp add: ReconcileManager_def onWorld_def setSnr_def deferredStatusUpdate_def)
    moreover have "typed J ?s s2"
      using framedD [OF typed_body [OF assms(1)] b] framedD [OF typed_snr_writes(2) [OF assms(1)] e]
      by (rule typing.frame_trans)
    ultimately show ?thesis using got Inr by (simp add: typed_def emits_def)
  qed
qed

lemma wfSnr_status: "snr_Status x = snr_Status y \<Longrightarrow> wfSnr x = wfSnr y"
  by (simp add: wfSnr_def getPhase_def)

lemma typedStore_example: "typedStore (exampleReconciler False) (\<lambda>k. wfSnr (k_snr k))"
proof -
  let ?J = "\<lambda>k. wfSnr (k_snr k)"
  have written: "answersTyped ?J (writeSnr x f)" if "\<And>y. wfSnr y \<Longrightarrow> wfSnr (f y)" for x f
    using that by (auto simp: answersTyped_def writeSnr_def notFound_def split: if_splits)
  have upd: "wfSnr (x\<lparr>snr_Status := snr_Status y\<rparr>) = wfSnr y" for x y
    by (rule wfSnr_status) simp
  have patch: "wfSnr (y\<lparr>snr_Status := patchedStatus (snr_Status a) (snr_Status x) (snr_Status y)\<rparr>)"
    if "wfSnr x" "wfSnr y" for a x y
    using that by (auto simp: wfSnr_def getPhase_def patchedStatus_def patched_def)
  have stay: "framed (stays ?J) (storeNode n)"
      "framed (stays ?J) (do { modify (\<lambda>k. k\<lparr>k_deleted := k_deleted k @ [(ns, n')]\<rparr>); returnM (Inr ()) })" for n ns n'
    by (simp_all add: framed_def stays_def storeNode_def)
  have get: "answersTyped ?J (gets (\<lambda>k. if p k then Inr (k_snr k) else notFound))" for p
    by (simp add: answersTyped_def notFound_def)
  have "typedReads clusterClient ?J"
    by (simp add: typedReads_def clusterClient_def staying.framed_gets staying.framed_returnM get)
  moreover have "typedWrites clusterClient ?J"
    by (simp add: typedWrites_def clusterClient_def stay written upd patch)
  moreover have "r_Client (exampleReconciler False) = clusterClient"
      "r_GetRebootDuration (exampleReconciler False) = (\<lambda>node. returnM (Ret (Inr (180 * Second))))"
    by (simp_all add: exampleReconciler_def)
  ultimately show ?thesis
    by (simp add: typedStore_def staying.framed_returnM)
qed

theorem status_type_preserved_witness:
  "wfSnr (k_snr (rs_world (snd (run_state (ReconcileManager (exampleReconciler False) ''op'' ''worker-1'')
     (startState preparedWorld)))))"
  using status_type_preserved [OF typedStore_example, of "startState preparedWorld", OF _ surjective_pairing]
  by (simp add: preparedWorld_def example_defs wfSnr_def getPhase_def wfConditions_def progress_def progressOk_def statusOf_def)

end
