(* ===== verification/Fencing.thy ===== *)
theory Fencing
  imports Snr_Frames Example_Cluster
begin

text \<open>
  The fencing protocol: an abstract state machine over the stored phase of a remediation and the time
  at which its node is assumed to have rebooted, and the proof that every reconcile of the manager is
  one of its steps. The API server is assumed to keep the status of the remediation between the
  manager's writes; how it does so, and how the clock advances meanwhile, is a parameter.
\<close>

section \<open>The protocol\<close>

text \<open>What the protocol is about: the stored phase and the stored time.\<close>

type_synonym fenceView = "string option \<times> instant option"

definition viewOf :: "SelfNodeRemediation \<Rightarrow> fenceView" where
  "viewOf snr = (st_Phase (snr_Status snr), st_TimeAssumedRebooted (snr_Status snr))"

text \<open>
  One step, taken between the instants \<^term>\<open>t0\<close> and \<^term>\<open>t1\<close>; \<^term>\<open>durOk\<close> are the
  durations the calculator may return.
\<close>

inductive fencing_step :: "(duration \<Rightarrow> bool) \<Rightarrow> instant \<Rightarrow> instant \<Rightarrow> fenceView \<Rightarrow> fenceView \<Rightarrow> bool"
  for durOk t0 t1 where
  stay: "fencing_step durOk t0 t1 v v"
| prepared: "durOk d \<Longrightarrow> t0 \<le> now \<Longrightarrow> now \<le> t1 \<Longrightarrow>
    fencing_step durOk t0 t1 (None, None) (Some ''Pre-Reboot-Completed'', Some (time_add now d))"
| resumed: "fencing_step durOk t0 t1 (None, Some t) (Some ''Pre-Reboot-Completed'', Some t)"
| rebooted: "t \<le> t1 \<Longrightarrow>
    fencing_step durOk t0 t1 (Some ''Pre-Reboot-Completed'', Some t) (Some ''Reboot-Completed'', Some t)"
| fenced: "fencing_step durOk t0 t1 (Some ''Reboot-Completed'', t) (Some ''Fencing-Completed'', t)"

inductive_cases fencing_stepE: "fencing_step durOk t0 t1 (p, t) (p', t')"
inductive_simps fencing_from_none: "fencing_step durOk t0 t1 (None, t) v"
inductive_simps fencing_to_rebooted: "fencing_step durOk t0 t1 v (Some ''Reboot-Completed'', t)"

lemma fencing_step_widen:
  "fencing_step durOk t0 t1 v v' \<Longrightarrow> u0 \<le> t0 \<Longrightarrow> t1 \<le> u1 \<Longrightarrow> fencing_step durOk u0 u1 v v'"
  by (induction rule: fencing_step.induct) (auto intro: fencing_step.intros)

section \<open>What the manager relies on\<close>

text \<open>A call that leaves the stored view alone while time passes.\<close>

definition tick :: "('w \<Rightarrow> fenceView) \<Rightarrow> ('w \<Rightarrow> instant) \<Rightarrow> 'w \<Rightarrow> 'w \<Rightarrow> bool" where
  "tick V C w w' \<longleftrightarrow> V w' = V w \<and> C w \<le> C w'"

interpretation ticked: frame_relation "tick V C" for V C
  by unfold_locales (auto simp: tick_def)

lemmas tick_rules = ticked.framed_returnM ticked.framed_gets ticked.framed_bind

definition keyOf :: "SelfNodeRemediation \<Rightarrow> string \<times> string" where
  "keyOf snr = (om_Namespace (snr_Meta snr), om_Name (snr_Meta snr))"

text \<open>
  The laws of the API server for the remediation with the key \<^term>\<open>k\<close>. \<^term>\<open>V\<close> is its stored
  view, which only status writes of the manager change, \<^term>\<open>C\<close> the clock. The status is a
  subresource: an update of the object answers with the stored status, and a merge patch whose two
  objects agree on the view leaves the stored view alone and answers with it. A status update that
  fails may still have been stored.
\<close>

definition readLaws :: "'w client \<Rightarrow> string \<times> string \<Rightarrow> ('w \<Rightarrow> fenceView) \<Rightarrow> ('w \<Rightarrow> instant) \<Rightarrow> bool" where
  "readLaws c k V C \<longleftrightarrow>
     (\<forall>w t w'. run_state (cl_Now c) w = (t, w') \<longrightarrow> tick V C w w' \<and> C w \<le> t \<and> t \<le> C w')
   \<and> (\<forall>w x w'. run_state (cl_GetSnr c (fst k) (snd k)) w = (x, w') \<longrightarrow>
        tick V C w w' \<and> (\<forall>snr. x = Inr snr \<longrightarrow> keyOf snr = k \<and> viewOf snr = V w'))
   \<and> (\<forall>ns n. framed (tick V C) (cl_GetConfig c ns n)) \<and> (\<forall>n. framed (tick V C) (cl_GetNode c n))
   \<and> (\<forall>ns n. framed (tick V C) (cl_GetMachine c ns n)) \<and> (\<forall>sel. framed (tick V C) (cl_ListPods c sel))
   \<and> framed (tick V C) (cl_ListVolumeAttachments c) \<and> framed (tick V C) (cl_ListNamespaces c)"

definition writeLaws :: "'w client \<Rightarrow> string \<times> string \<Rightarrow> ('w \<Rightarrow> fenceView) \<Rightarrow> ('w \<Rightarrow> instant) \<Rightarrow> bool" where
  "writeLaws c k V C \<longleftrightarrow>
     (\<forall>n. framed (tick V C) (cl_UpdateNode c n)) \<and> (\<forall>o' n. framed (tick V C) (cl_PatchNode c o' n))
   \<and> (\<forall>ns n. framed (tick V C) (cl_DeleteAllOfPods c ns n))
   \<and> (\<forall>snr w x w'. keyOf snr = k \<longrightarrow> run_state (cl_UpdateSnr c snr) w = (x, w') \<longrightarrow>
        tick V C w w' \<and> (\<forall>snr'. x = Inr snr' \<longrightarrow> keyOf snr' = k \<and> viewOf snr' = V w'))
   \<and> (\<forall>orig snr w x w'. keyOf snr = k \<longrightarrow> viewOf orig = viewOf snr \<longrightarrow>
        run_state (cl_StatusPatchSnr c orig snr) w = (x, w') \<longrightarrow>
        tick V C w w' \<and> (\<forall>snr'. x = Inr snr' \<longrightarrow> keyOf snr' = k \<and> viewOf snr' = V w'))
   \<and> (\<forall>snr w x w'. keyOf snr = k \<longrightarrow> run_state (cl_StatusUpdateSnr c snr) w = (x, w') \<longrightarrow>
        C w \<le> C w' \<and> (V w' = viewOf snr \<or> V w' = V w \<and> (\<exists>e. x = Inl e)))"

text \<open>
  \<^term>\<open>nodeOk\<close> holds of the node of the remediation, whenever it is looked up, and a patch of that node
  answers with it; the calculator answers allowed durations for such nodes.
\<close>

definition nodeLaws :: "'w reconciler \<Rightarrow> string \<times> string \<Rightarrow> (Node \<Rightarrow> bool) \<Rightarrow> bool" where
  "nodeLaws r k nodeOk \<longleftrightarrow>
     (\<forall>s node s'. keyOf (rs_snr s) = k \<longrightarrow> run_state (getNodeFromSnr r) s = (Inr node, s') \<longrightarrow> nodeOk node)
   \<and> (\<forall>orig node w node' w'. nodeOk orig \<longrightarrow> run_state (cl_PatchNode (r_Client r) orig node) w = (Inr node', w') \<longrightarrow> nodeOk node')"

definition calculatorLaws ::
  "'w reconciler \<Rightarrow> ('w \<Rightarrow> fenceView) \<Rightarrow> ('w \<Rightarrow> instant) \<Rightarrow> (Node \<Rightarrow> bool) \<Rightarrow> (duration \<Rightarrow> bool) \<Rightarrow> bool" where
  "calculatorLaws r V C nodeOk durOk \<longleftrightarrow>
     (\<forall>node. framed (tick V C) (r_GetRebootDuration r node))
   \<and> (\<forall>node w d w'. nodeOk node \<longrightarrow> run_state (r_GetRebootDuration r node) w = (Ret (Inr d), w') \<longrightarrow> durOk d)"

definition statusStore :: "'w reconciler \<Rightarrow> string \<times> string \<Rightarrow> ('w \<Rightarrow> fenceView) \<Rightarrow> ('w \<Rightarrow> instant)
    \<Rightarrow> (duration \<Rightarrow> bool) \<Rightarrow> bool" where
  "statusStore r k V C durOk \<longleftrightarrow>
     readLaws (r_Client r) k V C \<and> writeLaws (r_Client r) k V C
   \<and> (\<exists>nodeOk. nodeLaws r k nodeOk \<and> calculatorLaws r V C nodeOk durOk)"

lemma nodeLaws_all: "nodeLaws r k (\<lambda>_. True)"
  by (simp add: nodeLaws_def)

text \<open>The laws hold on the example cluster.\<close>

lemma statusStore_example:
  "statusStore (exampleReconciler b) (''op'', ''worker-1'') (\<lambda>k. viewOf (k_snr k)) k_now (\<lambda>d. d = 180 * Second)"
  unfolding statusStore_def
  by (intro conjI exI [of _ "\<lambda>_. True"] nodeLaws_all)
    (auto simp: readLaws_def writeLaws_def calculatorLaws_def exampleReconciler_def clusterClient_def writeSnr_def storeNode_def notFound_def tick_def keyOf_def viewOf_def patchedStatus_def
      patched_def intro!: framedI split: if_splits)

section \<open>In step with the store\<close>

text \<open>The copy in memory has the key of the remediation and its stored view.\<close>

definition synced :: "string \<times> string \<Rightarrow> ('w \<Rightarrow> fenceView) \<Rightarrow> 'w rs \<Rightarrow> bool" where
  "synced k V s \<longleftrightarrow> keyOf (rs_snr s) = k \<and> viewOf (rs_snr s) = V (rs_world s)"

definition inSync :: "string \<times> string \<Rightarrow> ('w \<Rightarrow> fenceView) \<Rightarrow> ('w \<Rightarrow> instant) \<Rightarrow> 'w rs \<Rightarrow> 'w rs \<Rightarrow> bool" where
  "inSync k V C s s' \<longleftrightarrow> (synced k V s \<longrightarrow> synced k V s' \<and> tick V C (rs_world s) (rs_world s'))"

interpretation sync: frame_relation "inSync k V C" for k V C
  by unfold_locales (auto simp: inSync_def intro: ticked.frame_refl ticked.frame_trans)

lemmas sync_rules = sync.framed_returnM sync.framed_gets sync.framed_bind

lemma inSync_primitives [simp]:
  "inSync k V C s (s\<lparr>rs_node := n\<rparr>)" "inSync k V C s (s\<lparr>rs_trace := t\<rparr>)"
  "keyOf x = keyOf (rs_snr s) \<Longrightarrow> viewOf x = viewOf (rs_snr s) \<Longrightarrow> inSync k V C s (s\<lparr>rs_snr := x\<rparr>)"
  by (simp_all add: inSync_def synced_def tick_def)

lemma sync_onWorld: "framed (tick V C) m \<Longrightarrow> framed (inSync k V C) (onWorld m)"
  by (rule framedI) (auto simp: onWorld_def inSync_def synced_def tick_def dest: framedD split: prod.splits)

lemma keyOf_status [simp]: "keyOf (snr\<lparr>snr_Status := st\<rparr>) = keyOf snr"
  by (simp add: keyOf_def)

lemma keyOf_finalizers [simp]:
  "keyOf (snr\<lparr>snr_Meta := AddFinalizer (snr_Meta snr) f\<rparr>) = keyOf snr"
  "keyOf (snr\<lparr>snr_Meta := RemoveFinalizer (snr_Meta snr) f\<rparr>) = keyOf snr"
  "viewOf (snr\<lparr>snr_Meta := m\<rparr>) = viewOf snr"
  by (simp_all add: keyOf_def viewOf_def AddFinalizer_def RemoveFinalizer_def)

lemma viewOf_upd [simp]:
  "viewOf (snr\<lparr>snr_Status := (snr_Status snr)\<lparr>st_Conditions := cs\<rparr>\<rparr>) = viewOf snr"
  "viewOf (snr\<lparr>snr_Status := (snr_Status snr)\<lparr>st_LastError := e\<rparr>\<rparr>) = viewOf snr"
  "viewOf (snr\<lparr>snr_Status := (snr_Status snr)\<lparr>st_Phase := p\<rparr>\<rparr>) = (p, snd (viewOf snr))"
  "viewOf (snr\<lparr>snr_Status := (snr_Status snr)\<lparr>st_TimeAssumedRebooted := t\<rparr>\<rparr>) = (fst (viewOf snr), t)"
  by (simp_all add: viewOf_def)

text \<open>The projections of the laws.\<close>

lemma store_reads:
  assumes "statusStore r k V C durOk"
  shows "framed (tick V C) (cl_Now (r_Client r))" "framed (tick V C) (cl_GetConfig (r_Client r) ns n)"
    "framed (tick V C) (cl_GetNode (r_Client r) n)" "framed (tick V C) (cl_GetMachine (r_Client r) ns n)"
    "framed (tick V C) (cl_ListPods (r_Client r) sel)" "framed (tick V C) (cl_ListVolumeAttachments (r_Client r))"
    "framed (tick V C) (cl_ListNamespaces (r_Client r))" "framed (tick V C) (r_GetRebootDuration r node)"
  using assms by (auto simp: statusStore_def readLaws_def calculatorLaws_def intro: framedI)

lemma store_writes:
  assumes "statusStore r k V C durOk"
  shows "framed (tick V C) (cl_UpdateNode (r_Client r) node)" "framed (tick V C) (cl_PatchNode (r_Client r) orig node)"
    "framed (tick V C) (cl_DeleteAllOfPods (r_Client r) ns n)"
  using assms by (auto simp: statusStore_def writeLaws_def)

lemma store_UpdateSnr:
  assumes "statusStore r k V C durOk" and "keyOf snr = k" and "run_state (cl_UpdateSnr (r_Client r) snr) w = (x, w')"
  shows "tick V C w w'" and "x = Inr snr' \<Longrightarrow> keyOf snr' = k \<and> viewOf snr' = V w'"
  using assms unfolding statusStore_def writeLaws_def by blast+

lemma store_StatusPatchSnr:
  assumes "statusStore r k V C durOk" and "keyOf snr = k" and "viewOf orig = viewOf snr"
    and "run_state (cl_StatusPatchSnr (r_Client r) orig snr) w = (x, w')"
  shows "tick V C w w'" and "x = Inr snr' \<Longrightarrow> keyOf snr' = k \<and> viewOf snr' = V w'"
  using assms unfolding statusStore_def writeLaws_def by blast+

lemma sync_clientUpdateSnr:
  assumes "statusStore r k V C durOk"
  shows "framed (inSync k V C) (clientUpdateSnr r)"
proof (rule framedI)
  fix s a s' assume run: "run_state (clientUpdateSnr r) s = (a, s')"
  obtain x w where x: "run_state (cl_UpdateSnr (r_Client r) (rs_snr s)) (rs_world s) = (x, w)" by fastforce
  show "inSync k V C s s'"
  proof (cases "keyOf (rs_snr s) = k")
    case True
    show ?thesis
      using run x store_UpdateSnr [OF assms True x]
      by (cases x) (auto simp: clientUpdateSnr_def onWorld_def emit_def setSnr_def inSync_def synced_def tick_def)
  qed (simp add: inSync_def synced_def)
qed

lemmas framed_cases = framed_if framed_case_sum framed_case_option framed_case_prod framed_case_outcome

lemma sync_steps:
  "framed (inSync k V C) (emit a)" "framed (inSync k V C) (setNode n)" "framed (inSync k V C) (NormalEvent obj reason m)"
  "framed (inSync k V C) (WarningEvent obj reason m)"
  "framed (inSync k V C) (modifyStatus (\<lambda>st. st\<lparr>st_Conditions := g (st_Conditions st)\<rparr>))"
  by (auto intro!: framed_emit framed_setNode framed_modifyStatus simp: event_defs)

lemma sync_reads:
  assumes "statusStore r k V C durOk"
  shows "framed (inSync k V C) (Now r)" "framed (inSync k V C) (isConfigurationExist r)"
    "framed (inSync k V C) (getNodeFromSnr r)" "framed (inSync k V C) (isNodeRebootCapable r)"
    "framed (inSync k V C) (isResourceDeletionCompleted r)" "framed (inSync k V C) (isResourceDeletionExpired r)"
    "framed (inSync k V C) (wasNodeRebooted r)"
  unfolding Now_def isConfigurationExist_def getNodeFromSnr_def isNodeRebootCapable_def isResourceDeletionCompleted_def
    isResourceDeletionExpired_def wasNodeRebooted_def getNodeName_def getNodeNameFromMachine_def
    GetSelfNodeRemediationAgentPod_def
  by (intro framed_cases sync_rules sync_onWorld tick_rules store_reads [OF assms])+

lemma sync_conditions:
  assumes "statusStore r k V C durOk"
  shows "framed (inSync k V C) (setStatusCondition r c)" "framed (inSync k V C) (updateConditions r reason)"
  unfolding setStatusCondition_def updateConditions_def
  by (intro framed_cases sync_rules sync_reads [OF assms] sync_steps)+

lemma sync_node_ops:
  assumes "statusStore r k V C durOk"
  shows "framed (inSync k V C) (addTaint r taint reason message)" "framed (inSync k V C) (removeTaint r taint reason message)"
    "framed (inSync k V C) (markNodeAsUnschedulable r)"
  unfolding addTaint_def removeTaint_def markNodeAsUnschedulable_def clientPatchNode_def clientUpdateNode_def
  by (intro framed_cases sync_rules sync_onWorld sync_reads [OF assms] sync_steps store_writes [OF assms])+

lemma sync_DeletePods:
  assumes "statusStore r k V C durOk"
  shows "framed (inSync k V C) (DeletePods r nodeName)"
proof -
  have "framed (inSync k V C) (deletePodsLoop r nodeName nss)" for nss
    by (induction nss)
      (auto intro!: framed_cases sync_rules sync_onWorld sync_steps store_writes [OF assms])
  then show ?thesis
    unfolding DeletePods_def
    by (intro framed_cases sync_rules sync_onWorld store_reads [OF assms])
qed

lemma sync_finalizer_ops:
  assumes "statusStore r k V C durOk"
  shows "framed (inSync k V C) (removeFinalizer r)" "framed (inSync k V C) (addFinalizer r)"
proof -
  note upd = sync_clientUpdateSnr [OF assms]
  show "framed (inSync k V C) (removeFinalizer r)"
    unfolding removeFinalizer_def by (intro sync_rules framed_modify upd) simp
  have "addFinalizer r = do {
     snr \<leftarrow> gets rs_snr;
     if om_DeletionTimestamp (snr_Meta snr) \<noteq> None then returnM (emptyResult, None)
     else do {
       modify (\<lambda>s. s\<lparr>rs_snr := (rs_snr s)\<lparr>snr_Meta := AddFinalizer (snr_Meta (rs_snr s)) SNRFinalizer\<rparr>\<rparr>);
       err \<leftarrow> clientUpdateSnr r;
       case err of
         None \<Rightarrow> do {
           NormalEvent OnSnr ''AddFinalizer'' ''Remediation process - successful adding finalizer'';
           returnM (emptyResult\<lparr>res_Requeue := True\<rparr>, None)
         }
       | Some e \<Rightarrow> if IsConflict e then returnM (requeueAfter (1 * Second), None)
                   else returnM (emptyResult, Some e)
     }
   }"
    by (rule state.expand) (auto simp: addFinalizer_def setSnr_def fun_eq_iff)
  moreover have "framed (inSync k V C) \<dots>"
    by (intro framed_cases sync_rules framed_modify upd sync_steps) simp
  ultimately show "framed (inSync k V C) (addFinalizer r)" by simp
qed

section \<open>Every phase handler takes a step\<close>

definition stepped :: "(duration \<Rightarrow> bool) \<Rightarrow> string \<times> string \<Rightarrow> ('w \<Rightarrow> fenceView) \<Rightarrow> ('w \<Rightarrow> instant)
    \<Rightarrow> 'w rs \<Rightarrow> 'w rs \<Rightarrow> bool" where
  "stepped durOk k V C s s' \<longleftrightarrow>
     keyOf (rs_snr s') = k \<and> tick V C (rs_world s) (rs_world s')
   \<and> fencing_step durOk (C (rs_world s)) (C (rs_world s')) (V (rs_world s)) (viewOf (rs_snr s'))"

lemma stepped_sync: "synced k V s \<Longrightarrow> inSync k V C s s' \<Longrightarrow> stepped durOk k V C s s'"
  by (auto simp: stepped_def inSync_def synced_def tick_def intro: fencing_step.intros)

lemma stepped_refl: "synced k V s \<Longrightarrow> stepped durOk k V C s s"
  by (erule stepped_sync) (rule sync.frame_refl)

lemma stepped_after_tick:
  "tick V C (rs_world s) (rs_world s1) \<Longrightarrow> stepped durOk k V C s1 s' \<Longrightarrow> stepped durOk k V C s s'"
  by (auto simp: stepped_def tick_def elim: fencing_step_widen)

lemma wp_sync:
  "framed (inSync k V C) m \<Longrightarrow> synced k V s \<Longrightarrow> wp m (\<lambda>_. stepped durOk k V C s) s"
  by (auto intro!: wpI intro: stepped_sync dest: framedD)

lemma wp_sync_seq:
  assumes "framed (inSync k V C) m" and "synced k V s"
    and "\<And>a s1. run_state m s = (a, s1) \<Longrightarrow> synced k V s1 \<Longrightarrow> V (rs_world s1) = V (rs_world s) \<Longrightarrow>
      wp (f a) (\<lambda>_. stepped durOk k V C s1) s1"
  shows "wp (State_Monad.bind m f) (\<lambda>_. stepped durOk k V C s) s"
proof -
  obtain a s1 where m: "run_state m s = (a, s1)" by fastforce
  have s1: "synced k V s1" "tick V C (rs_world s) (rs_world s1)"
    using framedD [OF assms(1) m] assms(2) by (simp_all add: inSync_def)
  have "wp (f a) (\<lambda>_. stepped durOk k V C s) s1"
    by (rule wp_mono [OF assms(3) [OF m s1(1)]]) (use s1(2) in \<open>auto simp: tick_def stepped_after_tick [unfolded tick_def]\<close>)
  then show ?thesis using m by (simp add: wp_def)
qed

lemma getPhase_cases:
  "getPhase snr = fencingStartedPhase \<longleftrightarrow> fst (viewOf snr) = None"
  "getPhase snr = preRebootCompletedPhase \<longleftrightarrow> fst (viewOf snr) = Some ''Pre-Reboot-Completed''"
  "getPhase snr = rebootCompletedPhase \<longleftrightarrow> fst (viewOf snr) = Some ''Reboot-Completed''"
  "getPhase snr = fencingCompletedPhase \<longleftrightarrow> fst (viewOf snr) = Some ''Fencing-Completed''"
  by (auto simp: getPhase_def viewOf_def split: option.splits)

text \<open>The only handlers that change the view: the time is set with the first phase.\<close>

lemma store_Now:
  assumes "statusStore r k V C durOk" and "run_state (cl_Now (r_Client r)) w = (t, w')"
  shows "tick V C w w'" "C w \<le> t" "t \<le> C w'"
  using assms unfolding statusStore_def readLaws_def by blast+

text \<open>The nodes for which a duration that the calculator answers is an allowed one.\<close>

definition timedNode :: "'w reconciler \<Rightarrow> (duration \<Rightarrow> bool) \<Rightarrow> Node \<Rightarrow> bool" where
  "timedNode r durOk node \<longleftrightarrow> (\<forall>w d w'. run_state (r_GetRebootDuration r node) w = (Ret (Inr d), w') \<longrightarrow> durOk d)"

lemma store_found:
  assumes "statusStore r k V C durOk"
  obtains nodeOk where "nodeLaws r k nodeOk" and "\<And>node. nodeOk node \<Longrightarrow> timedNode r durOk node"
  using assms unfolding statusStore_def calculatorLaws_def timedNode_def by blast

lemma store_duration:
  assumes "statusStore r k V C durOk" and "run_state (r_GetRebootDuration r node) w = (x, w')"
  shows "tick V C w w'"
  using framedD [OF store_reads(8) [OF assms(1)] assms(2)] .

text \<open>The node in memory stays the node of the remediation up to the moment the time is set.\<close>

lemma addTaint_nodeOk:
  assumes "nodeLaws r k nodeOk" and "nodeOk (rs_node s)" and "run_state (addTaint r taint reason message) s = (None, s')"
  shows "nodeOk (rs_node s')"
proof -
  have "nodeOk node'" if "run_state (cl_PatchNode (r_Client r) (rs_node s) node) w = (Inr node', w')" for node w node' w'
    using assms(1,2) that unfolding nodeLaws_def by blast
  then show ?thesis
    using assms(2,3)
    by (auto simp: addTaint_def Now_def onWorld_def setNode_def clientPatchNode_def emit_def event_defs
        split: if_splits prod.splits sum.splits option.splits)
qed

lemma isNodeRebootCapable_node:
  "run_state (isNodeRebootCapable r) s = (b, s') \<Longrightarrow> rs_node s' = rs_node s"
  by (auto simp: isNodeRebootCapable_def onWorld_def split: prod.splits sum.splits if_splits)

lemma setTimeAssumedRebooted_step:
  assumes laws: "statusStore r k V C durOk" and "synced k V s" and "fst (V (rs_world s)) = None"
    and timed: "timedNode r durOk (rs_node s)"
  shows "wp (do { timeSet \<leftarrow> setTimeAssumedRebooted r;
             case timeSet of
               Ret err' \<Rightarrow>
                 (case err' of
                    Some e \<Rightarrow> returnM (Ret (emptyResult, Some e))
                  | None \<Rightarrow> do { setPhase preRebootCompletedPhase; returnM (Ret (emptyResult, None)) })
             | Panic \<Rightarrow> returnM Panic }) (\<lambda>_. stepped durOk k V C s) s"
proof (cases "snd (V (rs_world s))")
  case (Some t)
  then have "V (rs_world s) = (None, Some t)" using assms(3) by (simp add: prod_eq_iff)
  then show ?thesis
    using assms(2) by (auto simp: setTimeAssumedRebooted_def setPhase_def modifyStatus_def synced_def stepped_def
        viewOf_def tick_def keyOf_def intro: fencing_step.resumed)
next
  case None
  then have V: "V (rs_world s) = (None, None)" using assms(3) by (simp add: prod_eq_iff)
  obtain x w1 where x: "run_state (r_GetRebootDuration r (rs_node s)) (rs_world s) = (x, w1)" by fastforce
  obtain now w2 where now: "run_state (cl_Now (r_Client r)) w1 = (now, w2)" by fastforce
  note d = store_duration [OF laws x] and n = store_Now [OF laws now]
  have "fencing_step durOk (C (rs_world s)) (C w2) (V (rs_world s)) (Some ''Pre-Reboot-Completed'', Some (time_add now d'))"
    if "x = Ret (Inr d')" for d'
    unfolding V using timed x d n that by (intro fencing_step.prepared) (auto simp: tick_def timedNode_def)
  moreover have "tick V C (rs_world s) w2" using d n(1) by (rule ticked.frame_trans)
  ultimately show ?thesis
    using assms(2) V x now d
    by (auto simp: setTimeAssumedRebooted_def Now_def onWorld_def setPhase_def modifyStatus_def event_defs emit_def
        wp_def synced_def stepped_def viewOf_def keyOf_def tick_def intro: fencing_step.stay
        split: outcome.splits sum.splits)
qed

lemma prepareReboot_step:
  assumes laws: "statusStore r k V C durOk" and s: "synced k V s" "fst (V (rs_world s)) = None"
    and node: "nodeLaws r k nodeOk" "\<And>node. nodeOk node \<Longrightarrow> timedNode r durOk node" "nodeOk (rs_node s)"
  shows "wp (prepareReboot r) (\<lambda>_. stepped durOk k V C s) s"
proof -
  note ops = sync_reads [OF laws] sync_finalizer_ops [OF laws] sync_node_ops [OF laws]
  show ?thesis
    unfolding prepareReboot_def addNoExecuteTaint_def
    apply (rule wp_sync_seq [OF ops(4) s(1)])
    apply (rule wp_ifI)
     apply (rule wp_sync [OF sync_rules(1)], assumption)
    apply (rule wp_sync_seq [OF sync_rules(2)], assumption)
    apply (rule wp_ifI)
     apply (rule wp_sync, intro sync_rules ops, assumption)
    apply (rule wp_sync_seq, rule ops, assumption)
    apply (rule wp_optionI)
     apply (rule wp_sync_seq [OF sync_rules(2)], assumption)
     apply (rule wp_ifI)
      apply (rule wp_sync, intro sync_rules ops, assumption)
     apply (rule setTimeAssumedRebooted_step [OF laws], assumption)
      apply (simp add: s(2))
     apply (rule node(2))
     apply (clarsimp dest!: isNodeRebootCapable_node)
     apply (erule addTaint_nodeOk [OF node(1), rotated], simp add: node(3))
    apply (rule wp_sync [OF sync_rules(1)], assumption)
    done
qed

lemma waitForNodeRebooted_step:
  assumes laws: "statusStore r k V C durOk" and s: "synced k V s" "fst (V (rs_world s)) = Some ''Pre-Reboot-Completed''"
  shows "wp (waitForNodeRebooted r) (\<lambda>_. stepped durOk k V C s) s"
proof (cases "snd (V (rs_world s))")
  case None
  then have "st_TimeAssumedRebooted (snr_Status (rs_snr s)) = None"
    using s(1) by (simp add: synced_def viewOf_def prod_eq_iff)
  then show ?thesis
    using s(1) by (simp add: waitForNodeRebooted_def wasNodeRebooted_def stepped_refl)
next
  case (Some t)
  then have V: "V (rs_world s) = (Some ''Pre-Reboot-Completed'', Some t)" using s(2) by (simp add: prod_eq_iff)
  obtain now w where now: "run_state (cl_Now (r_Client r)) (rs_world s) = (now, w)" by fastforce
  obtain now' w' where now': "run_state (cl_Now (r_Client r)) w = (now', w')" by fastforce
  note n = store_Now [OF laws now] store_Now [OF laws now']
  have "fencing_step durOk (C (rs_world s)) (C w) (V (rs_world s)) (Some ''Reboot-Completed'', Some t)"
    if "\<not> time_after t now"
    unfolding V using that n by (intro fencing_step.rebooted) (simp add: time_after_def)
  moreover have "tick V C (rs_world s) w'" using n(1,4) by (rule ticked.frame_trans)
  ultimately show ?thesis
    using s(1) V now now' n
    by (auto simp: waitForNodeRebooted_def wasNodeRebooted_def Now_def onWorld_def setPhase_def modifyStatus_def
        wp_def synced_def stepped_def viewOf_def keyOf_def tick_def intro: fencing_step.stay)
qed

text \<open>Steps that leave both the copy in memory and the stored view alone.\<close>

definition quiet :: "('w \<Rightarrow> fenceView) \<Rightarrow> ('w \<Rightarrow> instant) \<Rightarrow> 'w rs \<Rightarrow> 'w rs \<Rightarrow> bool" where
  "quiet V C s s' \<longleftrightarrow> keyOf (rs_snr s') = keyOf (rs_snr s) \<and> viewOf (rs_snr s') = viewOf (rs_snr s)
     \<and> tick V C (rs_world s) (rs_world s')"

interpretation quieted: frame_relation "quiet V C" for V C
  by unfold_locales (auto simp: quiet_def intro: ticked.frame_refl ticked.frame_trans)

lemmas quiet_rules = quieted.framed_returnM quieted.framed_gets quieted.framed_bind

lemma quiet_updateConditions:
  assumes "statusStore r k V C durOk"
  shows "framed (quiet V C) (updateConditions r reason)"
proof -
  have now: "framed (quiet V C) (Now r)"
    by (rule framedI) (auto simp: Now_def onWorld_def quiet_def dest: store_Now(1) [OF assms] split: prod.splits)
  have "framed (quiet V C) (modifyStatus (\<lambda>st. st\<lparr>st_Conditions := g (st_Conditions st)\<rparr>))" for g
    by (rule framed_modifyStatus) (simp add: quiet_def ticked.frame_refl)
  with now show ?thesis
    unfolding updateConditions_def setStatusCondition_def by (intro framed_cases quiet_rules)
qed

lemma handleRebootCompletedPhase_step:
  assumes laws: "statusStore r k V C durOk" and rm: "framed (inSync k V C) rm"
    and s: "synced k V s" "fst (V (rs_world s)) = Some ''Reboot-Completed''"
  shows "wp (handleRebootCompletedPhase r rm) (\<lambda>_. stepped durOk k V C s) s"
proof -
  have finish: "wp (do { setPhase fencingCompletedPhase; err' \<leftarrow> updateConditions r remediationFinishedSuccessfully;
      returnM (Ret (emptyResult, err')) }) (\<lambda>_. stepped durOk k V C s1) s1"
    if "synced k V s1" "V (rs_world s1) = V (rs_world s)" for s1
  proof -
    let ?s = "s1\<lparr>rs_snr := (rs_snr s1)\<lparr>snr_Status := (snr_Status (rs_snr s1))\<lparr>st_Phase := Some ''Fencing-Completed''\<rparr>\<rparr>\<rparr>"
    have "stepped durOk k V C s1 s'" if "quiet V C ?s s'" for s'
      using that \<open>synced k V s1\<close> fencing_step.fenced [of durOk "C (rs_world s1)" "C (rs_world s')" "snd (V (rs_world s1))"]
        s(2) \<open>V (rs_world s1) = V (rs_world s)\<close>
      by (cases "V (rs_world s)") (auto simp: stepped_def quiet_def synced_def)
    then have "wp (updateConditions r remediationFinishedSuccessfully) (\<lambda>_. stepped durOk k V C s1) ?s"
      by (rule wp_mono [OF framed_wp [OF quiet_updateConditions [OF laws]]])
    then show ?thesis
      by (simp add: setPhase_def modifyStatus_def)
  qed
  have fin: "framed (inSync k V C) (do { NormalEvent obj reason m; returnM x })" for obj reason m and x :: 'c
    by (intro sync_rules sync_steps)
  show ?thesis
    unfolding handleRebootCompletedPhase_def
    apply (rule wp_sync_seq [OF rm s(1)])
    subgoal for a s1
      apply (cases a)
      subgoal for p
        apply (cases p)
        apply (simp only: outcome.case prod.case)
        apply (rule wp_optionI)
         apply (rule wp_ifI)
          apply (rule wp_sync [OF sync_rules(1)], assumption)
         apply (rule wp_sync_seq [OF sync_steps(3)], assumption)
         apply (rule finish, assumption, simp)
        apply (rule wp_sync [OF sync_rules(1)], assumption)
        done
      apply (simp add: stepped_refl)
      done
    done
qed

lemma sync_removals:
  assumes laws: "statusStore r k V C durOk"
  shows "framed (inSync k V C) (deleteResourcesWrapper r)" "framed (inSync k V C) (useOutOfServiceTaint r)"
    "framed (inSync k V C) (handleFencingCompletedPhase r)"
  unfolding deleteResourcesWrapper_def useOutOfServiceTaint_def addOutOfServiceTaint_def removeOutOfServiceTaint_def
    handleFencingCompletedPhase_def recoverNode_def recoverNodeTail_def removeNoExecuteTaint_def clientUpdateNode_def
  by (intro framed_cases sync_rules sync_onWorld sync_DeletePods [OF laws] sync_reads [OF laws] sync_steps
      sync_node_ops [OF laws] sync_finalizer_ops [OF laws] store_writes [OF laws])+

lemma removal_step:
  assumes laws: "statusStore r k V C durOk" and rm: "framed (inSync k V C) rm" and s: "synced k V s"
    and node: "nodeLaws r k nodeOk" "\<And>node. nodeOk node \<Longrightarrow> timedNode r durOk node" "nodeOk (rs_node s)"
  shows "wp (remediateWithResourceRemoval r rm) (\<lambda>_. stepped durOk k V C s) s"
proof -
  have v: "viewOf (rs_snr s) = V (rs_world s)" using s by (simp add: synced_def)
  show ?thesis
    using prepareReboot_step [OF laws s _ node] waitForNodeRebooted_step [OF laws s]
      handleRebootCompletedPhase_step [OF laws rm s] wp_sync [OF sync_removals(3) [OF laws] s] stepped_refl [OF s]
      getPhase_cases [of "rs_snr s"]
    by (cases "getPhase (rs_snr s)")
      (auto simp: remediateWithResourceRemoval_def handleFencingStartedPhase_def handlePreRebootCompletedPhase_def v)
qed

lemma remediate_step:
  assumes laws: "statusStore r k V C durOk" and s: "synced k V s"
    and node: "nodeLaws r k nodeOk" "\<And>node. nodeOk node \<Longrightarrow> timedNode r durOk node" "nodeOk (rs_node s)"
  shows "wp (remediate r) (\<lambda>_. stepped durOk k V C s) s"
  using removal_step [OF laws sync_removals(1) [OF laws] s node] removal_step [OF laws sync_removals(2) [OF laws] s node]
    stepped_refl [OF s]
  by (simp add: remediate_def remediateWithResourceDeletion_def remediateWithOutOfServiceTaint_def)

section \<open>A reconcile refines the protocol\<close>

text \<open>
  The last error is patched after the phase was set in memory: when that patch succeeds, its answer
  replaces the copy in memory, with the stored view.
\<close>

lemma updateSnrStatusLastError_step:
  assumes laws: "statusStore r k V C durOk" and st: "stepped durOk k V C s0 s"
  shows "wp (updateSnrStatusLastError r err) (\<lambda>_. stepped durOk k V C s0) s"
proof -
  let ?e = "case err of None \<Rightarrow> [] | Some e \<Rightarrow> error_str e"
  let ?snr = "(rs_snr s)\<lparr>snr_Status := (snr_Status (rs_snr s))\<lparr>st_LastError := ?e\<rparr>\<rparr>"
  obtain x w where x: "run_state (cl_StatusPatchSnr (r_Client r) (rs_snr s) ?snr) (rs_world s) = (x, w)" by fastforce
  have k: "keyOf ?snr = k" using st by (simp add: stepped_def)
  note p = store_StatusPatchSnr [OF laws k _ x, simplified]
  have t: "tick V C (rs_world s0) w" "V w = V (rs_world s0)"
    using p(1) st ticked.frame_trans by (fastforce simp: stepped_def tick_def)+
  have "stepped durOk k V C s0 (s\<lparr>rs_snr := ?snr, rs_world := w, rs_trace := tr\<rparr>)" for tr
    using st p(1) t by (auto simp: stepped_def tick_def elim: fencing_step_widen)
  moreover have "stepped durOk k V C s0 (s\<lparr>rs_world := w, rs_trace := tr, rs_snr := y\<rparr>)" if "x = Inr y" for tr y
    using p(2) [OF that] t by (auto simp: stepped_def intro: fencing_step.stay)
  ultimately show ?thesis
    using st x
    by (cases x) (auto simp: updateSnrStatusLastError_def clientStatusPatchSnr_def modifyStatus_def onWorld_def emit_def
        setSnr_def wp_def Let_def split: option.splits)
qed

lemma nodeLookupFailed_step:
  assumes laws: "statusStore r k V C durOk" and s: "synced k V s"
  shows "wp (nodeLookupFailed r err) (\<lambda>_. stepped durOk k V C s) s"
proof -
  have last: "wp (do { e \<leftarrow> updateSnrStatusLastError r (Some err); returnM (Ret (emptyResult, e)) })
      (\<lambda>_. stepped durOk k V C s1) s1" if "synced k V s1" for s1
    using updateSnrStatusLastError_step [OF laws stepped_refl [OF that]] by simp
  show ?thesis
    unfolding nodeLookupFailed_def
    apply (rule wp_ifI)
     apply (rule wp_sync_seq [OF sync_conditions(2) [OF laws] s])
     apply (rule wp_optionI)
      apply (rule wp_sync_seq [OF sync_steps(4)], assumption)
      apply (rule last, assumption)
     apply (rule wp_sync [OF sync_rules(1)], assumption)
    apply (rule last, rule s)
    done
qed

lemma remediateNode_step:
  assumes laws: "statusStore r k V C durOk" and s: "synced k V s"
    and node: "nodeLaws r k nodeOk" "\<And>node. nodeOk node \<Longrightarrow> timedNode r durOk node" "nodeOk node"
  shows "wp (remediateNode r node) (\<lambda>_. stepped durOk k V C s) s"
proof -
  have "wp (do { outcome \<leftarrow> remediate r;
       case outcome of
         Ret (result, err) \<Rightarrow> do { e \<leftarrow> updateSnrStatusLastError r err; returnM (Ret (result, e)) }
       | Panic \<Rightarrow> returnM Panic }) (\<lambda>_. stepped durOk k V C s1) s1" if "synced k V s1" "nodeOk (rs_node s1)" for s1
    by (rule wp_seq [OF remediate_step [OF laws that(1) node(1,2) that(2)]])
      (auto intro: updateSnrStatusLastError_step [OF laws] split: outcome.split)
  note rem = this
  have ev: "framed (inSync k V C) (if b then NormalEvent obj reason m else returnM ())" for b obj reason m
    by (intro framed_if sync_rules sync_steps)
  show ?thesis
    unfolding remediateNode_def
    apply (rule wp_sync_seq [OF sync_steps(2) s])
    apply (rule wp_ifI)
     apply (rule wp_sync, intro sync_rules sync_steps, assumption)
    apply (rule wp_sync_seq [OF sync_rules(2)], assumption)
    apply (rule wp_sync_seq [OF ev], assumption)
    apply (rule rem, assumption)
    apply (auto simp: setNode_def event_defs emit_def node(3) split: if_splits)
    done
qed

lemma reconcileNode_step:
  assumes laws: "statusStore r k V C durOk" and s: "synced k V s"
  shows "wp (reconcileNode r) (\<lambda>_. stepped durOk k V C s) s"
proof -
  obtain nodeOk where node: "nodeLaws r k nodeOk" "\<And>node. nodeOk node \<Longrightarrow> timedNode r durOk node"
    using store_found [OF laws] by blast
  have "nodeOk n" if "run_state (getNodeFromSnr r) s = (Inr n, s1)" for n s1
    using node(1) s that unfolding nodeLaws_def synced_def by blast
  then show ?thesis
    unfolding reconcileNode_def
    by (intro wp_sync_seq [OF sync_reads(3) [OF laws] s])
      (auto split: sum.split intro: nodeLookupFailed_step [OF laws] remediateNode_step [OF laws _ node])
qed

lemma stopByNHC_sync:
  assumes "statusStore r k V C durOk"
  shows "framed (inSync k V C) (stopByNHC r)"
  unfolding stopByNHC_def
  by (intro framed_cases sync_rules sync_steps sync_finalizer_ops [OF assms] sync_conditions [OF assms])

lemma reconcileEnabled_step:
  assumes laws: "statusStore r k V C durOk" and s: "synced k V s"
  shows "wp (reconcileEnabled r) (\<lambda>_. stepped durOk k V C s) s"
proof -
  have cond: "framed (inSync k V C) (if b then updateConditions r remediationStarted else returnM None)" for b
    by (intro framed_if sync_rules sync_conditions [OF laws])
  show ?thesis
    unfolding reconcileEnabled_def
    apply (rule wp_sync_seq [OF sync_rules(2) s])
    apply (rule wp_ifI)
     apply (rule wp_sync [OF stopByNHC_sync [OF laws]], assumption)
    apply (rule wp_sync_seq [OF cond], assumption)
    apply (rule wp_optionI)
     apply (rule reconcileNode_step [OF laws], assumption)
    apply (rule wp_sync [OF sync_rules(1)], assumption)
    done
qed

lemma body_step:
  assumes laws: "statusStore r k V C durOk" and s: "synced k V s"
  shows "wp (reconcileManagerBody r) (\<lambda>_. stepped durOk k V C s) s"
proof -
  have dis: "framed (inSync k V C) (do { setStatusCondition r c; returnM x })" for c and x :: reconcileResult
    by (intro sync_rules sync_conditions [OF laws])
  show ?thesis
    unfolding reconcileManagerBody_def
    by (rule wp_sync_seq [OF sync_reads(2) [OF laws] s])
      (auto simp: stepped_refl simp del: wp_bind split: sum.split
        intro: wp_sync [OF dis] reconcileEnabled_step [OF laws])
qed

lemma ReconcileManager_step:
  assumes laws: "statusStore r k V C durOk" and k: "k = (ns, name)"
    and run: "run_state (ReconcileManager r ns name) s = (out, s')"
  shows "C (rs_world s) \<le> C (rs_world s')
     \<and> fencing_step durOk (C (rs_world s)) (C (rs_world s')) (V (rs_world s)) (V (rs_world s'))"
proof -
  obtain x w where x: "run_state (cl_GetSnr (r_Client r) ns name) (rs_world s) = (x, w)" by fastforce
  have g: "tick V C (rs_world s) w" "\<And>snr. x = Inr snr \<Longrightarrow> keyOf snr = k \<and> viewOf snr = V w"
    using laws x unfolding statusStore_def readLaws_def k by auto
  show ?thesis
  proof (cases x)
    case (Inl e)
    then show ?thesis
      using run x g(1) by (auto simp: ReconcileManager_def onWorld_def tick_def intro: fencing_step.stay)
  next
    case (Inr snr)
    let ?s = "s\<lparr>rs_world := w, rs_snr := snr\<rparr>"
    have "synced k V ?s" using g(2) Inr by (simp add: synced_def)
    moreover obtain b s1 where b: "run_state (reconcileManagerBody r) ?s = (b, s1)" by fastforce
    ultimately have st: "stepped durOk k V C ?s s1"
      using wp_run [OF body_step [OF laws]] by blast
    obtain u w2 where u: "run_state (cl_StatusUpdateSnr (r_Client r) (rs_snr s1)) (rs_world s1) = (u, w2)" by fastforce
    have k1: "keyOf (rs_snr s1) = k" using st by (simp add: stepped_def)
    have w2: "C (rs_world s1) \<le> C w2" "V w2 = viewOf (rs_snr s1) \<or> V w2 = V (rs_world s1)"
      using laws u k1 unfolding statusStore_def writeLaws_def by blast+
    have "rs_world s' = w2"
      using run x Inr b u
      by (cases u) (auto simp: ReconcileManager_def onWorld_def setSnr_def deferredStatusUpdate_def updateSnrStatus_def
          emit_def split: prod.splits)
    then show ?thesis
      using w2 st g(1) by (auto simp: stepped_def tick_def intro: fencing_step.stay elim!: fencing_step_widen)
  qed
qed

section \<open>Runs\<close>

text \<open>
  The manager reconciles the remediation again and again, each time from a fresh memory; between two
  reconciles time passes and everything but the stored view may change.
\<close>

inductive manager_run :: "'w reconciler \<Rightarrow> string \<Rightarrow> string \<Rightarrow> ('w \<Rightarrow> fenceView) \<Rightarrow> ('w \<Rightarrow> instant)
    \<Rightarrow> 'w \<Rightarrow> 'w \<Rightarrow> bool"
  for r ns name V C where
  start: "manager_run r ns name V C w w"
| reconcile: "manager_run r ns name V C w (rs_world s) \<Longrightarrow>
    run_state (ReconcileManager r ns name) s = (out, s') \<Longrightarrow> manager_run r ns name V C w (rs_world s')"
| elapse: "manager_run r ns name V C w w1 \<Longrightarrow> tick V C w1 w2 \<Longrightarrow> manager_run r ns name V C w w2"

text \<open>
  What holds along every run that started at the instant \<^term>\<open>c0\<close> without a phase and without a
  time: a time is stored with the first phase, at least an allowed duration after the start, and it
  has passed once the node counts as rebooted.
\<close>

definition fencing_inv :: "(duration \<Rightarrow> bool) \<Rightarrow> instant \<Rightarrow> instant \<Rightarrow> fenceView \<Rightarrow> bool" where
  "fencing_inv durOk c0 now v \<longleftrightarrow>
     (case v of
        (None, t) \<Rightarrow> t = None
      | (Some p, t) \<Rightarrow>
          p \<in> {''Pre-Reboot-Completed'', ''Reboot-Completed'', ''Fencing-Completed''}
          \<and> (\<exists>u d. t = Some u \<and> durOk d \<and> c0 + d \<le> u
               \<and> (p \<noteq> ''Pre-Reboot-Completed'' \<longrightarrow> u \<le> now)))"

lemma fencing_inv_step:
  "fencing_step durOk t0 t1 v v' \<Longrightarrow> fencing_inv durOk c0 t0 v \<Longrightarrow> c0 \<le> t0 \<Longrightarrow> t0 \<le> t1 \<Longrightarrow>
   fencing_inv durOk c0 t1 v'"
  by (induction rule: fencing_step.induct)
    (fastforce simp: fencing_inv_def time_add_def split: option.splits prod.splits)+

lemma fencing_inv_run:
  assumes "statusStore r (ns, name) V C durOk" and "manager_run r ns name V C w0 w" and "V w0 = (None, None)"
  shows "fencing_inv durOk (C w0) (C w) (V w) \<and> C w0 \<le> C w"
  using assms(2,3)
proof (induction rule: manager_run.induct)
  case (start w)
  then show ?case by (simp add: fencing_inv_def)
next
  case (reconcile w s out s')
  then have "fencing_inv durOk (C w) (C (rs_world s)) (V (rs_world s))" "C w \<le> C (rs_world s)" by simp_all
  moreover have "C (rs_world s) \<le> C (rs_world s')"
      "fencing_step durOk (C (rs_world s)) (C (rs_world s')) (V (rs_world s)) (V (rs_world s'))"
    using ReconcileManager_step [OF assms(1) refl reconcile.hyps(2)] by simp_all
  ultimately show ?case
    using fencing_inv_step by fastforce
next
  case (elapse w w1 w2)
  then show ?case
    using fencing_inv_step [OF fencing_step.stay, of durOk "C w" "C w1" "V w1" "C w2"] by (auto simp: tick_def)
qed

section \<open>Properties\<close>


text \<open>Two reconciles of the example: the preparation, and the end of the wait.\<close>

abbreviation exampleManager :: "(cluster rs, reconcileResult) state" where
  "exampleManager \<equiv> ReconcileManager (exampleReconciler False) ''op'' ''worker-1''"

definition waitingWorld :: cluster where
  "waitingWorld = rs_world (snd (run_state exampleManager (startState preparedWorld)))"

lemmas fencing_run_defs = example_run_defs viewOf_def time_add_def MatchTaint_def NodeUnschedulableTaint_def
  NodeNoExecuteTaint_def GetSelfNodeRemediationAgentPod_def time_after_def

lemma waitingWorld_view:
  "viewOf (k_snr waitingWorld) = (Some ''Pre-Reboot-Completed'', Some 180000000200)" "k_now waitingWorld = 200"
  by (simp_all add: waitingWorld_def preparedWorld_def fencing_run_defs)

definition rebootedWaitingWorld :: cluster where
  "rebootedWaitingWorld =
     rs_world (snd (run_state exampleManager (startState (waitingWorld\<lparr>k_now := 200 * Second\<rparr>))))"

lemma rebootedWaitingWorld_view:
  "viewOf (k_snr rebootedWaitingWorld) = (Some ''Reboot-Completed'', Some 180000000200)"
  "k_now rebootedWaitingWorld = 200 * Second"
  by (simp_all add: rebootedWaitingWorld_def waitingWorld_def preparedWorld_def fencing_run_defs)

lemma manager_run_next:
  "manager_run r ns name V C w0 k \<Longrightarrow>
   manager_run r ns name V C w0 (rs_world (snd (run_state (ReconcileManager r ns name) (startState k))))"
  by (rule manager_run.reconcile [OF _ surjective_pairing]) simp




text \<open>
  C40: a reconcile that clears an earlier error loses the phase and the time it has just set: the patch
  of the last error answers with the stored status, which replaces the copy in memory before the
  deferred status update writes that copy back.
\<close>

theorem lastError_patch_reverts_phase:
  assumes "statusStore r k V C durOk" and "keyOf (rs_snr s) = k"
    and "st_LastError (snr_Status (rs_snr s)) \<noteq> ''''"
    and "run_state (updateSnrStatusLastError r None) s = (None, s')"
  shows "viewOf (rs_snr s') = V (rs_world s) \<and> V (rs_world s') = V (rs_world s)"
proof -
  let ?snr = "(rs_snr s)\<lparr>snr_Status := (snr_Status (rs_snr s))\<lparr>st_LastError := ''''\<rparr>\<rparr>"
  obtain x w where x: "run_state (cl_StatusPatchSnr (r_Client r) (rs_snr s) ?snr) (rs_world s) = (x, w)" by fastforce
  have k: "keyOf ?snr = k" using assms(2) by simp
  note p = store_StatusPatchSnr [OF assms(1) k _ x, simplified]
  from assms(3,4) x p show ?thesis
    by (cases x) (auto simp: updateSnrStatusLastError_def clientStatusPatchSnr_def modifyStatus_def onWorld_def emit_def
        setSnr_def Let_def tick_def)
qed

definition failedOnceWorld :: cluster where
  "failedOnceWorld = exampleWorld ((exampleSnr ResourceDeletionRemediationStrategy None None)
     \<lparr>snr_Status := emptyStatus\<lparr>st_LastError := ''Node is not capable to reboot itself''\<rparr>\<rparr>) cordonedWorker1 200"

theorem lastError_patch_reverts_phase_witness:
  "\<exists>s s'. viewOf (rs_snr s) = (Some ''Pre-Reboot-Completed'', Some 180000000200)
     \<and> run_state (updateSnrStatusLastError (exampleReconciler False) None) s = (None, s')
     \<and> viewOf (rs_snr s') = (None, None)"
proof -
  let ?k = "failedOnceWorld" and ?r = "exampleReconciler False"
  let ?s = "(startState ?k)\<lparr>rs_snr := (k_snr ?k)\<lparr>snr_Status := (snr_Status (k_snr ?k))
      \<lparr>st_Phase := Some ''Pre-Reboot-Completed'', st_TimeAssumedRebooted := Some 180000000200\<rparr>\<rparr>\<rparr>"
  have s: "keyOf (rs_snr ?s) = (''op'', ''worker-1'')" "st_LastError (snr_Status (rs_snr ?s)) \<noteq> ''''"
      "viewOf (rs_snr ?s) = (Some ''Pre-Reboot-Completed'', Some 180000000200)" "viewOf (k_snr ?k) = (None, None)"
    by (simp_all add: failedOnceWorld_def example_defs keyOf_def viewOf_def)
  obtain s' where run: "run_state (updateSnrStatusLastError ?r None) ?s = (None, s')"
    by (simp add: failedOnceWorld_def example_run_defs)
  have "viewOf (rs_snr s') = (None, None)"
    using lastError_patch_reverts_phase [OF statusStore_example s(1,2) run] s(4) by simp
  with s(3) run show ?thesis by blast
qed

end
