(* ===== verification/Answering.thy ===== *)
theory Answering
  imports Fencing
begin

text \<open>
  The surroundings of a reconcile that comes to its end: an API server that answers, and no other
  writer while a reconcile runs. The laws of the calls, and what the calls that only read leave alone.
\<close>

section \<open>An API server that answers\<close>

text \<open>
  What is observed of the world: the remediation and whether it is stored, the node, the clock, the
  deletions of pods that the API server has accepted, by namespace and node, and whether the node has
  terminating pods or volume attachments left. Once it has none, it gets no new ones.
\<close>

record 'w view =
  v_stored :: "'w \<Rightarrow> bool"
  v_snr :: "'w \<Rightarrow> SelfNodeRemediation"
  v_node :: "'w \<Rightarrow> Node"
  v_now :: "'w \<Rightarrow> instant"
  v_gone :: "'w \<Rightarrow> (string \<times> string) set"
  v_left :: "'w \<Rightarrow> bool"

definition later :: "'w view \<Rightarrow> 'w \<Rightarrow> 'w \<Rightarrow> bool" where
  "later V w w' \<longleftrightarrow> v_now V w \<le> v_now V w' \<and> v_gone V w \<subseteq> v_gone V w' \<and> (v_left V w' \<longrightarrow> v_left V w)
     \<and> v_stored V w' = v_stored V w"

definition same :: "'w view \<Rightarrow> 'w \<Rightarrow> 'w \<Rightarrow> bool" where
  "same V w w' \<longleftrightarrow> v_snr V w' = v_snr V w \<and> v_node V w' = v_node V w \<and> later V w w'"

lemma later_trans: "later V w w1 \<Longrightarrow> later V w1 w2 \<Longrightarrow> later V w w2"
  by (auto simp: later_def)

interpretation sameness: frame_relation "same V" for V
  by unfold_locales (auto simp: same_def later_def)

text \<open>A reading call changes nothing, and its answer satisfies \<^term>\<open>P\<close>.\<close>

definition reads :: "'w view \<Rightarrow> ('w, 'a) state \<Rightarrow> ('w \<Rightarrow> 'a \<Rightarrow> 'w \<Rightarrow> bool) \<Rightarrow> bool" where
  "reads V m P \<longleftrightarrow> (\<forall>w. wp m (\<lambda>x w'. same V w w' \<and> P w x w') w)"

definition withLastError :: "string \<Rightarrow> SelfNodeRemediation \<Rightarrow> SelfNodeRemediation" where
  "withLastError l snr = snr\<lparr>snr_Status := (snr_Status snr)\<lparr>st_LastError := l\<rparr>\<rparr>"

text \<open>
  The laws: the calls on objects that are stored succeed, the agent's pod is listed, a write stores the
  object and answers with it, the status is a subresource, and a patch of the last error changes nothing
  else. An update that leaves a deleted remediation without finalizers removes it; afterwards a read does
  not find it and a write of its status fails, with whatever error.
  \<^term>\<open>nss\<close> are the namespaces, \<^term>\<open>D\<close> bounds the durations of the calculator.
\<close>

definition answeringReads :: "'w reconciler \<Rightarrow> string \<Rightarrow> string \<Rightarrow> string list \<Rightarrow> duration \<Rightarrow> 'w view \<Rightarrow> bool" where
  "answeringReads r ns name nss D V \<longleftrightarrow> (let c = r_Client r in
     (\<exists>depl. GetDeploymentNamespace (r_Env r) = Inr depl)
   \<and> reads V (cl_Now c) (\<lambda>w t w'. v_now V w \<le> t \<and> t \<le> v_now V w')
   \<and> reads V (cl_GetSnr c ns name)
       (\<lambda>w x w'. if v_stored V w then x = Inr (v_snr V w) else (\<exists>e. x = Inl e \<and> IsNotFound e))
   \<and> (\<forall>ns' n. reads V (cl_GetConfig c ns' n) (\<lambda>w x w'. \<exists>cfg. x = Inr cfg \<and> om_DeletionTimestamp (cfg_Meta cfg) = None))
   \<and> (\<forall>n. reads V (cl_GetNode c n) (\<lambda>w x w'. n = om_Name (n_Meta (v_node V w)) \<longrightarrow> x = Inr (v_node V w)))
   \<and> reads V (cl_ListPods c agentSelector)
       (\<lambda>w x w'. \<exists>pods. x = Inr pods \<and> (\<exists>pod \<in> set pods. p_NodeName pod = om_Name (n_Meta (v_node V w))))
   \<and> reads V (cl_ListNamespaces c) (\<lambda>w x w'. x = Inr nss)
   \<and> reads V (cl_ListPods c []) (\<lambda>w x w'. \<exists>pods. x = Inr pods \<and> (\<not> v_left V w \<longrightarrow>
       (\<forall>pod \<in> set pods. p_NodeName pod = om_Name (n_Meta (v_node V w)) \<longrightarrow> \<not> isPodTerminating pod)))
   \<and> reads V (cl_ListVolumeAttachments c) (\<lambda>w x w'. \<exists>vas. x = Inr vas \<and> (\<not> v_left V w \<longrightarrow>
       (\<forall>va \<in> set vas. va_NodeName va \<noteq> om_Name (n_Meta (v_node V w)))))
   \<and> (\<forall>node. reads V (r_GetRebootDuration r node) (\<lambda>w x w'. \<exists>d \<le> D. x = Ret (Inr d))))"

definition answeringWrites :: "'w client \<Rightarrow> 'w view \<Rightarrow> bool" where
  "answeringWrites c V \<longleftrightarrow>
     (\<forall>x w. wp (cl_UpdateNode c x)
       (\<lambda>res w'. res = Inr x \<and> v_snr V w' = v_snr V w \<and> v_node V w' = x \<and> later V w w') w)
   \<and> (\<forall>orig x w. orig = v_node V w \<longrightarrow> wp (cl_PatchNode c orig x)
       (\<lambda>res w'. res = Inr x \<and> v_snr V w' = v_snr V w \<and> v_node V w' = x \<and> later V w w') w)
   \<and> (\<forall>x w. keyOf x = keyOf (v_snr V w) \<longrightarrow> v_stored V w \<longrightarrow> wp (cl_UpdateSnr c x)
       (\<lambda>res w'. res = Inr (v_snr V w') \<and> v_snr V w' = x\<lparr>snr_Status := snr_Status (v_snr V w)\<rparr>
          \<and> v_node V w' = v_node V w
          \<and> (if om_DeletionTimestamp (snr_Meta (v_snr V w)) \<noteq> None \<and> om_Finalizers (snr_Meta x) = []
             then \<not> v_stored V w' else later V w w')) w)
   \<and> (\<forall>x w. keyOf x = keyOf (v_snr V w) \<longrightarrow> wp (cl_StatusUpdateSnr c x)
       (\<lambda>res w'. v_node V w' = v_node V w \<and> later V w w'
          \<and> (if v_stored V w then res = Inr (v_snr V w') \<and> v_snr V w' = (v_snr V w)\<lparr>snr_Status := snr_Status x\<rparr>
             else (\<exists>e. res = Inl e) \<and> v_snr V w' = v_snr V w)) w)
   \<and> (\<forall>x l w. keyOf x = keyOf (v_snr V w) \<longrightarrow> st_LastError (snr_Status x) \<noteq> l \<longrightarrow>
       wp (cl_StatusPatchSnr c x (withLastError l x))
       (\<lambda>res w'. v_node V w' = v_node V w \<and> later V w w'
          \<and> (if v_stored V w then res = Inr (v_snr V w') \<and> v_snr V w' = withLastError l (v_snr V w)
             else (\<exists>e. res = Inl e) \<and> v_snr V w' = v_snr V w)) w)
   \<and> (\<forall>ns' n w. wp (cl_DeleteAllOfPods c ns' n)
       (\<lambda>res w'. res = Inr () \<and> same V w w' \<and> (ns', n) \<in> v_gone V w') w)"

definition answering :: "'w reconciler \<Rightarrow> string \<Rightarrow> string \<Rightarrow> string list \<Rightarrow> duration \<Rightarrow> 'w view \<Rightarrow> bool" where
  "answering r ns name nss D V \<longleftrightarrow> answeringReads r ns name nss D V \<and> answeringWrites (r_Client r) V"

text \<open>The conditions of a remediation do not matter for its course.\<close>

definition alike :: "SelfNodeRemediation \<Rightarrow> SelfNodeRemediation \<Rightarrow> bool" where
  "alike x y \<longleftrightarrow> snr_Meta x = snr_Meta y \<and> snr_RemediationStrategy x = snr_RemediationStrategy y
     \<and> st_Phase (snr_Status x) = st_Phase (snr_Status y)
     \<and> st_TimeAssumedRebooted (snr_Status x) = st_TimeAssumedRebooted (snr_Status y)
     \<and> st_LastError (snr_Status x) = st_LastError (snr_Status y)"

lemma alike_refl [simp]: "alike x x"
  by (simp add: alike_def)

lemma alike_trans: "alike x y \<Longrightarrow> alike y z \<Longrightarrow> alike x z"
  by (simp add: alike_def)

lemma alike_same:
  assumes "alike x y"
  shows "getPhase x = getPhase y" "isStoppedByNHC x = isStoppedByNHC y" "getRuntimeStrategy r x = getRuntimeStrategy r y"
    "keyOf x = keyOf y" "getNodeNameDirect x = getNodeNameDirect y" "isOwnedByNHC x = isOwnedByNHC y"
    "isOwnedByMachine x = isOwnedByMachine y" "st_LastError (snr_Status x) = st_LastError (snr_Status y)"
    "st_TimeAssumedRebooted (snr_Status x) = st_TimeAssumedRebooted (snr_Status y)" "snr_Meta x = snr_Meta y"
  using assms
  by (simp_all add: alike_def getPhase_def isStoppedByNHC_def getRuntimeStrategy_def keyOf_def isOwnedByNHC_def
      isOwnedByMachine_def getNodeNameDirect_def split: option.split)

section \<open>Calls that only read\<close>

text \<open>The world, the node and the remediation in memory are as before, up to conditions.\<close>

definition still :: "'w view \<Rightarrow> 'w rs \<Rightarrow> 'w rs \<Rightarrow> bool" where
  "still V s s' \<longleftrightarrow> same V (rs_world s) (rs_world s') \<and> rs_node s' = rs_node s \<and> alike (rs_snr s') (rs_snr s)"

interpretation stillness: frame_relation "still V" for V
  by unfold_locales (auto simp: still_def sameness.frame_refl intro: sameness.frame_trans alike_trans)

lemmas still_rules = stillness.framed_returnM stillness.framed_gets stillness.framed_bind

lemma still_primitives [simp]:
  "still V s (s\<lparr>rs_trace := t\<rparr>)" "still V s (s\<lparr>rs_world := w\<rparr>) \<longleftrightarrow> same V (rs_world s) w"
  "still V s (s\<lparr>rs_snr := (rs_snr s)\<lparr>snr_Status := (snr_Status (rs_snr s))\<lparr>st_Conditions := cs\<rparr>\<rparr>\<rparr>)"
  by (simp_all add: still_def sameness.frame_refl alike_def)

lemma still_event: "framed (still V) (NormalEvent obj reason m)"
  by (simp add: event_defs framed_emit)

lemma wp_reads:
  assumes "reads V m P" and "\<And>x w'. same V (rs_world s) w' \<Longrightarrow> P (rs_world s) x w' \<Longrightarrow> Q x (s\<lparr>rs_world := w'\<rparr>)"
  shows "wp (onWorld m) Q s"
  using assms unfolding reads_def onWorld_def by (auto simp: wp_zoom intro: wp_mono)

text \<open>The laws one by one.\<close>

lemma answers:
  assumes "answering r ns name nss D V"
  shows "reads V (cl_Now (r_Client r)) (\<lambda>w t w'. v_now V w \<le> t \<and> t \<le> v_now V w')"
    and "reads V (cl_GetSnr (r_Client r) ns name)
       (\<lambda>w x w'. if v_stored V w then x = Inr (v_snr V w) else (\<exists>e. x = Inl e \<and> IsNotFound e))"
    and "reads V (cl_GetConfig (r_Client r) ns' n) (\<lambda>w x w'. \<exists>cfg. x = Inr cfg \<and> om_DeletionTimestamp (cfg_Meta cfg) = None)"
    and "reads V (cl_GetNode (r_Client r) n) (\<lambda>w x w'. n = om_Name (n_Meta (v_node V w)) \<longrightarrow> x = Inr (v_node V w))"
    and "reads V (cl_ListPods (r_Client r) agentSelector)
       (\<lambda>w x w'. \<exists>pods. x = Inr pods \<and> (\<exists>pod \<in> set pods. p_NodeName pod = om_Name (n_Meta (v_node V w))))"
    and "reads V (cl_ListNamespaces (r_Client r)) (\<lambda>w x w'. x = Inr nss)"
    and "reads V (cl_ListPods (r_Client r) []) (\<lambda>w x w'. \<exists>pods. x = Inr pods \<and> (\<not> v_left V w \<longrightarrow>
       (\<forall>pod \<in> set pods. p_NodeName pod = om_Name (n_Meta (v_node V w)) \<longrightarrow> \<not> isPodTerminating pod)))"
    and "reads V (cl_ListVolumeAttachments (r_Client r)) (\<lambda>w x w'. \<exists>vas. x = Inr vas \<and> (\<not> v_left V w \<longrightarrow>
       (\<forall>va \<in> set vas. va_NodeName va \<noteq> om_Name (n_Meta (v_node V w)))))"
    and "reads V (r_GetRebootDuration r node) (\<lambda>w x w'. \<exists>d \<le> D. x = Ret (Inr d))"
  using conjunct1 [OF assms [unfolded answering_def], unfolded answeringReads_def Let_def] by (elim conjE, blast)+

lemmas write_laws = answeringWrites_def [THEN iffD1, THEN conjunct1, rule_format]
  answeringWrites_def [THEN iffD1, THEN conjunct2, THEN conjunct1, rule_format]
  answeringWrites_def [THEN iffD1, THEN conjunct2, THEN conjunct2, THEN conjunct1, rule_format]
  answeringWrites_def [THEN iffD1, THEN conjunct2, THEN conjunct2, THEN conjunct2, THEN conjunct1, rule_format]
  answeringWrites_def [THEN iffD1, THEN conjunct2, THEN conjunct2, THEN conjunct2, THEN conjunct2, THEN conjunct1, rule_format]
  answeringWrites_def [THEN iffD1, THEN conjunct2, THEN conjunct2, THEN conjunct2, THEN conjunct2, THEN conjunct2, rule_format]

lemma answering_writes: "answering r ns name nss D V \<Longrightarrow> answeringWrites (r_Client r) V"
  by (simp add: answering_def)

lemma stores:
  assumes "answering r ns name nss D V"
  shows "wp (cl_UpdateNode (r_Client r) x)
       (\<lambda>res w'. res = Inr x \<and> v_snr V w' = v_snr V w \<and> v_node V w' = x \<and> later V w w') w"
    and "wp (cl_PatchNode (r_Client r) (v_node V w) x)
       (\<lambda>res w'. res = Inr x \<and> v_snr V w' = v_snr V w \<and> v_node V w' = x \<and> later V w w') w"
    and "keyOf y = keyOf (v_snr V w) \<Longrightarrow> v_stored V w \<Longrightarrow> wp (cl_UpdateSnr (r_Client r) y)
       (\<lambda>res w'. res = Inr (v_snr V w') \<and> v_snr V w' = y\<lparr>snr_Status := snr_Status (v_snr V w)\<rparr>
          \<and> v_node V w' = v_node V w
          \<and> (if om_DeletionTimestamp (snr_Meta (v_snr V w)) \<noteq> None \<and> om_Finalizers (snr_Meta y) = []
             then \<not> v_stored V w' else later V w w')) w"
    and "keyOf y = keyOf (v_snr V w) \<Longrightarrow> wp (cl_StatusUpdateSnr (r_Client r) y)
       (\<lambda>res w'. v_node V w' = v_node V w \<and> later V w w'
          \<and> (if v_stored V w then res = Inr (v_snr V w') \<and> v_snr V w' = (v_snr V w)\<lparr>snr_Status := snr_Status y\<rparr>
             else (\<exists>e. res = Inl e) \<and> v_snr V w' = v_snr V w)) w"
    and "keyOf y = keyOf (v_snr V w) \<Longrightarrow> st_LastError (snr_Status y) \<noteq> l \<Longrightarrow>
       wp (cl_StatusPatchSnr (r_Client r) y (withLastError l y))
       (\<lambda>res w'. v_node V w' = v_node V w \<and> later V w w'
          \<and> (if v_stored V w then res = Inr (v_snr V w') \<and> v_snr V w' = withLastError l (v_snr V w)
             else (\<exists>e. res = Inl e) \<and> v_snr V w' = v_snr V w)) w"
    and "wp (cl_DeleteAllOfPods (r_Client r) ns' n) (\<lambda>res w'. res = Inr () \<and> same V w w' \<and> (ns', n) \<in> v_gone V w') w"
proof (goal_cases)
  case 1
  show ?case by (rule write_laws(1) [OF answering_writes [OF assms]])
next
  case 2
  show ?case by (rule write_laws(2) [OF answering_writes [OF assms]]) (rule refl)
next
  case 3
  then show ?case by (rule write_laws(3) [OF answering_writes [OF assms]])
next
  case 4
  then show ?case by (rule write_laws(4) [OF answering_writes [OF assms]])
next
  case 5
  then show ?case by (rule write_laws(5) [OF answering_writes [OF assms]])
next
  case 6
  show ?case by (rule write_laws(6) [OF answering_writes [OF assms]])
qed

lemma wp_Now:
  assumes "answering r ns name nss D V"
    and "\<And>t w'. same V (rs_world s) w' \<Longrightarrow> v_now V (rs_world s) \<le> t \<Longrightarrow> t \<le> v_now V w' \<Longrightarrow> Q t (s\<lparr>rs_world := w'\<rparr>)"
  shows "wp (Now r) Q s"
  unfolding Now_def by (rule wp_reads [OF answers(1) [OF assms(1)]]) (auto intro: assms(2))

lemma wp_conditions:
  assumes "answering r ns name nss D V" and "conditionStatuses reason \<noteq> None"
  shows "wp (updateConditions r reason) (\<lambda>e s'. e = None \<and> still V s s') s"
proof -
  have now: "framed (still V) (Now r)"
    by (rule framedI) (rule wp_run [OF wp_Now [OF assms(1)]], simp_all)
  have set: "framed (still V) (setStatusCondition r c)" for c
    unfolding setStatusCondition_def by (intro still_rules now framed_modifyStatus) simp
  obtain a b where ab: "conditionStatuses reason = Some (a, b)" using assms(2) by auto
  show ?thesis
    unfolding updateConditions_def ab option.case prod.case
    by (intro wp_getsI wp_ifI wp_seq [OF framed_wp [OF set]]) (auto simp: stillness.frame_refl intro: stillness.frame_trans)
qed

text \<open>The agent's pod is on the node, so the node can reboot itself when it says so.\<close>

lemma wp_capable:
  assumes "answering r ns name nss D V" and "rs_node s = v_node V (rs_world s)"
    and "om_Annotations (n_Meta (rs_node s)) \<noteq> None" "map_val (om_Annotations (n_Meta (rs_node s))) IsRebootCapableAnnotation = ''true''"
  shows "wp (isNodeRebootCapable r) (\<lambda>b s'. b \<and> still V s s') s"
proof -
  have "reads V (GetSelfNodeRemediationAgentPod (r_Client r) n)
      (\<lambda>w x w'. n = om_Name (n_Meta (v_node V w)) \<longrightarrow> (\<exists>pod. x = Inr pod))" for n
    unfolding reads_def GetSelfNodeRemediationAgentPod_def
    using answers(5) [OF assms(1)]
    by (auto simp: reads_def findPodOnNode_None split: option.split elim!: allE [THEN wp_mono])
  note pod = wp_reads [OF this, where Q = "\<lambda>x s'. (\<exists>pod. x = Inr pod) \<and> still V s s'"]
  show ?thesis
    unfolding isNodeRebootCapable_def
    by (rule wp_getsI, rule wp_seq [OF pod]) (use assms(2-4) in auto)
qed

section \<open>An example\<close>

text \<open>
  The example cluster with an API server that removes the remediation; the flag says whether it is
  stored. The agent's pod is on the node, and there is one namespace.
\<close>

definition onCluster :: "(cluster, 'a) state \<Rightarrow> (cluster \<times> bool, 'a) state" where
  "onCluster m = zoom fst (\<lambda>k p. (k, snd p)) m"

definition ifStored :: "(cluster, 'a result) state \<Rightarrow> (cluster \<times> bool, 'a result) state" where
  "ifStored m = do { stored \<leftarrow> gets snd; if stored then onCluster m else returnM notFound }"

definition removeOrStore :: "SelfNodeRemediation \<Rightarrow> (cluster \<times> bool, SelfNodeRemediation result) state" where
  "removeOrStore x = do {
     old \<leftarrow> gets (\<lambda>p. k_snr (fst p));
     res \<leftarrow> ifStored (cl_UpdateSnr clusterClient x);
     modify (\<lambda>p. (fst p, snd p \<and> (om_DeletionTimestamp (snr_Meta old) = None \<or> om_Finalizers (snr_Meta x) \<noteq> [])));
     returnM res
   }"

definition storeClient :: "(cluster \<times> bool) client" where
  "storeClient =
     \<lparr>cl_Now = onCluster (cl_Now clusterClient),
      cl_GetSnr = (\<lambda>ns name. ifStored (gets (\<lambda>k. Inr (k_snr k)))),
      cl_GetConfig = (\<lambda>ns name. onCluster (cl_GetConfig clusterClient ns name)),
      cl_GetNode = (\<lambda>name. onCluster (cl_GetNode clusterClient name)),
      cl_GetMachine = (\<lambda>ns name. onCluster (cl_GetMachine clusterClient ns name)),
      cl_ListNodes = (\<lambda>sel. onCluster (cl_ListNodes clusterClient sel)),
      cl_ListPods = (\<lambda>sel. onCluster (gets (\<lambda>k. Inr [agentPod\<lparr>p_NodeName := om_Name (n_Meta (k_node k))\<rparr>]))),
      cl_ListSnrs = gets (\<lambda>p. Inr (if snd p then [k_snr (fst p)] else [])),
      cl_ListVolumeAttachments = onCluster (cl_ListVolumeAttachments clusterClient),
      cl_ListNamespaces = returnM (Inr [''default'']),
      cl_UpdateNode = (\<lambda>x. onCluster (cl_UpdateNode clusterClient x)),
      cl_PatchNode = (\<lambda>orig x. onCluster (cl_PatchNode clusterClient orig x)),
      cl_UpdateSnr = removeOrStore,
      cl_StatusUpdateSnr = (\<lambda>x. ifStored (cl_StatusUpdateSnr clusterClient x)),
      cl_StatusPatchSnr = (\<lambda>orig x. ifStored (cl_StatusPatchSnr clusterClient orig x)),
      cl_DeleteAllOfPods = (\<lambda>ns n. onCluster (cl_DeleteAllOfPods clusterClient ns n))\<rparr>"

definition storeReconciler :: "(cluster \<times> bool) reconciler" where
  "storeReconciler = \<lparr>r_Client = storeClient, r_GetRebootDuration = (\<lambda>node. returnM (Ret (Inr (180 * Second)))),
     r_Reboot = returnM (Ret None), r_Sysinfo = returnM (Inr 1000000), r_MyNodeName = ''worker-1'', r_IsAgent = False,
     r_Env = [''DEPLOYMENT_NAMESPACE'' \<mapsto> ''op''],
     r_Flags = \<lparr>IsOutOfServiceTaintSupported = True, IsOutOfServiceTaintGA = False\<rparr>\<rparr>"

definition storeView :: "(cluster \<times> bool) view" where
  "storeView = \<lparr>v_stored = snd, v_snr = (\<lambda>p. k_snr (fst p)), v_node = (\<lambda>p. k_node (fst p)), v_now = (\<lambda>p. k_now (fst p)),
     v_gone = (\<lambda>p. set (k_deleted (fst p))), v_left = (\<lambda>p. k_vas (fst p) \<noteq> [])\<rparr>"

lemma answering_example: "answering storeReconciler ''op'' ''worker-1'' [''default''] (180 * Second) storeView"
  unfolding answering_def
proof
  show "answeringReads storeReconciler ''op'' ''worker-1'' [''default''] (180 * Second) storeView"
    unfolding answeringReads_def Let_def
    by (auto simp: reads_def same_def later_def storeView_def storeReconciler_def storeClient_def clusterClient_def onCluster_def
        ifStored_def wp_zoom GetDeploymentNamespace_def exampleConfig_def emptyMeta_def agentPod_def isPodTerminating_def
        notFound_def IsNotFound_def)
  show "answeringWrites (r_Client storeReconciler) storeView"
    unfolding answeringWrites_def
    by (auto simp: same_def later_def storeView_def storeReconciler_def storeClient_def clusterClient_def onCluster_def
        ifStored_def removeOrStore_def wp_zoom keyOf_def writeSnr_def storeNode_def withLastError_def patchedStatus_def
        patched_def notFound_def)
qed

end
