(* ===== verification/Progress.thy ===== *)
theory Progress
  imports Answering
begin

text \<open>
  That a remediation comes to its end: every reconcile of the manager that does not have to wait takes
  the remediation one stage further, until its workload is removed and it is complete, with either of
  the two strategies and also after an error.
\<close>

section \<open>How far a remediation is\<close>

text \<open>
  The remediation is one that the manager carries out: not deleted before it has begun, not stopped,
  about this node, with a strategy that the manager knows. The node can reboot itself and is not excluded.
\<close>

definition wanted :: "'w reconciler \<Rightarrow> SelfNodeRemediation \<Rightarrow> Node \<Rightarrow> bool" where
  "wanted r snr node \<longleftrightarrow>
     (om_DeletionTimestamp (snr_Meta snr) = None \<or> ContainsFinalizer (snr_Meta snr) SNRFinalizer) \<and> \<not> isStoppedByNHC snr
   \<and> getRuntimeStrategy r snr \<in> {ResourceDeletionRemediationStrategy, OutOfServiceTaintRemediationStrategy}
   \<and> (isOwnedByNHC snr \<noteq> None \<or> isOwnedByMachine snr = None) \<and> getNodeNameDirect snr = om_Name (n_Meta node)
   \<and> map_val (om_Labels (n_Meta node)) excludeRemediationLabel \<noteq> ''true''
   \<and> om_Annotations (n_Meta node) \<noteq> None \<and> map_val (om_Annotations (n_Meta node)) IsRebootCapableAnnotation = ''true''"

text \<open>The stages from the new remediation to the complete one.\<close>

definition stage :: "SelfNodeRemediation \<Rightarrow> Node \<Rightarrow> nat" where
  "stage snr node =
     (case getPhase snr of
        fencingStartedPhase \<Rightarrow>
          if \<not> ContainsFinalizer (snr_Meta snr) SNRFinalizer then 5
          else if \<not> TaintExists (n_Taints node) NodeNoExecuteTaint \<or> \<not> n_Unschedulable node then 4
          else 3
      | preRebootCompletedPhase \<Rightarrow> 2
      | rebootCompletedPhase \<Rightarrow> 1
      | _ \<Rightarrow> 0)"

text \<open>
  What holds at every stage: the finalizer is there once the reboot is prepared, a stored time is at most \<^term>\<open>D\<close> ahead of the clock, there is one while
  the manager waits, and a complete remediation by deletion has had the pods of the node deleted everywhere.
\<close>

definition onCourse ::
  "'w reconciler \<Rightarrow> string list \<Rightarrow> duration \<Rightarrow> SelfNodeRemediation \<Rightarrow> Node \<Rightarrow> instant \<Rightarrow> (string \<times> string) set \<Rightarrow> bool" where
  "onCourse r nss D snr node now gone \<longleftrightarrow>
     wanted r snr node \<and> getPhase snr \<noteq> unknownPhase
   \<and> (getPhase snr \<noteq> fencingStartedPhase \<longrightarrow> ContainsFinalizer (snr_Meta snr) SNRFinalizer)
   \<and> (getPhase snr \<in> {preRebootCompletedPhase, rebootCompletedPhase} \<longrightarrow> st_TimeAssumedRebooted (snr_Status snr) \<noteq> None)
   \<and> (\<forall>t. st_TimeAssumedRebooted (snr_Status snr) = Some t \<longrightarrow> t \<le> now + D)
   \<and> (getPhase snr = fencingCompletedPhase \<and> getRuntimeStrategy r snr = ResourceDeletionRemediationStrategy \<longrightarrow>
        (\<forall>ns \<in> set nss. (ns, om_Name (n_Meta node)) \<in> gone))"

text \<open>With the out-of-service taint the manager does not remove the resources itself.\<close>

definition held :: "'w reconciler \<Rightarrow> SelfNodeRemediation \<Rightarrow> bool \<Rightarrow> bool" where
  "held r snr left \<longleftrightarrow> getRuntimeStrategy r snr = OutOfServiceTaintRemediationStrategy \<and> left"

text \<open>The remediation has to wait for its time, or for the resources to go.\<close>

definition waits :: "'w reconciler \<Rightarrow> SelfNodeRemediation \<Rightarrow> instant \<Rightarrow> bool \<Rightarrow> bool" where
  "waits r snr now left \<longleftrightarrow>
     getPhase snr = preRebootCompletedPhase \<and> (\<exists>t. st_TimeAssumedRebooted (snr_Status snr) = Some t \<and> now < t)
   \<or> getPhase snr = rebootCompletedPhase \<and> held r snr left"

lemma alike_course:
  assumes "alike x y"
  shows "wanted r x node = wanted r y node" "stage x node = stage y node" "waits r x t left = waits r y t left"
    "onCourse r nss D x node t gone = onCourse r nss D y node t gone" "held r x left = held r y left"
  by (simp_all add: wanted_def stage_def waits_def onCourse_def held_def alike_same [OF assms])

lemma onCourse_later: "onCourse r nss D snr node t gone \<Longrightarrow> t \<le> t' \<Longrightarrow> gone \<subseteq> gone' \<Longrightarrow> onCourse r nss D snr node t' gone'"
  unfolding onCourse_def by fastforce

text \<open>A write of the node that makes it unschedulable, or changes other taints than the two that are waited for.\<close>

definition cordoning :: "Node \<Rightarrow> Node \<Rightarrow> bool" where
  "cordoning node node' \<longleftrightarrow> n_Meta node' = n_Meta node \<and> (n_Unschedulable node \<longrightarrow> n_Unschedulable node')
     \<and> (\<forall>t \<in> {NodeNoExecuteTaint, NodeUnschedulableTaint}.
          TaintExists (n_Taints node) t \<longrightarrow> TaintExists (n_Taints node') t)"

lemma cordoning_refl [simp]: "cordoning n n"
  by (simp add: cordoning_def)

lemma cordoning_trans: "cordoning n n1 \<Longrightarrow> cordoning n1 n2 \<Longrightarrow> cordoning n n2"
  by (simp add: cordoning_def)

lemma stage_cordoning: "cordoning n n' \<Longrightarrow> stage x n' \<le> stage x n"
  by (cases "getPhase x") (auto simp: stage_def cordoning_def)

section \<open>The stages one by one\<close>

text \<open>
  Before a phase handler runs, the copies in memory are those of the world, up to conditions. The
  reconcile began in the world \<^term>\<open>w0\<close>.
\<close>

definition aligned :: "'w view \<Rightarrow> 'w \<Rightarrow> 'w rs \<Rightarrow> bool" where
  "aligned V w0 s \<longleftrightarrow> alike (rs_snr s) (v_snr V (rs_world s)) \<and> alike (rs_snr s) (v_snr V w0)
     \<and> rs_node s = v_node V (rs_world s) \<and> cordoning (v_node V w0) (v_node V (rs_world s)) \<and> later V w0 (rs_world s)"

lemma aligned_still: "aligned V w0 s \<Longrightarrow> still V s s' \<Longrightarrow> aligned V w0 s'"
  by (auto simp: aligned_def still_def same_def intro: alike_trans later_trans)

definition courseAt :: "'w reconciler \<Rightarrow> string list \<Rightarrow> duration \<Rightarrow> 'w view \<Rightarrow> SelfNodeRemediation \<Rightarrow> 'w \<Rightarrow> bool" where
  "courseAt r nss D V snr w \<longleftrightarrow> v_stored V w \<and> onCourse r nss D snr (v_node V w) (v_now V w) (v_gone V w)"

lemma courseAt_alike: "alike x y \<Longrightarrow> courseAt r nss D V x w = courseAt r nss D V y w"
  unfolding courseAt_def by (simp only: alike_course(4))

lemma courseAt_later: "courseAt r nss D V snr w \<Longrightarrow> v_node V w' = v_node V w \<Longrightarrow> later V w w' \<Longrightarrow> courseAt r nss D V snr w'"
  unfolding courseAt_def later_def by (auto elim: onCourse_later)

lemma courseAt_same: "courseAt r nss D V snr w \<Longrightarrow> same V w w' \<Longrightarrow> courseAt r nss D V snr w'"
  by (rule courseAt_later) (auto simp: same_def)

lemma courseAt_finalizer:
  "courseAt r nss D V snr w \<Longrightarrow> getPhase snr \<noteq> fencingStartedPhase \<Longrightarrow> ContainsFinalizer (snr_Meta snr) SNRFinalizer"
  by (simp add: courseAt_def onCourse_def)

text \<open>The only error on the way: the resources are still there long after the reboot.\<close>

definition late :: "'w reconciler \<Rightarrow> 'w view \<Rightarrow> 'w \<Rightarrow> 'w \<Rightarrow> bool" where
  "late r V w0 w \<longleftrightarrow> getPhase (v_snr V w0) = rebootCompletedPhase \<and> held r (v_snr V w0) (v_left V w0)
     \<and> (\<exists>t. st_TimeAssumedRebooted (snr_Status (v_snr V w0)) = Some t \<and> t + 300 * Second \<le> v_now V w)"

text \<open>
  What a handler leaves to the status updates: the remediation in memory is on course with the node of
  the world, at stage \<^term>\<open>n\<close> or further, and the stored one is no further back than it was.
\<close>

definition reached ::
  "'w reconciler \<Rightarrow> string list \<Rightarrow> duration \<Rightarrow> 'w view \<Rightarrow> 'w \<Rightarrow> nat \<Rightarrow> reconcileResult \<Rightarrow> 'w rs \<Rightarrow> bool" where
  "reached r nss D V w0 n out s \<longleftrightarrow> (let x = rs_snr s; y = v_snr V (rs_world s); node = v_node V (rs_world s) in
     (\<exists>res err. out = Ret (res, err) \<and> (err \<noteq> None \<longrightarrow> late r V w0 (rs_world s)))
   \<and> snr_Meta x = snr_Meta y \<and> snr_RemediationStrategy x = snr_RemediationStrategy y
   \<and> getRuntimeStrategy r y = getRuntimeStrategy r (v_snr V w0) \<and> later V w0 (rs_world s)
   \<and> om_DeletionTimestamp (snr_Meta y) = om_DeletionTimestamp (snr_Meta (v_snr V w0))
   \<and> st_LastError (snr_Status x) = st_LastError (snr_Status (v_snr V w0))
   \<and> st_LastError (snr_Status y) = st_LastError (snr_Status (v_snr V w0))
   \<and> courseAt r nss D V x (rs_world s) \<and> stage x node \<le> n
   \<and> courseAt r nss D V y (rs_world s) \<and> stage y node \<le> stage (v_snr V w0) (v_node V w0))"

text \<open>The facts on the world and on the stored remediation that hold before the handler writes it.\<close>

lemma aligned_stored:
  assumes "aligned V w0 s" and "courseAt r nss D V (rs_snr s) (rs_world s)"
  shows "courseAt r nss D V (v_snr V (rs_world s)) (rs_world s)"
    and "stage (v_snr V (rs_world s)) (v_node V (rs_world s)) \<le> stage (v_snr V w0) (v_node V w0)"
    and "stage (rs_snr s) (rs_node s) \<le> stage (v_snr V w0) (v_node V w0)"
    and "getRuntimeStrategy r (v_snr V (rs_world s)) = getRuntimeStrategy r (v_snr V w0)" "later V w0 (rs_world s)"
    and "st_LastError (snr_Status (rs_snr s)) = st_LastError (snr_Status (v_snr V w0))"
    and "st_LastError (snr_Status (v_snr V (rs_world s))) = st_LastError (snr_Status (v_snr V w0))"
    and "snr_Meta (rs_snr s) = snr_Meta (v_snr V (rs_world s))"
    and "snr_RemediationStrategy (rs_snr s) = snr_RemediationStrategy (v_snr V (rs_world s))"
    and "om_DeletionTimestamp (snr_Meta (v_snr V (rs_world s))) = om_DeletionTimestamp (snr_Meta (v_snr V w0))"
proof -
  have a: "alike (rs_snr s) (v_snr V (rs_world s))" "alike (rs_snr s) (v_snr V w0)" "rs_node s = v_node V (rs_world s)"
      "cordoning (v_node V w0) (v_node V (rs_world s))" "later V w0 (rs_world s)"
    using assms(1) by (simp_all add: aligned_def)
  show "courseAt r nss D V (v_snr V (rs_world s)) (rs_world s)" using assms(2) by (simp add: courseAt_alike [OF a(1)])
  show s: "stage (rs_snr s) (rs_node s) \<le> stage (v_snr V w0) (v_node V w0)"
    using stage_cordoning [OF a(4), of "rs_snr s"] alike_course(2) [OF a(2)] a(3) by simp
  then show "stage (v_snr V (rs_world s)) (v_node V (rs_world s)) \<le> stage (v_snr V w0) (v_node V w0)"
    using alike_course(2) [OF a(1)] a(3) by simp
  show "getRuntimeStrategy r (v_snr V (rs_world s)) = getRuntimeStrategy r (v_snr V w0)"
    by (rule trans [OF alike_same(3) [OF a(1), symmetric] alike_same(3) [OF a(2)]])
  show "om_DeletionTimestamp (snr_Meta (v_snr V (rs_world s))) = om_DeletionTimestamp (snr_Meta (v_snr V w0))"
    using alike_same(10) [OF a(1)] alike_same(10) [OF a(2)] by metis
  show "st_LastError (snr_Status (rs_snr s)) = st_LastError (snr_Status (v_snr V w0))"
    by (rule alike_same(8) [OF a(2)])
  show "st_LastError (snr_Status (v_snr V (rs_world s))) = st_LastError (snr_Status (v_snr V w0))"
    by (rule trans [OF alike_same(8) [OF a(1), symmetric] alike_same(8) [OF a(2)]])
qed (use assms(1) in \<open>simp_all only: aligned_def alike_def\<close>)

lemma reached_aligned:
  "aligned V w0 s \<Longrightarrow> courseAt r nss D V (rs_snr s) (rs_world s) \<Longrightarrow> stage (rs_snr s) (rs_node s) \<le> n \<Longrightarrow>
   (err \<noteq> None \<Longrightarrow> late r V w0 (rs_world s)) \<Longrightarrow> reached r nss D V w0 n (Ret (res, err)) s"
  using aligned_stored [of V w0 s r nss D] by (simp add: reached_def Let_def aligned_def)

lemma finalizer_kept:
  fixes snr f
  defines "x \<equiv> snr\<lparr>snr_Meta := AddFinalizer (snr_Meta snr) f\<rparr>"
  shows "getPhase x = getPhase snr" "isStoppedByNHC x = isStoppedByNHC snr" "getRuntimeStrategy r x = getRuntimeStrategy r snr"
    "isOwnedByNHC x = isOwnedByNHC snr" "isOwnedByMachine x = isOwnedByMachine snr" "getNodeNameDirect x = getNodeNameDirect snr"
    "om_DeletionTimestamp (AddFinalizer m f) = om_DeletionTimestamp m"
  by (simp_all add: x_def getPhase_def isStoppedByNHC_def getRuntimeStrategy_def isOwnedByNHC_def isOwnedByMachine_def
      getNodeNameDirect_def AddFinalizer_def split: option.split)

lemma wp_finalizer:
  assumes laws: "answering r ns name nss D V" and s: "aligned V w0 s" "courseAt r nss D V (rs_snr s) (rs_world s)"
    and phase: "getPhase (rs_snr s) = fencingStartedPhase" "\<not> ContainsFinalizer (snr_Meta (rs_snr s)) SNRFinalizer"
  shows "wp (addFinalizer r) (\<lambda>out. reached r nss D V w0 4 (Ret out)) s"
proof -
  let ?x = "(rs_snr s)\<lparr>snr_Meta := AddFinalizer (snr_Meta (rs_snr s)) SNRFinalizer\<rparr>"
  note a = aligned_stored [OF s]
  have deleted: "om_DeletionTimestamp (snr_Meta (rs_snr s)) = None" and stored: "v_stored V (rs_world s)"
    using s(2) phase by (simp_all add: courseAt_def onCourse_def wanted_def)
  have k: "keyOf ?x = keyOf (v_snr V (rs_world s))"
    using a(8) by (simp add: keyOf_def AddFinalizer_def)
  obtain x w where run: "run_state (cl_UpdateSnr (r_Client r) ?x) (rs_world s) = (x, w)" by fastforce
  have w: "x = Inr (v_snr V w)" "v_snr V w = ?x\<lparr>snr_Status := snr_Status (v_snr V (rs_world s))\<rparr>"
      "v_node V w = v_node V (rs_world s)" "later V (rs_world s) w"
    using wp_run [OF stores(3) [OF laws k stored] run] deleted a(8) by simp_all
  have x: "alike (v_snr V w) ?x" using s(1) by (simp add: w(2) aligned_def alike_def)
  have "courseAt r nss D V ?x (rs_world s)"
    using s(2) by (simp add: courseAt_def onCourse_def wanted_def finalizer_kept)
  then have "courseAt r nss D V (v_snr V w) w"
    using w(3,4) courseAt_later courseAt_alike [OF x] by metis
  moreover have "stage (v_snr V w) (v_node V w) \<le> 4"
    unfolding alike_course(2) [OF x] using phase by (simp add: stage_def finalizer_kept)
  moreover have "4 \<le> stage (v_snr V w0) (v_node V w0)"
    using a(3) phase by (simp add: stage_def)
  moreover have "getRuntimeStrategy r (v_snr V w) = getRuntimeStrategy r (v_snr V w0)"
    unfolding alike_same(3) [OF x] finalizer_kept using alike_same(3) s(1) by (auto simp: aligned_def)
  moreover have "st_LastError (snr_Status (v_snr V w)) = st_LastError (snr_Status (v_snr V w0))"
    using a(7) by (simp add: w(2))
  moreover have "om_DeletionTimestamp (snr_Meta (v_snr V w)) = om_DeletionTimestamp (snr_Meta (v_snr V w0))"
    using a(8,10) by (simp add: w(2) finalizer_kept)
  ultimately show ?thesis
    using run w(1) deleted later_trans [OF a(5) w(4)]
    by (simp add: addFinalizer_def clientUpdateSnr_def onWorld_def setSnr_def emit_def event_defs reached_def wp_def Let_def)
qed

text \<open>A handler's write of the node.\<close>

definition cordoned :: "'w view \<Rightarrow> 'w rs \<Rightarrow> 'w rs \<Rightarrow> bool" where
  "cordoned V s s' \<longleftrightarrow> rs_snr s' = rs_snr s \<and> v_snr V (rs_world s') = v_snr V (rs_world s)
     \<and> later V (rs_world s) (rs_world s') \<and> rs_node s' = v_node V (rs_world s') \<and> cordoning (rs_node s) (rs_node s')"

lemma cordoned_trans: "cordoned V s s1 \<Longrightarrow> cordoned V s1 s2 \<Longrightarrow> cordoned V s s2"
  by (auto simp: cordoned_def intro: later_trans cordoning_trans)

lemma cordoned_same: "rs_node s = v_node V (rs_world s) \<Longrightarrow> same V (rs_world s) w \<Longrightarrow> cordoned V s (s\<lparr>rs_world := w\<rparr>)"
  by (simp add: cordoned_def same_def)

lemma courseAt_cordoned:
  assumes "cordoned V s s'" and "aligned V w0 s" and "courseAt r nss D V (rs_snr s) (rs_world s)"
  shows "aligned V w0 s'" and "courseAt r nss D V (rs_snr s') (rs_world s')"
proof -
  show "aligned V w0 s'"
    using assms(1,2) by (auto simp: aligned_def cordoned_def intro: later_trans cordoning_trans)
  have "n_Meta (v_node V (rs_world s')) = n_Meta (v_node V (rs_world s))"
    using assms(1,2) by (metis aligned_def cordoned_def cordoning_def)
  then have "v_stored V (rs_world s) \<and> onCourse r nss D (rs_snr s) (v_node V (rs_world s')) (v_now V (rs_world s)) (v_gone V (rs_world s))"
    using assms(3) by (simp add: courseAt_def onCourse_def wanted_def)
  then show "courseAt r nss D V (rs_snr s') (rs_world s')"
    using assms(1) by (auto simp: courseAt_def cordoned_def later_def elim: onCourse_later)
qed

lemma wp_addTaint:
  assumes laws: "answering r ns name nss D V" and s: "rs_node s = v_node V (rs_world s)"
  shows "wp (addTaint r taint reason m) (\<lambda>e s'. e = None \<and> cordoned V s s' \<and> TaintExists (n_Taints (rs_node s')) taint) s"
proof (cases "TaintExists (n_Taints (rs_node s)) taint")
  case True
  then show ?thesis
    using s by (simp add: addTaint_def cordoned_def later_def)
next
  case False
  obtain t w where t: "run_state (cl_Now (r_Client r)) (rs_world s) = (t, w)" by fastforce
  have w: "same V (rs_world s) w"
    using answers(1) [OF laws] t unfolding reads_def by (auto dest!: spec [of _ "rs_world s"] wp_run)
  let ?n = "(rs_node s)\<lparr>n_Taints := n_Taints (rs_node s) @ [taint\<lparr>t_TimeAdded := Some t\<rparr>]\<rparr>"
  obtain x w' where run: "run_state (cl_PatchNode (r_Client r) (rs_node s) ?n) w = (x, w')" by fastforce
  have n: "rs_node s = v_node V w" using s w by (simp add: same_def)
  have w': "x = Inr ?n" "v_snr V w' = v_snr V w" "v_node V w' = ?n" "later V w w'"
    using wp_run [OF stores(2) [OF laws, of w ?n, folded n] run] by blast+
  have l: "later V (rs_world s) w'" using w w'(4) later_trans by (auto simp: same_def)
  have e: "TaintExists [taint\<lparr>t_TimeAdded := Some t\<rparr>] taint"
    by (simp add: MatchTaint_def)
  have "v_snr V w' = v_snr V (rs_world s)" using w w'(2) by (simp add: same_def)
  then show ?thesis
    using False t run w'(1,3) l e
    by (simp add: addTaint_def Now_def onWorld_def setNode_def clientPatchNode_def emit_def event_defs
        wp_def cordoned_def cordoning_def)
qed

lemma wp_noExecute:
  assumes laws: "answering r ns name nss D V" and s: "rs_node s = v_node V (rs_world s)"
  shows "wp (addNoExecuteTaint r) (\<lambda>e s'. e = None \<and> cordoned V s s' \<and> TaintExists (n_Taints (rs_node s')) NodeNoExecuteTaint) s"
  unfolding addNoExecuteTaint_def by (rule wp_addTaint [OF assms])

lemma wp_removeOutOfService:
  assumes laws: "answering r ns name nss D V" and s: "rs_node s = v_node V (rs_world s)"
  shows "wp (removeOutOfServiceTaint r) (\<lambda>e s'. e = None \<and> cordoned V s s') s"
proof (cases "TaintExists (n_Taints (rs_node s)) OutOfServiceTaint")
  case True
  let ?n = "(rs_node s)\<lparr>n_Taints := filter (\<lambda>u. \<not> MatchTaint OutOfServiceTaint u) (n_Taints (rs_node s))\<rparr>"
  have "\<not> MatchTaint OutOfServiceTaint NodeUnschedulableTaint" "\<not> MatchTaint OutOfServiceTaint NodeNoExecuteTaint"
    by (simp_all add: MatchTaint_def NodeNoExecuteTaint_def NodeUnschedulableTaint_def OutOfServiceTaint_def)
  note other = this [THEN TaintExists_filter_other]
  obtain x w where run: "run_state (cl_PatchNode (r_Client r) (rs_node s) ?n) (rs_world s) = (x, w)" by fastforce
  have "x = Inr ?n" "v_snr V w = v_snr V (rs_world s)" "v_node V w = ?n" "later V (rs_world s) w"
    using wp_run [OF stores(2) [OF laws, of "rs_world s" ?n, folded s] run] by blast+
  then show ?thesis
    using True run
    by (simp add: removeOutOfServiceTaint_def removeTaint_def DeleteTaint_eq onWorld_def setNode_def clientPatchNode_def
        emit_def event_defs wp_def cordoned_def cordoning_def other)
qed (use s in \<open>simp add: removeOutOfServiceTaint_def removeTaint_def cordoned_def later_def\<close>)

lemma wp_markUnschedulable:
  assumes laws: "answering r ns name nss D V" and s: "rs_node s = v_node V (rs_world s)"
  shows "wp (markNodeAsUnschedulable r) (\<lambda>out s'. snd out = None \<and> cordoned V s s' \<and> n_Unschedulable (rs_node s')) s"
proof (cases "n_Unschedulable (rs_node s)")
  case True
  then show ?thesis using s by (simp add: markNodeAsUnschedulable_def cordoned_def cordoning_def later_def)
next
  case False
  let ?n = "(rs_node s)\<lparr>n_Unschedulable := True\<rparr>"
  obtain x w where run: "run_state (cl_UpdateNode (r_Client r) ?n) (rs_world s) = (x, w)" by fastforce
  have "x = Inr ?n" "v_snr V w = v_snr V (rs_world s)" "v_node V w = ?n" "later V (rs_world s) w"
    using wp_run [OF stores(1) [OF laws] run] by simp_all
  then show ?thesis
    using False run
    by (simp add: markNodeAsUnschedulable_def onWorld_def setNode_def clientUpdateNode_def emit_def event_defs
        wp_def cordoned_def cordoning_def)
qed


lemma wp_setTime:
  assumes laws: "answering r ns name nss D V" and s: "aligned V w0 s" "courseAt r nss D V (rs_snr s) (rs_world s)"
  shows "wp (setTimeAssumedRebooted r) (\<lambda>x s'. x = Ret None \<and> same V (rs_world s) (rs_world s') \<and> rs_node s' = rs_node s
     \<and> (\<exists>t. t \<le> v_now V (rs_world s') + D
         \<and> rs_snr s' = (rs_snr s)\<lparr>snr_Status := (snr_Status (rs_snr s))\<lparr>st_TimeAssumedRebooted := Some t\<rparr>\<rparr>)) s"
proof (cases "st_TimeAssumedRebooted (snr_Status (rs_snr s))")
  case (Some t)
  then have "rs_snr s = (rs_snr s)\<lparr>snr_Status := (snr_Status (rs_snr s))\<lparr>st_TimeAssumedRebooted := Some t\<rparr>\<rparr>" by simp
  moreover have "t \<le> v_now V (rs_world s) + D" using Some s(2) by (simp add: courseAt_def onCourse_def)
  ultimately show ?thesis
    using Some by (auto simp: setTimeAssumedRebooted_def sameness.frame_refl)
next
  case None
  obtain x w where x: "run_state (r_GetRebootDuration r (rs_node s)) (rs_world s) = (x, w)" by fastforce
  obtain t w' where t: "run_state (cl_Now (r_Client r)) w = (t, w')" by fastforce
  obtain d where d: "x = Ret (Inr d)" "d \<le> D" "same V (rs_world s) w"
    using answers(9) [OF laws] x unfolding reads_def by (auto dest!: spec [of _ "rs_world s"] wp_run)
  have w': "same V w w'" "t \<le> v_now V w'"
    using answers(1) [OF laws] t unfolding reads_def by (auto dest!: spec [of _ w] wp_run)
  have "same V (rs_world s) w'" using d(3) w'(1) by (rule sameness.frame_trans)
  then show ?thesis
    using None x t d(1,2) w'(2)
    by (auto simp: setTimeAssumedRebooted_def Now_def onWorld_def modifyStatus_def event_defs emit_def wp_def time_add_def
        intro!: exI [of _ "t + d"])
qed

text \<open>A new phase in memory.\<close>

lemma status_kept:
  fixes snr st
  defines "x \<equiv> snr\<lparr>snr_Status := st\<rparr>"
  shows "isStoppedByNHC x = isStoppedByNHC snr" "getRuntimeStrategy r x = getRuntimeStrategy r snr"
    "isOwnedByNHC x = isOwnedByNHC snr" "isOwnedByMachine x = isOwnedByMachine snr" "getNodeNameDirect x = getNodeNameDirect snr"
  by (simp_all add: x_def isStoppedByNHC_def getRuntimeStrategy_def isOwnedByNHC_def isOwnedByMachine_def
      getNodeNameDirect_def split: option.split)

lemma getPhase_set:
  "p \<in> {preRebootCompletedPhase, rebootCompletedPhase, fencingCompletedPhase} \<Longrightarrow>
   st_Phase (snr_Status x) = Some (remediationPhase_str p) \<Longrightarrow> getPhase x = p"
  by (auto simp: getPhase_def)

lemma wp_setPhase:
  assumes s: "aligned V w0 s" "courseAt r nss D V (rs_snr s) (rs_world s)"
    and fin: "ContainsFinalizer (snr_Meta (rs_snr s)) SNRFinalizer"
    and p: "p \<in> {preRebootCompletedPhase, rebootCompletedPhase, fencingCompletedPhase}"
    and t: "p \<noteq> fencingCompletedPhase \<Longrightarrow> st_TimeAssumedRebooted (snr_Status x) \<noteq> None"
      "\<And>t. st_TimeAssumedRebooted (snr_Status x) = Some t \<Longrightarrow> t \<le> v_now V (rs_world s) + D"
    and gone: "p = fencingCompletedPhase \<Longrightarrow> getRuntimeStrategy r (rs_snr s) = ResourceDeletionRemediationStrategy \<Longrightarrow>
      \<forall>ns \<in> set nss. (ns, om_Name (n_Meta (rs_node s))) \<in> v_gone V (rs_world s)"
    and x: "x = (rs_snr s)\<lparr>snr_Status := (snr_Status (rs_snr s))\<lparr>st_TimeAssumedRebooted := u, st_Phase := Some (remediationPhase_str p)\<rparr>\<rparr>"
  shows "reached r nss D V w0 (case p of preRebootCompletedPhase \<Rightarrow> 2 | rebootCompletedPhase \<Rightarrow> 1 | _ \<Rightarrow> 0) (Ret (res, None))
     (s\<lparr>rs_snr := x\<rparr>)"
proof -
  have phase: "getPhase x = p" using getPhase_set [OF p] x by simp
  have n: "rs_node s = v_node V (rs_world s)" using s(1) by (simp add: aligned_def)
  have strategy: "getRuntimeStrategy r x = getRuntimeStrategy r (rs_snr s)" by (simp add: x status_kept)
  have "wanted r x (rs_node s)"
    using s by (simp add: courseAt_def onCourse_def aligned_def wanted_def x status_kept)
  then have "courseAt r nss D V x (rs_world s)"
    using s(2) p t gone n fin by (auto simp: courseAt_def onCourse_def phase strategy) (simp_all add: x)
  moreover have "stage x node = (case p of preRebootCompletedPhase \<Rightarrow> 2 | rebootCompletedPhase \<Rightarrow> 1 | _ \<Rightarrow> 0)" for node
    using p by (auto simp: stage_def phase)
  ultimately show ?thesis
    using aligned_stored [OF s] by (simp add: reached_def Let_def x)
qed

lemma wp_laterPhase:
  assumes s: "aligned V w0 s" "courseAt r nss D V (rs_snr s) (rs_world s)" and p: "p \<in> {rebootCompletedPhase, fencingCompletedPhase}"
    and fin: "ContainsFinalizer (snr_Meta (rs_snr s)) SNRFinalizer"
    and t: "p = rebootCompletedPhase \<Longrightarrow> getPhase (rs_snr s) = preRebootCompletedPhase"
    and gone: "p = fencingCompletedPhase \<Longrightarrow> getRuntimeStrategy r (rs_snr s) = ResourceDeletionRemediationStrategy \<Longrightarrow>
      \<forall>ns \<in> set nss. (ns, om_Name (n_Meta (rs_node s))) \<in> v_gone V (rs_world s)"
  shows "reached r nss D V w0 (if p = rebootCompletedPhase then 1 else 0) (Ret (res, None))
     (s\<lparr>rs_snr := (rs_snr s)\<lparr>snr_Status := (snr_Status (rs_snr s))\<lparr>st_Phase := Some (remediationPhase_str p)\<rparr>\<rparr>\<rparr>)"
proof -
  let ?t = "st_TimeAssumedRebooted (snr_Status (rs_snr s))"
  have "(rs_snr s)\<lparr>snr_Status := (snr_Status (rs_snr s))\<lparr>st_Phase := Some (remediationPhase_str p)\<rparr>\<rparr>
      = (rs_snr s)\<lparr>snr_Status := (snr_Status (rs_snr s))\<lparr>st_TimeAssumedRebooted := ?t, st_Phase := Some (remediationPhase_str p)\<rparr>\<rparr>"
    by simp
  from wp_setPhase [OF s fin, of p, OF _ _ _ gone this, of res] show ?thesis
    using p t s(2) by (auto simp: courseAt_def onCourse_def)
qed

text \<open>The preparation, from the finalizer to the first phase.\<close>

lemma wp_mark_stage:
  assumes laws: "answering r ns name nss D V" and s: "aligned V w0 s" "courseAt r nss D V (rs_snr s) (rs_world s)"
    and prepared: "getPhase (rs_snr s) = fencingStartedPhase" "ContainsFinalizer (snr_Meta (rs_snr s)) SNRFinalizer"
      "TaintExists (n_Taints (rs_node s)) NodeNoExecuteTaint"
  shows "wp (markNodeAsUnschedulable r) (\<lambda>out. reached r nss D V w0 3 (Ret out)) s"
proof (rule wp_mono [OF wp_markUnschedulable [OF laws]])
  fix out :: "Result \<times> error option" and s'
  assume c: "snd out = None \<and> cordoned V s s' \<and> n_Unschedulable (rs_node s')"
  note s' = courseAt_cordoned [OF _ s, of s']
  have "rs_snr s' = rs_snr s" "TaintExists (n_Taints (rs_node s')) NodeNoExecuteTaint"
    using c prepared(3) unfolding cordoned_def cordoning_def by blast+
  then have "stage (rs_snr s') (rs_node s') = 3" using c prepared(1,2) by (simp add: stage_def)
  then show "reached r nss D V w0 3 (Ret out) s'"
    using c s' reached_aligned [of V w0 s' r nss D 3 None "fst out"] by (cases out) simp
qed (use s(1) in \<open>simp add: aligned_def\<close>)

lemma wp_time_stage:
  assumes laws: "answering r ns name nss D V" and s: "aligned V w0 s" "courseAt r nss D V (rs_snr s) (rs_world s)"
    and fin: "ContainsFinalizer (snr_Meta (rs_snr s)) SNRFinalizer"
  shows "wp (setTimeAssumedRebooted r) (\<lambda>x s'. x = Ret None
     \<and> wp (setPhase preRebootCompletedPhase) (\<lambda>_. reached r nss D V w0 2 (Ret (emptyResult, None))) s') s"
proof (rule wp_mono [OF wp_setTime [OF laws s]])
  fix x :: "error option outcome" and s' :: "'a rs"
  assume "x = Ret None \<and> same V (rs_world s) (rs_world s') \<and> rs_node s' = rs_node s
     \<and> (\<exists>t. t \<le> v_now V (rs_world s') + D
         \<and> rs_snr s' = (rs_snr s)\<lparr>snr_Status := (snr_Status (rs_snr s))\<lparr>st_TimeAssumedRebooted := Some t\<rparr>\<rparr>)"
  then obtain t where x: "x = Ret None" and s': "same V (rs_world s) (rs_world s')" "rs_node s' = rs_node s"
      "t \<le> v_now V (rs_world s') + D"
      "rs_snr s' = (rs_snr s)\<lparr>snr_Status := (snr_Status (rs_snr s))\<lparr>st_TimeAssumedRebooted := Some t\<rparr>\<rparr>" by blast
  let ?s = "s'\<lparr>rs_snr := rs_snr s\<rparr>"
  have "aligned V w0 ?s" "courseAt r nss D V (rs_snr ?s) (rs_world ?s)"
    using s s'(1,2) courseAt_same [OF s(2) s'(1)] by (auto simp: aligned_def same_def intro: later_trans)
  from wp_setPhase [OF this, of preRebootCompletedPhase, OF _ _ _ _ _ refl, of "Some t" emptyResult]
  show "x = Ret None \<and> wp (setPhase preRebootCompletedPhase) (\<lambda>_. reached r nss D V w0 2 (Ret (emptyResult, None))) s'"
    using s'(3) fin by (simp add: x setPhase_def modifyStatus_def s'(4))
qed

lemma courseAt_still:
  "courseAt r nss D V (rs_snr s) (rs_world s) \<Longrightarrow> still V s s' \<Longrightarrow> courseAt r nss D V (rs_snr s') (rs_world s')"
  using courseAt_same [of r nss D V "rs_snr s" "rs_world s" "rs_world s'"]
    courseAt_alike [of "rs_snr s'" "rs_snr s" r nss D V "rs_world s'"] by (simp add: still_def)

lemma still_same:
  assumes "still V s s'"
  shows "getPhase (rs_snr s') = getPhase (rs_snr s)" "rs_node s' = rs_node s" "snr_Meta (rs_snr s') = snr_Meta (rs_snr s)"
    "same V (rs_world s) (rs_world s')" "getRuntimeStrategy r (rs_snr s') = getRuntimeStrategy r (rs_snr s)"
  using assms by (simp_all add: still_def alike_same(1,3,10) [of "rs_snr s'" "rs_snr s"])

lemma reached_mono: "reached r nss D V w0 m out s \<Longrightarrow> m \<le> n \<Longrightarrow> reached r nss D V w0 n out s"
  by (auto simp: reached_def Let_def)

lemma wp_prepareReboot:
  assumes laws: "answering r ns name nss D V" and s: "aligned V w0 s" "courseAt r nss D V (rs_snr s) (rs_world s)"
    and phase: "getPhase (rs_snr s) = fencingStartedPhase"
    and tainted: "n_Unschedulable (rs_node s) \<Longrightarrow> TaintExists (n_Taints (rs_node s)) NodeUnschedulableTaint"
  shows "wp (prepareReboot r) (reached r nss D V w0 (stage (rs_snr s) (rs_node s) - 1)) s"
  unfolding prepareReboot_def
proof (rule wp_seq [OF wp_capable [OF laws]], goal_cases)
  case (4 b s1)
  then have still: "still V s s1" "b" by simp_all
  note s1 = aligned_still [OF s(1) still(1)] courseAt_still [OF s(2) still(1)] still_same [OF still(1)]
  show ?case
  proof (intro wp_ifI wp_getsI, goal_cases)
    case 1 then show ?case using still(2) by simp
  next
    case 2 then show ?case
      using phase s1(3,5) by (intro wp_seq [OF wp_finalizer [OF laws s1(1,2)]]) (simp_all add: stage_def)
  next
    case 3
    then have fin: "ContainsFinalizer (snr_Meta (rs_snr s)) SNRFinalizer" using s1(5) by simp
    then have n: "2 \<le> stage (rs_snr s) (rs_node s) - 1" using phase by (simp add: stage_def)
    show ?case
    proof (rule wp_seq [OF wp_noExecute [OF laws]], goal_cases)
      case (2 e s2)
      then have s2: "aligned V w0 s2" "courseAt r nss D V (rs_snr s2) (rs_world s2)" "rs_snr s2 = rs_snr s1"
        using courseAt_cordoned [OF _ s1(1,2)] by (auto simp: cordoned_def)
      have m: "3 \<le> stage (rs_snr s) (rs_node s) - 1"
        if "\<not> n_Unschedulable (rs_node s2) \<or> \<not> TaintExists (n_Taints (rs_node s2)) NodeUnschedulableTaint"
        using that 2 tainted s1(4) phase fin by (auto simp: cordoned_def cordoning_def stage_def)
      have mark: "wp (markNodeAsUnschedulable r) (\<lambda>out. reached r nss D V w0 3 (Ret out)) s2"
        using wp_mark_stage [OF laws s2(1,2)] 2 s1(3,5) s2(3) fin phase by simp
      have e: "e = None" using 2 by simp
      show ?case
        unfolding e option.case
      proof (intro wp_getsI wp_ifI, goal_cases)
        case 1
        show ?case by (rule wp_seq [OF mark]) (use reached_mono [OF _ m [OF 1]] in simp)
      next
        case 2
        show ?case
          by (rule wp_seq [OF wp_time_stage [OF laws s2(1,2)]])
            (use reached_mono [OF _ n] fin s2(3) s1(5) in \<open>auto intro!: wp_seq elim!: wp_mono\<close>)
      qed
    qed (use s1(1) in \<open>simp add: aligned_def\<close>)
  qed
qed (use s in \<open>auto simp: aligned_def courseAt_def onCourse_def wanted_def\<close>)

text \<open>The wait for the reboot.\<close>

lemma wp_wait_stage:
  assumes laws: "answering r ns name nss D V" and s: "aligned V w0 s" "courseAt r nss D V (rs_snr s) (rs_world s)"
    and phase: "getPhase (rs_snr s) = preRebootCompletedPhase"
  shows "wp (waitForNodeRebooted r) (reached r nss D V w0 (if waits r (rs_snr s) (v_now V (rs_world s)) (v_left V (rs_world s)) then 2 else 1)) s"
proof -
  obtain t where t: "st_TimeAssumedRebooted (snr_Status (rs_snr s)) = Some t"
    using s(2) phase by (auto simp: courseAt_def onCourse_def)
  have now: "wp (Now r) (\<lambda>u s'. still V s s' \<and> v_now V (rs_world s) \<le> u) s" for s
    by (rule wp_Now [OF laws]) simp
  have stay: "reached r nss D V w0 2 (Ret (res, None)) s'" if "still V s s'" for s' res
    using reached_aligned [OF aligned_still [OF s(1) that] courseAt_still [OF s(2) that], where err = None] still_same(1) [OF that] phase
    by (simp add: stage_def)
  have go: "wp (setPhase rebootCompletedPhase) (\<lambda>_. reached r nss D V w0 1 (Ret (emptyResult, None))) s'" if "still V s s'" for s'
    using wp_laterPhase [OF aligned_still [OF s(1) that] courseAt_still [OF s(2) that], of rebootCompletedPhase]
      still_same(1) [OF that] phase courseAt_finalizer [OF courseAt_still [OF s(2) that]] by (simp add: setPhase_def modifyStatus_def)
  show ?thesis
    unfolding waitForNodeRebooted_def wasNodeRebooted_def
    apply (rule wp_seq [where P = "\<lambda>x s'. still V s s' \<and>
        (\<exists>b d. x = Ret (b, d) \<and> (b \<or> waits r (rs_snr s) (v_now V (rs_world s)) (v_left V (rs_world s))))"])
     apply (rule wp_getsI)
     apply (simp only: t option.case)
     apply (rule wp_seq [OF now])
     apply (rule wp_ifI)
      apply (rule wp_seq [OF now])
      apply (use t phase in \<open>auto simp: waits_def time_after_def intro: stillness.frame_trans\<close>) [2]
    apply (elim conjE exE)
    apply (simp only: outcome.case prod.case)
    apply (rule wp_ifI)
     apply (simp add: stay)
    apply (rule wp_seq [OF go], assumption)
    apply (auto intro: reached_mono)
    done
qed


section \<open>The removal of the workload\<close>

lemma wp_deletePodsLoop:
  assumes laws: "answering r ns name nss D V"
  shows "wp (deletePodsLoop r node nss') (\<lambda>e s'. e = None \<and> still V s s' \<and> (\<forall>ns \<in> set nss'. (ns, node) \<in> v_gone V (rs_world s'))) s"
proof (induction nss' arbitrary: s)
  case Nil
  then show ?case by (simp add: stillness.frame_refl)
next
  case (Cons n nss')
  have delete: "wp (onWorld (cl_DeleteAllOfPods (r_Client r) n node))
      (\<lambda>res s'. res = Inr () \<and> still V s s' \<and> (n, node) \<in> v_gone V (rs_world s')) s"
    unfolding onWorld_def wp_zoom by (rule wp_mono [OF stores(6) [OF laws]]) simp
  show ?case
    unfolding deletePodsLoop.simps
  proof (rule wp_seq [OF delete])
    fix res :: "unit result" and s' :: "'a rs"
    assume s': "res = Inr () \<and> still V s s' \<and> (n, node) \<in> v_gone V (rs_world s')"
    let ?s = "s'\<lparr>rs_trace := rs_trace s' @ [ADeletePods n node None]\<rparr>"
    have "wp (deletePodsLoop r node nss') (\<lambda>e s'. e = None \<and> still V s s' \<and> (\<forall>ns \<in> set (n # nss'). (ns, node) \<in> v_gone V (rs_world s'))) ?s"
    proof (rule wp_mono [OF Cons.IH])
      fix e :: "error option" and s2 :: "'a rs"
      assume "e = None \<and> still V ?s s2 \<and> (\<forall>ns \<in> set nss'. (ns, node) \<in> v_gone V (rs_world s2))"
      then show "e = None \<and> still V s s2 \<and> (\<forall>ns \<in> set (n # nss'). (ns, node) \<in> v_gone V (rs_world s2))"
        using s' stillness.frame_trans [of V s s' s2] by (auto simp: still_def same_def later_def)
    qed
    then show "wp (do {
        emit (ADeletePods n node (err_of res));
        case err_of res of None \<Rightarrow> deletePodsLoop r node nss' | Some err \<Rightarrow> returnM (Some err)
      }) (\<lambda>e s'. e = None \<and> still V s s' \<and> (\<forall>ns \<in> set (n # nss'). (ns, node) \<in> v_gone V (rs_world s'))) s'"
      using s' by (simp add: emit_def)
  qed
qed

lemma late_later: "late r V w0 w \<Longrightarrow> later V w w' \<Longrightarrow> late r V w0 w'"
  by (auto simp: late_def later_def)

lemma reached_still:
  assumes "reached r nss D V w0 n out s" and "still V s s'"
  shows "reached r nss D V w0 n out s'"
proof -
  have a: "alike (rs_snr s') (rs_snr s)" and w: "v_snr V (rs_world s') = v_snr V (rs_world s)"
      "v_node V (rs_world s') = v_node V (rs_world s)" "later V (rs_world s) (rs_world s')"
    using assms(2) by (simp_all add: still_def same_def)
  have "courseAt r nss D V x (rs_world s')" if "courseAt r nss D V x (rs_world s)" for x
    using that w(2,3) by (rule courseAt_later)
  then show ?thesis
    using assms(1) w later_trans [OF _ w(3), of w0] late_later [OF _ w(3), of r w0]
    by (auto simp: reached_def Let_def courseAt_alike [OF a] alike_same [OF a] alike_course(2) [OF a])
      (use a in \<open>simp_all add: alike_def\<close>)
qed

text \<open>The last phase is set with its conditions.\<close>

lemma wp_complete:
  assumes laws: "answering r ns name nss D V" and s: "aligned V w0 s" "courseAt r nss D V (rs_snr s) (rs_world s)"
    and fin: "ContainsFinalizer (snr_Meta (rs_snr s)) SNRFinalizer"
    and gone: "getRuntimeStrategy r (rs_snr s) = ResourceDeletionRemediationStrategy \<Longrightarrow>
      \<forall>ns \<in> set nss. (ns, om_Name (n_Meta (rs_node s))) \<in> v_gone V (rs_world s)"
  shows "wp (do {
      NormalEvent OnNode reason m;
      setPhase fencingCompletedPhase;
      err' \<leftarrow> updateConditions r remediationFinishedSuccessfully;
      returnM (Ret (emptyResult, err')) }) (reached r nss D V w0 0) s"
proof -
  let ?s = "\<lambda>t. s\<lparr>rs_trace := t, rs_snr := (rs_snr s)\<lparr>snr_Status := (snr_Status (rs_snr s))\<lparr>st_Phase := Some ''Fencing-Completed''\<rparr>\<rparr>\<rparr>"
  have "reached r nss D V w0 0 (Ret (emptyResult, None)) (?s t)" for t
    using wp_laterPhase [of V w0 "s\<lparr>rs_trace := t\<rparr>" r nss D fencingCompletedPhase emptyResult] s fin gone
    by (simp add: aligned_def)
  then have "wp (updateConditions r remediationFinishedSuccessfully)
      (\<lambda>e. reached r nss D V w0 0 (Ret (emptyResult, e))) (?s t)" for t
    by (intro wp_mono [OF wp_conditions [OF laws]]) (auto intro: reached_still)
  then show ?thesis
    by (simp add: event_defs emit_def setPhase_def modifyStatus_def)
qed

lemma wp_removal_stage:
  assumes laws: "answering r ns name nss D V" and s: "aligned V w0 s" "courseAt r nss D V (rs_snr s) (rs_world s)"
    and phase: "getPhase (rs_snr s) = rebootCompletedPhase"
  shows "wp (handleRebootCompletedPhase r (deleteResourcesWrapper r)) (reached r nss D V w0 0) s"
proof -
  have namespaces: "wp (onWorld (cl_ListNamespaces (r_Client r))) (\<lambda>x s'. x = Inr nss \<and> still V s s') s"
    by (rule wp_reads [OF answers(6) [OF laws]]) simp
  have pods: "wp (deleteResourcesWrapper r)
      (\<lambda>x s'. x = Ret (0, None) \<and> still V s s' \<and> (\<forall>ns \<in> set nss. (ns, om_Name (n_Meta (rs_node s))) \<in> v_gone V (rs_world s'))) s"
    unfolding deleteResourcesWrapper_def DeletePods_def
    by (rule wp_getsI, simp, rule wp_mono [OF namespaces])
      (auto intro!: wp_mono [OF wp_deletePodsLoop [OF laws]] intro: stillness.frame_trans)
  show ?thesis
    unfolding handleRebootCompletedPhase_def
  proof (rule wp_seq [OF pods], goal_cases)
    case (1 x s1)
    then have still: "still V s s1" by simp
    show ?case
      using 1 wp_complete [OF laws aligned_still [OF s(1) still] courseAt_still [OF s(2) still]] still_same(2,3) [OF still]
        courseAt_finalizer [OF s(2)] phase by simp
  qed
qed

text \<open>
  With the out-of-service taint the resources go on their own: the manager waits for it, fails when it
  takes too long, and removes the taint afterwards.
\<close>

lemma wp_resourcesLeft:
  assumes laws: "answering r ns name nss D V" and s: "rs_node s = v_node V (rs_world s)"
  shows "wp (isResourceDeletionCompleted r) (\<lambda>b s'. cordoned V s s' \<and> (b \<or> v_left V (rs_world s))) s"
  unfolding isResourceDeletionCompleted_def
proof (rule wp_getsI, rule wp_seq [OF wp_reads [OF answers(7) [OF laws], where
      Q = "\<lambda>x s'. \<exists>pods. x = Inr pods \<and> cordoned V s s' \<and> same V (rs_world s) (rs_world s') \<and> (\<not> v_left V (rs_world s) \<longrightarrow>
        (\<forall>pod \<in> set pods. p_NodeName pod = om_Name (n_Meta (rs_node s)) \<longrightarrow> \<not> isPodTerminating pod))"]], goal_cases)
  case (1 x w) then show ?case using cordoned_same [OF s] s by auto
next
  case (2 x s1)
  then have s1: "cordoned V s s1" "same V (rs_world s) (rs_world s1)" by auto
  then have n: "v_node V (rs_world s1) = rs_node s" and l: "v_left V (rs_world s1) \<Longrightarrow> v_left V (rs_world s)"
      and c: "rs_node s1 = v_node V (rs_world s1)"
    using s by (auto simp: same_def later_def cordoned_def)
  have vas: "wp (onWorld (cl_ListVolumeAttachments (r_Client r))) (\<lambda>x s'. \<exists>vas. x = Inr vas \<and> cordoned V s s' \<and>
      (\<not> v_left V (rs_world s) \<longrightarrow> (\<forall>va \<in> set vas. va_NodeName va \<noteq> om_Name (n_Meta (rs_node s))))) s1"
    by (rule wp_reads [OF answers(8) [OF laws]]) (use n l cordoned_trans [OF s1(1) cordoned_same [OF c]] in auto)
  obtain pods where x: "x = Inr pods" "\<not> v_left V (rs_world s) \<longrightarrow>
      (\<forall>pod \<in> set pods. p_NodeName pod = om_Name (n_Meta (rs_node s)) \<longrightarrow> \<not> isPodTerminating pod)"
    using 2 by auto
  show ?case
    unfolding x(1) sum.case
  proof (rule wp_ifI, goal_cases)
    case 1 then show ?case using x(2) s1(1) by auto
  next
    case 2 show ?case by (rule wp_seq [OF vas]) auto
  qed
qed

lemma wp_outOfService:
  assumes laws: "answering r ns name nss D V" and s: "aligned V w0 s" "courseAt r nss D V (rs_snr s) (rs_world s)"
    and phase: "getPhase (rs_snr s) = rebootCompletedPhase"
    and strategy: "getRuntimeStrategy r (rs_snr s) = OutOfServiceTaintRemediationStrategy"
  shows "wp (useOutOfServiceTaint r) (\<lambda>x s'. cordoned V s s' \<and> (x = Ret (0, None) \<or>
     held r (v_snr V w0) (v_left V w0) \<and> (x = Ret (5 * Second, None) \<or> (\<exists>e. x = Ret (0, Some e)) \<and> late r V w0 (rs_world s')))) s"
  unfolding useOutOfServiceTaint_def addOutOfServiceTaint_def
proof (rule wp_seq [OF wp_addTaint [OF laws]], goal_cases)
  case 1 then show ?case using s(1) by (simp add: aligned_def)
next
  case (2 e s1)
  then have s1: "cordoned V s s1" and e: "e = None" by simp_all
  note a = courseAt_cordoned [OF s1 s]
  have a0: "alike (rs_snr s) (v_snr V w0)" "rs_snr s1 = rs_snr s" using s(1) s1 by (simp_all add: aligned_def cordoned_def)
  have n: "rs_node s1 = v_node V (rs_world s1)" using s1 by (simp add: cordoned_def)
  obtain t where t: "st_TimeAssumedRebooted (snr_Status (rs_snr s)) = Some t"
    using s(2) phase by (auto simp: courseAt_def onCourse_def)
  have w0: "getPhase (v_snr V w0) = rebootCompletedPhase" "st_TimeAssumedRebooted (snr_Status (v_snr V w0)) = Some t"
      "getRuntimeStrategy r (v_snr V w0) = OutOfServiceTaintRemediationStrategy"
    using phase t strategy by (simp_all add: alike_same [OF a0(1)])
  have expired: "wp (isResourceDeletionExpired r) (\<lambda>x s'. cordoned V s s' \<and>
      (x = Ret (False, 5 * Second) \<or> x = Ret (True, 0) \<and> late r V w0 (rs_world s'))) s2"
    if s2: "cordoned V s s2" "held r (v_snr V w0) (v_left V w0)" for s2
  proof -
    have c: "rs_node s2 = v_node V (rs_world s2)" "rs_snr s2 = rs_snr s" using s2 by (simp_all add: cordoned_def)
    have now: "wp (Now r) (\<lambda>u s'. cordoned V s s' \<and> u \<le> v_now V (rs_world s')) s2"
      by (rule wp_Now [OF laws]) (use cordoned_trans [OF s2(1) cordoned_same [OF c(1)]] in simp)
    show ?thesis
      unfolding isResourceDeletionExpired_def
      by (rule wp_getsI, simp only: c(2) t option.case, rule wp_seq [OF now])
        (use s2(2) w0 in \<open>auto simp: late_def time_after_def time_add_def\<close>)
  qed
  show ?case
    unfolding e option.case
  proof (rule wp_seq [OF wp_resourcesLeft [OF laws n]], goal_cases)
    case (1 b s2)
    then have s2: "cordoned V s s2" "rs_node s2 = v_node V (rs_world s2)"
      using cordoned_trans [OF s1, of s2] by (blast, simp add: cordoned_def)
    show ?case
    proof (rule wp_ifI, goal_cases)
      case 1
      with \<open>cordoned V s1 s2 \<and> (b \<or> v_left V (rs_world s1))\<close> have "held r (v_snr V w0) (v_left V w0)"
        using a(1) w0(3) by (simp add: held_def aligned_def later_def)
      from expired [OF s2(1) this] this show ?case
        by (rule_tac wp_seq) (assumption, auto)
    next
      case 2
      show ?case
        by (rule wp_seq [OF wp_removeOutOfService [OF laws s2(2)]]) (use cordoned_trans [OF s2(1)] in auto)
    qed
  qed
qed

lemma wp_outOfService_stage:
  assumes laws: "answering r ns name nss D V" and s: "aligned V w0 s" "courseAt r nss D V (rs_snr s) (rs_world s)"
    and phase: "getPhase (rs_snr s) = rebootCompletedPhase"
    and strategy: "getRuntimeStrategy r (rs_snr s) = OutOfServiceTaintRemediationStrategy"
  shows "wp (handleRebootCompletedPhase r (useOutOfServiceTaint r))
     (reached r nss D V w0 (if held r (v_snr V w0) (v_left V w0) then 1 else 0)) s"
  unfolding handleRebootCompletedPhase_def
proof (rule wp_seq [OF wp_outOfService [OF assms]], goal_cases)
  case (1 x s1)
  then have s1: "cordoned V s s1" by simp
  note a = courseAt_cordoned [OF s1 s]
  have r1: "rs_snr s1 = rs_snr s" using s1 by (simp add: cordoned_def)
  have "stage (rs_snr s1) node = 1" for node using phase by (simp add: r1 stage_def)
  then have stay: "reached r nss D V w0 1 (Ret (res, None)) s1" "late r V w0 (rs_world s1) \<Longrightarrow> reached r nss D V w0 1 (Ret (res, Some e)) s1"
    for res e by (intro reached_aligned [OF a]; simp)+
  have "reached r nss D V w0 (if held r (v_snr V w0) (v_left V w0) then 1 else 0) out s'" if "reached r nss D V w0 0 out s'" for out s'
    using that by (rule reached_mono) simp
  then have "wp (do {
      NormalEvent OnNode reason m;
      setPhase fencingCompletedPhase;
      err' \<leftarrow> updateConditions r remediationFinishedSuccessfully;
      returnM (Ret (emptyResult, err')) }) (reached r nss D V w0 (if held r (v_snr V w0) (v_left V w0) then 1 else 0)) s1" for reason m
    using wp_mono [OF wp_complete [OF laws a, where reason = reason and m = m]] strategy courseAt_finalizer [OF s(2)] phase
    by (simp add: r1 ResourceDeletionRemediationStrategy_def OutOfServiceTaintRemediationStrategy_def)
  then show ?case using 1 stay by (auto simp del: wp_bind)
qed


section \<open>One reconcile\<close>

text \<open>The stage a reconcile brings the remediation to, when it starts in the given world.\<close>

definition waiting :: "'w reconciler \<Rightarrow> 'w view \<Rightarrow> 'w \<Rightarrow> bool" where
  "waiting r V w \<longleftrightarrow> waits r (v_snr V w) (v_now V w) (v_left V w)"

definition nextStage :: "'w reconciler \<Rightarrow> 'w view \<Rightarrow> 'w \<Rightarrow> nat" where
  "nextStage r V w = (let st = stage (v_snr V w) (v_node V w) in if waiting r V w then st else st - 1)"

definition tainted :: "Node \<Rightarrow> bool" where
  "tainted node \<longleftrightarrow> (n_Unschedulable node \<longrightarrow> TaintExists (n_Taints node) NodeUnschedulableTaint)"

text \<open>A complete remediation that is being deleted is not on its way any more.\<close>

definition recovering :: "SelfNodeRemediation \<Rightarrow> bool" where
  "recovering snr \<longleftrightarrow> getPhase snr = fencingCompletedPhase \<and> om_DeletionTimestamp (snr_Meta snr) \<noteq> None"

text \<open>What each part of a reconcile starts from.\<close>

definition onTrack :: "'w reconciler \<Rightarrow> string list \<Rightarrow> duration \<Rightarrow> 'w view \<Rightarrow> 'w \<Rightarrow> 'w rs \<Rightarrow> bool" where
  "onTrack r nss D V w0 s \<longleftrightarrow> alike (rs_snr s) (v_snr V w0) \<and> same V w0 (rs_world s)
     \<and> courseAt r nss D V (rs_snr s) (rs_world s) \<and> tainted (v_node V w0) \<and> \<not> recovering (v_snr V w0)"

lemma onTrack_still: "onTrack r nss D V w0 s \<Longrightarrow> still V s s' \<Longrightarrow> onTrack r nss D V w0 s'"
  using courseAt_still [of r nss D V s s']
  by (auto simp: onTrack_def still_def intro: alike_trans sameness.frame_trans)

lemma onTrack_aligned:
  assumes "onTrack r nss D V w0 s" and "rs_node s = v_node V (rs_world s)"
  shows "aligned V w0 s" and "courseAt r nss D V (rs_snr s) (rs_world s)"
  using assms by (auto simp: onTrack_def aligned_def same_def)

lemma wp_remediate_stage:
  assumes laws: "answering r ns name nss D V" and s: "onTrack r nss D V w0 s" "rs_node s = v_node V (rs_world s)"
  shows "wp (remediate r) (reached r nss D V w0 (nextStage r V w0)) s"
proof -
  note a = onTrack_aligned [OF s]
  have w: "wanted r (rs_snr s) (rs_node s)" "getPhase (rs_snr s) \<noteq> unknownPhase"
    using a by (simp_all add: courseAt_def onCourse_def aligned_def)
  have x: "alike (rs_snr s) (v_snr V w0)" and n: "rs_node s = v_node V w0" and t: "tainted (rs_node s)"
      and now: "v_now V w0 \<le> v_now V (rs_world s)"
    using s by (simp_all add: onTrack_def same_def later_def)
  have phase: "getPhase (v_snr V w0) = getPhase (rs_snr s)" and time: "st_TimeAssumedRebooted (snr_Status (v_snr V w0))
      = st_TimeAssumedRebooted (snr_Status (rs_snr s))"
    by (simp_all add: alike_same [OF x])
  have st: "stage (v_snr V w0) (v_node V w0) = stage (rs_snr s) (rs_node s)"
    by (simp add: alike_course(2) [OF x] n)
  have strategy: "getRuntimeStrategy r (v_snr V w0) = getRuntimeStrategy r (rs_snr s)"
    by (simp add: alike_same [OF x])
  have removal: "wp (remediateWithResourceRemoval r rm) (reached r nss D V w0 (nextStage r V w0)) s"
    if rm: "getPhase (rs_snr s) = rebootCompletedPhase \<Longrightarrow>
      wp (handleRebootCompletedPhase r rm) (reached r nss D V w0 (nextStage r V w0)) s" for rm
  proof (cases "getPhase (rs_snr s)")
    case fencingStartedPhase
    then have m: "stage (rs_snr s) (rs_node s) - 1 \<le> nextStage r V w0"
      by (simp add: nextStage_def st phase waiting_def waits_def)
    have "wp (prepareReboot r) (reached r nss D V w0 (nextStage r V w0)) s"
      by (rule wp_mono [OF wp_prepareReboot [OF laws a fencingStartedPhase]])
        (use t in \<open>simp add: tainted_def\<close>, erule reached_mono, rule m)
    then show ?thesis
      by (simp add: remediateWithResourceRemoval_def fencingStartedPhase handleFencingStartedPhase_def)
  next
    case preRebootCompletedPhase
    then have m: "(if waits r (rs_snr s) (v_now V (rs_world s)) (v_left V (rs_world s)) then 2 else 1) \<le> nextStage r V w0"
      using now unfolding nextStage_def Let_def st waiting_def by (auto simp: phase time waits_def stage_def)
    have "wp (waitForNodeRebooted r) (reached r nss D V w0 (nextStage r V w0)) s"
      by (rule wp_mono [OF wp_wait_stage [OF laws a preRebootCompletedPhase]]) (erule reached_mono, rule m)
    then show ?thesis
      by (simp add: remediateWithResourceRemoval_def preRebootCompletedPhase handlePreRebootCompletedPhase_def)
  next
    case rebootCompletedPhase
    then show ?thesis using rm by (simp add: remediateWithResourceRemoval_def)
  next
    case fencingCompletedPhase
    then have "stage (rs_snr s) (rs_node s) = 0" "om_DeletionTimestamp (snr_Meta (rs_snr s)) = None"
      using s(1) by (simp_all add: stage_def onTrack_def recovering_def phase alike_same(10) [OF x])
    then show ?thesis
      using reached_aligned [OF a, of "nextStage r V w0" None] fencingCompletedPhase
      by (simp add: remediateWithResourceRemoval_def handleFencingCompletedPhase_def)
  qed (use w(2) in simp)
  have "wp (handleRebootCompletedPhase r (deleteResourcesWrapper r)) (reached r nss D V w0 (nextStage r V w0)) s"
    if "getPhase (rs_snr s) = rebootCompletedPhase"
    by (rule wp_mono [OF wp_removal_stage [OF laws a that]]) (erule reached_mono, simp)
  moreover have "wp (handleRebootCompletedPhase r (useOutOfServiceTaint r)) (reached r nss D V w0 (nextStage r V w0)) s"
    if "getPhase (rs_snr s) = rebootCompletedPhase" "getRuntimeStrategy r (rs_snr s) = OutOfServiceTaintRemediationStrategy"
  proof (rule wp_mono [OF wp_outOfService_stage [OF laws a that]], erule reached_mono)
    show "(if held r (v_snr V w0) (v_left V w0) then 1 else 0) \<le> nextStage r V w0"
      using that unfolding nextStage_def Let_def st by (simp add: waiting_def waits_def phase stage_def)
  qed
  ultimately show ?thesis
    using removal w(1)
    by (auto simp: remediate_def remediateWithResourceDeletion_def remediateWithOutOfServiceTaint_def wanted_def)
qed

text \<open>
  After the last error was written: an error that was there before has undone what the reconcile did to
  the status, because its patch answers with the stored one.
\<close>

definition settled :: "'w reconciler \<Rightarrow> string list \<Rightarrow> duration \<Rightarrow> 'w view \<Rightarrow> 'w \<Rightarrow> nat \<Rightarrow> 'w rs \<Rightarrow> bool" where
  "settled r nss D V w0 n s \<longleftrightarrow> (let x = rs_snr s; y = v_snr V (rs_world s); node = v_node V (rs_world s) in
     snr_Meta x = snr_Meta y \<and> snr_RemediationStrategy x = snr_RemediationStrategy y
   \<and> getRuntimeStrategy r y = getRuntimeStrategy r (v_snr V w0) \<and> later V w0 (rs_world s)
   \<and> om_DeletionTimestamp (snr_Meta y) = om_DeletionTimestamp (snr_Meta (v_snr V w0))
   \<and> courseAt r nss D V x (rs_world s) \<and> stage x node \<le> max n (stage (v_snr V w0) (v_node V w0))
   \<and> (st_LastError (snr_Status x) = '''' \<and> (st_LastError (snr_Status (v_snr V w0)) = '''' \<longrightarrow> stage x node \<le> n)
      \<or> late r V w0 (rs_world s)))"

lemma withLastError_same:
  "snr_Meta (withLastError l x) = snr_Meta x" "snr_RemediationStrategy (withLastError l x) = snr_RemediationStrategy x"
  "st_LastError (snr_Status (withLastError l x)) = l" "stage (withLastError l x) node = stage x node"
  "getRuntimeStrategy r (withLastError l x) = getRuntimeStrategy r x"
  "courseAt r nss D V (withLastError l x) w = courseAt r nss D V x w"
  by (simp_all add: withLastError_def stage_def getPhase_def courseAt_def onCourse_def wanted_def status_kept)

lemma wp_lastError:
  assumes laws: "answering r ns name nss D V" and s: "reached r nss D V w0 n (Ret (res, err)) s"
  shows "wp (updateSnrStatusLastError r err)
     (\<lambda>e s'. (e \<noteq> None \<longrightarrow> late r V w0 (rs_world s')) \<and> settled r nss D V w0 n s') s"
proof -
  let ?l = "case err of None \<Rightarrow> '''' | Some e \<Rightarrow> error_str e"
  have late: "late r V w0 (rs_world s)" if "err \<noteq> None" using s that by (auto simp: reached_def Let_def)
  show ?thesis
  proof (cases "st_LastError (snr_Status (rs_snr s)) = ?l")
    case True
    then have "settled r nss D V w0 n s"
      using s late by (cases err) (auto simp: settled_def reached_def Let_def)
    then show ?thesis
      using True late by (auto simp: updateSnrStatusLastError_def Let_def split: option.split error.split)
  next
    case False
    have k: "keyOf (rs_snr s) = keyOf (v_snr V (rs_world s))" using s by (simp add: reached_def keyOf_def Let_def)
    obtain x w where run: "run_state (cl_StatusPatchSnr (r_Client r) (rs_snr s) (withLastError ?l (rs_snr s))) (rs_world s) = (x, w)"
      by fastforce
    have w: "x = Inr (v_snr V w) \<and> v_snr V w = withLastError ?l (v_snr V (rs_world s)) \<and> v_node V w = v_node V (rs_world s)
        \<and> later V (rs_world s) w"
      using wp_run [OF stores(5) [OF laws k False] run] s by (simp add: reached_def courseAt_def Let_def)
    let ?s = "\<lambda>t. s\<lparr>rs_world := w, rs_snr := v_snr V w, rs_trace := t\<rparr>"
    have "courseAt r nss D V (v_snr V (rs_world s)) w"
      using s w courseAt_later by (auto simp: reached_def Let_def)
    moreover have l: "late r V w0 w" if "err \<noteq> None" using late_later [OF late [OF that]] w by simp
    ultimately have st: "settled r nss D V w0 n (?s t)" for t
      using s w False by (cases err) (auto simp: settled_def reached_def Let_def withLastError_same intro: later_trans)
    have "run_state (updateSnrStatusLastError r err) s
        = (case err of Some (Unreconcilable m) \<Rightarrow> None | _ \<Rightarrow> err,
           ?s (rs_trace s @ [AStatusPatchSnr (rs_snr s) (withLastError ?l (rs_snr s)) None]))"
      using False run w
      by (simp add: updateSnrStatusLastError_def Let_def modifyStatus_def clientStatusPatchSnr_def onWorld_def emit_def
          setSnr_def withLastError_def)
    then show ?thesis using st l by (auto simp: wp_def split: option.splits error.splits)
  qed
qed

definition arrived :: "'w reconciler \<Rightarrow> string list \<Rightarrow> duration \<Rightarrow> 'w view \<Rightarrow> 'w \<Rightarrow> reconcileResult \<Rightarrow> 'w rs \<Rightarrow> bool" where
  "arrived r nss D V w0 out s \<longleftrightarrow> (\<exists>res e. out = Ret (res, e) \<and> (e \<noteq> None \<longrightarrow> late r V w0 (rs_world s)))
     \<and> settled r nss D V w0 (nextStage r V w0) s"

lemma wp_remediateNode:
  assumes laws: "answering r ns name nss D V" and s: "onTrack r nss D V w0 s"
  shows "wp (remediateNode r (v_node V (rs_world s))) (arrived r nss D V w0) s"
proof -
  have w: "wanted r (rs_snr s) (v_node V (rs_world s))"
    using s by (simp add: onTrack_def courseAt_def onCourse_def)
  have finish: "wp (do {
       outcome \<leftarrow> remediate r;
       case outcome of
         Ret (result, err) \<Rightarrow> do { e \<leftarrow> updateSnrStatusLastError r err; returnM (Ret (result, e)) }
       | Panic \<Rightarrow> returnM Panic
     }) (arrived r nss D V w0) s'" if "rs_world s' = rs_world s" "rs_snr s' = rs_snr s" "rs_node s' = v_node V (rs_world s)" for s'
  proof (rule wp_seq [OF wp_remediate_stage [OF laws]])
    show "onTrack r nss D V w0 s'" using s that by (simp add: onTrack_def)
    show "rs_node s' = v_node V (rs_world s')" using that by simp
  next
    fix out s2 assume r: "reached r nss D V w0 (nextStage r V w0) out s2"
    then obtain res err where out: "out = Ret (res, err)" by (auto simp: reached_def Let_def)
    show "wp (case out of
         Ret (result, err) \<Rightarrow> do { e \<leftarrow> updateSnrStatusLastError r err; returnM (Ret (result, e)) }
       | Panic \<Rightarrow> returnM Panic) (arrived r nss D V w0) s2"
      unfolding out outcome.case prod.case
      by (rule wp_seq [OF wp_lastError [OF laws r [unfolded out]]]) (simp add: arrived_def)
  qed
  show ?thesis
    using w finish by (simp add: remediateNode_def setNode_def event_defs emit_def wanted_def)
qed

lemma wp_reconcileNode:
  assumes laws: "answering r ns name nss D V" and s: "onTrack r nss D V w0 s"
  shows "wp (reconcileNode r) (arrived r nss D V w0) s"
proof -
  have w: "wanted r (rs_snr s) (v_node V (rs_world s))"
    using s by (simp add: onTrack_def courseAt_def onCourse_def)
  have name: "run_state (getNodeName (r_Client r) (rs_snr s)) (rs_world s)
      = (Inr (om_Name (n_Meta (v_node V (rs_world s)))), rs_world s)"
    using w getNodeName_direct [of "rs_snr s"] by (simp add: wanted_def)
  have name: "wp (onWorld (getNodeName (r_Client r) (rs_snr s)))
      (\<lambda>x s'. x = Inr (om_Name (n_Meta (v_node V (rs_world s)))) \<and> s' = s) s"
    by (simp add: onWorld_def wp_zoom wp_def name)
  have node: "wp (getNodeFromSnr r) (\<lambda>x s'. x = Inr (v_node V (rs_world s')) \<and> still V s s') s"
    unfolding getNodeFromSnr_def
    by (rule wp_getsI, rule wp_seq [OF name])
      (auto intro!: wp_reads [OF answers(4) [OF laws]] simp: same_def)
  show ?thesis
    unfolding reconcileNode_def
    by (rule wp_seq [OF node]) (use wp_remediateNode [OF laws onTrack_still [OF s]] in auto)
qed

lemma wp_body:
  assumes laws: "answering r ns name nss D V" and s: "onTrack r nss D V w0 s"
  shows "wp (reconcileManagerBody r) (arrived r nss D V w0) s"
proof -
  obtain depl where "GetDeploymentNamespace (r_Env r) = Inr depl"
    using laws by (auto simp: answering_def answeringReads_def Let_def)
  then have config: "wp (isConfigurationExist r) (\<lambda>x s'. x = Inr True \<and> still V s s') s"
    unfolding isConfigurationExist_def by (simp, intro wp_reads [OF answers(3) [OF laws]]) auto
  have "wp (reconcileEnabled r) (arrived r nss D V w0) s'" if s': "onTrack r nss D V w0 s'" for s'
  proof -
    have "\<not> isStoppedByNHC (rs_snr s')" using s' by (simp add: onTrack_def courseAt_def onCourse_def wanted_def)
    moreover have "wp (updateConditions r remediationStarted) (\<lambda>e s2. e = None \<and> onTrack r nss D V w0 s2) s'"
      by (rule wp_mono [OF wp_conditions [OF laws]]) (auto intro: onTrack_still [OF s'])
    ultimately show ?thesis
      using wp_reconcileNode [OF laws] s'
      unfolding reconcileEnabled_def
      by (intro wp_getsI wp_ifI wp_seq [where P = "\<lambda>e s2. e = None \<and> onTrack r nss D V w0 s2"]) auto
  qed
  then show ?thesis
    unfolding reconcileManagerBody_def
    by (intro wp_seq [OF config]) (auto intro: onTrack_still [OF s])
qed

text \<open>
  How many reconciles are still needed: an error of an earlier reconcile costs one more, and so may
  resources that take their time to go.
\<close>

definition weight :: "nat \<Rightarrow> bool \<Rightarrow> bool \<Rightarrow> nat" where
  "weight st err left = (if st = 0 then 0 else if st = 1 then 1 + (if err \<or> left then 1 else 0)
     else st + (if err then 1 else 0) + (if left then 1 else 0))"

lemma weight_mono: "st \<le> st' \<Longrightarrow> (left \<longrightarrow> left') \<Longrightarrow> weight st err left \<le> weight st' err left'"
  by (simp add: weight_def)

definition debt :: "'w reconciler \<Rightarrow> 'w view \<Rightarrow> 'w \<Rightarrow> nat" where
  "debt r V w = weight (stage (v_snr V w) (v_node V w)) (st_LastError (snr_Status (v_snr V w)) \<noteq> '''')
     (held r (v_snr V w) (v_left V w))"

lemma debt_next:
  assumes st: "st \<le> max n st0" and n: "n = (if wait then st0 else st0 - 1)"
    and left: "left \<longrightarrow> left0" and wait: "wait \<longrightarrow> st0 = 2 \<or> st0 = 1 \<and> left0" "st0 = 1 \<and> left0 \<longrightarrow> wait"
    and err: "\<not> err \<and> (\<not> err0 \<longrightarrow> st \<le> n) \<or> st0 = 1 \<and> left0"
  shows "weight st err left \<le> (if wait then weight st0 err0 left0 else weight st0 err0 left0 - 1)"
proof (cases wait)
  case True
  then show ?thesis
    using st n left wait err by (auto simp: weight_def)
next
  case False
  then have n: "n = st0 - 1" and w: "\<not> (st0 = 1 \<and> left0)" using n wait by simp_all
  then have e: "\<not> err" "err0 \<or> st \<le> st0 - 1" "st \<le> st0" using err st by auto
  show ?thesis
    using False e w left by (auto simp: weight_def)
qed

lemma waiting_stage:
  shows "waiting r V w \<Longrightarrow> stage (v_snr V w) node = 2 \<or> stage (v_snr V w) node = 1 \<and> held r (v_snr V w) (v_left V w)"
    and "late r V w w' \<Longrightarrow> stage (v_snr V w) node = 1 \<and> held r (v_snr V w) (v_left V w)"
    and "stage (v_snr V w) node = 1 \<Longrightarrow> held r (v_snr V w) (v_left V w) \<Longrightarrow> waiting r V w"
  by (auto simp: waiting_def waits_def late_def stage_def split: remediationPhase.splits if_splits)

text \<open>The whole reconcile, with the status update at its end.\<close>

lemma wp_reconcile:
  assumes laws: "answering r ns name nss D V"
    and course: "courseAt r nss D V (v_snr V (rs_world s)) (rs_world s)" and node: "tainted (v_node V (rs_world s))"
    and going: "\<not> recovering (v_snr V (rs_world s))"
  shows "wp (ReconcileManager r ns name) (\<lambda>out s'.
       (\<exists>res e. out = Ret (res, e) \<and> (e \<noteq> None \<longrightarrow> late r V (rs_world s) (rs_world s')))
     \<and> courseAt r nss D V (v_snr V (rs_world s')) (rs_world s')
     \<and> getRuntimeStrategy r (v_snr V (rs_world s')) = getRuntimeStrategy r (v_snr V (rs_world s))
     \<and> om_DeletionTimestamp (snr_Meta (v_snr V (rs_world s'))) = om_DeletionTimestamp (snr_Meta (v_snr V (rs_world s)))
     \<and> debt r V (rs_world s') \<le> (if waiting r V (rs_world s) then debt r V (rs_world s) else debt r V (rs_world s) - 1)) s"
    (is "wp _ ?P s")
proof -
  let ?w = "rs_world s"
  have get: "wp (onWorld (cl_GetSnr (r_Client r) ns name))
      (\<lambda>x s'. \<exists>snr. x = Inr snr \<and> onTrack r nss D V ?w (s'\<lparr>rs_snr := snr\<rparr>)) s"
  proof (rule wp_reads [OF answers(2) [OF laws]])
    fix x w assume w: "same V ?w w" "if v_stored V ?w then x = Inr (v_snr V ?w) else \<exists>e. x = Inl e \<and> IsNotFound e"
    have x: "x = Inr (v_snr V ?w)" using w(2) course by (simp add: courseAt_def)
    have "onTrack r nss D V ?w (s\<lparr>rs_world := w, rs_snr := v_snr V ?w\<rparr>)"
      using node going w(1) courseAt_same [OF course w(1)] by (simp add: onTrack_def)
    then show "\<exists>snr. x = Inr snr \<and> onTrack r nss D V ?w (s\<lparr>rs_world := w, rs_snr := snr\<rparr>)"
      using x by auto
  qed
  have status: "wp (deferredStatusUpdate r out) ?P s'" if a: "arrived r nss D V ?w out s'" for out s'
  proof -
    let ?x = "rs_snr s'"
    have st: "settled r nss D V ?w (nextStage r V ?w) s'" using a by (simp add: arrived_def)
    then have k: "keyOf ?x = keyOf (v_snr V (rs_world s'))" by (simp add: settled_def keyOf_def Let_def)
    obtain res w where run: "run_state (cl_StatusUpdateSnr (r_Client r) ?x) (rs_world s') = (res, w)" by fastforce
    have w: "res = Inr (v_snr V w)" "v_snr V w = (v_snr V (rs_world s'))\<lparr>snr_Status := snr_Status ?x\<rparr>"
        "v_node V w = v_node V (rs_world s')" "later V (rs_world s') w"
      using wp_run [OF stores(4) [OF laws k] run] st by (simp_all add: settled_def courseAt_def Let_def)
    have x: "v_snr V w = ?x" using st w(2) by (simp add: settled_def Let_def)
    have late: "late r V ?w w" if "late r V ?w (rs_world s')" using that w(4) by (rule late_later)
    have course: "courseAt r nss D V ?x w" using st courseAt_later w(3,4) by (auto simp: settled_def Let_def)
    have strategy: "getRuntimeStrategy r ?x = getRuntimeStrategy r (v_snr V ?w)"
      using st by (simp add: settled_def Let_def getRuntimeStrategy_def)
    have deletion: "om_DeletionTimestamp (snr_Meta ?x) = om_DeletionTimestamp (snr_Meta (v_snr V ?w))"
      using st by (simp add: settled_def Let_def)
    have left: "held r ?x (v_left V w) \<longrightarrow> held r (v_snr V ?w) (v_left V ?w)"
      using st w(4) strategy by (auto simp: held_def settled_def Let_def later_def)
    have "debt r V w \<le> (if waiting r V ?w then debt r V ?w else debt r V ?w - 1)"
      unfolding debt_def x w(3)
    proof (rule debt_next [where n = "nextStage r V ?w"])
      show "stage ?x (v_node V (rs_world s')) \<le> max (nextStage r V ?w) (stage (v_snr V ?w) (v_node V ?w))"
        using st by (simp add: settled_def Let_def)
      show "\<not> st_LastError (snr_Status ?x) \<noteq> '''' \<and> (\<not> st_LastError (snr_Status (v_snr V ?w)) \<noteq> '''' \<longrightarrow>
            stage ?x (v_node V (rs_world s')) \<le> nextStage r V ?w)
          \<or> stage (v_snr V ?w) (v_node V ?w) = 1 \<and> held r (v_snr V ?w) (v_left V ?w)"
        using st waiting_stage(2) [of r V ?w "rs_world s'" "v_node V ?w"] unfolding settled_def Let_def by blast
    qed (use left waiting_stage(1,3) [where r = r and V = V and w = ?w and node = "v_node V ?w"] in \<open>auto simp: nextStage_def Let_def\<close>)
    then show ?thesis
      using a run w(1) x course strategy deletion late
      by (auto simp: arrived_def deferredStatusUpdate_def updateSnrStatus_def onWorld_def setSnr_def emit_def wp_def)
  qed
  show ?thesis
    unfolding ReconcileManager_def
  proof (rule wp_seq [OF get], elim exE conjE, goal_cases)
    case (1 x s1 snr)
    have "wp (reconcileManagerBody r) (\<lambda>out. wp (deferredStatusUpdate r out) ?P) (s1\<lparr>rs_snr := snr\<rparr>)"
      by (rule wp_mono [OF wp_body [OF laws 1(2)] status])
    then show ?case by (simp add: 1(1) setSnr_def split del: if_split)
  qed
qed

section \<open>A run of reconciles\<close>

text \<open>The API server marks a remediation as deleted; with a finalizer that is all it does.\<close>

definition deletedAt :: "instant \<Rightarrow> SelfNodeRemediation \<Rightarrow> SelfNodeRemediation" where
  "deletedAt t snr = snr\<lparr>snr_Meta := (snr_Meta snr)\<lparr>om_DeletionTimestamp := Some t\<rparr>\<rparr>"

lemma deletedAt_same:
  "getPhase (deletedAt t snr) = getPhase snr" "getRuntimeStrategy r (deletedAt t snr) = getRuntimeStrategy r snr"
  "isOwnedByNHC (deletedAt t snr) = isOwnedByNHC snr" "isOwnedByMachine (deletedAt t snr) = isOwnedByMachine snr"
  "getNodeNameDirect (deletedAt t snr) = getNodeNameDirect snr" "snr_Status (deletedAt t snr) = snr_Status snr"
  "ContainsFinalizer (snr_Meta (deletedAt t snr)) f = ContainsFinalizer (snr_Meta snr) f"
  "\<not> isStoppedByNHC (deletedAt t snr)" "stage (deletedAt t snr) node = stage snr node"
  by (simp_all add: deletedAt_def getPhase_def getRuntimeStrategy_def isOwnedByNHC_def isOwnedByMachine_def
      getNodeNameDirect_def ContainsFinalizer_def isStoppedByNHC_def stage_def split: option.split)

text \<open>
  Between two reconciles the remediation stays as it is, or is marked as deleted when it has the
  finalizer. The node keeps its metadata, may be cordoned and tainted further, and has the taint that the
  cluster puts on an unschedulable node.
\<close>

definition between :: "'w view \<Rightarrow> 'w \<Rightarrow> 'w \<Rightarrow> bool" where
  "between V w w' \<longleftrightarrow> (v_snr V w' = v_snr V w
       \<or> ContainsFinalizer (snr_Meta (v_snr V w)) SNRFinalizer \<and> (\<exists>t. v_snr V w' = deletedAt t (v_snr V w)))
     \<and> cordoning (v_node V w) (v_node V w') \<and> tainted (v_node V w') \<and> later V w w'"

text \<open>
  A run counts the reconciles that do not come before the time, or the end of the resources, for which
  they have to wait: the number is that of the due ones.
\<close>

inductive cycles :: "'w reconciler \<Rightarrow> string \<Rightarrow> string \<Rightarrow> 'w view \<Rightarrow> 'w \<Rightarrow> nat \<Rightarrow> 'w \<Rightarrow> bool" for r ns name V w0 where
  start: "cycles r ns name V w0 0 w0"
| due: "cycles r ns name V w0 k w \<Longrightarrow> between V w (rs_world s) \<Longrightarrow> \<not> recovering (v_snr V (rs_world s)) \<Longrightarrow>
    \<not> waiting r V (rs_world s) \<Longrightarrow>
    run_state (ReconcileManager r ns name) s = (out, s') \<Longrightarrow> cycles r ns name V w0 (Suc k) (rs_world s')"
| early: "cycles r ns name V w0 k w \<Longrightarrow> between V w (rs_world s) \<Longrightarrow> \<not> recovering (v_snr V (rs_world s)) \<Longrightarrow>
    waiting r V (rs_world s) \<Longrightarrow>
    run_state (ReconcileManager r ns name) s = (out, s') \<Longrightarrow> cycles r ns name V w0 k (rs_world s')"

lemma between_same:
  assumes "between V w w'"
  shows "getRuntimeStrategy r (v_snr V w') = getRuntimeStrategy r (v_snr V w)" "stage (v_snr V w') node = stage (v_snr V w) node"
    "snr_Status (v_snr V w') = snr_Status (v_snr V w)" "tainted (v_node V w')" "later V w w'"
  using assms by (auto simp: between_def deletedAt_same)

lemma courseAt_between:
  assumes "courseAt r nss D V (v_snr V w) w" and "between V w w'"
  shows "courseAt r nss D V (v_snr V w') w'"
proof -
  have n: "n_Meta (v_node V w') = n_Meta (v_node V w)" and l: "later V w w'"
    using assms(2) by (simp_all add: between_def cordoning_def)
  have c: "onCourse r nss D (v_snr V w) (v_node V w') (v_now V w) (v_gone V w)" and s: "v_stored V w"
    using assms(1) n by (simp_all add: courseAt_def onCourse_def wanted_def)
  have "onCourse r nss D (deletedAt t (v_snr V w)) (v_node V w') (v_now V w) (v_gone V w)"
    if "ContainsFinalizer (snr_Meta (v_snr V w)) SNRFinalizer" for t
    using c that by (simp add: onCourse_def wanted_def deletedAt_same)
  then have "onCourse r nss D (v_snr V w') (v_node V w') (v_now V w) (v_gone V w)"
    using c assms(2) by (auto simp: between_def)
  then show ?thesis using s l by (auto simp: courseAt_def later_def elim: onCourse_later)
qed

lemma debt_between:
  assumes "between V w w'"
  shows "debt r V w' \<le> debt r V w"
proof -
  have "stage (v_snr V w) (v_node V w') \<le> stage (v_snr V w) (v_node V w)"
    using assms by (simp add: between_def stage_cordoning)
  moreover have "held r (v_snr V w') (v_left V w') \<longrightarrow> held r (v_snr V w) (v_left V w)"
    using between_same(1) [OF assms, of r] between_same(5) [OF assms] by (auto simp: held_def later_def)
  ultimately show "debt r V w' \<le> debt r V w" by (simp add: debt_def weight_mono between_same [OF assms])
qed

lemma cycles_on_course:
  assumes laws: "answering r ns name nss D V" and "cycles r ns name V w0 k w"
    and "courseAt r nss D V (v_snr V w0) w0"
  shows "courseAt r nss D V (v_snr V w) w \<and> getRuntimeStrategy r (v_snr V w) = getRuntimeStrategy r (v_snr V w0)
     \<and> debt r V w \<le> debt r V w0 - k"
  using assms(2)
proof (induction rule: cycles.induct)
  case start
  then show ?case using assms(3) by simp
next
  case (due k w s out s')
  then have c: "courseAt r nss D V (v_snr V (rs_world s)) (rs_world s)" by (blast intro: courseAt_between)
  show ?case
    using wp_run [OF wp_reconcile [OF laws c between_same(4) [OF due(2)] due(3)] due(5)] due(4,6)
      debt_between [OF due(2), of r] between_same(1) [OF due(2), of r] by fastforce
next
  case (early k w s out s')
  then have c: "courseAt r nss D V (v_snr V (rs_world s)) (rs_world s)" by (blast intro: courseAt_between)
  show ?case
    using wp_run [OF wp_reconcile [OF laws c between_same(4) [OF early(2)] early(3)] early(5)] early(4,6)
      debt_between [OF early(2), of r] between_same(1) [OF early(2), of r] by fastforce
qed

text \<open>Once nothing is owed any more, the remediation is complete.\<close>

lemma cycles_complete:
  assumes laws: "answering r ns name nss D V" and run: "cycles r ns name V w0 k w"
    and course: "courseAt r nss D V (v_snr V w0) w0" and new: "st_LastError (snr_Status (v_snr V w0)) = ''''"
    and k: "(if getRuntimeStrategy r (v_snr V w0) = OutOfServiceTaintRemediationStrategy then 6 else 5) \<le> k"
  shows "getPhase (v_snr V w) = fencingCompletedPhase"
proof -
  note c = cycles_on_course [OF laws run course]
  have "stage (v_snr V w0) (v_node V w0) \<le> 5" by (cases "getPhase (v_snr V w0)") (simp_all add: stage_def)
  then have "debt r V w0 \<le> (if getRuntimeStrategy r (v_snr V w0) = OutOfServiceTaintRemediationStrategy then 6 else 5)"
    using new by (auto simp: debt_def weight_def held_def)
  then have "debt r V w = 0" using c k by linarith
  then have "stage (v_snr V w) (v_node V w) = 0" by (simp add: debt_def weight_def split: if_splits)
  then show ?thesis
    using c by (cases "getPhase (v_snr V w)") (auto simp: stage_def courseAt_def onCourse_def split: if_splits)
qed

text \<open>
  C3: a remediation is carried out, with either strategy. Take an API server that answers, without other
  writers of the remediation, and a new remediation of a node that can reboot itself. After five
  reconciles of the manager that do not come too early (six with the out-of-service taint) the phase is
  Fencing-Completed; with the deletion of resources, the deletion of the node's pods was then accepted in
  every namespace. A deletion of the remediation on the way, once it has its finalizer, does not matter.
  At every moment the time to wait for is at most the longest answer of the calculator away. Every
  reconcile ends without an error, unless the resources of a node with the out-of-service taint are still
  there 300 seconds after the assumed reboot; such errors do not keep it from its end.
\<close>

theorem remediation_completes:
  assumes laws: "answering r ns name nss D V" and wanted: "wanted r (v_snr V w0) (v_node V w0)" "v_stored V w0"
    and new: "st_Phase (snr_Status (v_snr V w0)) = None" "st_TimeAssumedRebooted (snr_Status (v_snr V w0)) = None"
      "st_LastError (snr_Status (v_snr V w0)) = ''''"
    and run: "cycles r ns name V w0 k w"
  shows "((if getRuntimeStrategy r (v_snr V w0) = OutOfServiceTaintRemediationStrategy then 6 else 5) \<le> k \<longrightarrow>
        st_Phase (snr_Status (v_snr V w)) = Some ''Fencing-Completed''
      \<and> (getRuntimeStrategy r (v_snr V w0) = ResourceDeletionRemediationStrategy \<longrightarrow>
           (\<forall>n \<in> set nss. (n, om_Name (n_Meta (v_node V w))) \<in> v_gone V w)))
     \<and> (\<forall>t. st_TimeAssumedRebooted (snr_Status (v_snr V w)) = Some t \<longrightarrow> t \<le> v_now V w + D)
     \<and> (\<forall>s. between V w (rs_world s) \<and> \<not> recovering (v_snr V (rs_world s)) \<longrightarrow>
         (\<exists>res e s'. run_state (ReconcileManager r ns name) s = (Ret (res, e), s')
         \<and> (e \<noteq> None \<longrightarrow> getRuntimeStrategy r (v_snr V w0) = OutOfServiceTaintRemediationStrategy \<and> v_left V (rs_world s)
              \<and> (\<exists>t. st_TimeAssumedRebooted (snr_Status (v_snr V w)) = Some t \<and> t + 300 * Second \<le> v_now V (rs_world s')))))"
proof (intro conjI impI allI)
  have course: "courseAt r nss D V (v_snr V w0) w0"
    using wanted new by (simp add: courseAt_def onCourse_def getPhase_def)
  note c = cycles_on_course [OF laws run course]
  { assume "(if getRuntimeStrategy r (v_snr V w0) = OutOfServiceTaintRemediationStrategy then 6 else 5) \<le> k"
    then have p: "getPhase (v_snr V w) = fencingCompletedPhase"
      by (rule cycles_complete [OF laws run course new(3)])
    then show "st_Phase (snr_Status (v_snr V w)) = Some ''Fencing-Completed''"
      using getPhase_cases(4) [of "v_snr V w"] by (simp add: viewOf_def)
    show "\<forall>n \<in> set nss. (n, om_Name (n_Meta (v_node V w))) \<in> v_gone V w"
      if "getRuntimeStrategy r (v_snr V w0) = ResourceDeletionRemediationStrategy"
      using c p that by (simp add: courseAt_def onCourse_def) }
  show "t \<le> v_now V w + D" if "st_TimeAssumedRebooted (snr_Status (v_snr V w)) = Some t" for t
    using c that by (simp add: courseAt_def onCourse_def)
  show "\<exists>res e s'. run_state (ReconcileManager r ns name) s = (Ret (res, e), s')
      \<and> (e \<noteq> None \<longrightarrow> getRuntimeStrategy r (v_snr V w0) = OutOfServiceTaintRemediationStrategy \<and> v_left V (rs_world s)
         \<and> (\<exists>t. st_TimeAssumedRebooted (snr_Status (v_snr V w)) = Some t \<and> t + 300 * Second \<le> v_now V (rs_world s')))"
    if s: "between V w (rs_world s) \<and> \<not> recovering (v_snr V (rs_world s))" for s
  proof -
    obtain out s' where o': "run_state (ReconcileManager r ns name) s = (out, s')" by fastforce
    note b = conjunct1 [OF s]
    have "courseAt r nss D V (v_snr V (rs_world s)) (rs_world s)" using c b by (blast intro: courseAt_between)
    from wp_run [OF wp_reconcile [OF laws this between_same(4) [OF b] conjunct2 [OF s]] o'] c o' show ?thesis
      by (auto simp: late_def held_def between_same [OF b])
  qed
qed

text \<open>New remediations with both strategies, of a node to which a volume is still attached.\<close>

definition newWorld :: "string \<Rightarrow> cluster \<times> bool" where
  "newWorld strategy = ((exampleWorld ((exampleSnr strategy None None)
     \<lparr>snr_Meta := emptyMeta\<lparr>om_Name := ''worker-1'', om_Namespace := ''op''\<rparr>\<rparr>) worker1 0)
     \<lparr>k_vas := [\<lparr>va_Name = ''va'', va_NodeName = ''worker-1''\<rparr>]\<rparr>, True)"

abbreviation knownStrategies :: "string set" where
  "knownStrategies \<equiv> {ResourceDeletionRemediationStrategy, OutOfServiceTaintRemediationStrategy}"

lemma newWorld_sel:
  "v_snr storeView (newWorld strategy) = (exampleSnr strategy None None)
      \<lparr>snr_Meta := emptyMeta\<lparr>om_Name := ''worker-1'', om_Namespace := ''op''\<rparr>\<rparr>"
  "v_node storeView (newWorld strategy) = worker1" "v_stored storeView (newWorld strategy)"
  by (simp_all add: storeView_def newWorld_def exampleWorld_def)

lemma newWorld_strategy:
  "strategy \<in> knownStrategies \<Longrightarrow> getRuntimeStrategy storeReconciler (v_snr storeView (newWorld strategy)) = strategy"
  by (auto simp: newWorld_sel getRuntimeStrategy_def example_run_defs)

lemma newWorld_wanted:
  "strategy \<in> knownStrategies \<Longrightarrow> wanted storeReconciler (v_snr storeView (newWorld strategy)) (v_node storeView (newWorld strategy))"
  using newWorld_strategy [of strategy]
  by (simp add: wanted_def newWorld_sel isStoppedByNHC_def isOwnedByNHC_def isOwnedByMachine_def getNodeNameDirect_def
      exampleSnr_def emptyMeta_def worker1_def map_val_def map_get_def)

lemma newWorld_status:
  "st_Phase (snr_Status (v_snr storeView (newWorld strategy))) = None"
  "st_TimeAssumedRebooted (snr_Status (v_snr storeView (newWorld strategy))) = None"
  "st_LastError (snr_Status (v_snr storeView (newWorld strategy))) = ''''"
  by (simp_all add: newWorld_sel exampleSnr_def emptyStatus_def)

lemma newWorld_course:
  assumes "strategy \<in> knownStrategies"
  shows "courseAt storeReconciler [''default''] (180 * Second) storeView (v_snr storeView (newWorld strategy)) (newWorld strategy)"
  using newWorld_wanted [OF assms]
  by (simp add: courseAt_def onCourse_def getPhase_def newWorld_status newWorld_sel(3))

lemma cycles_exist:
  assumes "strategy \<in> knownStrategies"
  shows "\<exists>w. cycles storeReconciler ''op'' ''worker-1'' storeView (newWorld strategy) k w
     \<and> om_DeletionTimestamp (snr_Meta (v_snr storeView w)) = None"
proof (induction k)
  case 0
  show ?case by (rule exI, rule conjI, rule cycles.start) (simp add: newWorld_sel emptyMeta_def)
next
  case (Suc k)
  then obtain w where w: "cycles storeReconciler ''op'' ''worker-1'' storeView (newWorld strategy) k w"
    and d: "om_DeletionTimestamp (snr_Meta (v_snr storeView w)) = None" by blast
  let ?k = "fst w"
  let ?t = "case st_TimeAssumedRebooted (snr_Status (k_snr ?k)) of None \<Rightarrow> 0 | Some t \<Rightarrow> t"
  let ?w = "(?k\<lparr>k_node := (k_node ?k)\<lparr>n_Taints := n_Taints (k_node ?k) @ [NodeUnschedulableTaint]\<rparr>,
    k_now := max (k_now ?k) ?t, k_vas := []\<rparr>, snd w)"
  let ?s = "\<lparr>rs_world = ?w, rs_snr = k_snr ?k, rs_node = worker1, rs_trace = []\<rparr>"
  have b: "between storeView w (rs_world ?s)"
    by (simp add: between_def storeView_def cordoning_def tainted_def later_def MatchTaint_def)
  have e: "\<not> waiting storeReconciler storeView (rs_world ?s)"
    by (simp add: waiting_def waits_def held_def storeView_def split: option.split)
  have g: "\<not> recovering (v_snr storeView (rs_world ?s))" using d by (simp add: recovering_def storeView_def)
  have "courseAt storeReconciler [''default''] (180 * Second) storeView (v_snr storeView (rs_world ?s)) (rs_world ?s)"
    using cycles_on_course [OF answering_example w newWorld_course [OF assms]] b by (blast intro: courseAt_between)
  note step = wp_reconcile [OF answering_example this between_same(4) [OF b] g]
  obtain out s' where run: "run_state (ReconcileManager storeReconciler ''op'' ''worker-1'') ?s = (out, s')" by fastforce
  have "om_DeletionTimestamp (snr_Meta (v_snr storeView (rs_world ?s))) = None" using d by (simp add: storeView_def)
  then have "om_DeletionTimestamp (snr_Meta (v_snr storeView (rs_world s'))) = None"
    using wp_run [OF step run] by argo
  with cycles.due [OF w b g e run] show ?case by blast
qed

theorem remediation_completes_witness:
  "(\<exists>w. cycles storeReconciler ''op'' ''worker-1'' storeView (newWorld ResourceDeletionRemediationStrategy) 5 w
     \<and> st_Phase (snr_Status (v_snr storeView w)) = Some ''Fencing-Completed''
     \<and> (''default'', om_Name (n_Meta (v_node storeView w))) \<in> v_gone storeView w)
   \<and> (\<exists>w. cycles storeReconciler ''op'' ''worker-1'' storeView (newWorld OutOfServiceTaintRemediationStrategy) 6 w
     \<and> st_Phase (snr_Status (v_snr storeView w)) = Some ''Fencing-Completed'')"
proof -
  obtain v where v: "cycles storeReconciler ''op'' ''worker-1'' storeView (newWorld ResourceDeletionRemediationStrategy) 5 v"
    using cycles_exist by blast
  obtain u where u: "cycles storeReconciler ''op'' ''worker-1'' storeView (newWorld OutOfServiceTaintRemediationStrategy) 6 u"
    using cycles_exist by blast
  have "ResourceDeletionRemediationStrategy \<noteq> OutOfServiceTaintRemediationStrategy"
    by (simp add: ResourceDeletionRemediationStrategy_def OutOfServiceTaintRemediationStrategy_def)
  then show ?thesis
    using remediation_completes [OF answering_example newWorld_wanted newWorld_sel(3) newWorld_status v] v
      remediation_completes [OF answering_example newWorld_wanted newWorld_sel(3) newWorld_status u] u newWorld_strategy
    by (intro conjI exI [of _ v] exI [of _ u]) simp_all
qed

end
