(* ===== verification/Recovery.thy ===== *)
theory Recovery
  imports Progress Snr_Handlers
begin

text \<open>
  That a node is given back: once a complete remediation is being deleted, two reconciles of the manager,
  with the cluster's own cleanup between them, make the node schedulable again, take the taint off it
  and let go of the remediation, which the API server then removes.
\<close>

section \<open>How far the recovery is\<close>

text \<open>
  A complete remediation that is being deleted, of this node, with a strategy the manager knows. The API
  server keeps it because it has finalizers, all of them among \<^term>\<open>fs\<close>.
\<close>

definition leaving :: "'w reconciler \<Rightarrow> string set \<Rightarrow> SelfNodeRemediation \<Rightarrow> Node \<Rightarrow> bool" where
  "leaving r fs snr node \<longleftrightarrow>
     om_DeletionTimestamp (snr_Meta snr) \<noteq> None \<and> getPhase snr = fencingCompletedPhase
   \<and> getRuntimeStrategy r snr \<in> knownStrategies
   \<and> (isOwnedByNHC snr \<noteq> None \<or> isOwnedByMachine snr = None) \<and> getNodeNameDirect snr = om_Name (n_Meta node)
   \<and> map_val (om_Labels (n_Meta node)) excludeRemediationLabel \<noteq> ''true''
   \<and> om_Finalizers (snr_Meta snr) \<noteq> [] \<and> set (om_Finalizers (snr_Meta snr)) \<subseteq> fs"

text \<open>The cluster has not yet removed its own taint from a node that is schedulable again.\<close>

definition lagging :: "Node \<Rightarrow> bool" where
  "lagging node \<longleftrightarrow> \<not> n_Unschedulable node \<and> TaintExists (n_Taints node) NodeUnschedulableTaint"

definition released :: "Node \<Rightarrow> bool" where
  "released node \<longleftrightarrow> \<not> n_Unschedulable node \<and> \<not> TaintExists (n_Taints node) NodeUnschedulableTaint
     \<and> \<not> TaintExists (n_Taints node) NodeNoExecuteTaint"

text \<open>
  The stage after \<^term>\<open>k\<close> reconciles: nothing yet, the node is schedulable, the node is given back.
  A remediation that is no longer stored has given its node back.
\<close>

definition recovery :: "'w reconciler \<Rightarrow> string set \<Rightarrow> 'w view \<Rightarrow> nat \<Rightarrow> 'w \<Rightarrow> bool" where
  "recovery r fs V k w \<longleftrightarrow>
     (v_stored V w \<longrightarrow> leaving r fs (v_snr V w) (v_node V w))
   \<and> (0 < k \<longrightarrow> \<not> n_Unschedulable (v_node V w))
   \<and> (1 < k \<or> \<not> v_stored V w \<longrightarrow> released (v_node V w))
   \<and> (1 < k \<and> v_stored V w \<longrightarrow> \<not> ContainsFinalizer (snr_Meta (v_snr V w)) SNRFinalizer)"

text \<open>The copies in memory are those of the world.\<close>

definition copied :: "'w view \<Rightarrow> 'w rs \<Rightarrow> bool" where
  "copied V s \<longleftrightarrow> rs_snr s = v_snr V (rs_world s) \<and> rs_node s = v_node V (rs_world s)"

section \<open>The steps of a recovery\<close>

lemma leaving_node: "n_Meta node' = n_Meta node \<Longrightarrow> leaving r fs snr node' = leaving r fs snr node"
  by (simp add: leaving_def)

lemma leaving_released:
  fixes snr
  defines "x \<equiv> snr\<lparr>snr_Meta := RemoveFinalizer (snr_Meta snr) SNRFinalizer\<rparr>"
  assumes "leaving r fs snr node" and "om_Finalizers (snr_Meta x) \<noteq> []"
  shows "leaving r fs x node"
  using assms
  by (auto simp: leaving_def getPhase_def getRuntimeStrategy_def isOwnedByNHC_def isOwnedByMachine_def
      getNodeNameDirect_def RemoveFinalizer_def split: option.splits)

text \<open>What a step leaves to the rest of the reconcile.\<close>

definition ongoing :: "'w reconciler \<Rightarrow> string set \<Rightarrow> 'w view \<Rightarrow> nat \<Rightarrow> 'w rs \<Rightarrow> bool" where
  "ongoing r fs V k s \<longleftrightarrow> keyOf (rs_snr s) = keyOf (v_snr V (rs_world s))
     \<and> (v_stored V (rs_world s) \<longrightarrow> rs_snr s = v_snr V (rs_world s)) \<and> recovery r fs V k (rs_world s)"

lemma wp_uncordon:
  assumes laws: "answering r ns name nss D V" and s: "copied V s"
  shows "wp (do { setNode ((rs_node s)\<lparr>n_Unschedulable := False\<rparr>); clientUpdateNode r })
     (\<lambda>e s'. e = None \<and> copied V s' \<and> v_stored V (rs_world s') = v_stored V (rs_world s) \<and> v_snr V (rs_world s') = v_snr V (rs_world s)
        \<and> v_node V (rs_world s') = (rs_node s)\<lparr>n_Unschedulable := False\<rparr>) s"
proof -
  let ?n = "(rs_node s)\<lparr>n_Unschedulable := False\<rparr>"
  obtain x w where run: "run_state (cl_UpdateNode (r_Client r) ?n) (rs_world s) = (x, w)" by fastforce
  from wp_run [OF stores(1) [OF laws] this] run s show ?thesis
    by (simp add: clientUpdateNode_def setNode_def onWorld_def emit_def copied_def wp_def later_def)
qed

lemma wp_untaint:
  assumes laws: "answering r ns name nss D V" and s: "copied V s"
  shows "wp (removeNoExecuteTaint r)
     (\<lambda>e s'. e = None \<and> copied V s' \<and> v_stored V (rs_world s') = v_stored V (rs_world s) \<and> v_snr V (rs_world s') = v_snr V (rs_world s)
        \<and> n_Meta (v_node V (rs_world s')) = n_Meta (rs_node s)
        \<and> n_Unschedulable (v_node V (rs_world s')) = n_Unschedulable (rs_node s)
        \<and> TaintExists (n_Taints (v_node V (rs_world s'))) NodeUnschedulableTaint
            = TaintExists (n_Taints (rs_node s)) NodeUnschedulableTaint
        \<and> \<not> TaintExists (n_Taints (v_node V (rs_world s'))) NodeNoExecuteTaint) s"
proof (cases "TaintExists (n_Taints (rs_node s)) NodeNoExecuteTaint")
  case True
  let ?n = "(rs_node s)\<lparr>n_Taints := filter (\<lambda>u. \<not> MatchTaint NodeNoExecuteTaint u) (n_Taints (rs_node s))\<rparr>"
  have n: "rs_node s = v_node V (rs_world s)" using s by (simp add: copied_def)
  obtain x w where run: "run_state (cl_PatchNode (r_Client r) (rs_node s) ?n) (rs_world s) = (x, w)" by fastforce
  have "\<not> MatchTaint NodeNoExecuteTaint NodeUnschedulableTaint"
    by (simp add: MatchTaint_def NodeNoExecuteTaint_def NodeUnschedulableTaint_def)
  note other = TaintExists_filter_other [OF this]
  have "x = Inr ?n \<and> v_stored V w = v_stored V (rs_world s) \<and> v_snr V w = v_snr V (rs_world s) \<and> v_node V w = ?n"
    using wp_run [OF stores(2) [OF laws, of "rs_world s" ?n, folded n] run] by (auto simp: later_def)
  then show ?thesis
    using True run s
    by (simp add: removeNoExecuteTaint_def removeTaint_def DeleteTaint_eq clientPatchNode_def setNode_def onWorld_def
        emit_def event_defs copied_def wp_def other)
qed (use s in \<open>simp add: removeNoExecuteTaint_def removeTaint_def copied_def\<close>)

lemma wp_letGo:
  assumes laws: "answering r ns name nss D V" and s: "copied V s" "v_stored V (rs_world s)"
    and l: "leaving r fs (rs_snr s) (rs_node s)"
  shows "wp (removeFinalizer r)
     (\<lambda>e s'. e = None \<and> copied V s' \<and> v_node V (rs_world s') = rs_node s
        \<and> \<not> ContainsFinalizer (snr_Meta (v_snr V (rs_world s'))) SNRFinalizer
        \<and> (v_stored V (rs_world s') \<longrightarrow> leaving r fs (v_snr V (rs_world s')) (rs_node s))) s"
proof -
  let ?x = "(rs_snr s)\<lparr>snr_Meta := RemoveFinalizer (snr_Meta (rs_snr s)) SNRFinalizer\<rparr>"
  have k: "keyOf ?x = keyOf (v_snr V (rs_world s))"
    using s(1) by (simp add: copied_def keyOf_def RemoveFinalizer_def)
  obtain res w where run: "run_state (cl_UpdateSnr (r_Client r) ?x) (rs_world s) = (res, w)" by fastforce
  have w: "res = Inr (v_snr V w)" "v_snr V w = ?x\<lparr>snr_Status := snr_Status (v_snr V (rs_world s))\<rparr>"
      "v_node V w = v_node V (rs_world s)"
      "v_stored V w = (om_DeletionTimestamp (snr_Meta (v_snr V (rs_world s))) = None \<or> om_Finalizers (snr_Meta ?x) \<noteq> [])"
    using wp_run [OF stores(3) [OF laws k s(2)] run] s(2) by (auto simp: later_def split: if_splits)
  have x: "v_snr V w = ?x" using w(2) s(1) by (simp add: copied_def)
  have e: "om_Finalizers (snr_Meta ?x) \<noteq> []" if "v_stored V w"
    using that w(4) l s(1) by (auto simp: leaving_def copied_def)
  have "leaving r fs ?x (rs_node s)" if "v_stored V w" by (rule leaving_released [OF l e [OF that]])
  then show ?thesis
    using run w(1,3) x s(1)
    by (simp add: removeFinalizer_def clientUpdateSnr_def setSnr_def onWorld_def emit_def copied_def wp_def)
qed

text \<open>The end of the recovery: it waits for the cluster's taint to go, or gives the node back.\<close>

lemma wp_recoverTail:
  assumes laws: "answering r ns name nss D V" and s: "copied V s" "v_stored V (rs_world s)"
    and l: "leaving r fs (rs_snr s) (rs_node s)" "\<not> n_Unschedulable (rs_node s)"
    and k: "TaintExists (n_Taints (rs_node s)) NodeUnschedulableTaint \<Longrightarrow> k \<le> 1"
  shows "wp (recoverNodeTail r) (\<lambda>out s'. snd out = None \<and> ongoing r fs V k s') s"
proof (cases "TaintExists (n_Taints (rs_node s)) NodeUnschedulableTaint")
  case True
  then have "ongoing r fs V k s"
    using s l k [OF True] by (auto simp: ongoing_def recovery_def copied_def leaving_def)
  with True show ?thesis by (simp add: recoverNodeTail_def)
next
  case False
  have end_: "ongoing r fs V k s'"
    if "copied V s'" "released (v_node V (rs_world s'))"
      "\<not> ContainsFinalizer (snr_Meta (v_snr V (rs_world s'))) SNRFinalizer"
      "v_stored V (rs_world s') \<longrightarrow> leaving r fs (v_snr V (rs_world s')) (v_node V (rs_world s'))" for s'
    using that by (simp add: ongoing_def recovery_def copied_def released_def)
  show ?thesis
    unfolding recoverNodeTail_def
  proof (intro wp_getsI wp_ifI, goal_cases)
    case 2
    show ?case
    proof (rule wp_seq [OF wp_untaint [OF laws s(1)]], goal_cases)
      case (1 e s1)
      then have s1: "copied V s1" "v_stored V (rs_world s1)" "leaving r fs (rs_snr s1) (rs_node s1)" "e = None"
          "\<not> n_Unschedulable (rs_node s1)" "\<not> TaintExists (n_Taints (rs_node s1)) NodeNoExecuteTaint"
          "\<not> TaintExists (n_Taints (rs_node s1)) NodeUnschedulableTaint"
        using False s l leaving_node [of "rs_node s1" "rs_node s" r fs "rs_snr s"] by (auto simp: copied_def)
      show ?case
        unfolding s1(4) option.case
      proof (intro wp_getsI wp_ifI, goal_cases)
        case 1
        show ?case
          by (rule wp_seq [OF wp_letGo [OF laws s1(1,2,3)]])
            (use s1(5,6,7) end_ in \<open>auto simp: event_defs emit_def released_def copied_def\<close>)
      next
        case 2
        then show ?case using s1 end_ [OF s1(1)] by (auto simp: released_def copied_def leaving_def)
      qed
    qed
  qed (use False in simp)
qed

lemma wp_recoverNode:
  assumes laws: "answering r ns name nss D V" and s: "copied V s" "v_stored V (rs_world s)" and l: "leaving r fs (rs_snr s) (rs_node s)"
    and k: "TaintExists (n_Taints (rs_node s)) NodeUnschedulableTaint \<Longrightarrow> k \<le> 1"
  shows "wp (recoverNode r) (\<lambda>out s'. snd out = None \<and> ongoing r fs V k s') s"
proof (cases "n_Unschedulable (rs_node s)")
  case False
  then show ?thesis using wp_recoverTail [OF laws s l _ k] by (simp add: recoverNode_def)
next
  case True
  let ?rest = "\<lambda>err. case err of
         Some e \<Rightarrow> if IsConflict e then returnM (requeueAfter Second, None) else returnM (emptyResult, Some e)
       | None \<Rightarrow> do {
           NormalEvent OnNode ''MarkNodeSchedulable'' ''Remediation process - mark healthy remediated node as schedulable'';
           recoverNodeTail r
         }"
  have "wp (do { err \<leftarrow> do { setNode ((rs_node s)\<lparr>n_Unschedulable := False\<rparr>); clientUpdateNode r }; ?rest err })
      (\<lambda>out s'. snd out = None \<and> ongoing r fs V k s') s"
  proof (rule wp_seq [OF wp_uncordon [OF laws s(1)]], goal_cases)
    case (1 e s1)
    have "wp (recoverNodeTail r) (\<lambda>out s'. snd out = None \<and> ongoing r fs V k s') (s1\<lparr>rs_trace := t\<rparr>)" for t
      by (rule wp_recoverTail [OF laws])
        (use 1 s l k leaving_node [of "(rs_node s)\<lparr>n_Unschedulable := False\<rparr>" "rs_node s"] in \<open>auto simp: copied_def\<close>)
    with 1 show ?case by (simp add: event_defs emit_def)
  qed
  with True show ?thesis by (simp add: recoverNode_def)
qed

text \<open>A remediation that is stored is looked up, handled and, unless it has gone, stored again.\<close>

lemma wp_handled:
  assumes laws: "answering r ns name nss D V" and s: "copied V s" "v_stored V (rs_world s)" and l: "leaving r fs (rs_snr s) (rs_node s)"
    and k: "TaintExists (n_Taints (rs_node s)) NodeUnschedulableTaint \<Longrightarrow> k \<le> 1"
  shows "wp (remediate r) (\<lambda>out s'. (\<exists>res. out = Ret (res, None)) \<and> ongoing r fs V k s') s"
proof -
  have "wp (remediateWithResourceRemoval r rm) (\<lambda>out s'. (\<exists>res. out = Ret (res, None)) \<and> ongoing r fs V k s') s" for rm
    using l wp_recoverNode [OF laws s l k]
    by (auto simp: remediateWithResourceRemoval_def handleFencingCompletedPhase_def leaving_def elim!: wp_mono)
  then show ?thesis
    using l
    by (auto simp: remediate_def leaving_def remediateWithResourceDeletion_def remediateWithOutOfServiceTaint_def)
qed

text \<open>The end of a reconcile: it fails only when the remediation has gone.\<close>

definition handedOver :: "'w reconciler \<Rightarrow> string set \<Rightarrow> 'w view \<Rightarrow> nat \<Rightarrow> reconcileResult \<Rightarrow> 'w rs \<Rightarrow> bool" where
  "handedOver r fs V k out s \<longleftrightarrow> ongoing r fs V k s
     \<and> (\<exists>res e. out = Ret (res, e) \<and> (v_stored V (rs_world s) \<longrightarrow> e = None))"

lemma recovery_withLastError:
  "recovery r fs V k w \<Longrightarrow> v_node V w' = v_node V w \<Longrightarrow> v_stored V w' = v_stored V w \<Longrightarrow>
   v_snr V w' = withLastError l (v_snr V w) \<or> \<not> v_stored V w \<Longrightarrow> recovery r fs V k w'"
  by (auto simp: recovery_def leaving_def withLastError_def getPhase_def status_kept)

text \<open>An earlier error is cleared.\<close>

lemma wp_clearError:
  assumes laws: "answering r ns name nss D V" and s: "ongoing r fs V k s"
  shows "wp (do { e \<leftarrow> updateSnrStatusLastError r None; returnM (Ret (res, e)) }) (handedOver r fs V k) s"
proof (cases "st_LastError (snr_Status (rs_snr s)) = []")
  case True
  then show ?thesis using s by (simp add: updateSnrStatusLastError_def Let_def handedOver_def)
next
  case False
  have k: "keyOf (rs_snr s) = keyOf (v_snr V (rs_world s))" using s by (simp add: ongoing_def)
  obtain x w where run: "run_state (cl_StatusPatchSnr (r_Client r) (rs_snr s) (withLastError [] (rs_snr s))) (rs_world s) = (x, w)"
    by fastforce
  note w = wp_run [OF stores(5) [OF laws k False] run]
  have "recovery r fs V k w"
    by (rule recovery_withLastError [of r fs V k "rs_world s" _ "[]"])
      (use s w in \<open>auto simp: ongoing_def later_def\<close>)
  then show ?thesis
    using s w False run k
    by (auto simp: updateSnrStatusLastError_def Let_def modifyStatus_def clientStatusPatchSnr_def onWorld_def emit_def
        setSnr_def withLastError_def handedOver_def ongoing_def later_def wp_def keyOf_def split: if_splits)
qed

lemma wp_reconcileLeaving:
  assumes laws: "answering r ns name nss D V" and s: "v_stored V (rs_world s)" "rs_snr s = v_snr V (rs_world s)"
    and l: "leaving r fs (rs_snr s) (v_node V (rs_world s))"
    and k: "TaintExists (n_Taints (v_node V (rs_world s))) NodeUnschedulableTaint \<Longrightarrow> k \<le> 1"
  shows "wp (reconcileNode r) (handedOver r fs V k) s"
proof -
  let ?node = "v_node V (rs_world s)"
  have name: "run_state (getNodeName (r_Client r) (rs_snr s)) (rs_world s) = (Inr (om_Name (n_Meta ?node)), rs_world s)"
    using l getNodeName_direct [of "rs_snr s"] by (simp add: leaving_def)
  have name: "wp (onWorld (getNodeName (r_Client r) (rs_snr s))) (\<lambda>x s'. x = Inr (om_Name (n_Meta ?node)) \<and> s' = s) s"
    by (simp add: onWorld_def wp_zoom wp_def name)
  have node: "wp (getNodeFromSnr r) (\<lambda>x s'. x = Inr ?node \<and> rs_snr s' = rs_snr s \<and> same V (rs_world s) (rs_world s')
      \<and> v_stored V (rs_world s')) s"
    unfolding getNodeFromSnr_def
    by (rule wp_getsI, rule wp_seq [OF name]) (use s in \<open>auto intro!: wp_reads [OF answers(4) [OF laws]] simp: same_def later_def\<close>)
  have rest: "wp (remediateNode r ?node) (handedOver r fs V k) s1"
    if "rs_snr s1 = rs_snr s" "same V (rs_world s) (rs_world s1)" "v_stored V (rs_world s1)" for s1
  proof -
    have c: "copied V (s1\<lparr>rs_node := ?node, rs_trace := t\<rparr>)" "v_stored V (rs_world (s1\<lparr>rs_node := ?node, rs_trace := t\<rparr>))"
        "leaving r fs (rs_snr (s1\<lparr>rs_node := ?node, rs_trace := t\<rparr>)) (rs_node (s1\<lparr>rs_node := ?node, rs_trace := t\<rparr>))" for t
      using that s l by (simp_all add: copied_def same_def)
    have fin: "wp (do {
         outcome \<leftarrow> remediate r;
         case outcome of
           Ret (result, err) \<Rightarrow> do { e \<leftarrow> updateSnrStatusLastError r err; returnM (Ret (result, e)) }
         | Panic \<Rightarrow> returnM Panic
       }) (handedOver r fs V k) (s1\<lparr>rs_node := ?node, rs_trace := t\<rparr>)" for t
      by (rule wp_seq [OF wp_handled [OF laws c]]) (use k wp_clearError [OF laws] in auto)
    from fin [of "rs_trace s1"] fin l show ?thesis
      by (simp add: remediateNode_def setNode_def event_defs emit_def leaving_def)
  qed
  show ?thesis
    unfolding reconcileNode_def by (rule wp_seq [OF node]) (auto intro: rest)
qed

lemma wp_recovery_body:
  assumes laws: "answering r ns name nss D V" and s: "v_stored V (rs_world s)" "rs_snr s = v_snr V (rs_world s)"
    and l: "leaving r fs (rs_snr s) (v_node V (rs_world s))"
    and k: "TaintExists (n_Taints (v_node V (rs_world s))) NodeUnschedulableTaint \<Longrightarrow> k \<le> 1"
  shows "wp (reconcileManagerBody r) (handedOver r fs V k) s"
proof -
  obtain depl where "GetDeploymentNamespace (r_Env r) = Inr depl" using laws by (auto simp: answering_def answeringReads_def Let_def)
  then have config: "wp (isConfigurationExist r) (\<lambda>x s'. x = Inr True \<and> v_stored V (rs_world s') \<and> rs_snr s' = rs_snr s
      \<and> same V (rs_world s) (rs_world s')) s"
    unfolding isConfigurationExist_def
    by (simp, intro wp_reads [OF answers(3) [OF laws]]) (use s in \<open>auto simp: same_def later_def\<close>)
  have "wp (reconcileEnabled r) (handedOver r fs V k) s1"
    if "v_stored V (rs_world s1)" "rs_snr s1 = rs_snr s" "same V (rs_world s) (rs_world s1)" for s1
  proof -
    have "\<not> isStoppedByNHC (rs_snr s1)" "getPhase (rs_snr s1) = fencingCompletedPhase"
      using l that by (auto simp: leaving_def isStoppedByNHC_def)
    moreover have "wp (reconcileNode r) (handedOver r fs V k) s1"
      by (rule wp_reconcileLeaving [OF laws]) (use that s l k in \<open>simp_all add: same_def\<close>)
    ultimately show ?thesis by (simp add: reconcileEnabled_def)
  qed
  then show ?thesis
    unfolding reconcileManagerBody_def by (intro wp_seq [OF config]) auto
qed

text \<open>
  A whole reconcile of a stored remediation: an error can only come from the status update, and only
  when the API server has removed the remediation.
\<close>

lemma wp_recovery_stored:
  assumes laws: "answering r ns name nss D V" and e: "v_stored V (rs_world s)"
    and l: "leaving r fs (v_snr V (rs_world s)) (v_node V (rs_world s))"
    and k: "TaintExists (n_Taints (v_node V (rs_world s))) NodeUnschedulableTaint \<Longrightarrow> k \<le> 1"
  shows "wp (ReconcileManager r ns name) (\<lambda>out s'. recovery r fs V k (rs_world s')
     \<and> (\<exists>res err. out = Ret (res, err) \<and> (v_stored V (rs_world s') \<longrightarrow> err = None))) s" (is "wp _ ?P s")
proof -
  have get: "wp (onWorld (cl_GetSnr (r_Client r) ns name)) (\<lambda>x s'. x = Inr (v_snr V (rs_world s'))
      \<and> v_stored V (rs_world s') \<and> same V (rs_world s) (rs_world s')) s"
    by (rule wp_reads [OF answers(2) [OF laws]]) (use e in \<open>auto simp: same_def later_def\<close>)
  have status: "wp (deferredStatusUpdate r out) ?P s'" if o': "handedOver r fs V k out s'" for out s'
  proof -
    let ?x = "rs_snr s'"
    have s': "ongoing r fs V k s'" using o' by (simp add: handedOver_def)
    have key: "keyOf ?x = keyOf (v_snr V (rs_world s'))" using s' by (simp add: ongoing_def)
    have x: "v_stored V (rs_world s') \<longrightarrow> ?x = v_snr V (rs_world s')" using s' by (simp add: ongoing_def)
    obtain y w where run: "run_state (cl_StatusUpdateSnr (r_Client r) ?x) (rs_world s') = (y, w)" by fastforce
    have w: "v_node V w = v_node V (rs_world s') \<and> v_stored V w = v_stored V (rs_world s')
        \<and> (if v_stored V (rs_world s') then y = Inr (v_snr V w) \<and> v_snr V w = ?x else (\<exists>e. y = Inl e))"
      using wp_run [OF stores(4) [OF laws key] run] x by (auto simp: later_def)
    have "recovery r fs V k w"
      using s' w x by (auto simp: ongoing_def recovery_def split: if_splits)
    then show ?thesis
      using o' run w by (auto simp: handedOver_def deferredStatusUpdate_def updateSnrStatus_def onWorld_def setSnr_def emit_def wp_def Let_def
          split: if_splits)
  qed
  show ?thesis
    unfolding ReconcileManager_def
  proof (rule wp_seq [OF get], elim conjE, goal_cases)
    case (1 x s1)
    have body: "wp (reconcileManagerBody r) (handedOver r fs V k)
        (s1\<lparr>rs_snr := v_snr V (rs_world s1)\<rparr>)"
      by (rule wp_recovery_body [OF laws]) (use 1 l k in \<open>simp_all add: same_def\<close>)
    show ?case
      using 1(1) by (auto simp: setSnr_def intro!: wp_mono [OF body] status)
  qed
qed

text \<open>A remediation that is gone is left alone.\<close>

lemma wp_recovery_gone:
  assumes laws: "answering r ns name nss D V" and e: "\<not> v_stored V (rs_world s)" and k: "recovery r fs V k (rs_world s)"
  shows "wp (ReconcileManager r ns name) (\<lambda>out s'. \<not> v_stored V (rs_world s') \<and> recovery r fs V k' (rs_world s') \<and> out = Ret (emptyResult, None)) s"
  unfolding ReconcileManager_def
  by (rule wp_seq [OF wp_reads [OF answers(2) [OF laws], where Q = "\<lambda>x s'. (\<exists>e. x = Inl e \<and> IsNotFound e)
      \<and> \<not> v_stored V (rs_world s') \<and> same V (rs_world s) (rs_world s')"]])
    (use e k in \<open>auto simp: recovery_def same_def later_def released_def\<close>)

section \<open>A run of reconciles\<close>

text \<open>
  Between two reconciles nobody writes the remediation, cordons the node again or adds one of the two
  taints; the cluster may remove its own.
\<close>

definition spared :: "'w view \<Rightarrow> 'w \<Rightarrow> 'w \<Rightarrow> bool" where
  "spared V w w' \<longleftrightarrow> v_stored V w' = v_stored V w \<and> v_snr V w' = v_snr V w \<and> n_Meta (v_node V w') = n_Meta (v_node V w)
     \<and> (n_Unschedulable (v_node V w') \<longrightarrow> n_Unschedulable (v_node V w))
     \<and> (\<forall>t \<in> {NodeUnschedulableTaint, NodeNoExecuteTaint}.
          TaintExists (n_Taints (v_node V w')) t \<longrightarrow> TaintExists (n_Taints (v_node V w)) t)"

text \<open>The number counts the reconciles that do not come before the cluster has removed its taint.\<close>

inductive recoveries :: "'w reconciler \<Rightarrow> string \<Rightarrow> string \<Rightarrow> 'w view \<Rightarrow> 'w \<Rightarrow> nat \<Rightarrow> 'w \<Rightarrow> bool"
  for r ns name V w0 where
  unrecovered: "recoveries r ns name V w0 0 w0"
| due: "recoveries r ns name V w0 k w \<Longrightarrow> spared V w (rs_world s) \<Longrightarrow> \<not> lagging (v_node V (rs_world s)) \<Longrightarrow>
    run_state (ReconcileManager r ns name) s = (out, s') \<Longrightarrow> recoveries r ns name V w0 (Suc k) (rs_world s')"
| early: "recoveries r ns name V w0 k w \<Longrightarrow> spared V w (rs_world s) \<Longrightarrow> lagging (v_node V (rs_world s)) \<Longrightarrow>
    run_state (ReconcileManager r ns name) s = (out, s') \<Longrightarrow> recoveries r ns name V w0 k (rs_world s')"

lemma recovery_spared:
  assumes "recovery r fs V k w" and "spared V w w'"
  shows "recovery r fs V k w'"
proof -
  have "leaving r fs (v_snr V w') (v_node V w')" if "v_stored V w'"
  proof -
    have "leaving r fs (v_snr V w) (v_node V w)" "v_snr V w' = v_snr V w" "n_Meta (v_node V w') = n_Meta (v_node V w)"
      using that assms by (simp_all add: recovery_def spared_def)
    then show ?thesis using leaving_node by metis
  qed
  moreover have "released (v_node V w')" if "1 < k \<or> \<not> v_stored V w'"
    using that assms by (auto simp: recovery_def spared_def released_def)
  ultimately show ?thesis
    using assms by (auto simp: recovery_def spared_def)
qed

text \<open>One reconcile: it takes the recovery a stage further, unless it is early.\<close>

lemma recovery_step:
  assumes laws: "answering r ns name nss D V" and rec: "recovery r fs V k (rs_world s)"
    and run: "run_state (ReconcileManager r ns name) s = (out, s')"
  shows "recovery r fs V (if lagging (v_node V (rs_world s)) then k else Suc k) (rs_world s')
     \<and> (\<exists>res err. out = Ret (res, err) \<and> (err = None \<or> v_stored V (rs_world s) \<and> \<not> v_stored V (rs_world s')))"
proof (cases "v_stored V (rs_world s)")
  case True
  then have "leaving r fs (v_snr V (rs_world s)) (v_node V (rs_world s))" using rec by (simp add: recovery_def)
  moreover have "(if lagging (v_node V (rs_world s)) then k else Suc k) \<le> 1"
    if "TaintExists (n_Taints (v_node V (rs_world s))) NodeUnschedulableTaint"
    using rec that by (cases k) (auto simp: recovery_def lagging_def released_def)
  ultimately have "recovery r fs V (if lagging (v_node V (rs_world s)) then k else Suc k) (rs_world s')
     \<and> (\<exists>res err. out = Ret (res, err) \<and> (v_stored V (rs_world s') \<longrightarrow> err = None))"
    by (intro wp_run [OF wp_recovery_stored [OF laws True] run])
  with True show ?thesis by blast
next
  case False
  from wp_run [OF wp_recovery_gone [OF laws False rec] run] show ?thesis by blast
qed

lemma recoveries_stage:
  assumes laws: "answering r ns name nss D V" and "recoveries r ns name V w0 k w" and "recovery r fs V 0 w0"
  shows "recovery r fs V k w"
  using assms(2)
proof (induction rule: recoveries.induct)
  case (due k w s out s')
  then show ?case using recovery_step [OF laws recovery_spared [OF due(5,2)] due(4)] by simp
next
  case (early k w s out s')
  then show ?case using recovery_step [OF laws recovery_spared [OF early(5,2)] early(4)] by simp
qed (rule assms(3))

text \<open>What two reconciles achieve.\<close>

lemma recovered_node:
  assumes laws: "answering r ns name nss D V" and stored: "v_stored V w0"
    and leaving: "leaving r (set (om_Finalizers (snr_Meta (v_snr V w0)))) (v_snr V w0) (v_node V w0)"
    and run: "recoveries r ns name V w0 k w" and k: "2 \<le> k"
  shows "\<not> n_Unschedulable (v_node V w)" "\<not> TaintExists (n_Taints (v_node V w)) NodeUnschedulableTaint"
    "\<not> TaintExists (n_Taints (v_node V w)) NodeNoExecuteTaint"
    "v_stored V w \<Longrightarrow> \<not> ContainsFinalizer (snr_Meta (v_snr V w)) SNRFinalizer"
    "om_Finalizers (snr_Meta (v_snr V w0)) = [SNRFinalizer] \<Longrightarrow> \<not> v_stored V w"
proof -
  let ?fs = "set (om_Finalizers (snr_Meta (v_snr V w0)))"
  have "recovery r ?fs V 0 w0" using stored leaving by (simp add: recovery_def)
  then have "recovery r ?fs V k w" by (rule recoveries_stage [OF laws run])
  then have rel: "released (v_node V w)" and fin: "v_stored V w \<longrightarrow> \<not> ContainsFinalizer (snr_Meta (v_snr V w)) SNRFinalizer"
    and left: "v_stored V w \<longrightarrow> om_Finalizers (snr_Meta (v_snr V w)) \<noteq> [] \<and> set (om_Finalizers (snr_Meta (v_snr V w))) \<subseteq> ?fs"
    using k by (auto simp: recovery_def leaving_def)
  from rel show "\<not> n_Unschedulable (v_node V w)" "\<not> TaintExists (n_Taints (v_node V w)) NodeUnschedulableTaint"
    "\<not> TaintExists (n_Taints (v_node V w)) NodeNoExecuteTaint" by (simp_all add: released_def)
  show "\<not> ContainsFinalizer (snr_Meta (v_snr V w)) SNRFinalizer" if "v_stored V w" using fin that by simp
  show "\<not> v_stored V w" if "om_Finalizers (snr_Meta (v_snr V w0)) = [SNRFinalizer]"
    using left fin that by (cases "om_Finalizers (snr_Meta (v_snr V w))") (auto simp: ContainsFinalizer_def)
qed

text \<open>
  C5: the node is given back. Take a complete remediation that is being deleted, an API server that
  answers and removes a deleted object with its last finalizer, and a cluster that takes its own taint
  off a schedulable node. After two reconciles of the manager, not counting those that come before the
  cluster has done so, the node is schedulable and has neither the taint of the cluster nor that of the
  remediation, and the finalizer is gone; when it was the only one, so is the remediation. A reconcile
  never panics, and ends with an error only when it was the one that made the remediation disappear.
\<close>

theorem node_recovered:
  assumes laws: "answering r ns name nss D V" and stored: "v_stored V w0"
    and leaving: "leaving r (set (om_Finalizers (snr_Meta (v_snr V w0)))) (v_snr V w0) (v_node V w0)"
    and run: "recoveries r ns name V w0 k w"
  shows "(2 \<le> k \<longrightarrow> \<not> n_Unschedulable (v_node V w)
        \<and> \<not> TaintExists (n_Taints (v_node V w)) NodeUnschedulableTaint
        \<and> \<not> TaintExists (n_Taints (v_node V w)) NodeNoExecuteTaint
        \<and> (v_stored V w \<longrightarrow> \<not> ContainsFinalizer (snr_Meta (v_snr V w)) SNRFinalizer)
        \<and> (om_Finalizers (snr_Meta (v_snr V w0)) = [SNRFinalizer] \<longrightarrow> \<not> v_stored V w))
     \<and> (\<forall>s. spared V w (rs_world s) \<longrightarrow> (\<exists>res err s'. run_state (ReconcileManager r ns name) s = (Ret (res, err), s')
        \<and> (err = None \<or> v_stored V (rs_world s) \<and> \<not> v_stored V (rs_world s'))))"
proof (intro conjI impI allI)
  let ?fs = "set (om_Finalizers (snr_Meta (v_snr V w0)))"
  have "recovery r ?fs V 0 w0" using stored leaving by (simp add: recovery_def)
  note rec = recoveries_stage [OF laws run this]
  show "\<exists>res err s'. run_state (ReconcileManager r ns name) s = (Ret (res, err), s')
      \<and> (err = None \<or> v_stored V (rs_world s) \<and> \<not> v_stored V (rs_world s'))" if "spared V w (rs_world s)" for s
  proof -
    obtain out s' where run: "run_state (ReconcileManager r ns name) s = (out, s')" by fastforce
    from recovery_step [OF laws recovery_spared [OF rec that] run] run show ?thesis by auto
  qed
qed (rule recovered_node [OF assms]; assumption)+

definition deletedWorld :: "cluster \<times> bool" where
  "deletedWorld = (exampleWorld deletedSnr cordonedWorker1 200, True)"

lemma recoveries_exist: "\<exists>w. recoveries storeReconciler ''op'' ''worker-1'' storeView w0 k w"
proof (induction k)
  case (Suc k)
  then obtain w where w: "recoveries storeReconciler ''op'' ''worker-1'' storeView w0 k w" by blast
  let ?n = "k_node (fst w)"
  let ?w = "((fst w)\<lparr>k_node := if n_Unschedulable ?n then ?n
      else ?n\<lparr>n_Taints := filter (\<lambda>u. \<not> MatchTaint NodeUnschedulableTaint u) (n_Taints ?n)\<rparr>\<rparr>, snd w)"
  let ?s = "\<lparr>rs_world = ?w, rs_snr = deletedSnr, rs_node = worker1, rs_trace = []\<rparr>"
  have "spared storeView w (rs_world ?s)"
    by (auto simp: spared_def storeView_def TaintExists_iff)
  moreover have "\<not> lagging (v_node storeView (rs_world ?s))"
    by (simp add: lagging_def storeView_def)
  ultimately show ?case using recoveries.due [OF w _ _ surjective_pairing, of ?s] by blast
qed (blast intro: recoveries.unrecovered)

theorem node_recovered_witness:
  "\<exists>w. recoveries storeReconciler ''op'' ''worker-1'' storeView deletedWorld 2 w
     \<and> \<not> n_Unschedulable (v_node storeView w) \<and> \<not> TaintExists (n_Taints (v_node storeView w)) NodeNoExecuteTaint
     \<and> \<not> v_stored storeView w"
proof -
  obtain w where w: "recoveries storeReconciler ''op'' ''worker-1'' storeView deletedWorld 2 w"
    using recoveries_exist by blast
  have "v_stored storeView deletedWorld" "om_Finalizers (snr_Meta (v_snr storeView deletedWorld)) = [SNRFinalizer]"
    by (simp_all add: deletedWorld_def storeView_def deletedSnr_def exampleWorld_def emptyMeta_def)
  moreover have "leaving storeReconciler (set (om_Finalizers (snr_Meta (v_snr storeView deletedWorld))))
      (v_snr storeView deletedWorld) (v_node storeView deletedWorld)"
    by (simp add: leaving_def storeView_def deletedWorld_def deletedSnr_def storeReconciler_def getPhase_def example_run_defs)
  ultimately show ?thesis
    using node_recovered [OF answering_example _ _ w] w by (intro exI [of _ w]) simp
qed

section \<open>From the new remediation to the healthy node\<close>

lemma course_leaving:
  "courseAt r nss D V snr w \<Longrightarrow> recovering snr \<Longrightarrow> leaving r (set (om_Finalizers (snr_Meta snr))) snr (v_node V w)"
  by (auto simp: courseAt_def onCourse_def wanted_def recovering_def leaving_def ContainsFinalizer_def)



end
