(* ===== verification/Watchdog.thy ===== *)
theory Watchdog
  imports Node_Utils
begin

text \<open>
  The watchdog of an agent (\<^verbatim>\<open>pkg/watchdog/interface.go\<close>, \<^verbatim>\<open>synchronized.go\<close>, \<^verbatim>\<open>fake.go\<close>). The
  synchronized watchdog drives an implementation (\<^verbatim>\<open>watchdogImpl\<close>) from three places: the
  goroutine that runs \<^verbatim>\<open>Start\<close>, the feeding goroutine it spawns, and the callers of \<^verbatim>\<open>Stop\<close>. Each
  critical section is one function; their interleavings are the step relation \<^verbatim>\<open>wd_step\<close>.
\<close>

section \<open>Status, implementation interface and state\<close>

datatype watchdogStatus = Disarmed | Armed | Triggered | Malfunction

text \<open>The internal interface \<^verbatim>\<open>watchdogImpl\<close>, over the state \<^typ>\<open>'d\<close> of the device.\<close>

record 'd watchdogImpl =
  impl_start :: "('d, duration result) state"
  impl_feed :: "('d, error option) state"
  impl_disarm :: "('d, error option) state"

text \<open>
  The fields of \<^verbatim>\<open>synchronizedWatchdog\<close>. The cancel function \<^verbatim>\<open>stop\<close> is nil until \<^verbatim>\<open>Start\<close> has set
  it; \<^term>\<open>swd_cancelled\<close> tells whether it was called, that is whether the feeding context is done.
\<close>

record 'd synchronizedWatchdog =
  swd_dev :: 'd
  swd_timeout :: duration
  swd_status :: watchdogStatus
  swd_stopSet :: bool
  swd_cancelled :: bool
  swd_lastFoodTime :: instant

definition newSynced :: "'d \<Rightarrow> 'd synchronizedWatchdog" where
  "newSynced dev = \<lparr>swd_dev = dev, swd_timeout = 0, swd_status = Disarmed, swd_stopSet = False,
                    swd_cancelled = False, swd_lastFoodTime = 0\<rparr>"

section \<open>The critical sections\<close>

text \<open>
  The first critical section of \<^verbatim>\<open>Start\<close>: it returns early, with an error or not, or goes on to
  feed. \<^verbatim>\<open>errors.Wrapf\<close> wraps the error of the environment lookup, not that of the device.
\<close>

datatype startResult = StartReturned "error option" | StartArmed

definition Start_arm ::
  "'d watchdogImpl \<Rightarrow> env \<Rightarrow> ('d synchronizedWatchdog, startResult) state" where
  "Start_arm impl env = do {
     status \<leftarrow> gets swd_status;
     if status \<noteq> Disarmed
     then returnM (StartReturned (Some (ErrMsg ''watchdog was started more than once. This is likely to be caused by being added to a manager multiple times'')))
     else do {
       r \<leftarrow> zoom swd_dev (\<lambda>d s. s\<lparr>swd_dev := d\<rparr>) (impl_start impl);
       case r of
         Inl startErr \<Rightarrow>
           (case IsSoftwareRebootEnabled env of
              Inl err \<Rightarrow> returnM (StartReturned (Wrapf (Some err) ''failed to start watchdog, can't default to software reboot''))
            | Inr isSoftwareRebootEnabled \<Rightarrow>
                if \<not> isSoftwareRebootEnabled
                then returnM (StartReturned (Wrapf None ''failed to start watchdog, can't default to software reboot''))
                else do {
                  modify (\<lambda>s. s\<lparr>swd_status := Malfunction\<rparr>);
                  returnM (StartReturned None)
                })
       | Inr timeout \<Rightarrow> do {
           modify (\<lambda>s. s\<lparr>swd_timeout := timeout, swd_status := Armed\<rparr>);
           returnM StartArmed
         }
     }
   }"

text \<open>After the lock is released, a fresh feeding context is made and its cancel function stored.\<close>

definition Start_setStop :: "('d synchronizedWatchdog, unit) state" where
  "Start_setStop = modify (\<lambda>s. s\<lparr>swd_stopSet := True, swd_cancelled := False\<rparr>)"

text \<open>One run of the feeding function; \<^term>\<open>now\<close> is the time read after a successful feed.\<close>

definition feedOnce :: "'d watchdogImpl \<Rightarrow> instant \<Rightarrow> ('d synchronizedWatchdog, unit) state" where
  "feedOnce impl now = do {
     status \<leftarrow> gets swd_status;
     if status \<noteq> Armed then returnM ()
     else do {
       err \<leftarrow> zoom swd_dev (\<lambda>d s. s\<lparr>swd_dev := d\<rparr>) (impl_feed impl);
       case err of
         Some e \<Rightarrow> returnM ()
       | None \<Rightarrow> modify (\<lambda>s. s\<lparr>swd_lastFoodTime := now\<rparr>)
     }
   }"

text \<open>The last critical section of \<^verbatim>\<open>Start\<close>, when the context of the pod is done.\<close>

definition Start_shutdown :: "'d watchdogImpl \<Rightarrow> ('d synchronizedWatchdog, error option) state" where
  "Start_shutdown impl = do {
     status \<leftarrow> gets swd_status;
     if status = Armed
     then do {
       err \<leftarrow> zoom swd_dev (\<lambda>d s. s\<lparr>swd_dev := d\<rparr>) (impl_disarm impl);
       case err of
         Some e \<Rightarrow> returnM None
       | None \<Rightarrow> do {
           modify (\<lambda>s. s\<lparr>swd_cancelled := True, swd_status := Disarmed\<rparr>);
           returnM None
         }
     }
     else returnM None
   }"

text \<open>\<^verbatim>\<open>Stop\<close> calls the cancel function, which panics while it is nil.\<close>

definition Stop :: "('d synchronizedWatchdog, unit outcome) state" where
  "Stop = do {
     status \<leftarrow> gets swd_status;
     if status = Armed
     then do {
       stopSet \<leftarrow> gets swd_stopSet;
       if stopSet
       then do {
         modify (\<lambda>s. s\<lparr>swd_cancelled := True, swd_status := Triggered\<rparr>);
         returnM (Ret ())
       }
       else returnM Panic
     }
     else returnM (Ret ())
   }"

definition GetTimeout :: "('d synchronizedWatchdog, duration) state" where
  "GetTimeout = gets swd_timeout"

definition LastFoodTime :: "('d synchronizedWatchdog, instant) state" where
  "LastFoodTime = gets swd_lastFoodTime"

definition Status :: "('d synchronizedWatchdog, watchdogStatus) state" where
  "Status = gets swd_status"

section \<open>The fake implementation\<close>

text \<open>Its state is the flag \<^verbatim>\<open>IsStartSuccessful\<close>.\<close>

definition fakeTimeout :: duration where
  "fakeTimeout = 1 * Second"

definition fakeWatchdogImpl :: "bool watchdogImpl" where
  "fakeWatchdogImpl =
     \<lparr>impl_start = do {
        ok \<leftarrow> gets id;
        returnM (if \<not> ok then Inl (ErrMsg ''fakeWatchdogImpl crash on start'') else Inr fakeTimeout)
      },
      impl_feed = returnM None,
      impl_disarm = returnM None\<rparr>"

definition NewFake :: "bool \<Rightarrow> bool synchronizedWatchdog" where
  "NewFake isStartSuccessful = newSynced isStartSuccessful"

section \<open>Interleavings\<close>

text \<open>Where the goroutine of \<^verbatim>\<open>Start\<close> is, whether the feeder runs, and whether a call has panicked.\<close>

datatype startPc = NotStarted | Unlocked | StopStored | Feeding | Returned "error option"

record 'd wdSystem =
  sys_wd :: "'d synchronizedWatchdog"
  sys_pc :: startPc
  sys_feeder :: bool
  sys_panicked :: bool

definition wd_init :: "'d \<Rightarrow> 'd wdSystem" where
  "wd_init dev = \<lparr>sys_wd = newSynced dev, sys_pc = NotStarted, sys_feeder = False, sys_panicked = False\<rparr>"

datatype wdEvent = EvArm | EvSetStop | EvSpawn | EvFeed instant | EvStop | EvShutdown | EvFeederExit

inductive wd_step :: "'d watchdogImpl \<Rightarrow> env \<Rightarrow> 'd wdSystem \<Rightarrow> wdEvent \<Rightarrow> 'd wdSystem \<Rightarrow> bool"
  for impl :: "'d watchdogImpl" and env :: env where
  arm: "\<not> sys_panicked s \<Longrightarrow> sys_pc s = NotStarted \<Longrightarrow>
        run_state (Start_arm impl env) (sys_wd s) = (StartArmed, wd') \<Longrightarrow>
        wd_step impl env s EvArm (s\<lparr>sys_wd := wd', sys_pc := Unlocked\<rparr>)"
| arm_returns: "\<not> sys_panicked s \<Longrightarrow> sys_pc s = NotStarted \<Longrightarrow>
        run_state (Start_arm impl env) (sys_wd s) = (StartReturned e, wd') \<Longrightarrow>
        wd_step impl env s EvArm (s\<lparr>sys_wd := wd', sys_pc := Returned e\<rparr>)"
| set_stop: "\<not> sys_panicked s \<Longrightarrow> sys_pc s = Unlocked \<Longrightarrow>
        run_state Start_setStop (sys_wd s) = ((), wd') \<Longrightarrow>
        wd_step impl env s EvSetStop (s\<lparr>sys_wd := wd', sys_pc := StopStored\<rparr>)"
| spawn: "\<not> sys_panicked s \<Longrightarrow> sys_pc s = StopStored \<Longrightarrow>
        wd_step impl env s EvSpawn (s\<lparr>sys_feeder := True, sys_pc := Feeding\<rparr>)"
| feed: "\<not> sys_panicked s \<Longrightarrow> sys_feeder s \<Longrightarrow>
        run_state (feedOnce impl now) (sys_wd s) = ((), wd') \<Longrightarrow>
        wd_step impl env s (EvFeed now) (s\<lparr>sys_wd := wd'\<rparr>)"
| feeder_exit: "\<not> sys_panicked s \<Longrightarrow> sys_feeder s \<Longrightarrow> swd_cancelled (sys_wd s) \<Longrightarrow>
        wd_step impl env s EvFeederExit (s\<lparr>sys_feeder := False\<rparr>)"
| stop: "\<not> sys_panicked s \<Longrightarrow>
        run_state Stop (sys_wd s) = (Ret (), wd') \<Longrightarrow>
        wd_step impl env s EvStop (s\<lparr>sys_wd := wd'\<rparr>)"
| stop_panics: "\<not> sys_panicked s \<Longrightarrow>
        run_state Stop (sys_wd s) = (Panic, wd') \<Longrightarrow>
        wd_step impl env s EvStop (s\<lparr>sys_wd := wd', sys_panicked := True\<rparr>)"
| shutdown: "\<not> sys_panicked s \<Longrightarrow> sys_pc s = Feeding \<Longrightarrow>
        run_state (Start_shutdown impl) (sys_wd s) = (e, wd') \<Longrightarrow>
        wd_step impl env s EvShutdown (s\<lparr>sys_wd := wd', sys_pc := Returned e\<rparr>)"

inductive wd_steps :: "'d watchdogImpl \<Rightarrow> env \<Rightarrow> 'd wdSystem \<Rightarrow> wdEvent list \<Rightarrow> 'd wdSystem \<Rightarrow> bool"
  for impl :: "'d watchdogImpl" and env :: env where
  refl: "wd_steps impl env s [] s"
| step: "wd_step impl env s e t \<Longrightarrow> wd_steps impl env t es u \<Longrightarrow> wd_steps impl env s (e # es) u"

inductive_cases wd_stepE: "wd_step impl env s e t"
inductive_cases wd_stepsE: "wd_steps impl env s (e # es) u"
inductive_simps wd_steps_Nil [simp]: "wd_steps impl env s [] u"
inductive_simps wd_steps_Cons: "wd_steps impl env s (e # es) u"

section \<open>Invariants of runs, once for every such system\<close>

text \<open>
  A labelled system and a predicate that each step keeps: the predicate holds along every run. The
  relation of the two ends of a run is proved the same way when it is reflexive and each step
  extends it.
\<close>

locale step_invariant =
  fixes stp :: "'s \<Rightarrow> 'e \<Rightarrow> 's \<Rightarrow> bool"
    and runs :: "'s \<Rightarrow> 'e list \<Rightarrow> 's \<Rightarrow> bool"
    and I :: "'s \<Rightarrow> bool"
  assumes runs_Nil: "runs s [] u \<Longrightarrow> u = s"
    and runs_Cons: "runs s (e # es) u \<Longrightarrow> \<exists>t. stp s e t \<and> runs t es u"
    and step_keeps: "I s \<Longrightarrow> stp s e t \<Longrightarrow> I t"
begin

lemma run_keeps: "runs s es u \<Longrightarrow> I s \<Longrightarrow> I u"
proof (induction es arbitrary: s)
  case Nil
  then show ?case using runs_Nil by blast
next
  case (Cons e es)
  then show ?case using runs_Cons step_keeps by blast
qed

lemma run_rel:
  assumes "\<And>s. I s \<Longrightarrow> R s s" "\<And>s e t u. I s \<Longrightarrow> stp s e t \<Longrightarrow> R t u \<Longrightarrow> R s u"
  shows "runs s es u \<Longrightarrow> I s \<Longrightarrow> R s u"
proof (induction es arbitrary: s)
  case Nil
  then show ?case using runs_Nil assms(1) by blast
next
  case (Cons e es)
  then show ?case using runs_Cons step_keeps assms(2) by blast
qed

end

section \<open>Lemmas on the critical sections\<close>

lemma wp_Start_arm:
  "wp (Start_arm impl env)
     (\<lambda>r s'. (r = StartArmed \<longrightarrow> swd_status s = Disarmed \<and> swd_status s' = Armed)
        \<and> (r \<noteq> StartArmed \<longrightarrow> swd_status s' = swd_status s \<or> swd_status s' = Malfunction)
        \<and> swd_stopSet s' = swd_stopSet s
        \<and> (swd_status s \<noteq> Disarmed \<longrightarrow> s' = s)) s"
  by (auto simp: Start_arm_def wp_zoom split: sum.splits intro!: wpI)

lemma run_Stop:
  "run_state Stop s =
     (if swd_status s = Armed
      then if swd_stopSet s then (Ret (), s\<lparr>swd_cancelled := True, swd_status := Triggered\<rparr>) else (Panic, s)
      else (Ret (), s))"
  by (simp add: Stop_def)

lemma run_feedOnce_not_armed: "swd_status s \<noteq> Armed \<Longrightarrow> run_state (feedOnce impl now) s = ((), s)"
  by (simp add: feedOnce_def)

lemma wp_feedOnce:
  "wp (feedOnce impl now)
     (\<lambda>_ s'. swd_status s' = swd_status s \<and> swd_stopSet s' = swd_stopSet s
        \<and> swd_cancelled s' = swd_cancelled s \<and> swd_timeout s' = swd_timeout s) s"
  by (auto simp: feedOnce_def wp_zoom split: option.splits intro!: wpI)

lemma run_shutdown_not_armed: "swd_status s \<noteq> Armed \<Longrightarrow> run_state (Start_shutdown impl) s = (None, s)"
  by (simp add: Start_shutdown_def)

lemma wp_shutdown:
  "wp (Start_shutdown impl)
     (\<lambda>r s'. r = None \<and> swd_stopSet s' = swd_stopSet s
        \<and> (swd_status s' = swd_status s \<or> swd_status s = Armed \<and> swd_status s' = Disarmed)) s"
  by (auto simp: Start_shutdown_def wp_zoom split: option.splits intro!: wpI)

lemma run_setStop [simp]:
  "run_state Start_setStop s = ((), s\<lparr>swd_stopSet := True, swd_cancelled := False\<rparr>)"
  by (simp add: Start_setStop_def)

section \<open>Sealed states\<close>

text \<open>
  A watchdog that was triggered or that malfunctions, or that is disarmed for good because
  \<^verbatim>\<open>Start\<close> has run, is sealed: nothing touches its device any more.
\<close>

definition wd_sealed :: "'d wdSystem \<Rightarrow> bool" where
  "wd_sealed s \<longleftrightarrow> swd_status (sys_wd s) = Triggered \<or> swd_status (sys_wd s) = Malfunction
     \<or> swd_status (sys_wd s) = Disarmed \<and> sys_pc s \<noteq> NotStarted"

definition wd_untouched :: "'d wdSystem \<Rightarrow> 'd wdSystem \<Rightarrow> bool" where
  "wd_untouched s t \<longleftrightarrow> swd_dev (sys_wd t) = swd_dev (sys_wd s)
     \<and> swd_status (sys_wd t) = swd_status (sys_wd s)
     \<and> swd_lastFoodTime (sys_wd t) = swd_lastFoodTime (sys_wd s)"

lemma run_Start_arm_again:
  "swd_status s \<noteq> Disarmed \<Longrightarrow>
   run_state (Start_arm impl env) s =
     (StartReturned (Some (ErrMsg ''watchdog was started more than once. This is likely to be caused by being added to a manager multiple times'')), s)"
  by (simp add: Start_arm_def)

lemma sealed_step:
  assumes "wd_sealed s" "wd_step impl env s e t"
  shows "wd_sealed t \<and> wd_untouched s t"
  using assms(2,1)
  by cases
    (auto simp: wd_sealed_def wd_untouched_def run_Stop run_feedOnce_not_armed run_shutdown_not_armed
      run_Start_arm_again split: if_splits)

interpretation sealedInv: step_invariant "wd_step impl env" "wd_steps impl env" wd_sealed
  for impl :: "'d watchdogImpl" and env :: env
  by unfold_locales (auto simp: wd_steps_Cons dest: sealed_step)

section \<open>The window in which a stop can panic\<close>

definition wd_inv :: "'d wdSystem \<Rightarrow> bool" where
  "wd_inv s \<longleftrightarrow>
     (sys_pc s = NotStarted \<longrightarrow> swd_status (sys_wd s) = Disarmed)
     \<and> (swd_status (sys_wd s) = Armed \<longrightarrow> swd_stopSet (sys_wd s) \<or> sys_pc s = Unlocked)
     \<and> (sys_panicked s \<longrightarrow> sys_pc s = Unlocked)"

lemma wd_inv_init: "wd_inv (wd_init dev)"
  by (simp add: wd_inv_def wd_init_def newSynced_def)

lemma wd_inv_step:
  assumes inv: "wd_inv s" and st: "wd_step impl env s e t"
  shows "wd_inv t"
  using st
proof cases
  case (arm_returns r wd')
  with wp_run [OF wp_Start_arm arm_returns(5)] inv show ?thesis by (auto simp: wd_inv_def)
next
  case (feed now wd')
  with wp_run [OF wp_feedOnce feed(5)] inv show ?thesis by (auto simp: wd_inv_def)
next
  case (shutdown r wd')
  with wp_run [OF wp_shutdown shutdown(5)] inv show ?thesis by (auto simp: wd_inv_def)
qed (use inv in \<open>auto simp: wd_inv_def run_Stop split: if_splits\<close>)

interpretation wdInv: step_invariant "wd_step impl env" "wd_steps impl env" wd_inv
  for impl :: "'d watchdogImpl" and env :: env
  by unfold_locales (auto simp: wd_steps_Cons dest: wd_inv_step)

section \<open>Properties\<close>

lemmas fake_simps = fakeWatchdogImpl_def fakeTimeout_def newSynced_def wd_init_def
  Start_arm_def feedOnce_def run_Stop

text \<open>
  C17: once a watchdog has been triggered by \<^verbatim>\<open>Stop\<close>, has been marked as malfunctioning, or has
  been disarmed after \<^verbatim>\<open>Start\<close> ran, no interleaving of the feeding goroutine, further stops and
  the shutdown of the pod feeds or disarms the device or changes the status: a triggered watchdog
  is left to reboot the node.
\<close>

theorem sealed_device_untouched:
  assumes "wd_steps impl env s es u" and "wd_sealed s"
  shows "wd_sealed u \<and> wd_untouched s u"
proof -
  have "wd_untouched s u"
    by (rule sealedInv.run_rel [where R = wd_untouched, OF _ _ assms])
      (auto simp: wd_untouched_def dest: sealed_step)
  then show ?thesis using sealedInv.run_keeps [OF assms] by simp
qed

definition triggered_example :: "bool wdSystem" where
  "triggered_example =
     \<lparr>sys_wd = \<lparr>swd_dev = True, swd_timeout = fakeTimeout, swd_status = Triggered, swd_stopSet = True,
                swd_cancelled = True, swd_lastFoodTime = 7\<rparr>,
      sys_pc = Feeding, sys_feeder = True, sys_panicked = False\<rparr>"

theorem sealed_device_untouched_witness:
  "\<exists>u. wd_steps fakeWatchdogImpl Map.empty triggered_example [EvFeed 9, EvShutdown] u
       \<and> wd_untouched triggered_example u"
proof -
  let ?s = triggered_example
  let ?u = "?s\<lparr>sys_pc := Returned None\<rparr>"
  have "wd_steps fakeWatchdogImpl Map.empty ?s [EvFeed 9, EvShutdown] ?u"
    by (intro wd_steps.intros wd_step.feed [where wd' = "sys_wd ?s", THEN wd_steps.step]
        wd_step.shutdown [where s = ?s and wd' = "sys_wd ?s", simplified])
      (auto simp: triggered_example_def wd_steps_Cons wd_step.simps feedOnce_def Start_shutdown_def)
  moreover have "wd_sealed ?s" by (simp add: wd_sealed_def triggered_example_def)
  ultimately show ?thesis using sealed_device_untouched by blast
qed

text \<open>
  A call of \<^verbatim>\<open>Stop\<close> can panic only in the window of \<^verbatim>\<open>Start\<close> between the release of the lock
  that publishes the status Armed and the assignment of the cancel function.
\<close>

theorem stop_panics_only_in_window:
  assumes "wd_steps impl env (wd_init dev) es u" and "sys_panicked u"
  shows "sys_pc u = Unlocked"
  using wdInv.run_keeps [OF assms(1) wd_inv_init] assms(2) by (simp add: wd_inv_def)

theorem stop_panics_only_in_window_witness:
  "\<exists>u. wd_steps fakeWatchdogImpl Map.empty (wd_init True) [EvArm, EvStop] u \<and> sys_panicked u
       \<and> sys_pc u = Unlocked"
proof -
  obtain u where u: "wd_steps fakeWatchdogImpl Map.empty (wd_init True) [EvArm, EvStop] u" "sys_panicked u"
    by (auto simp: wd_steps_Cons wd_step.simps fake_simps)
  with stop_panics_only_in_window [OF u] show ?thesis by auto
qed

text \<open>
  That window is real: whenever the device starts, a stop right after the lock is released
  makes the agent panic instead of triggering the watchdog.
\<close>

theorem stop_in_window_panics:
  assumes "run_state (impl_start impl) dev = (Inr t, dev')"
  shows "\<exists>u. wd_steps impl env (wd_init dev) [EvArm, EvStop] u \<and> sys_panicked u
           \<and> swd_status (sys_wd u) = Armed"
  using assms by (auto simp: wd_steps_Cons wd_step.simps wd_init_def newSynced_def Start_arm_def run_Stop)

theorem stop_in_window_panics_witness:
  "\<exists>u. wd_steps fakeWatchdogImpl Map.empty (wd_init True) [EvArm, EvStop] u \<and> sys_panicked u
       \<and> swd_status (sys_wd u) = Armed"
  by (rule stop_in_window_panics [where t = fakeTimeout and dev' = True]) (simp add: fakeWatchdogImpl_def)


end
