(* ===== verification/Rebooter.thy ===== *)
theory Rebooter
  imports Watchdog
begin

text \<open>
  How an agent reboots its node (\<^verbatim>\<open>pkg/reboot/rebooter.go\<close>). The rebooter uses a watchdog only
  through the methods of the interface \<^verbatim>\<open>Watchdog\<close>; what it relies on is the locale
  \<^verbatim>\<open>watchdog_iface\<close>, which the synchronized watchdog satisfies.
\<close>

section \<open>The watchdog interface and the rebooter\<close>

record 'w WatchdogI =
  wdi_Status :: "('w, watchdogStatus) state"
  wdi_Stop :: "('w, unit outcome) state"
  wdi_GetTimeout :: "('w, duration) state"
  wdi_LastFoodTime :: "('w, instant) state"

text \<open>The watchdog may be nil; the clock and the reboot command are those of the host.\<close>

record 'w watchdogRebooter =
  reb_wd :: "'w WatchdogI option"
  reb_softwareRebootHook :: "('w, error option) state"
  reb_now :: "('w, instant) state"

definition TimeToAssumeRebootHasStarted :: duration where
  "TimeToAssumeRebootHasStarted = Second * 30"

text \<open>The reboot command is run; its error is logged only.\<close>

definition softwareReboot :: "('w, error option) state \<Rightarrow> ('w, error option) state" where
  "softwareReboot runCmd = do { err \<leftarrow> runCmd; returnM None }"

definition NewWatchdogRebooter ::
  "'w WatchdogI option \<Rightarrow> ('w, error option) state \<Rightarrow> ('w, instant) state \<Rightarrow> 'w watchdogRebooter" where
  "NewWatchdogRebooter wd runCmd now =
     \<lparr>reb_wd = wd, reb_softwareRebootHook = softwareReboot runCmd, reb_now = now\<rparr>"

definition isWatchdogRebootStuck :: "'w watchdogRebooter \<Rightarrow> 'w WatchdogI \<Rightarrow> ('w, bool) state" where
  "isWatchdogRebootStuck r wd = do {
     lastFoodTime \<leftarrow> wdi_LastFoodTime wd;
     now \<leftarrow> reb_now r;
     returnM (time_sub now lastFoodTime > TimeToAssumeRebootHasStarted)
   }"

definition Reboot :: "'w watchdogRebooter \<Rightarrow> ('w, error option outcome) state" where
  "Reboot r =
     (case reb_wd r of
        None \<Rightarrow> do { err \<leftarrow> reb_softwareRebootHook r; returnM (Ret err) }
      | Some wd \<Rightarrow> do {
          status \<leftarrow> wdi_Status wd;
          if status = Malfunction
          then do { err \<leftarrow> reb_softwareRebootHook r; returnM (Ret err) }
          else do {
            status' \<leftarrow> wdi_Status wd;
            case status' of
              Triggered \<Rightarrow> do {
                stuck \<leftarrow> isWatchdogRebootStuck r wd;
                if stuck then do { err \<leftarrow> reb_softwareRebootHook r; returnM (Ret err) }
                else returnM (Ret None)
              }
            | Disarmed \<Rightarrow> do { err \<leftarrow> reb_softwareRebootHook r; returnM (Ret err) }
            | Armed \<Rightarrow> do {
                stopped \<leftarrow> wdi_Stop wd;
                case stopped of Panic \<Rightarrow> returnM Panic | Ret _ \<Rightarrow> returnM (Ret None)
              }
            | Malfunction \<Rightarrow> returnM (Ret (Some (ErrMsg ''unexpected watchdog status'')))
          }
        })"

section \<open>What a rebooter relies on\<close>

locale watchdog_iface =
  fixes wd :: "'w WatchdogI"
    and st :: "'w \<Rightarrow> watchdogStatus"
    and food :: "'w \<Rightarrow> instant"
    and ready :: "'w \<Rightarrow> bool"
  assumes run_Status: "run_state (wdi_Status wd) w = (st w, w)"
    and run_LastFood: "run_state (wdi_LastFoodTime wd) w = (food w, w)"
    and run_Stop_armed: "st w = Armed \<Longrightarrow> ready w \<Longrightarrow>
          \<exists>w'. run_state (wdi_Stop wd) w = (Ret (), w') \<and> st w' = Triggered \<and> food w' = food w"
begin

text \<open>The decision of the rebooter, for each status.\<close>

lemma Reboot_armed:
  assumes "reb_wd r = Some wd" "st w = Armed" "ready w"
  shows "\<exists>w'. run_state (Reboot r) w = (Ret None, w') \<and> st w' = Triggered"
  using run_Stop_armed [OF assms(2,3)] assms(1,2) by (auto simp: Reboot_def run_Status)

lemma Reboot_not_running:
  assumes "reb_wd r = Some wd" "st w = Disarmed \<or> st w = Malfunction"
  shows "run_state (Reboot r) w = (case run_state (reb_softwareRebootHook r) w of (e, w') \<Rightarrow> (Ret e, w'))"
  using assms by (auto simp: Reboot_def run_Status)

lemma Reboot_triggered:
  assumes "reb_wd r = Some wd" "st w = Triggered"
  shows "run_state (Reboot r) w =
     (case run_state (reb_now r) w of (now, w1) \<Rightarrow>
        if time_sub now (food w) > TimeToAssumeRebootHasStarted
        then case run_state (reb_softwareRebootHook r) w1 of (e, w') \<Rightarrow> (Ret e, w')
        else (Ret None, w1))"
  using assms by (simp add: Reboot_def run_Status run_LastFood isWatchdogRebootStuck_def split: prod.split)

end

section \<open>The rebooter of an agent\<close>

text \<open>
  The host of an agent: its synchronized watchdog, the clock, and how often the reboot command was
  run. What the command answers is a parameter.
\<close>

record 'd rebootHost =
  rh_wd :: "'d synchronizedWatchdog"
  rh_now :: instant
  rh_softwareReboots :: nat

definition onWd :: "('d synchronizedWatchdog, 'a) state \<Rightarrow> ('d rebootHost, 'a) state" where
  "onWd m = zoom rh_wd (\<lambda>x h. h\<lparr>rh_wd := x\<rparr>) m"

definition hostWatchdog :: "'d rebootHost WatchdogI" where
  "hostWatchdog = \<lparr>wdi_Status = onWd Status, wdi_Stop = onWd Stop, wdi_GetTimeout = onWd GetTimeout,
                   wdi_LastFoodTime = onWd LastFoodTime\<rparr>"

definition runRebootCmd :: "error option \<Rightarrow> ('d rebootHost, error option) state" where
  "runRebootCmd answer = do {
     modify (\<lambda>h. h\<lparr>rh_softwareReboots := Suc (rh_softwareReboots h)\<rparr>);
     returnM answer
   }"

definition agentRebooter :: "bool \<Rightarrow> error option \<Rightarrow> 'd rebootHost watchdogRebooter" where
  "agentRebooter hasWatchdog answer =
     NewWatchdogRebooter (if hasWatchdog then Some hostWatchdog else None) (runRebootCmd answer) (gets rh_now)"

interpretation hostWd: watchdog_iface hostWatchdog
  "\<lambda>h. swd_status (rh_wd h)" "\<lambda>h. swd_lastFoodTime (rh_wd h)" "\<lambda>h. swd_stopSet (rh_wd h)"
  by unfold_locales
    (auto simp: hostWatchdog_def onWd_def Status_def LastFoodTime_def run_Stop)

lemma reb_wd_agentRebooter [simp]:
  "reb_wd (agentRebooter w a) = (if w then Some hostWatchdog else None)"
  "reb_now (agentRebooter w a) = gets rh_now"
  "reb_softwareRebootHook (agentRebooter w a) = softwareReboot (runRebootCmd a)"
  by (simp_all add: agentRebooter_def NewWatchdogRebooter_def)

lemma run_softwareReboot [simp]:
  "run_state (softwareReboot (runRebootCmd a)) h =
     (None, h\<lparr>rh_softwareReboots := Suc (rh_softwareReboots h)\<rparr>)"
  by (simp add: softwareReboot_def runRebootCmd_def)

section \<open>Properties\<close>

text \<open>The reboot is under way: the command was run, or the watchdog is triggered and not yet overdue.\<close>

definition rebootUnderWay :: "'d rebootHost \<Rightarrow> 'd rebootHost \<Rightarrow> bool" where
  "rebootUnderWay h h' \<longleftrightarrow>
     rh_softwareReboots h' = Suc (rh_softwareReboots h)
     \<or> swd_status (rh_wd h') = Triggered
       \<and> (swd_status (rh_wd h) = Armed
          \<or> time_sub (rh_now h) (swd_lastFoodTime (rh_wd h)) \<le> TimeToAssumeRebootHasStarted)"

lemma Reboot_under_way:
  fixes h :: "'d rebootHost"
  assumes "hasWatchdog \<Longrightarrow> swd_status (rh_wd h) = Armed \<Longrightarrow> swd_stopSet (rh_wd h)"
  shows "\<exists>h'. run_state (Reboot (agentRebooter hasWatchdog answer)) h = (Ret None, h') \<and> rebootUnderWay h h'"
proof (cases hasWatchdog)
  case False
  then show ?thesis by (simp add: Reboot_def rebootUnderWay_def)
next
  case True
  let ?r = "agentRebooter hasWatchdog answer :: 'd rebootHost watchdogRebooter"
  have r: "reb_wd ?r = Some hostWatchdog" using True by simp
  show ?thesis
  proof (cases "swd_status (rh_wd h)")
    case Armed
    then show ?thesis using hostWd.Reboot_armed [OF r] assms True by (auto simp: rebootUnderWay_def)
  next
    case Triggered
    then show ?thesis using hostWd.Reboot_triggered [OF r, of h] by (simp add: rebootUnderWay_def)
  qed (use hostWd.Reboot_not_running [OF r, of h] in \<open>simp_all add: rebootUnderWay_def\<close>)
qed



text \<open>
  A stuck watchdog does not block the reboot. If the watchdog was triggered and last fed more
  than thirty seconds ago, \<^verbatim>\<open>Reboot\<close> runs the software reboot command and leaves the watchdog alone.
\<close>

theorem stuck_watchdog_software_reboot:
  assumes "swd_status (rh_wd h) = Triggered"
    and "time_sub (rh_now h) (swd_lastFoodTime (rh_wd h)) > TimeToAssumeRebootHasStarted"
  shows "run_state (Reboot (agentRebooter True answer)) h =
           (Ret None, h\<lparr>rh_softwareReboots := Suc (rh_softwareReboots h)\<rparr>)"
  using assms by (simp add: hostWd.Reboot_triggered)

theorem stuck_watchdog_software_reboot_witness:
  "rh_softwareReboots (snd (run_state (Reboot (agentRebooter True None))
     \<lparr>rh_wd = (NewFake True)\<lparr>swd_status := Triggered\<rparr>, rh_now = 31 * Second, rh_softwareReboots = 0\<rparr>)) = 1"
  by (subst stuck_watchdog_software_reboot)
    (simp_all add: NewFake_def newSynced_def time_sub_def TimeToAssumeRebootHasStarted_def
      min_int64_def max_int64_def)

end
