(* ===== verification/Linux_Watchdog.thy ===== *)
theory Linux_Watchdog
  imports "HOL-Library.Word" Watchdog
begin

text \<open>
  The watchdog device of a Linux host (\<^verbatim>\<open>pkg/watchdog/linux.go\<close>): finding it, opening it, reading
  its timeout, feeding it and disarming it with the magic character. The system calls are parameters;
  what the program did to the device is recorded in a history variable.
\<close>

section \<open>System calls and state\<close>

datatype statResult = StatOk | StatNotExist string | StatFailed string

record dirEntry =
  de_Name :: string
  de_IsDir :: bool
  de_ModTime :: "instant result"

record watchdogInfo =
  wi_options :: "32 word"
  wi_firmwareVersion :: "32 word"
  wi_identity :: string

record 'w syscalls =
  sys_Stat :: "string \<Rightarrow> ('w, statResult) state"
  sys_Modprobe :: "('w, error option) state"
  sys_ReadDir :: "string \<Rightarrow> ('w, dirEntry list result) state"
  sys_Open :: "string \<Rightarrow> ('w, int result) state"
  sys_GetSupport :: "int \<Rightarrow> ('w, watchdogInfo option) state"
  sys_GetTimeout :: "int \<Rightarrow> ('w, int result) state"
  sys_Write :: "int \<Rightarrow> string \<Rightarrow> ('w, error option) state"
  sys_Close :: "int \<Rightarrow> ('w, error option) state"

datatype devOp = DOpen string "int result" | DWrite int string "error option" | DClose int "error option"

text \<open>
  The package variables \<^verbatim>\<open>watchdogDevice\<close> and \<^verbatim>\<open>linuxWatchDogInstantiated\<close>, the fields of
  \<^verbatim>\<open>linuxWatchdog\<close>, the world and the history.
\<close>

record 'w linuxWatchdog =
  lw_world :: 'w
  lw_watchdogDevice :: string
  lw_instantiated :: bool
  lw_fd :: int
  lw_info :: "watchdogInfo option"
  lw_log :: "devOp list"

definition onHost :: "('w, 'a) state \<Rightarrow> ('w linuxWatchdog, 'a) state" where
  "onHost m = zoom lw_world (\<lambda>w s. s\<lparr>lw_world := w\<rparr>) m"

definition logOp :: "devOp \<Rightarrow> ('w linuxWatchdog, unit) state" where
  "logOp x = modify (\<lambda>s. s\<lparr>lw_log := lw_log s @ [x]\<rparr>)"

definition unixWrite :: "'w syscalls \<Rightarrow> int \<Rightarrow> string \<Rightarrow> ('w linuxWatchdog, error option) state" where
  "unixWrite sys fd b = do { err \<leftarrow> onHost (sys_Write sys fd b); logOp (DWrite fd b err); returnM err }"

definition unixClose :: "'w syscalls \<Rightarrow> int \<Rightarrow> ('w linuxWatchdog, error option) state" where
  "unixClose sys fd = do { err \<leftarrow> onHost (sys_Close sys fd); logOp (DClose fd err); returnM err }"

section \<open>Finding the device\<close>

definition watchdogsFolder :: string where
  "watchdogsFolder = ''/dev''"

definition watchdogPrefix :: string where
  "watchdogPrefix = ''watchdog''"

definition HasPrefix :: "string \<Rightarrow> string \<Rightarrow> bool" where
  "HasPrefix s prefix \<longleftrightarrow> take (length prefix) s = prefix"

definition checkWatchdogExists :: "'w syscalls \<Rightarrow> string \<Rightarrow> ('w linuxWatchdog, error option) state" where
  "checkWatchdogExists sys watchdogFilePath = do {
     r \<leftarrow> onHost (sys_Stat sys watchdogFilePath);
     returnM (case r of
         StatOk \<Rightarrow> None
       | StatNotExist e \<Rightarrow> Some (ErrMsg (''watchdog device not found: '' @ e))
       | StatFailed e \<Rightarrow> Some (ErrMsg (''failed to check for watchdog device: '' @ e)))
   }"

definition enableSoftdog :: "'w syscalls \<Rightarrow> ('w linuxWatchdog, error option) state" where
  "enableSoftdog sys = onHost (sys_Modprobe sys)"

text \<open>
  The loop over the entries of \<^verbatim>\<open>/dev\<close>, with \<^verbatim>\<open>maxModTime\<close> and \<^verbatim>\<open>latestWatchdog\<close> as arguments. The
  instant 0 is the zero time of Go.
\<close>

fun lastModifiedLoop :: "dirEntry list \<Rightarrow> instant \<Rightarrow> string \<Rightarrow> string" where
  "lastModifiedLoop [] maxModTime latestWatchdog = latestWatchdog"
| "lastModifiedLoop (entry # entries) maxModTime latestWatchdog =
     (if de_IsDir entry then lastModifiedLoop entries maxModTime latestWatchdog
      else if \<not> HasPrefix (de_Name entry) watchdogPrefix then lastModifiedLoop entries maxModTime latestWatchdog
      else case de_ModTime entry of
             Inl err \<Rightarrow> lastModifiedLoop entries maxModTime latestWatchdog
           | Inr modTime \<Rightarrow>
               if time_after modTime maxModTime \<or> modTime = maxModTime
               then lastModifiedLoop entries modTime (watchdogsFolder @ ''/'' @ de_Name entry)
               else lastModifiedLoop entries maxModTime latestWatchdog)"

definition getLastModifiedWatchdog :: "'w syscalls \<Rightarrow> ('w linuxWatchdog, string result) state" where
  "getLastModifiedWatchdog sys = do {
     r \<leftarrow> onHost (sys_ReadDir sys watchdogsFolder);
     returnM (case r of
         Inl err \<Rightarrow> Inl (Wrapped err (''failed to list watchdogs folder: '' @ watchdogsFolder))
       | Inr entries \<Rightarrow>
           let latestWatchdog = lastModifiedLoop entries 0 ''''
           in if latestWatchdog = '''' then Inl (ErrMsg ''failed to find softdog path'') else Inr latestWatchdog)
   }"

text \<open>
  \<^verbatim>\<open>NewLinux\<close>: none for a watchdog, in which case \<^verbatim>\<open>newSynced\<close> wraps the state it leaves; the flag is
  set before anything is tried and never reset.
\<close>

definition NewLinux :: "'w syscalls \<Rightarrow> ('w linuxWatchdog, error option) state" where
  "NewLinux sys = do {
     instantiated \<leftarrow> gets lw_instantiated;
     if instantiated then returnM (Some (ErrMsg ''linux watchdog already instantiated''))
     else do {
       modify (\<lambda>s. s\<lparr>lw_instantiated := True\<rparr>);
       device \<leftarrow> gets lw_watchdogDevice;
       err \<leftarrow> checkWatchdogExists sys device;
       case err of
         None \<Rightarrow> returnM None
       | Some _ \<Rightarrow> do {
           err' \<leftarrow> enableSoftdog sys;
           case err' of
             Some e \<Rightarrow> returnM (Some e)
           | None \<Rightarrow> do {
               r \<leftarrow> getLastModifiedWatchdog sys;
               case r of
                 Inl e \<Rightarrow> returnM (Some e)
               | Inr newWatchdogDevice \<Rightarrow> do {
                   err'' \<leftarrow> checkWatchdogExists sys newWatchdogDevice;
                   case err'' of
                     Some e \<Rightarrow> returnM (Some e)
                   | None \<Rightarrow> do {
                       modify (\<lambda>s. s\<lparr>lw_watchdogDevice := newWatchdogDevice\<rparr>);
                       returnM None
                     }
                 }
             }
         }
     }
   }"

section \<open>The implementation interface\<close>

definition openDevice :: "'w syscalls \<Rightarrow> ('w linuxWatchdog, int result) state" where
  "openDevice sys = do {
     device \<leftarrow> gets lw_watchdogDevice;
     r \<leftarrow> onHost (sys_Open sys device);
     logOp (DOpen device r);
     returnM r
   }"

definition getInfo :: "'w syscalls \<Rightarrow> int \<Rightarrow> ('w linuxWatchdog, watchdogInfo option) state" where
  "getInfo sys fd = onHost (sys_GetSupport sys fd)"

definition linux_getTimeout :: "'w syscalls \<Rightarrow> ('w linuxWatchdog, duration result) state" where
  "linux_getTimeout sys = do {
     fd \<leftarrow> gets lw_fd;
     r \<leftarrow> onHost (sys_GetTimeout sys fd);
     returnM (case r of Inl err \<Rightarrow> Inl err | Inr timeout \<Rightarrow> Inr (dur_mul timeout Second))
   }"

definition linux_feed :: "'w syscalls \<Rightarrow> ('w linuxWatchdog, error option) state" where
  "linux_feed sys = do { fd \<leftarrow> gets lw_fd; unixWrite sys fd ''a'' }"

definition linux_disarm :: "'w syscalls \<Rightarrow> ('w linuxWatchdog, error option) state" where
  "linux_disarm sys = do {
     fd \<leftarrow> gets lw_fd;
     err \<leftarrow> unixWrite sys fd ''V'';
     case err of
       Some e \<Rightarrow> returnM (Some e)
     | None \<Rightarrow> do { fd' \<leftarrow> gets lw_fd; unixClose sys fd' }
   }"

definition linux_start :: "'w syscalls \<Rightarrow> ('w linuxWatchdog, duration result) state" where
  "linux_start sys = do {
     r \<leftarrow> openDevice sys;
     case r of
       Inl err \<Rightarrow> returnM (Inl err)
     | Inr wdFd \<Rightarrow> do {
         modify (\<lambda>s. s\<lparr>lw_fd := wdFd\<rparr>);
         info \<leftarrow> getInfo sys wdFd;
         modify (\<lambda>s. s\<lparr>lw_info := info\<rparr>);
         t \<leftarrow> linux_getTimeout sys;
         case t of
           Inl err \<Rightarrow> do { _ \<leftarrow> linux_disarm sys; returnM (Inl err) }
         | Inr timeout \<Rightarrow> returnM (Inr timeout)
       }
   }"

definition linuxImpl :: "'w syscalls \<Rightarrow> 'w linuxWatchdog watchdogImpl" where
  "linuxImpl sys = \<lparr>impl_start = linux_start sys, impl_feed = linux_feed sys, impl_disarm = linux_disarm sys\<rparr>"

section \<open>What each operation does to the device\<close>

definition closedOk :: "devOp list \<Rightarrow> bool" where
  "closedOk xs \<longleftrightarrow> (\<exists>fd. DClose fd None \<in> set xs)"

lemma wp_linux_feed:
  "wp (linux_feed sys) (\<lambda>err s'. lw_log s' = lw_log s @ [DWrite (lw_fd s) ''a'' err] \<and> lw_fd s' = lw_fd s) s"
  by (auto simp: linux_feed_def unixWrite_def onHost_def logOp_def wp_def split: prod.splits)

lemma wp_linux_disarm:
  "wp (linux_disarm sys) (\<lambda>err s'. lw_fd s' = lw_fd s \<and>
     (if err = None then lw_log s' = lw_log s @ [DWrite (lw_fd s) ''V'' None, DClose (lw_fd s) None]
      else \<exists>ops. lw_log s' = lw_log s @ ops \<and> ops \<noteq> [] \<and> \<not> closedOk ops)) s"
  by (auto simp: linux_disarm_def unixWrite_def unixClose_def onHost_def logOp_def wp_def closedOk_def
      split: prod.splits option.splits)

lemma wp_openDevice:
  "wp (openDevice sys) (\<lambda>r s'. lw_log s' = lw_log s @ [DOpen (lw_watchdogDevice s) r]) s"
  by (auto simp: openDevice_def onHost_def logOp_def wp_def split: prod.splits)

lemma wp_host_queries:
  "wp (getInfo sys fd) (\<lambda>_ s'. lw_log s' = lw_log s \<and> lw_fd s' = lw_fd s) s"
  "wp (linux_getTimeout sys) (\<lambda>_ s'. lw_log s' = lw_log s \<and> lw_fd s' = lw_fd s) s"
  by (auto simp: getInfo_def linux_getTimeout_def onHost_def wp_def split: prod.splits)

text \<open>A start that fails after opening tried to disarm, and one that succeeds only opened.\<close>

definition startOps :: "duration result \<Rightarrow> int result \<Rightarrow> devOp list \<Rightarrow> bool" where
  "startOps r opened ops =
     (case opened of
        Inl e \<Rightarrow> r = Inl e \<and> ops = []
      | Inr fd \<Rightarrow>
          (case r of
             Inr t \<Rightarrow> ops = []
           | Inl e \<Rightarrow> ops = [DWrite fd ''V'' None, DClose fd None] \<or> ops \<noteq> [] \<and> \<not> closedOk ops))"

lemma wp_linux_start:
  "wp (linux_start sys) (\<lambda>r s'. \<exists>opened ops.
     lw_log s' = lw_log s @ DOpen (lw_watchdogDevice s) opened # ops \<and> startOps r opened ops) s"
proof -
  have disarm: "wp (linux_disarm sys) (\<lambda>_ s'. \<exists>ops. lw_log s' = lw_log u @ ops
     \<and> (ops = [DWrite (lw_fd u) ''V'' None, DClose (lw_fd u) None] \<or> ops \<noteq> [] \<and> \<not> closedOk ops)) u"
    for u :: "'a linuxWatchdog"
    by (rule wp_mono [OF wp_linux_disarm]) (auto split: if_splits)
  show ?thesis
    unfolding linux_start_def
    apply (rule wp_seq [OF wp_openDevice])
    apply (rule wp_sumI)
    subgoal for r s1 e by (rule wp_returnI) (auto simp: startOps_def intro!: exI [of _ "Inl e"])
    subgoal for r s1 fd
      apply (simp only: wp_bind wp_modify)
      apply (rule wp_mono [OF wp_host_queries(1)])
      apply (simp only: wp_bind wp_modify)
      apply (rule wp_mono [OF wp_host_queries(2)], rule wp_sumI)
      subgoal for i s2 t s3 e
        by (simp only: wp_bind wp_returnM, rule wp_mono [OF disarm])
          (auto simp: startOps_def intro!: exI [of _ "Inr fd"])
      subgoal by (rule wp_returnI) (auto simp: startOps_def intro!: exI [of _ "Inr fd"])
      done
    done
qed

section \<open>The device along a run\<close>

text \<open>
  A device that was closed is not used any more: the system is sealed and the close is the last
  operation. Before that, no close succeeded.
\<close>

definition device_inv :: "'w linuxWatchdog wdSystem \<Rightarrow> bool" where
  "device_inv s \<longleftrightarrow>
     (let xs = lw_log (swd_dev (sys_wd s))
      in \<not> closedOk (butlast xs) \<and> (closedOk xs \<longrightarrow> wd_sealed s))"

lemma closedOk_simps [simp]:
  "\<not> closedOk []" "closedOk (xs @ ys) \<longleftrightarrow> closedOk xs \<or> closedOk ys"
  "closedOk (DOpen d r # xs) \<longleftrightarrow> closedOk xs" "closedOk (DWrite fd b e # xs) \<longleftrightarrow> closedOk xs"
  "closedOk (DClose fd e # xs) \<longleftrightarrow> e = None \<or> closedOk xs"
  by (auto simp: closedOk_def)

lemma closedOk_butlast: "\<not> closedOk xs \<Longrightarrow> \<not> closedOk (butlast xs)"
  by (auto simp: closedOk_def dest: in_set_butlastD)

lemma device_inv_init: "lw_log dev = [] \<Longrightarrow> device_inv (wd_init dev)"
  by (simp add: device_inv_def wd_init_def newSynced_def)

lemma device_inv_sealed: "device_inv s \<Longrightarrow> wd_sealed s \<Longrightarrow> wd_step impl env s e t \<Longrightarrow> device_inv t"
  using sealed_step [of s impl env e t] by (auto simp: device_inv_def wd_untouched_def Let_def)

text \<open>The three critical sections that reach the device, from a state in which no close succeeded.\<close>

lemma Start_arm_device:
  assumes "run_state (Start_arm (linuxImpl sys) env) wd = (r, wd')" and "\<not> closedOk (lw_log (swd_dev wd))"
  shows "\<not> closedOk (butlast (lw_log (swd_dev wd'))) \<and> (r = StartArmed \<longrightarrow> \<not> closedOk (lw_log (swd_dev wd')))"
proof -
  obtain x d where x: "run_state (linux_start sys) (swd_dev wd) = (x, d)" by fastforce
  obtain opened ops where l: "lw_log d = lw_log (swd_dev wd) @ DOpen (lw_watchdogDevice (swd_dev wd)) opened # ops"
      "startOps x opened ops"
    using wp_run [OF wp_linux_start x] by blast
  have "\<not> closedOk (butlast (lw_log d))" "x = Inr t \<Longrightarrow> \<not> closedOk (lw_log d)" for t
    using l assms(2)
    by (auto simp: startOps_def butlast_append closedOk_butlast split: sum.splits)
  then show ?thesis
    using assms x by (auto simp: Start_arm_def linuxImpl_def closedOk_butlast split: if_splits sum.splits)
qed

lemma feedOnce_device:
  assumes "run_state (feedOnce (linuxImpl sys) now) wd = (u, wd')" and "\<not> closedOk (lw_log (swd_dev wd))"
  shows "\<not> closedOk (lw_log (swd_dev wd'))"
proof -
  obtain x d where x: "run_state (linux_feed sys) (swd_dev wd) = (x, d)" by fastforce
  have "\<not> closedOk (lw_log d)" using wp_run [OF wp_linux_feed x] assms(2) by simp
  then show ?thesis
    using assms x by (auto simp: feedOnce_def linuxImpl_def split: if_splits option.splits)
qed

lemma Start_shutdown_device:
  assumes "run_state (Start_shutdown (linuxImpl sys)) wd = (r, wd')" and "\<not> closedOk (lw_log (swd_dev wd))"
  shows "\<not> closedOk (butlast (lw_log (swd_dev wd'))) \<and> (closedOk (lw_log (swd_dev wd')) \<longrightarrow> swd_status wd' = Disarmed)"
proof -
  obtain x d where x: "run_state (linux_disarm sys) (swd_dev wd) = (x, d)" by fastforce
  have "\<not> closedOk (butlast (lw_log d))" "x \<noteq> None \<Longrightarrow> \<not> closedOk (lw_log d)"
    using wp_run [OF wp_linux_disarm x] assms(2) by (auto simp: butlast_append closedOk_butlast split: if_splits)
  then show ?thesis
    using assms x by (auto simp: Start_shutdown_def linuxImpl_def closedOk_butlast split: if_splits option.splits)
qed

lemma device_inv_step:
  assumes inv: "device_inv s" and st: "wd_step (linuxImpl sys) env s e t"
  shows "device_inv t"
proof (cases "wd_sealed s")
  case True
  with device_inv_sealed [OF inv _ st] show ?thesis by blast
next
  case False
  with inv have open_dev: "\<not> closedOk (lw_log (swd_dev (sys_wd s)))" by (auto simp: device_inv_def Let_def)
  show ?thesis
    using st
  proof cases
    case (arm wd')
    with Start_arm_device [OF _ open_dev] show ?thesis by (simp add: device_inv_def Let_def)
  next
    case (arm_returns r wd')
    with Start_arm_device [OF _ open_dev] wp_run [OF wp_Start_arm arm_returns(5)] show ?thesis
      using run_Start_arm_again [of "sys_wd s" "linuxImpl sys" env] open_dev
      by (cases "swd_status (sys_wd s) = Disarmed") (auto simp: device_inv_def wd_sealed_def Let_def closedOk_butlast)
  next
    case (feed now wd')
    with feedOnce_device [OF _ open_dev] show ?thesis by (simp add: device_inv_def Let_def closedOk_butlast)
  next
    case (shutdown r wd')
    with Start_shutdown_device [OF _ open_dev] show ?thesis by (simp add: device_inv_def wd_sealed_def Let_def)
  qed (use open_dev in \<open>auto simp: device_inv_def Let_def run_Stop closedOk_butlast split: if_splits\<close>)
qed

interpretation deviceInv: step_invariant "wd_step (linuxImpl sys) env" "wd_steps (linuxImpl sys) env" device_inv
  for sys :: "'w syscalls" and env :: env
  by unfold_locales (auto simp: wd_steps_Cons dest: device_inv_step)

section \<open>Properties\<close>

text \<open>
  C28: under every interleaving of starting, feeding, stopping and shutting down, whatever the system
  calls answer, the device is not written to, reopened or closed again after it was closed
  successfully.
\<close>

theorem closed_device_not_used:
  assumes "wd_steps (linuxImpl sys) env (wd_init dev) es u" and "lw_log dev = []"
    and "lw_log (swd_dev (sys_wd u)) = xs @ DClose fd None # ys"
  shows "ys = [] \<and> wd_sealed u"
proof -
  have inv: "device_inv u"
    using deviceInv.run_keeps [OF assms(1) device_inv_init [OF assms(2)]] .
  then have "\<not> closedOk (butlast (xs @ DClose fd None # ys))"
    using assms(3) by (simp add: device_inv_def Let_def)
  then have "ys = []" by (auto simp: butlast_append split: if_splits)
  with inv assms(3) show ?thesis by (simp add: device_inv_def Let_def)
qed

text \<open>A host on which every system call succeeds.\<close>

definition workingHost :: "unit syscalls" where
  "workingHost =
     \<lparr>sys_Stat = (\<lambda>_. returnM StatOk), sys_Modprobe = returnM None,
      sys_ReadDir = (\<lambda>_. returnM (Inr [\<lparr>de_Name = ''watchdog0'', de_IsDir = False, de_ModTime = Inr 7\<rparr>,
                                     \<lparr>de_Name = ''watchdog1'', de_IsDir = False, de_ModTime = Inr 9\<rparr>,
                                     \<lparr>de_Name = ''null'', de_IsDir = False, de_ModTime = Inr 11\<rparr>])),
      sys_Open = (\<lambda>_. returnM (Inr 5)), sys_GetSupport = (\<lambda>_. returnM None), sys_GetTimeout = (\<lambda>_. returnM (Inr 60)),
      sys_Write = (\<lambda>_ _. returnM None), sys_Close = (\<lambda>_. returnM None)\<rparr>"

definition newHost :: "unit linuxWatchdog" where
  "newHost = \<lparr>lw_world = (), lw_watchdogDevice = ''/dev/watchdog'', lw_instantiated = False, lw_fd = 0, lw_info = None,
              lw_log = []\<rparr>"

lemmas linux_run_defs = linuxImpl_def linux_start_def linux_feed_def linux_disarm_def openDevice_def getInfo_def
  linux_getTimeout_def unixWrite_def unixClose_def onHost_def logOp_def workingHost_def newHost_def wd_init_def newSynced_def
  Start_arm_def Start_shutdown_def feedOnce_def

definition openedHost :: "devOp list \<Rightarrow> unit linuxWatchdog" where
  "openedHost xs = newHost\<lparr>lw_fd := 5, lw_log := xs\<rparr>"

abbreviation opened :: devOp where
  "opened \<equiv> DOpen ''/dev/watchdog'' (Inr 5)"

lemma workingHost_runs:
  "run_state (linux_start workingHost) newHost = (Inr (60 * Second), openedHost [opened])"
  "run_state (linux_feed workingHost) (openedHost xs) = (None, openedHost (xs @ [DWrite 5 ''a'' None]))"
  "run_state (linux_disarm workingHost) (openedHost xs) = (None, openedHost (xs @ [DWrite 5 ''V'' None, DClose 5 None]))"
  by (simp_all add: linux_run_defs openedHost_def dur_mul_def wrap64_id is_int64_def min_int64_def max_int64_def)

lemma workingHost_run:
  "\<exists>u. wd_steps (linuxImpl workingHost) (\<lambda>_. None) (wd_init newHost) [EvArm, EvSetStop, EvSpawn, EvFeed 3, EvShutdown] u
     \<and> swd_dev (sys_wd u) = openedHost [opened, DWrite 5 ''a'' None, DWrite 5 ''V'' None, DClose 5 None]"
proof -
  let ?i = "linuxImpl workingHost" and ?e = "\<lambda>_. None"
  define w1 where "w1 = (newSynced (openedHost [opened]))\<lparr>swd_timeout := 60 * Second, swd_status := Armed\<rparr>"
  define w2 where "w2 = w1\<lparr>swd_stopSet := True, swd_cancelled := False\<rparr>"
  define w3 where "w3 = w2\<lparr>swd_dev := openedHost [opened, DWrite 5 ''a'' None], swd_lastFoodTime := 3\<rparr>"
  define w4 where "w4 = w3\<lparr>swd_dev := openedHost [opened, DWrite 5 ''a'' None, DWrite 5 ''V'' None, DClose 5 None],
    swd_cancelled := True, swd_status := Disarmed\<rparr>"
  have runs: "run_state (Start_arm ?i ?e) (newSynced newHost) = (StartArmed, w1)" "run_state Start_setStop w1 = ((), w2)"
      "run_state (feedOnce ?i 3) w2 = ((), w3)" "run_state (Start_shutdown ?i) w3 = (None, w4)"
    by (simp_all add: w1_def w2_def w3_def w4_def Start_arm_def feedOnce_def Start_shutdown_def linuxImpl_def
        workingHost_runs newSynced_def)
  let ?s = "wd_init newHost"
  have 1: "wd_step ?i ?e ?s EvArm (?s\<lparr>sys_wd := w1, sys_pc := Unlocked\<rparr>)"
    by (rule wd_step.arm) (simp_all add: wd_init_def runs)
  let ?s = "?s\<lparr>sys_wd := w1, sys_pc := Unlocked\<rparr>"
  have 2: "wd_step ?i ?e ?s EvSetStop (?s\<lparr>sys_wd := w2, sys_pc := StopStored\<rparr>)"
    by (rule wd_step.set_stop) (simp_all add: wd_init_def runs(2) [simplified])
  let ?s = "?s\<lparr>sys_wd := w2, sys_pc := StopStored\<rparr>"
  have 3: "wd_step ?i ?e ?s EvSpawn (?s\<lparr>sys_feeder := True, sys_pc := Feeding\<rparr>)"
    by (rule wd_step.spawn) (simp_all add: wd_init_def)
  let ?s = "?s\<lparr>sys_feeder := True, sys_pc := Feeding\<rparr>"
  have 4: "wd_step ?i ?e ?s (EvFeed 3) (?s\<lparr>sys_wd := w3\<rparr>)"
    by (rule wd_step.feed) (simp_all add: wd_init_def runs)
  let ?s = "?s\<lparr>sys_wd := w3\<rparr>"
  have 5: "wd_step ?i ?e ?s EvShutdown (?s\<lparr>sys_wd := w4, sys_pc := Returned None\<rparr>)"
    by (rule wd_step.shutdown) (simp_all add: wd_init_def runs)
  show ?thesis
    by (rule exI, rule conjI, rule wd_steps.step [OF 1], rule wd_steps.step [OF 2], rule wd_steps.step [OF 3],
        rule wd_steps.step [OF 4], rule wd_steps.step [OF 5], rule wd_steps.refl) (simp add: w4_def)
qed

theorem closed_device_not_used_witness:
  "\<exists>u. wd_steps (linuxImpl workingHost) (\<lambda>_. None) (wd_init newHost) [EvArm, EvSetStop, EvSpawn, EvFeed 3, EvShutdown] u
     \<and> wd_sealed u"
proof -
  obtain u where u: "wd_steps (linuxImpl workingHost) (\<lambda>_. None) (wd_init newHost) [EvArm, EvSetStop, EvSpawn, EvFeed 3, EvShutdown] u"
    "swd_dev (sys_wd u) = openedHost [opened, DWrite 5 ''a'' None, DWrite 5 ''V'' None, DClose 5 None]"
    using workingHost_run by blast
  have "wd_sealed u"
    using closed_device_not_used [OF u(1), of "[opened, DWrite 5 ''a'' None, DWrite 5 ''V'' None]" 5 "[]"] u(2)
    by (simp add: newHost_def openedHost_def)
  with u(1) show ?thesis by blast
qed

text \<open>An entry of the folder that the search considers, with its time of modification.\<close>

definition candidate :: "dirEntry \<Rightarrow> instant \<Rightarrow> bool" where
  "candidate e t \<longleftrightarrow> \<not> de_IsDir e \<and> HasPrefix (de_Name e) watchdogPrefix \<and> de_ModTime e = Inr t"

lemma lastModifiedLoop_spec:
  "\<exists>m. (\<forall>e \<in> set es. \<forall>t. candidate e t \<longrightarrow> t \<le> m) \<and> m0 \<le> m
     \<and> (lastModifiedLoop es m0 d = d \<and> m = m0 \<and> (\<forall>e \<in> set es. \<forall>t. candidate e t \<longrightarrow> t < m0)
        \<or> (\<exists>e \<in> set es. candidate e m \<and> lastModifiedLoop es m0 d = watchdogsFolder @ ''/'' @ de_Name e))"
proof (induction es arbitrary: m0 d)
  case (Cons e es)
  show ?case
  proof (cases "\<exists>t. candidate e t \<and> m0 \<le> t")
    case True
    then obtain t where t: "candidate e t" "m0 \<le> t" by blast
    then have r: "lastModifiedLoop (e # es) m0 d = lastModifiedLoop es t (watchdogsFolder @ ''/'' @ de_Name e)"
      by (auto simp: candidate_def time_after_def)
    from Cons [of t "watchdogsFolder @ ''/'' @ de_Name e"] t show ?thesis
      unfolding r by (auto simp: candidate_def)
  next
    case False
    then have r: "lastModifiedLoop (e # es) m0 d = lastModifiedLoop es m0 d"
      by (auto simp: candidate_def time_after_def split: sum.splits)
    have e: "t < m0" if "candidate e t" for t using False that not_le by blast
    obtain m where m: "\<forall>e \<in> set es. \<forall>t. candidate e t \<longrightarrow> t \<le> m" "m0 \<le> m"
      "lastModifiedLoop es m0 d = d \<and> m = m0 \<and> (\<forall>e \<in> set es. \<forall>t. candidate e t \<longrightarrow> t < m0)
        \<or> (\<exists>e \<in> set es. candidate e m \<and> lastModifiedLoop es m0 d = watchdogsFolder @ ''/'' @ de_Name e)"
      using Cons [of m0 d] by blast
    have "\<forall>x \<in> set (e # es). \<forall>t. candidate x t \<longrightarrow> t \<le> m" using m(1,2) e by fastforce
    with m(2,3) e show ?thesis unfolding r by (intro exI [of _ m]) auto
  qed
qed auto

text \<open>
  The search for the softdog device answers with a file of \<^verbatim>\<open>/dev\<close> whose name starts with
  \<^verbatim>\<open>watchdog\<close> and whose time of modification no other such file exceeds; it answers with an error
  exactly when there is no such file (with a time that is not before the zero time).
\<close>

theorem latest_watchdog_found:
  assumes "run_state (sys_ReadDir sys watchdogsFolder) (lw_world s) = (Inr entries, w)"
  shows "case fst (run_state (getLastModifiedWatchdog sys) s) of
       Inr path \<Rightarrow> \<exists>e \<in> set entries. \<exists>m. candidate e m \<and> path = ''/dev/'' @ de_Name e
         \<and> (\<forall>e' \<in> set entries. \<forall>t. candidate e' t \<longrightarrow> t \<le> m)
     | Inl err \<Rightarrow> \<forall>e \<in> set entries. \<forall>t. candidate e t \<longrightarrow> t < 0"
proof -
  have "(lastModifiedLoop entries 0 [] = [] \<and> (\<forall>e \<in> set entries. \<forall>t. candidate e t \<longrightarrow> t < 0))
      \<or> (\<exists>e \<in> set entries. \<exists>m. candidate e m \<and> lastModifiedLoop entries 0 [] = ''/dev/'' @ de_Name e
           \<and> (\<forall>e' \<in> set entries. \<forall>t. candidate e' t \<longrightarrow> t \<le> m))"
    using lastModifiedLoop_spec [of entries 0 "[]"] by (auto simp: watchdogsFolder_def)
  then show ?thesis
    using assms by (auto simp: getLastModifiedWatchdog_def onHost_def Let_def)
qed

theorem latest_watchdog_found_witness:
  "fst (run_state (getLastModifiedWatchdog workingHost) newHost) = Inr ''/dev/watchdog1''"
proof -
  have "case fst (run_state (getLastModifiedWatchdog workingHost) newHost) of
       Inr path \<Rightarrow> \<exists>e \<in> set (projr (fst (run_state (sys_ReadDir workingHost watchdogsFolder) ()))). \<exists>m. candidate e m
         \<and> path = ''/dev/'' @ de_Name e
         \<and> (\<forall>e' \<in> set (projr (fst (run_state (sys_ReadDir workingHost watchdogsFolder) ()))). \<forall>t. candidate e' t \<longrightarrow> t \<le> m)
     | Inl err \<Rightarrow> \<forall>e \<in> set (projr (fst (run_state (sys_ReadDir workingHost watchdogsFolder) ()))). \<forall>t. candidate e t \<longrightarrow> t < 0"
    by (rule latest_watchdog_found [where w = "()"]) (simp add: workingHost_def newHost_def)
  then show ?thesis
    by (auto simp: workingHost_def candidate_def HasPrefix_def watchdogPrefix_def split: sum.splits)
qed

text \<open>
  There is at most one Linux watchdog in a process. A call of \<^verbatim>\<open>NewLinux\<close> that succeeds is the
  first one, and the device path it leaves behind was found to exist; after any call, successful or
  not, every further call fails and changes nothing, so a failed detection is not repeated.
\<close>

theorem linux_watchdog_single_instance:
  assumes "run_state (NewLinux sys) s = (err, s')"
  shows "(err = None \<longrightarrow> \<not> lw_instantiated s
            \<and> (\<exists>w w'. run_state (sys_Stat sys (lw_watchdogDevice s')) w = (StatOk, w')))
     \<and> run_state (NewLinux sys) s' = (Some (ErrMsg ''linux watchdog already instantiated''), s')"
proof -
  have check: "wp (checkWatchdogExists sys d) (\<lambda>e u'. lw_instantiated u' = lw_instantiated u \<and> lw_watchdogDevice u' = lw_watchdogDevice u
      \<and> (e = None \<longrightarrow> (\<exists>w w'. run_state (sys_Stat sys d) w = (StatOk, w')))) u" for d u
    by (auto simp: checkWatchdogExists_def onHost_def wp_def split: prod.splits statResult.splits)
  have search: "wp (enableSoftdog sys) (\<lambda>_ u'. lw_instantiated u' = lw_instantiated u) u"
      "wp (getLastModifiedWatchdog sys) (\<lambda>_ u'. lw_instantiated u' = lw_instantiated u) u" for u
    by (auto simp: enableSoftdog_def getLastModifiedWatchdog_def onHost_def wp_def split: prod.splits)
  have "wp (NewLinux sys) (\<lambda>e u. lw_instantiated u \<and> (e = None \<longrightarrow> \<not> lw_instantiated s
      \<and> (\<exists>w w'. run_state (sys_Stat sys (lw_watchdogDevice u)) w = (StatOk, w')))) s"
    unfolding NewLinux_def
    apply (rule wp_getsI, rule wp_ifI, rule wp_returnI, simp)
    apply (simp only: wp_bind wp_modify wp_gets)
    apply (rule wp_mono [OF check], rule wp_optionI, rule wp_returnI, simp)
    apply (rule wp_seq [OF search(1)], rule wp_optionI)
     apply (rule wp_seq [OF search(2)], rule wp_sumI, rule wp_returnI, simp)
     apply (rule wp_seq [OF check], rule wp_optionI)
      apply (simp only: wp_bind wp_modify wp_returnM, simp)
     apply (rule wp_returnI, simp)+
    done
  with assms have "lw_instantiated s'" "err = None \<Longrightarrow> \<not> lw_instantiated s
      \<and> (\<exists>w w'. run_state (sys_Stat sys (lw_watchdogDevice s')) w = (StatOk, w'))"
    by (auto dest: wp_run)
  then show ?thesis by (simp add: NewLinux_def)
qed

theorem linux_watchdog_single_instance_witness:
  "fst (run_state (NewLinux workingHost) newHost) = None
   \<and> fst (run_state (NewLinux workingHost) (snd (run_state (NewLinux workingHost) newHost)))
       = Some (ErrMsg ''linux watchdog already instantiated'')"
  using linux_watchdog_single_instance [OF surjective_pairing, of workingHost newHost]
  by (simp add: NewLinux_def checkWatchdogExists_def workingHost_def newHost_def onHost_def)

end
