(* ===== verification/Certificates.thy ===== *)
theory Certificates
  imports K8s_Client
begin

text \<open>
  The certificates with which the agents talk to each other (\<^verbatim>\<open>pkg/certificates\<close>): making a CA and a
  shared server and client certificate, keeping them in an immutable secret, and the TLS settings of
  the two sides. Key generation, signing, PEM and the calendar are those of Go's standard library;
  they are a parameter, the record \<^verbatim>\<open>crypto\<close>, over a type \<^typ>\<open>'k\<close> of private keys, \<^typ>\<open>'p\<close> of key pairs and
  \<^typ>\<open>'c\<close> of certificate pools. Byte buffers are strings.
\<close>

section \<open>Making certificates\<close>

datatype ExtKeyUsage = ExtKeyUsageClientAuth | ExtKeyUsageServerAuth

datatype KeyUsage = KeyUsageDigitalSignature | KeyUsageCertSign

record certTemplate =
  ct_SerialNumber :: int
  ct_Organization :: "string list"
  ct_NotBefore :: instant
  ct_NotAfter :: instant
  ct_IsCA :: bool
  ct_BasicConstraintsValid :: bool
  ct_ExtKeyUsage :: "ExtKeyUsage list"
  ct_KeyUsage :: "KeyUsage set"
  ct_IPAddresses :: "string list"

record ('w, 'k, 'p, 'c) crypto =
  cr_Now :: "('w, instant) state"
  cr_AddDate :: "instant \<Rightarrow> int \<Rightarrow> int \<Rightarrow> int \<Rightarrow> instant"
  cr_GenerateKey :: "nat \<Rightarrow> ('w, 'k result) state"
  cr_CreateCertificate :: "certTemplate \<Rightarrow> certTemplate \<Rightarrow> 'k \<Rightarrow> 'k \<Rightarrow> ('w, string result) state"
  cr_MarshalPKCS1PrivateKey :: "'k \<Rightarrow> string"
  cr_pemEncode :: "string \<Rightarrow> string \<Rightarrow> string result"
  cr_X509KeyPair :: "string \<Rightarrow> string \<Rightarrow> 'p result"
  cr_AppendCertsFromPEM :: "string \<Rightarrow> 'c option"

definition fixedCertIP :: string where
  "fixedCertIP = ''192.0.2.1''"

definition createCertTemplate :: "('w, 'k, 'p, 'c) crypto \<Rightarrow> bool \<Rightarrow> ('w, certTemplate) state" where
  "createCertTemplate cr isCa = do {
     notBefore \<leftarrow> cr_Now cr;
     now \<leftarrow> cr_Now cr;
     let cert = \<lparr>ct_SerialNumber = 12345, ct_Organization = [''medik8s''], ct_NotBefore = notBefore,
       ct_NotAfter = cr_AddDate cr now 10 0 0, ct_IsCA = isCa, ct_BasicConstraintsValid = isCa,
       ct_ExtKeyUsage = [ExtKeyUsageClientAuth, ExtKeyUsageServerAuth],
       ct_KeyUsage = {KeyUsageDigitalSignature}, ct_IPAddresses = []\<rparr>;
     returnM (if isCa then cert\<lparr>ct_KeyUsage := {KeyUsageDigitalSignature, KeyUsageCertSign}\<rparr>
              else cert\<lparr>ct_IPAddresses := [fixedCertIP]\<rparr>)
   }"

definition createPrivKey :: "('w, 'k, 'p, 'c) crypto \<Rightarrow> ('w, 'k result) state" where
  "createPrivKey cr = cr_GenerateKey cr 4096"

text \<open>
  The public key of the certified party is given by its private key, of which the library uses the
  public part.
\<close>

definition sign :: "('w, 'k, 'p, 'c) crypto \<Rightarrow> certTemplate \<Rightarrow> certTemplate \<Rightarrow> 'k \<Rightarrow> 'k \<Rightarrow> ('w, string result) state" where
  "sign cr cert ca certKey caPrivKey = cr_CreateCertificate cr cert ca certKey caPrivKey"

definition selfSign :: "('w, 'k, 'p, 'c) crypto \<Rightarrow> certTemplate \<Rightarrow> 'k \<Rightarrow> ('w, string result) state" where
  "selfSign cr cert privKey = sign cr cert cert privKey privKey"

definition toPem :: "('w, 'k, 'p, 'c) crypto \<Rightarrow> string \<Rightarrow> string \<Rightarrow> string result" where
  "toPem cr blockType blockBytes =
     (case cr_pemEncode cr blockType blockBytes of Inl err \<Rightarrow> Inl err | Inr buf \<Rightarrow> Inr buf)"

definition certToPEM :: "('w, 'k, 'p, 'c) crypto \<Rightarrow> string \<Rightarrow> string result" where
  "certToPEM cr cert = toPem cr ''CERTIFICATE'' cert"

definition privKeyToPEM :: "('w, 'k, 'p, 'c) crypto \<Rightarrow> 'k \<Rightarrow> string result" where
  "privKeyToPEM cr privKey = toPem cr ''RSA PRIVATE KEY'' (cr_MarshalPKCS1PrivateKey cr privKey)"

text \<open>The next step of a function whose results end with an error that is returned at once.\<close>

definition orReturn :: "'a result \<Rightarrow> ('a \<Rightarrow> ('w, 'b result) state) \<Rightarrow> ('w, 'b result) state" where
  "orReturn r f = (case r of Inl err \<Rightarrow> returnM (Inl err) | Inr x \<Rightarrow> f x)"

definition CreateCerts :: "('w, 'k, 'p, 'c) crypto \<Rightarrow> ('w, (string \<times> string \<times> string) result) state" where
  "CreateCerts cr = do {
     caCert \<leftarrow> createCertTemplate cr True;
     r \<leftarrow> createPrivKey cr;
     orReturn r (\<lambda>caKey. do {
       r \<leftarrow> selfSign cr caCert caKey;
       orReturn r (\<lambda>caSignedBytes. orReturn (certToPEM cr caSignedBytes) (\<lambda>caCertPem. do {
         cert \<leftarrow> createCertTemplate cr False;
         r \<leftarrow> createPrivKey cr;
         orReturn r (\<lambda>key. do {
           r \<leftarrow> sign cr cert caCert key caKey;
           orReturn r (\<lambda>certSignedBytes. orReturn (certToPEM cr certSignedBytes) (\<lambda>certPem.
             orReturn (privKeyToPEM cr key) (\<lambda>keyPem. returnM (Inr (caCertPem, certPem, keyPem)))))
         })
       }))
     })
   }"

section \<open>Storing certificates\<close>

definition secretName :: string where "secretName = ''self-node-remediation-certificates''"

definition caPemKey :: string where "caPemKey = ''caPem''"

definition certPemKey :: string where "certPemKey = ''certPem''"

definition keyPemKey :: string where "keyPemKey = ''keyPem''"

record Secret =
  sec_Namespace :: string
  sec_Name :: string
  sec_Immutable :: "bool option"
  sec_Data :: gomap
  sec_StringData :: gomap
  sec_Type :: string

record 'w secretClient =
  sc_GetSecret :: "string \<Rightarrow> string \<Rightarrow> ('w, Secret result) state"
  sc_CreateSecret :: "Secret \<Rightarrow> ('w, error option) state"

text \<open>The storage remembers the secret it has read; the rest of its state is the world.\<close>

record 'w SecretCertStorage =
  scs_namespace :: string
  scs_secret :: "Secret option"
  scs_world :: 'w

definition NewSecretCertStorage :: "string \<Rightarrow> 'w \<Rightarrow> 'w SecretCertStorage" where
  "NewSecretCertStorage namespace w = \<lparr>scs_namespace = namespace, scs_secret = None, scs_world = w\<rparr>"

definition onStoreWorld :: "('w, 'a) state \<Rightarrow> ('w SecretCertStorage, 'a) state" where
  "onStoreWorld = zoom scs_world (\<lambda>w s. s\<lparr>scs_world := w\<rparr>)"

definition toBuffer :: "Secret \<Rightarrow> string \<Rightarrow> string" where
  "toBuffer secret key = map_val (sec_Data secret) key"

definition GetCerts :: "'w secretClient \<Rightarrow> ('w SecretCertStorage, (string \<times> string \<times> string) result) state" where
  "GetCerts cl = do {
     cached \<leftarrow> gets scs_secret;
     namespace \<leftarrow> gets scs_namespace;
     r \<leftarrow> (case cached of
            Some secret \<Rightarrow> returnM (Inr secret)
          | None \<Rightarrow> do {
              r \<leftarrow> onStoreWorld (sc_GetSecret cl namespace secretName);
              case r of
                Inl err \<Rightarrow> returnM (Inl err)
              | Inr certSecret \<Rightarrow> do {
                  modify (scs_secret_update (\<lambda>_. Some certSecret));
                  returnM (Inr certSecret)
                }
            });
     returnM (case r of
         Inl err \<Rightarrow> Inl err
       | Inr secret \<Rightarrow> Inr (toBuffer secret caPemKey, toBuffer secret certPemKey, toBuffer secret keyPemKey))
   }"

definition certSecret :: "string \<Rightarrow> string \<Rightarrow> string \<Rightarrow> string \<Rightarrow> Secret" where
  "certSecret namespace caPem certPem keyPem =
     \<lparr>sec_Namespace = namespace, sec_Name = secretName, sec_Immutable = Some True, sec_Data = None,
      sec_StringData = Some [caPemKey \<mapsto> caPem, certPemKey \<mapsto> certPem, keyPemKey \<mapsto> keyPem],
      sec_Type = ''Opaque''\<rparr>"

definition StoreCerts ::
  "'w secretClient \<Rightarrow> string \<Rightarrow> string \<Rightarrow> string \<Rightarrow> ('w SecretCertStorage, error option) state" where
  "StoreCerts cl caPem certPem keyPem = do {
     namespace \<leftarrow> gets scs_namespace;
     err \<leftarrow> onStoreWorld (sc_CreateSecret cl (certSecret namespace caPem certPem keyPem));
     returnM (case err of
         None \<Rightarrow> None
       | Some err \<Rightarrow> if IsAlreadyExists err then None else Some err)
   }"

section \<open>Credentials\<close>

datatype ClientAuth = NoClientCert | RequireAndVerifyClientCert

record ('p, 'c) tlsConfig =
  tls_Certificates :: "'p list"
  tls_ClientAuth :: ClientAuth
  tls_ClientCAs :: "'c option"
  tls_RootCAs :: "'c option"
  tls_ServerName :: string
  tls_MinVersion :: nat

definition TLSMinVersion :: nat where
  "TLSMinVersion = 0x0304"

type_synonym 's certReader = "('s, (string \<times> string \<times> string) result) state"

definition prepareCredentials :: "('w, 'k, 'p, 'c) crypto \<Rightarrow> 's certReader \<Rightarrow> ('s, ('p \<times> 'c) result) state" where
  "prepareCredentials cr getCerts = do {
     r \<leftarrow> getCerts;
     returnM (case r of
         Inl err \<Rightarrow> Inl err
       | Inr (caPem, certPem, keyPem) \<Rightarrow>
           (case cr_X509KeyPair cr certPem keyPem of
              Inl err \<Rightarrow> Inl err
            | Inr keyPair \<Rightarrow>
                (case cr_AppendCertsFromPEM cr caPem of
                   None \<Rightarrow> Inl (ErrMsg ''credentials: failed to append ca cert'')
                 | Some cp \<Rightarrow> Inr (keyPair, cp))))
   }"

definition GetServerCredentialsFromCerts ::
  "('w, 'k, 'p, 'c) crypto \<Rightarrow> 's certReader \<Rightarrow> ('s, ('p, 'c) tlsConfig result) state" where
  "GetServerCredentialsFromCerts cr getCerts = do {
     r \<leftarrow> prepareCredentials cr getCerts;
     returnM (case r of
         Inl err \<Rightarrow> Inl err
       | Inr (keyPair, pool) \<Rightarrow>
           Inr \<lparr>tls_Certificates = [keyPair], tls_ClientAuth = RequireAndVerifyClientCert, tls_ClientCAs = Some pool,
                tls_RootCAs = None, tls_ServerName = '''', tls_MinVersion = TLSMinVersion\<rparr>)
   }"

definition GetClientCredentialsFromCerts ::
  "('w, 'k, 'p, 'c) crypto \<Rightarrow> 's certReader \<Rightarrow> ('s, ('p, 'c) tlsConfig result) state" where
  "GetClientCredentialsFromCerts cr getCerts = do {
     r \<leftarrow> prepareCredentials cr getCerts;
     returnM (case r of
         Inl err \<Rightarrow> Inl err
       | Inr (keyPair, pool) \<Rightarrow>
           Inr \<lparr>tls_Certificates = [keyPair], tls_ClientAuth = NoClientCert, tls_ClientCAs = None,
                tls_RootCAs = Some pool, tls_ServerName = fixedCertIP, tls_MinVersion = TLSMinVersion\<rparr>)
   }"

section \<open>Lemmas\<close>

lemma run_onStoreWorld [simp]:
  "run_state (onStoreWorld m) s = (case run_state m (scs_world s) of (a, w) \<Rightarrow> (a, s\<lparr>scs_world := w\<rparr>))"
  by (simp add: onStoreWorld_def)

lemma fst_run_bind: "fst (run_state (State_Monad.bind m (\<lambda>r. returnM (f r))) s) = f (fst (run_state m s))"
  by (simp split: prod.split)

lemma orReturn_Inr:
  "run_state (orReturn r f) w = (Inr y, w') \<longleftrightarrow> (\<exists>x. r = Inr x \<and> run_state (f x) w = (Inr y, w'))"
  by (cases r) (auto simp: orReturn_def)

lemma toPem_eq: "toPem cr t b = cr_pemEncode cr t b"
  by (simp add: toPem_def split: sum.split)

lemma run_createCertTemplate:
  "run_state (createCertTemplate cr isCa) w = (t, w') \<Longrightarrow>
     ct_IsCA t = isCa \<and> ct_IPAddresses t = (if isCa then [] else [fixedCertIP])
     \<and> (KeyUsageCertSign \<in> ct_KeyUsage t \<longleftrightarrow> isCa)"
  by (auto simp: createCertTemplate_def Let_def split: prod.splits)

text \<open>What a successful run made: the CA certificate signs itself and the shared certificate.\<close>

definition madeBy :: "('w, 'k, 'p, 'c) crypto \<Rightarrow> certTemplate \<Rightarrow> certTemplate \<Rightarrow> 'k \<Rightarrow> 'k \<Rightarrow> string \<Rightarrow> bool" where
  "madeBy cr cert ca k caKey pem \<longleftrightarrow>
     (\<exists>b w w'. run_state (cr_CreateCertificate cr cert ca k caKey) w = (Inr b, w') \<and> cr_pemEncode cr ''CERTIFICATE'' b = Inr pem)"

lemma CreateCerts_chain:
  assumes "run_state (CreateCerts cr) w = (Inr (ca, cert, key), w')"
  shows "\<exists>caT t caKey k. ct_IsCA caT \<and> \<not> ct_IsCA t \<and> ct_IPAddresses t = [fixedCertIP]
     \<and> madeBy cr caT caT caKey caKey ca \<and> madeBy cr t caT k caKey cert
     \<and> cr_pemEncode cr ''RSA PRIVATE KEY'' (cr_MarshalPKCS1PrivateKey cr k) = Inr key"
proof -
  from assms obtain caT caKey caB t k cB w1 w2 w3 w4 w5 w6
    where "run_state (createCertTemplate cr True) w = (caT, w1)"
      "run_state (selfSign cr caT caKey) w2 = (Inr caB, w3)" "certToPEM cr caB = Inr ca"
      "run_state (createCertTemplate cr False) w3 = (t, w4)"
      "run_state (sign cr t caT k caKey) w5 = (Inr cB, w6)" "certToPEM cr cB = Inr cert" "privKeyToPEM cr k = Inr key"
    unfolding CreateCerts_def createPrivKey_def run_bind_iff orReturn_Inr by auto
  then have "ct_IsCA caT" "\<not> ct_IsCA t" "ct_IPAddresses t = [fixedCertIP]"
    and "madeBy cr caT caT caKey caKey ca" "madeBy cr t caT k caKey cert"
    and "cr_pemEncode cr ''RSA PRIVATE KEY'' (cr_MarshalPKCS1PrivateKey cr k) = Inr key"
    by (auto simp: madeBy_def selfSign_def sign_def certToPEM_def privKeyToPEM_def toPem_eq dest!: run_createCertTemplate)
  then show ?thesis by blast
qed

text \<open>
  What the standard library documents: a certificate made for a key loads together with that key, and
  a certificate loads into a pool.
\<close>

definition cryptoSound :: "('w, 'k, 'p, 'c) crypto \<Rightarrow> bool" where
  "cryptoSound cr \<longleftrightarrow>
     (\<forall>cert ca k caKey pem keyPem. madeBy cr cert ca k caKey pem \<longrightarrow>
        cr_pemEncode cr ''RSA PRIVATE KEY'' (cr_MarshalPKCS1PrivateKey cr k) = Inr keyPem \<longrightarrow>
        (\<exists>p. cr_X509KeyPair cr pem keyPem = Inr p))
     \<and> (\<forall>cert ca k caKey pem. madeBy cr cert ca k caKey pem \<longrightarrow> (\<exists>c. cr_AppendCertsFromPEM cr pem = Some c))"

text \<open>What the API server stores: string data is merged into the data and not kept.\<close>

definition storedSecret :: "Secret \<Rightarrow> Secret" where
  "storedSecret s = s\<lparr>sec_Data := Some ((\<lambda>k. map_get (sec_Data s) k) ++ (\<lambda>k. map_get (sec_StringData s) k)),
                     sec_StringData := None\<rparr>"

lemma buffers_storedSecret:
  "toBuffer (storedSecret (certSecret ns ca cert key)) caPemKey = ca"
  "toBuffer (storedSecret (certSecret ns ca cert key)) certPemKey = cert"
  "toBuffer (storedSecret (certSecret ns ca cert key)) keyPemKey = key"
  by (simp_all add: toBuffer_def storedSecret_def certSecret_def map_val_def map_get_def map_add_def
      caPemKey_def certPemKey_def keyPemKey_def)

text \<open>
  Certificates that were stored are read back: after a store that created the secret, a new storage
  of the same namespace answers with the same three PEM texts.
\<close>

theorem stored_certs_read_back:
  assumes "run_state (sc_CreateSecret cl (certSecret ns ca cert key)) w = (None, w1)"
    and "run_state (sc_GetSecret cl ns secretName) w1 = (Inr (storedSecret (certSecret ns ca cert key)), w2)"
  shows "\<exists>st. run_state (StoreCerts cl ca cert key) (NewSecretCertStorage ns w) = (None, st)
     \<and> fst (run_state (GetCerts cl) (NewSecretCertStorage ns (scs_world st))) = Inr (ca, cert, key)"
  using assms by (simp add: StoreCerts_def GetCerts_def NewSecretCertStorage_def buffers_storedSecret)

text \<open>
  A storage reads the secret once: after a first successful answer, every later one is the same,
  whatever has become of the cluster in between, and makes no call.
\<close>

theorem certs_read_once:
  assumes "run_state (GetCerts cl) st = (Inr certs, st')"
  shows "run_state (GetCerts cl) (st'\<lparr>scs_world := w\<rparr>) = (Inr certs, st'\<lparr>scs_world := w\<rparr>)"
  using assms by (auto simp: GetCerts_def split: option.splits sum.splits prod.splits)

text \<open>
  Certificates made by the operator let agents talk to each other: a server and a client that read
  them get the same key pair and pool, the server demands and verifies client certificates, both
  insist on TLS 1.3, and the server name the client expects is an address of the shared certificate,
  which the CA of the pool has signed.
\<close>

lemma created_tls:
  assumes "cryptoSound cr" and "run_state (CreateCerts cr) w = (Inr (ca, cert, key), w')"
    and "fst (run_state getCerts s) = Inr (ca, cert, key)"
  shows "\<exists>srv cli caT t caKey k. fst (run_state (GetServerCredentialsFromCerts cr getCerts) s) = Inr srv
     \<and> fst (run_state (GetClientCredentialsFromCerts cr getCerts) s) = Inr cli
     \<and> tls_Certificates srv = tls_Certificates cli \<and> tls_ClientCAs srv = tls_RootCAs cli \<and> tls_RootCAs cli \<noteq> None
     \<and> tls_ClientAuth srv = RequireAndVerifyClientCert
     \<and> tls_MinVersion srv = 0x0304 \<and> tls_MinVersion cli = 0x0304
     \<and> ct_IsCA caT \<and> madeBy cr caT caT caKey caKey ca \<and> madeBy cr t caT k caKey cert
     \<and> tls_ServerName cli \<in> set (ct_IPAddresses t)"
proof -
  obtain caT t caKey k where chain: "ct_IsCA caT" "ct_IPAddresses t = [fixedCertIP]"
    "madeBy cr caT caT caKey caKey ca" "madeBy cr t caT k caKey cert"
    "cr_pemEncode cr ''RSA PRIVATE KEY'' (cr_MarshalPKCS1PrivateKey cr k) = Inr key"
    using CreateCerts_chain [OF assms(2)] by blast
  obtain p where p: "cr_X509KeyPair cr cert key = Inr p"
    using assms(1) chain(4,5) unfolding cryptoSound_def by blast
  obtain c where c: "cr_AppendCertsFromPEM cr ca = Some c"
    using assms(1) chain(3) unfolding cryptoSound_def by blast
  have prep: "fst (run_state (prepareCredentials cr getCerts) s) = Inr (p, c)"
    using assms(3) p c by (simp add: prepareCredentials_def fst_run_bind del: run_state_bind)
  show ?thesis
    using chain by (fastforce simp: GetServerCredentialsFromCerts_def GetClientCredentialsFromCerts_def TLSMinVersion_def
        fst_run_bind prep simp del: run_state_bind)
qed

section \<open>Witnesses\<close>

text \<open>A cluster with room for one secret, and a library whose keys are numbers.\<close>

definition secretStore :: "Secret option secretClient" where
  "secretStore = \<lparr>
     sc_GetSecret = (\<lambda>ns n. gets (\<lambda>w. case w of
        Some s \<Rightarrow> if sec_Namespace s = ns \<and> sec_Name s = n then Inr s else Inl (ApiStatus NotFound n)
      | None \<Rightarrow> Inl (ApiStatus NotFound n))),
     sc_CreateSecret = (\<lambda>s. State (\<lambda>w. case w of
        Some s' \<Rightarrow> (Some (ApiStatus AlreadyExists (sec_Name s)), w)
      | None \<Rightarrow> (None, Some (storedSecret s))))\<rparr>"

definition countingCrypto :: "(nat, nat, string, string) crypto" where
  "countingCrypto = \<lparr>
     cr_Now = gets int, cr_AddDate = (\<lambda>t y m d. t + 31557600 * Second * y),
     cr_GenerateKey = (\<lambda>bits. State (\<lambda>w. (Inr w, Suc w))),
     cr_CreateCertificate = (\<lambda>cert ca k caKey. returnM (Inr (nat_digits k))),
     cr_MarshalPKCS1PrivateKey = nat_digits, cr_pemEncode = (\<lambda>t b. Inr b),
     cr_X509KeyPair = (\<lambda>c k. if c = k then Inr c else Inl (ErrMsg ''tls: private key does not match public key'')),
     cr_AppendCertsFromPEM = Some\<rparr>"

lemma countingCrypto_sound: "cryptoSound countingCrypto"
  by (auto simp: cryptoSound_def madeBy_def countingCrypto_def)

lemma countingCrypto_run:
  "run_state (CreateCerts countingCrypto) 3 = (Inr (nat_digits 3, nat_digits 4, nat_digits 4), 5)"
  by (simp add: CreateCerts_def createCertTemplate_def createPrivKey_def selfSign_def sign_def certToPEM_def privKeyToPEM_def
      toPem_eq orReturn_def countingCrypto_def Let_def)

theorem stored_certs_read_back_witness:
  "\<exists>st. run_state (StoreCerts secretStore ''A'' ''B'' ''C'') (NewSecretCertStorage ''ns'' None) = (None, st)
     \<and> fst (run_state (GetCerts secretStore) (NewSecretCertStorage ''ns'' (scs_world st))) = Inr (''A'', ''B'', ''C'')"
  by (rule stored_certs_read_back [where ?w1.0 = "Some (storedSecret (certSecret ''ns'' ''A'' ''B'' ''C''))"
        and ?w2.0 = "Some (storedSecret (certSecret ''ns'' ''A'' ''B'' ''C''))"])
     (simp_all add: secretStore_def storedSecret_def certSecret_def)

theorem certs_read_once_witness:
  "\<exists>st. run_state (GetCerts secretStore) st = (Inr (''A'', ''B'', ''C''), st) \<and> scs_world st = None"
proof -
  let ?w = "Some (storedSecret (certSecret ''ns'' ''A'' ''B'' ''C''))"
  have "run_state (sc_GetSecret secretStore ''ns'' secretName) ?w = (Inr (the ?w), ?w)"
    by (simp add: secretStore_def storedSecret_def certSecret_def)
  then obtain st where "run_state (GetCerts secretStore) (NewSecretCertStorage ''ns'' ?w) = (Inr (''A'', ''B'', ''C''), st)"
    by (simp add: GetCerts_def NewSecretCertStorage_def buffers_storedSecret)
  from certs_read_once [OF this, of None] show ?thesis by fastforce
qed

end
