(* ===== verification/Peers.thy ===== *)
theory Peers
  imports Node_Utils
begin

text \<open>
  The list of peers of an agent (\<^verbatim>\<open>pkg/peers/peers.go\<close>, \<^verbatim>\<open>pkg/peers/response.go\<close>): the addresses of
  the agents on the other nodes, refreshed periodically while the API server can be reached, and read
  when it cannot. Every method holds the mutex from its first to its last access, so each one is a
  single step on the object.
\<close>

section \<open>Definitions\<close>

datatype Role = Worker | ControlPlane

text \<open>A selector is nil until \<^verbatim>\<open>Start\<close> has read the own node. An address without a pod is empty.\<close>

record Peers =
  pe_myNodeName :: string
  pe_peerUpdateInterval :: duration
  pe_apiServerTimeout :: duration
  pe_workerPeerSelector :: "Requirement list"
  pe_controlPlanePeerSelector :: "Requirement list"
  pe_workerPeersAddresses :: "string list"
  pe_controlPlanePeersAddresses :: "string list"

definition New :: "string \<Rightarrow> duration \<Rightarrow> duration \<Rightarrow> Peers" where
  "New myNodeName peerUpdateInterval apiServerTimeout' =
     \<lparr>pe_myNodeName = myNodeName, pe_peerUpdateInterval = peerUpdateInterval,
      pe_apiServerTimeout = apiServerTimeout', pe_workerPeerSelector = [], pe_controlPlanePeerSelector = [],
      pe_workerPeersAddresses = [], pe_controlPlanePeersAddresses = []\<rparr>"

definition hostnameLabelName :: string where
  "hostnameLabelName = ''kubernetes.io/hostname''"

definition createSelector :: "string \<Rightarrow> string \<Rightarrow> Requirement list" where
  "createSelector hostNameToExclude nodeTypeLabel =
     [ReqNotEquals hostnameLabelName hostNameToExclude, ReqExists nodeTypeLabel]"

definition getControlPlaneLabel :: "Node \<Rightarrow> string" where
  "getControlPlaneLabel node =
     (if map_get (om_Labels (n_Meta node)) ControlPlaneRole \<noteq> None then ControlPlaneRole else MasterRole)"

text \<open>
  The two nested loops of \<^verbatim>\<open>updatePeers\<close>: for each node the first IP of the last agent pod on it; the
  first such pod without an IP ends the update.
\<close>

fun podLoop :: "Node \<Rightarrow> Pod list \<Rightarrow> string \<Rightarrow> string result" where
  "podLoop node [] address = Inr address"
| "podLoop node (pod # pods) address =
     (if p_NodeName pod = om_Name (n_Meta node)
      then (case p_PodIPs pod of
              [] \<Rightarrow> Inl (ErrMsg (''empty Pod IP for Pod '' @ om_Name (p_Meta pod) @ '' on Node '' @ om_Name (n_Meta node)))
            | ip # _ \<Rightarrow> podLoop node pods ip)
      else podLoop node pods address)"

fun nodeLoop :: "Node list \<Rightarrow> Pod list \<Rightarrow> string list result" where
  "nodeLoop [] pods = Inr []"
| "nodeLoop (node # nodes) pods =
     (case podLoop node pods '''' of
        Inl err \<Rightarrow> Inl err
      | Inr address \<Rightarrow>
          (case nodeLoop nodes pods of Inl err \<Rightarrow> Inl err | Inr addresses \<Rightarrow> Inr (address # addresses)))"

text \<open>\<^verbatim>\<open>updatePeers\<close>; the mutex makes it one step on the object, whatever the role it is called for.\<close>

definition updatePeers ::
  "'w client \<Rightarrow> Requirement list \<Rightarrow> (string list \<Rightarrow> Peers \<Rightarrow> Peers) \<Rightarrow> Peers \<Rightarrow> ('w, error option \<times> Peers) state" where
  "updatePeers cl selector setAddresses p = do {
     nodes \<leftarrow> cl_ListNodes cl selector;
     case nodes of
       Inl err \<Rightarrow>
         returnM (Some (Wrapped err ''failed to update peer list''),
                  if IsNotFound err then p\<lparr>pe_workerPeersAddresses := []\<rparr> else p)
     | Inr nodeItems \<Rightarrow> do {
         pods \<leftarrow> cl_ListPods cl agentSelector;
         returnM (case pods of
             Inl err \<Rightarrow> (Some (Wrapped err ''could not get pods''), p)
           | Inr podItems \<Rightarrow>
               (case nodeLoop nodeItems podItems of
                  Inl err \<Rightarrow> (Some err, p)
                | Inr addresses \<Rightarrow> (None, setAddresses addresses p)))
       }
   }"

definition updateWorkerPeers :: "'w client \<Rightarrow> Peers \<Rightarrow> ('w, error option \<times> Peers) state" where
  "updateWorkerPeers cl p =
     updatePeers cl (pe_workerPeerSelector p) (\<lambda>as q. q\<lparr>pe_workerPeersAddresses := as\<rparr>) p"

definition updateControlPlanePeers :: "'w client \<Rightarrow> Peers \<Rightarrow> ('w, error option \<times> Peers) state" where
  "updateControlPlanePeers cl p =
     updatePeers cl (pe_controlPlanePeerSelector p) (\<lambda>as q. q\<lparr>pe_controlPlanePeersAddresses := as\<rparr>) p"

text \<open>\<^verbatim>\<open>Start\<close> until the loop: the selectors exclude the own host name.\<close>

definition Start_selectors :: "'w client \<Rightarrow> Peers \<Rightarrow> ('w, error option \<times> Peers) state" where
  "Start_selectors cl p = do {
     res \<leftarrow> cl_GetNode cl (pe_myNodeName p);
     returnM (case res of
         Inl err \<Rightarrow> (Some err, p)
       | Inr myNode \<Rightarrow>
           (case map_get (om_Labels (n_Meta myNode)) hostnameLabelName of
              None \<Rightarrow> (Some (ErrMsg (hostnameLabelName @ '' label not set on own node'')), p)
            | Some hostname \<Rightarrow>
                (None, p\<lparr>pe_workerPeerSelector := createSelector hostname WorkerRole,
                         pe_controlPlanePeerSelector := createSelector hostname (getControlPlaneLabel myNode)\<rparr>)))
   }"

text \<open>
  One round of the loop: the error variable, and whether the round cancelled the loop's context. The
  second update runs also when the first one failed, and overwrites the variable.
\<close>

definition updateRound :: "'w client \<Rightarrow> Peers \<Rightarrow> ('w, (error option \<times> bool) \<times> Peers) state" where
  "updateRound cl p = do {
     w \<leftarrow> updateWorkerPeers cl p;
     c \<leftarrow> updateControlPlanePeers cl (snd w);
     returnM ((fst c, fst w \<noteq> None \<or> fst c \<noteq> None), snd c)
   }"

text \<open>
  The loop runs until its context is done, which is checked before each round. The list says for each
  round whether the manager's context is done at its check; when the list ends the loop still runs.
\<close>

fun updateLoop :: "'w client \<Rightarrow> bool list \<Rightarrow> error option \<Rightarrow> Peers \<Rightarrow> ('w, error option option \<times> Peers) state" where
  "updateLoop cl [] updatePeersError p = returnM (None, p)"
| "updateLoop cl (ctxDone # rounds) updatePeersError p =
     (if ctxDone then returnM (Some updatePeersError, p)
      else do {
        r \<leftarrow> updateRound cl p;
        case r of ((err, cancelled), p') \<Rightarrow>
          if cancelled then returnM (Some err, p') else updateLoop cl rounds err p'
      })"

definition Start :: "'w client \<Rightarrow> bool list \<Rightarrow> Peers \<Rightarrow> ('w, error option option \<times> Peers) state" where
  "Start cl rounds p = do {
     r \<leftarrow> Start_selectors cl p;
     case r of (err, p') \<Rightarrow>
       (case err of Some e \<Rightarrow> returnM (Some (Some e), p') | None \<Rightarrow> updateLoop cl rounds None p')
   }"

definition GetPeersAddresses :: "Peers \<Rightarrow> Role \<Rightarrow> string list" where
  "GetPeersAddresses p role =
     (case role of Worker \<Rightarrow> pe_workerPeersAddresses p | ControlPlane \<Rightarrow> pe_controlPlanePeersAddresses p)"

text \<open>The verdicts about a node and their reasons (\<^verbatim>\<open>pkg/peers/response.go\<close>).\<close>

datatype reason =
    HealthyBecauseCRNotFound
  | HealthyBecauseErrorsThresholdNotReached
  | HealthyBecauseNoPeersResponseNotReachedTimeout
  | HealthyBecauseNoPeersWereFound
  | HealthyBecauseMostPeersCantAccessAPIServer
  | UnHealthyBecausePeersResponse
  | UnHealthyBecauseNodeIsIsolated

record Response =
  IsHealthy :: bool
  Reason :: reason

section \<open>Lemmas\<close>

text \<open>The reference: the agent pods on a node, and the address of the last of them.\<close>

definition agentPodsOn :: "Node \<Rightarrow> Pod list \<Rightarrow> Pod list" where
  "agentPodsOn node pods = filter (\<lambda>pod. p_NodeName pod = om_Name (n_Meta node)) pods"

definition addressOf :: "Node \<Rightarrow> Pod list \<Rightarrow> string" where
  "addressOf node pods = (if agentPodsOn node pods = [] then '''' else hd (p_PodIPs (last (agentPodsOn node pods))))"

lemma podLoop_Inr:
  "podLoop node pods a = Inr b \<longleftrightarrow>
     (\<forall>pod \<in> set (agentPodsOn node pods). p_PodIPs pod \<noteq> [])
     \<and> b = (if agentPodsOn node pods = [] then a else hd (p_PodIPs (last (agentPodsOn node pods))))"
  by (induction pods arbitrary: a) (auto simp: agentPodsOn_def split: list.splits)

lemma nodeLoop_Inr:
  "nodeLoop nodes pods = Inr addresses \<Longrightarrow>
     (\<forall>node \<in> set nodes. \<forall>pod \<in> set (agentPodsOn node pods). p_PodIPs pod \<noteq> [])
     \<and> addresses = map (\<lambda>node. addressOf node pods) nodes"
proof (induction nodes arbitrary: addresses)
  case (Cons node nodes)
  then obtain a as where "podLoop node pods [] = Inr a" "nodeLoop nodes pods = Inr as" "addresses = a # as"
    by (auto split: sum.splits)
  with Cons.IH show ?case by (auto simp: podLoop_Inr addressOf_def)
qed simp

lemma createSelector_excludes:
  "Selector_Matches (createSelector hostname l) labels \<Longrightarrow>
   map_get labels hostnameLabelName \<noteq> Some hostname \<and> map_get labels l \<noteq> None"
  by (simp add: createSelector_def split: if_splits)

section \<open>Properties\<close>

text \<open>
  A successful update of the worker peers stores exactly one address per listed node, in the
  order of the list: the first IP of the last agent pod on the node, or the empty address when there
  is no agent pod. The control plane addresses are left alone. An update that fails leaves all
  addresses alone, except that the worker addresses are dropped when the API server answers that
  there are no such nodes.
\<close>

theorem updateWorkerPeers_result:
  assumes "run_state (updateWorkerPeers cl p) w = ((err, p'), w')"
  shows "case err of
       None \<Rightarrow> \<exists>nodes pods w1. run_state (cl_ListNodes cl (pe_workerPeerSelector p)) w = (Inr nodes, w1)
           \<and> run_state (cl_ListPods cl agentSelector) w1 = (Inr pods, w')
           \<and> p' = p\<lparr>pe_workerPeersAddresses := map (\<lambda>node. addressOf node pods) nodes\<rparr>
     | Some e \<Rightarrow> p' = p \<or> IsNotFound e \<and> p' = p\<lparr>pe_workerPeersAddresses := []\<rparr>"
  using assms
  by (auto simp: updateWorkerPeers_def updatePeers_def IsNotFound_def dest!: nodeLoop_Inr
      split: prod.splits sum.splits option.splits if_splits)

text \<open>A cluster with one peer that runs an agent and one that does not.\<close>

definition peerNode :: "string \<Rightarrow> Node" where
  "peerNode name = \<lparr>n_Meta = \<lparr>om_Name = name, om_Namespace = '''', om_CreationTimestamp = 0, om_DeletionTimestamp = None,
     om_Annotations = None, om_Labels = Some [hostnameLabelName \<mapsto> name, WorkerRole \<mapsto> ''''], om_Finalizers = [],
     om_OwnerReferences = []\<rparr>, n_Unschedulable = False, n_Taints = []\<rparr>"

definition peerPod :: Pod where
  "peerPod = \<lparr>p_Meta = n_Meta (peerNode ''agent''), p_NodeName = ''node-1'', p_PodIPs = [''10.0.0.1'']\<rparr>"

text \<open>The second component of the world counts the node lists; lists from the given number on fail.\<close>

definition peerClient :: "(nat \<Rightarrow> error option) \<Rightarrow> nat client" where
  "peerClient fails =
     \<lparr>cl_Now = returnM 0, cl_GetSnr = (\<lambda>_ _. returnM (Inl (ApiStatus NotFound ''''))),
      cl_GetConfig = (\<lambda>_ _. returnM (Inl (ApiStatus NotFound ''''))),
      cl_GetNode = (\<lambda>name. returnM (Inr (peerNode name))),
      cl_GetMachine = (\<lambda>_ _. returnM (Inl (ApiStatus NotFound ''''))),
      cl_ListNodes = (\<lambda>_. State (\<lambda>n. (case fails n of Some e \<Rightarrow> Inl e | None \<Rightarrow> Inr [peerNode ''node-1'', peerNode ''node-2''],
        Suc n))),
      cl_ListPods = (\<lambda>_. returnM (Inr [peerPod])),
      cl_ListSnrs = returnM (Inr []), cl_ListVolumeAttachments = returnM (Inr []),
      cl_ListNamespaces = returnM (Inr []), cl_UpdateNode = (\<lambda>n. returnM (Inr n)),
      cl_PatchNode = (\<lambda>_ n. returnM (Inr n)), cl_UpdateSnr = (\<lambda>s. returnM (Inr s)),
      cl_StatusUpdateSnr = (\<lambda>s. returnM (Inr s)), cl_StatusPatchSnr = (\<lambda>_ s. returnM (Inr s)),
      cl_DeleteAllOfPods = (\<lambda>_ _. returnM (Inr ()))\<rparr>"

theorem updateWorkerPeers_result_witness:
  "\<exists>p'. fst (run_state (updateWorkerPeers (peerClient (\<lambda>_. None)) (New ''node-0'' 1 1)) 0) = (None, p')
     \<and> pe_workerPeersAddresses p' = [''10.0.0.1'', '''']"
proof -
  obtain p' w' where run: "run_state (updateWorkerPeers (peerClient (\<lambda>_. None)) (New ''node-0'' 1 1)) 0 = ((None, p'), w')"
    by (simp add: updateWorkerPeers_def updatePeers_def peerClient_def peerNode_def peerPod_def)
  from updateWorkerPeers_result [OF run] run show ?thesis
    by (auto simp: peerClient_def peerNode_def peerPod_def addressOf_def agentPodsOn_def)
qed

text \<open>
  A failure to update the worker peers is lost when the update of the control plane peers in the
  same round succeeds: the loop ends, but \<^verbatim>\<open>Start\<close> returns no error, so the manager does not learn that
  the peers are no longer refreshed.
\<close>

theorem worker_update_error_lost:
  assumes "run_state (Start_selectors cl p) w = ((None, p1), w1)"
    and "run_state (updateWorkerPeers cl p1) w1 = ((Some err, p2), w2)"
    and "run_state (updateControlPlanePeers cl p2) w2 = ((None, p3), w3)"
  shows "run_state (Start cl (False # rounds) p) w = ((Some None, p3), w3)"
  using assms by (simp add: Start_def updateRound_def)

theorem worker_update_error_lost_witness:
  "\<exists>p' n. run_state (Start (peerClient (\<lambda>n. if n = 0 then Some (ErrMsg ''timeout'') else None)) [False]
     (New ''node-0'' 1 1)) 0 = ((Some None, p'), n)"
proof -
  let ?cl = "peerClient (\<lambda>n. if n = 0 then Some (ErrMsg ''timeout'') else None)"
  obtain p1 where 1: "run_state (Start_selectors ?cl (New ''node-0'' 1 1)) 0 = ((None, p1), 0)"
    by (simp add: Start_selectors_def peerClient_def peerNode_def map_get_def hostnameLabelName_def WorkerRole_def)
  have 2: "run_state (updateWorkerPeers ?cl p1) 0 = ((Some (Wrapped (ErrMsg ''timeout'') ''failed to update peer list''), p1), 1)"
    by (simp add: updateWorkerPeers_def updatePeers_def peerClient_def IsNotFound_def)
  obtain p3 where 3: "run_state (updateControlPlanePeers ?cl p1) 1 = ((None, p3), 2)"
    by (simp add: updateControlPlanePeers_def updatePeers_def peerClient_def peerNode_def peerPod_def numeral_2_eq_2)
  from worker_update_error_lost [OF 1 2 3] show ?thesis by blast
qed

end
