(* ===== verification/Control_Plane.thy ===== *)
theory Control_Plane
  imports Peers
begin

text \<open>
  The control plane manager of an agent (\<^verbatim>\<open>pkg/controlplane/manager.go\<close>): the role of the own node, and
  the extra checks with which a control plane node judges itself when its worker peers give no clear
  verdict. Pinging the endpoint and requesting the kubelet are calls of other packages, so their
  results are parameters.
\<close>

section \<open>Definitions\<close>

record 'w probes =
  pr_NewPinger :: "string \<Rightarrow> ('w, error option) state"
  pr_RunPinger :: "string \<Rightarrow> ('w, error option) state"
  pr_NewRequest :: "string \<Rightarrow> ('w, error option) state"
  pr_Do :: "string \<Rightarrow> ('w, error option) state"

record Manager =
  cpm_nodeName :: string
  cpm_nodeRole :: Role
  cpm_endpointHealthCheckUrl :: string
  cpm_wasEndpointAccessibleAtStart :: bool

definition NewManager :: "env \<Rightarrow> string \<Rightarrow> Manager" where
  "NewManager env nodeName =
     \<lparr>cpm_nodeName = nodeName, cpm_nodeRole = Worker,
      cpm_endpointHealthCheckUrl = Getenv env ''END_POINT_HEALTH_CHECK_URL'',
      cpm_wasEndpointAccessibleAtStart = False\<rparr>"

definition Manager_IsControlPlane :: "Manager \<Rightarrow> bool" where
  "Manager_IsControlPlane m \<longleftrightarrow> cpm_nodeRole m = ControlPlane"

definition kubeletPort :: string where
  "kubeletPort = ''10250''"

definition isEndpointAccessible :: "'w probes \<Rightarrow> Manager \<Rightarrow> ('w, bool) state" where
  "isEndpointAccessible pr m =
     (if cpm_endpointHealthCheckUrl m = '''' then returnM True
      else do {
        err \<leftarrow> pr_NewPinger pr (cpm_endpointHealthCheckUrl m);
        if err \<noteq> None then returnM False
        else do {
          err' \<leftarrow> pr_RunPinger pr (cpm_endpointHealthCheckUrl m);
          returnM (err' = None)
        }
      })"

definition isEndpointAccessLost :: "'w probes \<Rightarrow> Manager \<Rightarrow> ('w, bool) state" where
  "isEndpointAccessLost pr m =
     (if \<not> cpm_wasEndpointAccessibleAtStart m then returnM False
      else do { accessible \<leftarrow> isEndpointAccessible pr m; returnM (\<not> accessible) })"

definition isKubeletServiceRunning :: "'w probes \<Rightarrow> Manager \<Rightarrow> ('w, bool) state" where
  "isKubeletServiceRunning pr m = do {
     let url = ''https://'' @ cpm_nodeName m @ '':'' @ kubeletPort @ ''/pods'';
     err \<leftarrow> pr_NewRequest pr url;
     if err \<noteq> None then returnM False
     else do {
       err' \<leftarrow> pr_Do pr url;
       returnM (err' = None)
     }
   }"

definition isDiagnosticsPassed :: "'w probes \<Rightarrow> Manager \<Rightarrow> ('w, bool) state" where
  "isDiagnosticsPassed pr m = do {
     lost \<leftarrow> isEndpointAccessLost pr m;
     if lost then returnM False
     else do {
       running \<leftarrow> isKubeletServiceRunning pr m;
       returnM running
     }
   }"

text \<open>\<^verbatim>\<open>IsControlPlaneHealthy\<close>; every reason of \<^verbatim>\<open>pkg/peers\<close> has its case, so the default is not reached.\<close>

definition IsControlPlaneHealthy :: "'w probes \<Rightarrow> Manager \<Rightarrow> Response \<Rightarrow> bool \<Rightarrow> ('w, bool) state" where
  "IsControlPlaneHealthy pr m workerPeerResponse canOtherControlPlanesBeReached =
     (case Reason workerPeerResponse of
        UnHealthyBecausePeersResponse \<Rightarrow> returnM False
      | UnHealthyBecauseNodeIsIsolated \<Rightarrow> returnM canOtherControlPlanesBeReached
      | HealthyBecauseErrorsThresholdNotReached \<Rightarrow> returnM True
      | HealthyBecauseCRNotFound \<Rightarrow> returnM True
      | HealthyBecauseNoPeersResponseNotReachedTimeout \<Rightarrow> returnM True
      | HealthyBecauseMostPeersCantAccessAPIServer \<Rightarrow> isDiagnosticsPassed pr m
      | HealthyBecauseNoPeersWereFound \<Rightarrow> do {
          passed \<leftarrow> isDiagnosticsPassed pr m;
          returnM (passed \<and> canOtherControlPlanesBeReached)
        })"

definition setNodeRole :: "Node \<Rightarrow> Manager \<Rightarrow> Manager" where
  "setNodeRole node m = m\<lparr>cpm_nodeRole := (if IsControlPlane node then ControlPlane else Worker)\<rparr>"

definition wrapWithInitError :: "error \<Rightarrow> error" where
  "wrapWithInitError err = Wrapped err ''error initializing controlplane handler''"

definition initializeManager :: "'w client \<Rightarrow> 'w probes \<Rightarrow> Manager \<Rightarrow> ('w, error option \<times> Manager) state" where
  "initializeManager cl pr m = do {
     res \<leftarrow> cl_GetNode cl (cpm_nodeName m);
     case res of
       Inl err \<Rightarrow> returnM (Some (wrapWithInitError err), m)
     | Inr node \<Rightarrow> do {
         accessible \<leftarrow> isEndpointAccessible pr (setNodeRole node m);
         returnM (None, (setNodeRole node m)\<lparr>cpm_wasEndpointAccessibleAtStart := accessible\<rparr>)
       }
   }"

definition Manager_Start :: "'w client \<Rightarrow> 'w probes \<Rightarrow> Manager \<Rightarrow> ('w, error option \<times> Manager) state" where
  "Manager_Start cl pr m = initializeManager cl pr m"

section \<open>Properties\<close>

text \<open>
  C38: the verdict of a control plane node about itself. Unhealthy worker verdicts count, except that
  an isolated node stays healthy while another control plane node can be reached; a node whose workers
  cannot reach the API server either, or that has no worker peers, must pass its diagnostics, and in
  the second case reach another control plane node as well. The node is healthy for every other reason.
\<close>

theorem controlPlaneHealthy_verdict:
  assumes "run_state (IsControlPlaneHealthy pr m resp reach) w = (healthy, w')"
  shows "healthy \<longleftrightarrow>
     Reason resp \<noteq> UnHealthyBecausePeersResponse
     \<and> (Reason resp \<in> {UnHealthyBecauseNodeIsIsolated, HealthyBecauseNoPeersWereFound} \<longrightarrow> reach)
     \<and> (Reason resp \<in> {HealthyBecauseMostPeersCantAccessAPIServer, HealthyBecauseNoPeersWereFound} \<longrightarrow>
          fst (run_state (isDiagnosticsPassed pr m) w))"
  using assms by (cases "Reason resp") (auto simp: IsControlPlaneHealthy_def split: prod.splits)

definition exampleProbes :: "error option \<Rightarrow> unit probes" where
  "exampleProbes kubelet =
     \<lparr>pr_NewPinger = (\<lambda>_. returnM None), pr_RunPinger = (\<lambda>_. returnM None), pr_NewRequest = (\<lambda>_. returnM None),
      pr_Do = (\<lambda>_. returnM kubelet)\<rparr>"

theorem controlPlaneHealthy_verdict_witness:
  "fst (run_state (IsControlPlaneHealthy (exampleProbes None) (NewManager (\<lambda>_. None) ''master-0'')
     \<lparr>IsHealthy = True, Reason = HealthyBecauseMostPeersCantAccessAPIServer\<rparr> False) ())
   \<and> \<not> fst (run_state (IsControlPlaneHealthy (exampleProbes (Some (ErrMsg ''refused''))) (NewManager (\<lambda>_. None) ''master-0'')
     \<lparr>IsHealthy = True, Reason = HealthyBecauseMostPeersCantAccessAPIServer\<rparr> False) ())"
  by (intro conjI notI; simp only: controlPlaneHealthy_verdict [OF surjective_pairing])
    (simp_all add: isDiagnosticsPassed_def isEndpointAccessLost_def isKubeletServiceRunning_def exampleProbes_def
      NewManager_def)

text \<open>
  A control plane node that was started without access to its configured endpoint never fails its
  diagnostics because of the endpoint; it passes them exactly when the kubelet answers.
\<close>

theorem diagnostics_without_endpoint:
  assumes "\<not> cpm_wasEndpointAccessibleAtStart m"
  shows "run_state (isDiagnosticsPassed pr m) w = run_state (isKubeletServiceRunning pr m) w"
  using assms by (simp add: isDiagnosticsPassed_def isEndpointAccessLost_def split: prod.split)

theorem diagnostics_without_endpoint_witness:
  "run_state (isDiagnosticsPassed (exampleProbes None) (NewManager (\<lambda>_. None) ''master-0'')) ()
     = run_state (isKubeletServiceRunning (exampleProbes None) (NewManager (\<lambda>_. None) ''master-0'')) ()"
  by (rule diagnostics_without_endpoint) (simp add: NewManager_def)

end
