(* ===== verification/Peer_Health.thy ===== *)
theory Peer_Health
  imports "HOL-Library.Word" Owner_And_Name Calculator
begin

text \<open>
  The peer health service (\<^verbatim>\<open>pkg/peerhealth/server.go\<close>, \<^verbatim>\<open>pkg/peerhealth/client.go\<close>,
  \<^verbatim>\<open>api/HealthCheckResponse.go\<close>): a peer answers whether there is a remediation for the node that asks.
\<close>

section \<open>Definitions\<close>

text \<open>The response codes; the constants use \<^verbatim>\<open>iota\<close>, so \<^verbatim>\<open>Healthy\<close> is one.\<close>

type_synonym HealthCheckResponseCode = int

definition RequestFailed :: HealthCheckResponseCode where "RequestFailed = -1"

definition Healthy :: HealthCheckResponseCode where "Healthy = 1"

definition Unhealthy :: HealthCheckResponseCode where "Unhealthy = 2"

definition ApiError :: HealthCheckResponseCode where "ApiError = 3"

lemma codes_distinct [simp]:
  "Healthy \<noteq> Unhealthy" "Unhealthy \<noteq> Healthy" "Healthy \<noteq> ApiError" "ApiError \<noteq> Healthy"
  "Unhealthy \<noteq> ApiError" "ApiError \<noteq> Unhealthy" "RequestFailed \<noteq> Healthy" "Healthy \<noteq> RequestFailed"
  "RequestFailed \<noteq> Unhealthy" "Unhealthy \<noteq> RequestFailed" "RequestFailed \<noteq> ApiError" "ApiError \<noteq> RequestFailed"
  by (simp_all add: RequestFailed_def Healthy_def Unhealthy_def ApiError_def)

record HealthRequest =
  hr_NodeName :: string
  hr_MachineName :: string

text \<open>The response carries the code as a 32-bit integer.\<close>

record HealthResponse =
  hres_Status :: "32 word"

definition toResponse :: "HealthCheckResponseCode \<Rightarrow> HealthResponse" where
  "toResponse status = \<lparr>hres_Status = word_of_int status\<rparr>"

text \<open>The loop over the remediations; an error of the comparison skips to the next one.\<close>

fun matchLoop :: "'w client \<Rightarrow> string \<Rightarrow> string \<Rightarrow> SelfNodeRemediation list \<Rightarrow> ('w, HealthResponse) state" where
  "matchLoop cl nodeName machineName [] = returnM (toResponse Healthy)"
| "matchLoop cl nodeName machineName (snr # snrs) = do {
     r \<leftarrow> IsSNRMatching cl snr nodeName machineName;
     case r of
       Inl err \<Rightarrow> matchLoop cl nodeName machineName snrs
     | Inr m \<Rightarrow> if fst m then returnM (toResponse Unhealthy) else matchLoop cl nodeName machineName snrs
   }"

definition Server_IsHealthy :: "'w client \<Rightarrow> HealthRequest \<Rightarrow> ('w, HealthResponse result) state" where
  "Server_IsHealthy cl request =
     (if hr_NodeName request = '''' then returnM (Inl (ErrMsg ''empty node name in HealthRequest''))
      else do {
        r \<leftarrow> cl_ListSnrs cl;
        case r of
          Inl err \<Rightarrow> returnM (Inr (toResponse ApiError))
        | Inr snrs \<Rightarrow> do {
            response \<leftarrow> matchLoop cl (hr_NodeName request) (hr_MachineName request) snrs;
            returnM (Inr response)
          }
      })"

definition Server_getNode :: "'w client \<Rightarrow> string \<Rightarrow> ('w, Node result) state" where
  "Server_getNode cl nodeName = cl_GetNode cl nodeName"

text \<open>\<^verbatim>\<open>NewClient\<close>: dialling is a call of the gRPC package.\<close>

definition NewClient :: "(string \<Rightarrow> ('w, error option) state) \<Rightarrow> string \<Rightarrow> bool \<Rightarrow> ('w, error option) state" where
  "NewClient dial serverAddr credsGiven =
     (if \<not> credsGiven then returnM (Some (ErrMsg ''client credential is nil''))
      else dial serverAddr)"

text \<open>An error of closing the connection is dropped.\<close>

definition Client_Close :: "('w, error option) state \<Rightarrow> ('w, unit) state" where
  "Client_Close closeConn = do { err \<leftarrow> closeConn; returnM () }"

section \<open>Properties\<close>

text \<open>A code survives the way through the response, and no two of them are confused.\<close>

lemma toResponse_status: "code \<in> {RequestFailed, Healthy, Unhealthy, ApiError} \<Longrightarrow> sint (hres_Status (toResponse code)) = code"
  by (auto simp: toResponse_def RequestFailed_def Healthy_def Unhealthy_def ApiError_def)

text \<open>Remediations for which the owner lookup needs no API call.\<close>

definition directMatch :: "string \<Rightarrow> string \<Rightarrow> SelfNodeRemediation \<Rightarrow> bool" where
  "directMatch nodeName machineName snr \<longleftrightarrow>
     (\<exists>ref. isOwnedByMachine snr = Some ref \<and> or_Name ref = machineName) \<or> getNodeNameDirect snr = nodeName"

lemma IsSNRMatching_nhc:
  "isOwnedByNHC snr \<noteq> None \<or> isOwnedByMachine snr = None \<Longrightarrow>
   \<exists>n. run_state (IsSNRMatching cl snr nodeName machineName) w = (Inr (directMatch nodeName machineName snr, n), w)"
  by (auto simp: IsSNRMatching_def directMatch_def getNodeName_direct split: option.splits)

lemma matchLoop_direct:
  "(\<forall>snr \<in> set snrs. isOwnedByNHC snr \<noteq> None \<or> isOwnedByMachine snr = None) \<Longrightarrow>
   run_state (matchLoop cl nodeName machineName snrs) w
     = (if \<exists>snr \<in> set snrs. directMatch nodeName machineName snr then toResponse Unhealthy else toResponse Healthy, w)"
proof (induction snrs arbitrary: w)
  case (Cons snr snrs)
  from IsSNRMatching_nhc [of snr cl nodeName machineName w] Cons.prems obtain n where
    "run_state (IsSNRMatching cl snr nodeName machineName) w = (Inr (directMatch nodeName machineName snr, n), w)"
    by auto
  with Cons show ?case by auto
qed simp

text \<open>
  A peer that reaches the API server tells a node that it is unhealthy exactly when some
  remediation is about it: by the name or the annotation of the remediation, or by the machine that
  owns it. This holds when no remediation is owned by a machine alone, so that no owner has to be
  looked up.
\<close>

theorem peer_answers_by_remediations:
  assumes "hr_NodeName req \<noteq> ''''" and "run_state (cl_ListSnrs cl) w = (Inr snrs, w')"
    and "\<And>snr. snr \<in> set snrs \<Longrightarrow> isOwnedByNHC snr \<noteq> None \<or> isOwnedByMachine snr = None"
  shows "run_state (Server_IsHealthy cl req) w
     = (Inr (if \<exists>snr \<in> set snrs. directMatch (hr_NodeName req) (hr_MachineName req) snr
             then toResponse Unhealthy else toResponse Healthy), w')"
  using assms matchLoop_direct [of snrs cl "hr_NodeName req" "hr_MachineName req" w']
  by (simp add: Server_IsHealthy_def)

definition ownedSnr :: "string \<Rightarrow> OwnerReference list \<Rightarrow> SelfNodeRemediation" where
  "ownedSnr name owners =
     \<lparr>snr_Meta = emptyMeta\<lparr>om_Name := name, om_OwnerReferences := owners\<rparr>, snr_RemediationStrategy = ''Automatic'',
      snr_Status = \<lparr>st_TimeAssumedRebooted = None, st_Phase = None, st_LastError = '''', st_Conditions = []\<rparr>\<rparr>"

definition listingClient :: "SelfNodeRemediation list \<Rightarrow> unit client" where
  "listingClient snrs = (staticClient [])\<lparr>cl_ListSnrs := returnM (Inr snrs)\<rparr>"

theorem peer_answers_by_remediations_witness:
  "run_state (Server_IsHealthy (listingClient [ownedSnr ''node-2'' [], ownedSnr ''node-1'' []])
     \<lparr>hr_NodeName = ''node-1'', hr_MachineName = ''''\<rparr>) () = (Inr (toResponse Unhealthy), ())"
proof -
  let ?snrs = "[ownedSnr ''node-2'' [], ownedSnr ''node-1'' []]"
  have "run_state (cl_ListSnrs (listingClient ?snrs)) () = (Inr ?snrs, ())"
    by (simp add: listingClient_def)
  moreover have "isOwnedByMachine snr = None" if "snr \<in> set ?snrs" for snr
    using that by (auto simp: ownedSnr_def isOwnedByMachine_def emptyMeta_def)
  moreover have "directMatch ''node-1'' [] (ownedSnr ''node-1'' [])"
    by (simp add: directMatch_def ownedSnr_def getNodeNameDirect_def emptyMeta_def map_get_def)
  ultimately show ?thesis
    using peer_answers_by_remediations [of "\<lparr>hr_NodeName = ''node-1'', hr_MachineName = []\<rparr>" "listingClient ?snrs" "()" ?snrs "()"]
    by simp
qed

text \<open>
  A peer calls a node healthy although its remediation exists when the owner of that remediation
  cannot be looked up: for a remediation owned by a machine other than the one in the request, and a
  failing lookup of that machine, the answer is the same as without the remediation.
\<close>

theorem peer_ignores_unresolved_remediation:
  assumes "isOwnedByNHC snr = None" and "isOwnedByMachine snr = Some ref" and "or_Name ref \<noteq> machineName"
    and "run_state (cl_GetMachine cl (om_Namespace (snr_Meta snr)) (or_Name ref)) w = (Inl err, w')"
  shows "run_state (matchLoop cl nodeName machineName (snr # snrs)) w = run_state (matchLoop cl nodeName machineName snrs) w'"
  using assms by (auto simp: IsSNRMatching_def getNodeName_def getNodeNameFromMachine_def)

theorem peer_ignores_unresolved_remediation_witness:
  "run_state (matchLoop (listingClient []) ''node-1'' ''''
     [ownedSnr ''node-1'' [\<lparr>or_Kind = ''Machine'', or_Name = ''machine-1''\<rparr>]]) () = (toResponse Healthy, ())"
  by (subst peer_ignores_unresolved_remediation [where ref = "\<lparr>or_Kind = ''Machine'', or_Name = ''machine-1''\<rparr>" and w' = "()"
        and err = "ApiStatus NotFound ''''"])
    (simp_all add: ownedSnr_def isOwnedByNHC_def isOwnedByMachine_def emptyMeta_def listingClient_def staticClient_def)

end
