(* ===== verification/Api_Check.thy ===== *)
theory Api_Check
  imports "HOL-Library.Multiset" Batches Control_Plane Peer_Health
begin

text \<open>
  The API connectivity check of an agent (\<^verbatim>\<open>pkg/apicheck/check.go\<close>): when the API server does not answer,
  the agent asks its peers in batches whether there is a remediation for its node, and triggers the
  reboot when the verdict is that the node is unhealthy.
\<close>

section \<open>State and configuration\<close>

text \<open>
  The object, with the world around it. The batches that were asked, each with the addresses and the
  codes counted for them, are a history variable.
\<close>

record 'w acs =
  ac_world :: 'w
  ac_errorCount :: int
  ac_timeOfLastPeerResponse :: instant
  ac_clientCreds :: bool
  ac_asked :: "(string \<times> HealthCheckResponseCode) list list"

datatype readyz = ReadyzError error | ReadyzStatus int

text \<open>
  The configuration: values, the shared list of peers as it is in the world, and the calls that leave
  the process (clock, certificates, dialling, the peer health request, the readiness request) or go to
  another component (the rebooter).
\<close>

record 'w ApiConnectivityCheckConfig =
  acc_MyNodeName :: string
  acc_MyMachineName :: string
  acc_MaxErrorsThreshold :: int
  acc_PeerHealthPort :: int
  acc_MaxTimeForNoPeersResponse :: duration
  acc_Peers :: "'w \<Rightarrow> Peers"
  acc_Now :: "('w, instant) state"
  acc_GetClientCredentials :: "('w, error option) state"
  acc_Dial :: "string \<Rightarrow> ('w, error option) state"
  acc_IsHealthy :: "string \<Rightarrow> HealthRequest \<Rightarrow> ('w, int result) state"
  acc_CloseConn :: "string \<Rightarrow> ('w, error option) state"
  acc_Readyz :: "('w, readyz) state"
  acc_Reboot :: "('w, error option outcome) state"

definition NewApiConnectivityCheck :: "'w ApiConnectivityCheckConfig \<Rightarrow> ('w, 'w acs) state" where
  "NewApiConnectivityCheck c = do {
     now \<leftarrow> acc_Now c;
     w \<leftarrow> gets id;
     returnM \<lparr>ac_world = w, ac_errorCount = 0, ac_timeOfLastPeerResponse = now, ac_clientCreds = False, ac_asked = []\<rparr>
   }"

definition inWorld :: "('w, 'a) state \<Rightarrow> ('w acs, 'a) state" where
  "inWorld m = zoom ac_world (\<lambda>w s. s\<lparr>ac_world := w\<rparr>) m"

section \<open>Asking the peers\<close>

definition initClientCreds :: "'w ApiConnectivityCheckConfig \<Rightarrow> ('w acs, error option) state" where
  "initClientCreds c = do {
     present \<leftarrow> gets ac_clientCreds;
     if present then returnM None
     else do {
       err \<leftarrow> inWorld (acc_GetClientCredentials c);
       case err of
         Some e \<Rightarrow> returnM (Some e)
       | None \<Rightarrow> do { modify (\<lambda>s. s\<lparr>ac_clientCreds := True\<rparr>); returnM None }
     }
   }"

text \<open>The code a peer's answer is counted as; every failure on the way is \<^verbatim>\<open>RequestFailed\<close>.\<close>

definition getHealthStatusFromPeer ::
  "'w ApiConnectivityCheckConfig \<Rightarrow> string \<Rightarrow> ('w acs, HealthCheckResponseCode) state" where
  "getHealthStatusFromPeer c endpointIp = do {
     err \<leftarrow> initClientCreds c;
     case err of
       Some e \<Rightarrow> returnM RequestFailed
     | None \<Rightarrow> do {
         creds \<leftarrow> gets ac_clientCreds;
         let addr = endpointIp @ '':'' @ Itoa (acc_PeerHealthPort c);
         err' \<leftarrow> inWorld (NewClient (acc_Dial c) addr creds);
         case err' of
           Some e \<Rightarrow> returnM RequestFailed
         | None \<Rightarrow> do {
             resp \<leftarrow> inWorld (acc_IsHealthy c addr
                       \<lparr>hr_NodeName = acc_MyNodeName c, hr_MachineName = acc_MyMachineName c\<rparr>);
             inWorld (Client_Close (acc_CloseConn c addr));
             returnM (case resp of Inl e \<Rightarrow> RequestFailed | Inr status \<Rightarrow> status)
           }
       }
   }"

text \<open>Counting the answers of a batch; an unknown code is only logged.\<close>

record responseCounts =
  rc_healthy :: int
  rc_unhealthy :: int
  rc_apiErrors :: int
  rc_noResponse :: int

fun sumLoop :: "HealthCheckResponseCode list \<Rightarrow> responseCounts \<Rightarrow> responseCounts" where
  "sumLoop [] n = n"
| "sumLoop (response # responses) n =
     sumLoop responses
       (if response = Unhealthy then n\<lparr>rc_unhealthy := rc_unhealthy n + 1\<rparr>
        else if response = Healthy then n\<lparr>rc_healthy := rc_healthy n + 1\<rparr>
        else if response = ApiError then n\<lparr>rc_apiErrors := rc_apiErrors n + 1\<rparr>
        else if response = RequestFailed then n\<lparr>rc_noResponse := rc_noResponse n + 1\<rparr>
        else n)"

definition sumPeersResponses :: "HealthCheckResponseCode list \<Rightarrow> responseCounts" where
  "sumPeersResponses responses =
     sumLoop responses \<lparr>rc_healthy = 0, rc_unhealthy = 0, rc_apiErrors = 0, rc_noResponse = 0\<rparr>"

text \<open>
  One goroutine per address, each sending one code to a buffered channel. The codes are counted in the
  order in which they arrive; \<^verbatim>\<open>askAll\<close> collects them in the order of the addresses, and the counts do
  not depend on the order.
\<close>

fun askAll :: "'w ApiConnectivityCheckConfig \<Rightarrow> string list \<Rightarrow> ('w acs, HealthCheckResponseCode list) state" where
  "askAll c [] = returnM []"
| "askAll c (address # addresses) = do {
     code \<leftarrow> getHealthStatusFromPeer c address;
     codes \<leftarrow> askAll c addresses;
     returnM (code # codes)
   }"

definition getHealthStatusFromPeers ::
  "'w ApiConnectivityCheckConfig \<Rightarrow> string list \<Rightarrow> ('w acs, responseCounts) state" where
  "getHealthStatusFromPeers c addresses = do {
     codes \<leftarrow> askAll c addresses;
     modify (\<lambda>s. s\<lparr>ac_asked := ac_asked s @ [zip addresses codes]\<rparr>);
     returnM (sumPeersResponses codes)
   }"

text \<open>
  \<^verbatim>\<open>popPeerIPs\<close>: the chosen addresses and the rest. An entry without an IP is skipped in the copying loop,
  which leaves the empty address in its place.
\<close>

definition popPeerIPs :: "string list \<Rightarrow> int \<Rightarrow> string list \<times> string list" where
  "popPeerIPs peersIPs cnt =
     (let nrOfPeers = int (length peersIPs) in
      if nrOfPeers = 0 then ([], peersIPs)
      else let n = nat (if cnt > nrOfPeers then nrOfPeers else cnt)
           in (map (\<lambda>ip. if ip = '''' then '''' else ip) (take n peersIPs), drop n peersIPs))"

lemma popPeerIPs_eq: "popPeerIPs ips n = (take (nat n) ips, drop (nat n) ips)"
  by (cases "ips = []") (auto simp: popPeerIPs_def Let_def intro: map_idI)

section \<open>The verdict\<close>

definition respond :: "bool \<Rightarrow> reason \<Rightarrow> Response" where
  "respond healthy why = \<lparr>IsHealthy = healthy, Reason = why\<rparr>"

definition now :: "'w ApiConnectivityCheckConfig \<Rightarrow> ('w acs, instant) state" where
  "now c = inWorld (acc_Now c)"

text \<open>
  One iteration of the loop over the batches: the early return, if there is one, and the sum of the API
  errors so far.
\<close>

definition askBatch ::
  "'w ApiConnectivityCheckConfig \<Rightarrow> int \<Rightarrow> string list \<Rightarrow> int \<Rightarrow> ('w acs, Response option \<times> int) state" where
  "askBatch c nrAllPeers chosenPeersIPs apiErrorsResponsesSum = do {
     n \<leftarrow> getHealthStatusFromPeers c chosenPeersIPs;
     (if 0 < rc_healthy n + rc_unhealthy n + rc_apiErrors n
      then do { t \<leftarrow> now c; modify (\<lambda>s. s\<lparr>ac_timeOfLastPeerResponse := t\<rparr>) }
      else returnM ());
     if 0 < rc_healthy n
     then do {
       modify (\<lambda>s. s\<lparr>ac_errorCount := 0\<rparr>);
       returnM (Some (respond True HealthyBecauseCRNotFound), apiErrorsResponsesSum)
     }
     else if 0 < rc_unhealthy n
     then returnM (Some (respond False UnHealthyBecausePeersResponse), apiErrorsResponsesSum)
     else if 0 < rc_apiErrors n
     then (let sum' = apiErrorsResponsesSum + rc_apiErrors n in
           if go_div nrAllPeers 2 < sum'
           then returnM (Some (respond True HealthyBecauseMostPeersCantAccessAPIServer), sum')
           else returnM (None, sum'))
     else returnM (None, apiErrorsResponsesSum)
   }"

text \<open>The loop; every iteration takes its batch from the peers that are left.\<close>

function askBatches ::
  "'w ApiConnectivityCheckConfig \<Rightarrow> int \<Rightarrow> string list \<Rightarrow> int \<Rightarrow> ('w acs, Response option) state" where
  "askBatches c nrAllPeers peersToAsk apiErrorsResponsesSum =
     (if peersToAsk = [] then returnM None
      else do {
        let popped = popPeerIPs peersToAsk (GetNextBatchSize nrAllPeers (int (length peersToAsk)));
        r \<leftarrow> askBatch c nrAllPeers (fst popped) apiErrorsResponsesSum;
        case fst r of
          Some response \<Rightarrow> returnM (Some response)
        | None \<Rightarrow> askBatches c nrAllPeers (snd popped) (snd r)
      })"
  by pat_completeness auto
termination
  by (relation "measure (\<lambda>(c, n, peersToAsk, a). length peersToAsk)")
    (auto simp: popPeerIPs_eq GetNextBatchSize_pos)

declare askBatches.simps [simp del]

definition getWorkerPeersResponse :: "'w ApiConnectivityCheckConfig \<Rightarrow> ('w acs, Response) state" where
  "getWorkerPeersResponse c = do {
     modify (\<lambda>s. s\<lparr>ac_errorCount := wrap64 (ac_errorCount s + 1)\<rparr>);
     errorCount \<leftarrow> gets ac_errorCount;
     if errorCount < acc_MaxErrorsThreshold c
     then returnM (respond True HealthyBecauseErrorsThresholdNotReached)
     else do {
       peersToAsk \<leftarrow> gets (\<lambda>s. GetPeersAddresses (acc_Peers c (ac_world s)) Worker);
       if peersToAsk = [] then returnM (respond True HealthyBecauseNoPeersWereFound)
       else do {
         early \<leftarrow> askBatches c (int (length peersToAsk)) peersToAsk 0;
         case early of
           Some r \<Rightarrow> returnM r
         | None \<Rightarrow> do {
             t \<leftarrow> now c;
             last \<leftarrow> gets ac_timeOfLastPeerResponse;
             if time_after t (time_add last (acc_MaxTimeForNoPeersResponse c))
             then returnM (respond False UnHealthyBecauseNodeIsIsolated)
             else returnM (respond True HealthyBecauseNoPeersResponseNotReachedTimeout)
           }
       }
     }
   }"

definition canOtherControlPlanesBeReached :: "'w ApiConnectivityCheckConfig \<Rightarrow> ('w acs, bool) state" where
  "canOtherControlPlanesBeReached c = do {
     peersToAsk \<leftarrow> gets (\<lambda>s. GetPeersAddresses (acc_Peers c (ac_world s)) ControlPlane);
     if int (length peersToAsk) = 0 then returnM False
     else do {
       n \<leftarrow> getHealthStatusFromPeers c (fst (popPeerIPs peersToAsk (int (length peersToAsk))));
       returnM (0 < rc_healthy n + rc_unhealthy n + rc_apiErrors n)
     }
   }"

definition isConsideredHealthy ::
  "'w ApiConnectivityCheckConfig \<Rightarrow> 'w probes \<Rightarrow> Manager option \<Rightarrow> ('w acs, bool) state" where
  "isConsideredHealthy c pr controlPlaneManager = do {
     workerPeersResponse \<leftarrow> getWorkerPeersResponse c;
     case controlPlaneManager of
       None \<Rightarrow> returnM (IsHealthy workerPeersResponse)
     | Some m \<Rightarrow>
         if \<not> Manager_IsControlPlane m then returnM (IsHealthy workerPeersResponse)
         else do {
           reached \<leftarrow> canOtherControlPlanesBeReached c;
           inWorld (IsControlPlaneHealthy pr m workerPeersResponse reached)
         }
   }"

text \<open>
  One round of the loop in \<^verbatim>\<open>Start\<close>: whether it triggered a reboot. An error of the reboot is only
  logged; a panic is not caught.
\<close>

definition readyzFails :: "readyz \<Rightarrow> bool" where
  "readyzFails r = (case r of ReadyzError e \<Rightarrow> True | ReadyzStatus code \<Rightarrow> code \<noteq> 200)"

definition checkOnce ::
  "'w ApiConnectivityCheckConfig \<Rightarrow> 'w probes \<Rightarrow> Manager option \<Rightarrow> ('w acs, bool outcome) state" where
  "checkOnce c pr controlPlaneManager = do {
     result \<leftarrow> inWorld (acc_Readyz c);
     if readyzFails result
     then do {
       isHealthy \<leftarrow> isConsideredHealthy c pr controlPlaneManager;
       if \<not> isHealthy
       then do {
         out \<leftarrow> inWorld (acc_Reboot c);
         returnM (case out of Ret err \<Rightarrow> Ret True | Panic \<Rightarrow> Panic)
       }
       else returnM (Ret False)
     }
     else do {
       modify (\<lambda>s. s\<lparr>ac_errorCount := 0\<rparr>);
       returnM (Ret False)
     }
   }"

section \<open>Counting\<close>

lemma sumLoop_eq:
  "sumLoop codes n =
     n\<lparr>rc_healthy := rc_healthy n + int (count_list codes Healthy),
       rc_unhealthy := rc_unhealthy n + int (count_list codes Unhealthy),
       rc_apiErrors := rc_apiErrors n + int (count_list codes ApiError),
       rc_noResponse := rc_noResponse n + int (count_list codes RequestFailed)\<rparr>"
  by (induction codes arbitrary: n) simp_all

lemma sumPeersResponses_eq:
  "sumPeersResponses codes =
     \<lparr>rc_healthy = int (count_list codes Healthy), rc_unhealthy = int (count_list codes Unhealthy),
      rc_apiErrors = int (count_list codes ApiError), rc_noResponse = int (count_list codes RequestFailed)\<rparr>"
  by (simp add: sumPeersResponses_def sumLoop_eq)

lemma count_list_pos: "0 < count_list xs x \<longleftrightarrow> x \<in> set xs"
  by (induction xs) auto

section \<open>What asking leaves alone\<close>

definition acFrame :: "'w acs \<Rightarrow> (string \<times> HealthCheckResponseCode) list list \<times> int \<times> instant" where
  "acFrame s = (ac_asked s, ac_errorCount s, ac_timeOfLastPeerResponse s)"

lemma framed_inWorld: "(\<And>s w. R s (s\<lparr>ac_world := w\<rparr>)) \<Longrightarrow> framed R (inWorld m)"
  by (rule framedI) (auto simp: inWorld_def split: prod.splits)

lemma keeps_acFrame [simp]:
  "keeps acFrame s (s\<lparr>ac_world := w\<rparr>)" "keeps acFrame s (s\<lparr>ac_clientCreds := b\<rparr>)"
  by (simp_all add: keeps_def acFrame_def)

lemma keeps_getHealthStatusFromPeer: "framed (keeps acFrame) (getHealthStatusFromPeer c a)"
  unfolding getHealthStatusFromPeer_def initClientCreds_def Let_def
  by (intro framed_intros keeps_rules framed_inWorld) simp_all

lemma keeps_askAll: "framed (keeps acFrame) (askAll c as)"
  by (induction as) (auto intro!: keeps_rules keeps_getHealthStatusFromPeer)

lemma askAll_length: "wp (askAll c as) (\<lambda>codes _. length codes = length as) s"
proof (induction as arbitrary: s)
  case (Cons a as)
  show ?case
    unfolding askAll.simps by (rule wp_ignore, rule wp_seq [OF Cons]) simp
qed simp

lemma getHealthStatusFromPeers_spec:
  "wp (getHealthStatusFromPeers c as) (\<lambda>n s'. \<exists>codes. length codes = length as \<and> n = sumPeersResponses codes
     \<and> ac_asked s' = ac_asked s @ [zip as codes] \<and> ac_errorCount s' = ac_errorCount s
     \<and> ac_timeOfLastPeerResponse s' = ac_timeOfLastPeerResponse s) s"
proof -
  have "wp (askAll c as) (\<lambda>codes s'. keeps acFrame s s' \<and> length codes = length as) s"
    using framed_wp [OF keeps_askAll, of c as s] askAll_length [of c as s] by (simp add: wp_conj)
  then show ?thesis
    unfolding getHealthStatusFromPeers_def
    by (rule wp_seq) (auto simp: keeps_def acFrame_def)
qed

section \<open>What asking leaves alone in the world\<close>

text \<open>The calls that leave the process during a verdict all keep \<^term>\<open>f\<close> of the world.\<close>

definition callsKeep :: "('w \<Rightarrow> 'v) \<Rightarrow> 'w ApiConnectivityCheckConfig \<Rightarrow> bool" where
  "callsKeep f c \<longleftrightarrow>
     framed (keeps f) (acc_Now c) \<and> framed (keeps f) (acc_GetClientCredentials c)
     \<and> (\<forall>a. framed (keeps f) (acc_Dial c a)) \<and> (\<forall>a q. framed (keeps f) (acc_IsHealthy c a q))
     \<and> (\<forall>a. framed (keeps f) (acc_CloseConn c a))"

abbreviation worldPart :: "('w \<Rightarrow> 'v) \<Rightarrow> 'w acs \<Rightarrow> 'v" where
  "worldPart f s \<equiv> f (ac_world s)"

lemma keeps_inWorld: "framed (keeps f) m \<Longrightarrow> framed (keeps (worldPart f)) (inWorld m)"
  by (auto simp: framed_def keeps_def inWorld_def wp_def split: prod.splits)

lemma keeps_worldPart [simp]:
  "keeps (worldPart f) s (s\<lparr>ac_clientCreds := b\<rparr>)" "keeps (worldPart f) s (s\<lparr>ac_asked := x\<rparr>)"
  "keeps (worldPart f) s (s\<lparr>ac_timeOfLastPeerResponse := t\<rparr>)" "keeps (worldPart f) s (s\<lparr>ac_errorCount := n\<rparr>)"
  by (simp_all add: keeps_def)

lemma callsKeep_getHealthStatusFromPeer:
  "callsKeep f c \<Longrightarrow> framed (keeps (worldPart f)) (getHealthStatusFromPeer c a)"
  unfolding getHealthStatusFromPeer_def initClientCreds_def NewClient_def Client_Close_def Let_def
  by (intro framed_intros keeps_rules keeps_inWorld) (simp_all add: callsKeep_def)

lemma callsKeep_askAll: "callsKeep f c \<Longrightarrow> framed (keeps (worldPart f)) (askAll c as)"
  by (induction as) (auto intro!: keeps_rules callsKeep_getHealthStatusFromPeer)

lemma callsKeep_askBatch: "callsKeep f c \<Longrightarrow> framed (keeps (worldPart f)) (askBatch c t as a)"
  unfolding askBatch_def getHealthStatusFromPeers_def now_def Let_def
  by (intro framed_intros keeps_rules callsKeep_askAll keeps_inWorld) (simp_all add: callsKeep_def)

lemma callsKeep_askBatches: "callsKeep f c \<Longrightarrow> framed (keeps (worldPart f)) (askBatches c t peers a)"
proof (induction "length peers" arbitrary: peers a rule: less_induct)
  case less
  have "peers \<noteq> [] \<Longrightarrow> length (snd (popPeerIPs peers (GetNextBatchSize t (int (length peers))))) < length peers"
    by (simp add: popPeerIPs_eq GetNextBatchSize_pos)
  with less show ?case
    by (subst askBatches.simps) (auto simp: Let_def intro!: framed_intros keeps_rules callsKeep_askBatch)
qed

lemma callsKeep_getWorkerPeersResponse:
  "callsKeep f c \<Longrightarrow> framed (keeps (worldPart f)) (getWorkerPeersResponse c)"
  unfolding getWorkerPeersResponse_def now_def Let_def
  by (intro framed_intros keeps_rules callsKeep_askBatches keeps_inWorld) (simp_all add: callsKeep_def)

lemma callsKeep_isConsideredHealthy:
  assumes "callsKeep f c" and "\<And>m. controlPlaneManager = Some m \<Longrightarrow> \<not> Manager_IsControlPlane m"
  shows "framed (keeps (worldPart f)) (isConsideredHealthy c pr controlPlaneManager)"
  using assms unfolding isConsideredHealthy_def
  by (cases controlPlaneManager) (auto intro!: keeps_rules callsKeep_getWorkerPeersResponse)

section \<open>The verdict as a function of the answers\<close>

text \<open>
  The reference: the verdict of a list of batches of codes, without asking, time or state.
\<close>

fun verdict :: "int \<Rightarrow> int \<Rightarrow> HealthCheckResponseCode list list \<Rightarrow> Response option" where
  "verdict nrAllPeers apiErrors [] = None"
| "verdict nrAllPeers apiErrors (b # bs) =
     (if Healthy \<in> set b then Some (respond True HealthyBecauseCRNotFound)
      else if Unhealthy \<in> set b then Some (respond False UnHealthyBecausePeersResponse)
      else if ApiError \<in> set b \<and> nrAllPeers div 2 < apiErrors + int (count_list b ApiError)
      then Some (respond True HealthyBecauseMostPeersCantAccessAPIServer)
      else verdict nrAllPeers (apiErrors + int (count_list b ApiError)) bs)"

text \<open>What a run of the loop did: the batches it asked, with sizes as counted by the manager.\<close>

definition askedBatches :: "int \<Rightarrow> string list \<Rightarrow> (string \<times> HealthCheckResponseCode) list list \<Rightarrow> bool \<Rightarrow> bool" where
  "askedBatches t peers bs complete \<longleftrightarrow>
     (\<exists>rest sizes. peers = concat (map (map fst) bs) @ rest
        \<and> batchSizes GetNextBatchSize t (int (length peers)) = map (\<lambda>b. int (length b)) bs @ sizes
        \<and> (complete \<longrightarrow> rest = [] \<and> sizes = []))"

lemma askedBatches_Nil: "askedBatches t [] [] True"
  by (simp add: askedBatches_def snrBatch.batchSizes_done)

lemma askedBatches_Cons:
  assumes "peers \<noteq> []" and "length codes = length (take k peers)" and "k = nat (GetNextBatchSize t (int (length peers)))"
    and "askedBatches t (drop k peers) bs complete"
  shows "askedBatches t peers (zip (take k peers) codes # bs) complete"
proof -
  let ?n = "int (length peers)"
  have p: "0 < GetNextBatchSize t ?n" "GetNextBatchSize t ?n \<le> ?n"
    using assms(1) by (simp_all add: GetNextBatchSize_pos GetNextBatchSize_le)
  then have k: "int k = GetNextBatchSize t ?n" "k \<le> length peers" using assms(3) by simp_all
  then have r: "?n - GetNextBatchSize t ?n = int (length (drop k peers))" by simp
  have "batchSizes GetNextBatchSize t ?n = GetNextBatchSize t ?n # batchSizes GetNextBatchSize t (?n - GetNextBatchSize t ?n)"
    by (rule snrBatch.batchSizes_step) (use assms(1) in simp)
  then have "batchSizes GetNextBatchSize t ?n = int k # batchSizes GetNextBatchSize t (int (length (drop k peers)))"
    by (simp only: r k(1))
  moreover obtain rest sizes where
    "drop k peers = concat (map (map fst) bs) @ rest"
    "batchSizes GetNextBatchSize t (int (length (drop k peers))) = map (\<lambda>b. int (length b)) bs @ sizes"
    "complete \<longrightarrow> rest = [] \<and> sizes = []"
    using assms(4) unfolding askedBatches_def by blast
  moreover have "peers = take k peers @ drop k peers" by simp
  ultimately show ?thesis
    using assms(2) k(2) unfolding askedBatches_def
    by (intro exI [of _ rest] exI [of _ sizes]) (auto simp: min_def)
qed

lemma askedBatches_prefix: "peers \<noteq> [] \<Longrightarrow> askedBatches t peers [] False"
  by (auto simp: askedBatches_def)

text \<open>One batch, and the loop: they compute the verdict of the answers they get.\<close>

definition errorCountAfter :: "Response option \<Rightarrow> int \<Rightarrow> int" where
  "errorCountAfter res n = (if res = Some (respond True HealthyBecauseCRNotFound) then 0 else n)"

lemma askBatch_verdict:
  assumes "0 \<le> t"
  shows "wp (askBatch c t chosen a) (\<lambda>r s'. \<exists>codes. length codes = length chosen
     \<and> ac_asked s' = ac_asked s @ [zip chosen codes]
     \<and> ac_errorCount s' = errorCountAfter (fst r) (ac_errorCount s)
     \<and> (\<forall>bs. verdict t a (codes # bs) = (case fst r of Some x \<Rightarrow> Some x | None \<Rightarrow> verdict t (snd r) bs))) s"
proof -
  have upd: "wp (if b then do { x \<leftarrow> now c; modify (\<lambda>s. s\<lparr>ac_timeOfLastPeerResponse := x\<rparr>) } else returnM ())
      (\<lambda>_ s2. ac_asked s2 = ac_asked s1 \<and> ac_errorCount s2 = ac_errorCount s1) s1" for b and s1 :: "'a acs"
    by (auto simp: now_def inWorld_def wp_def split: prod.splits)
  have zero: "ApiError \<notin> set codes \<Longrightarrow> count_list codes ApiError = 0" for codes
    by (simp add: count_list_0_iff)
  show ?thesis
    unfolding askBatch_def
    apply (rule wp_seq [OF getHealthStatusFromPeers_spec])
    apply (rule wp_seq [OF upd])
    apply (auto simp: sumPeersResponses_eq count_list_pos errorCountAfter_def respond_def Let_def go_div_nonneg assms zero)
    done
qed

definition askedBy :: "int \<Rightarrow> int \<Rightarrow> string list \<Rightarrow> 'w acs \<Rightarrow> Response option \<Rightarrow> 'w acs \<Rightarrow> bool" where
  "askedBy t a peers s res s' \<longleftrightarrow>
     (\<exists>bs. ac_asked s' = ac_asked s @ bs \<and> askedBatches t peers bs (res = None)
        \<and> verdict t a (map (map snd) bs) = res
        \<and> (bs \<noteq> [] \<longrightarrow> verdict t a (map (map snd) (butlast bs)) = None))
     \<and> ac_errorCount s' = errorCountAfter res (ac_errorCount s)"

lemma askBatches_verdict:
  assumes "0 \<le> t"
  shows "wp (askBatches c t peers a) (askedBy t a peers s) s"
proof (induction "length peers" arbitrary: peers a s rule: less_induct)
  case less
  show ?case
  proof (cases "peers = []")
    case True
    then show ?thesis
      by (subst askBatches.simps) (auto simp: askedBy_def askedBatches_Nil errorCountAfter_def)
  next
    case False
    define k where "k = nat (GetNextBatchSize t (int (length peers)))"
    have pos: "0 < GetNextBatchSize t (int (length peers))" using False by (simp add: GetNextBatchSize_pos)
    have shorter: "length (drop k peers) < length peers" using pos False by (simp add: k_def)
    have step: "askedBy t a peers s res s'"
      if "length codes = length (take k peers)" "ac_asked s1 = ac_asked s @ [zip (take k peers) codes]"
        "ac_errorCount s1 = ac_errorCount s" "\<And>bs. verdict t a (codes # bs) = verdict t a1 bs"
        "askedBy t a1 (drop k peers) s1 res s'" for codes s1 a1 res s'
    proof -
      note last_part = that(5)
      obtain bs where bs: "ac_asked s' = ac_asked s1 @ bs" "askedBatches t (drop k peers) bs (res = None)"
        "verdict t a1 (map (map snd) bs) = res" "bs \<noteq> [] \<longrightarrow> verdict t a1 (map (map snd) (butlast bs)) = None"
        using last_part unfolding askedBy_def by blast
      have z: "map snd (zip (take k peers) codes) = codes" using that(1) by (simp add: map_snd_zip)
      show ?thesis
        using that(2,3,5) bs askedBatches_Cons [OF False that(1) k_def bs(2)]
        unfolding askedBy_def
        by (intro conjI exI [of _ "zip (take k peers) codes # bs"])
          (simp_all add: z that(4) del: verdict.simps(2))
    qed
    have early: "askedBy t a peers s (Some x) s1"
      if "length codes = length (take k peers)" "ac_asked s1 = ac_asked s @ [zip (take k peers) codes]"
        "ac_errorCount s1 = errorCountAfter (Some x) (ac_errorCount s)" "verdict t a [codes] = Some x" for codes s1 x
    proof -
      have "askedBatches t (drop k peers) [] False"
        by (simp add: askedBatches_def)
      from askedBatches_Cons [OF False that(1) k_def this] that show ?thesis
        unfolding askedBy_def by (auto simp: map_snd_zip)
    qed
    show ?thesis
      unfolding askBatches.simps [of c t peers] popPeerIPs_eq Let_def fst_conv snd_conv k_def [symmetric]
      using False
      apply (simp only: if_False)
      apply (rule wp_seq [OF askBatch_verdict [OF assms]])
      apply (rule wp_optionI)
       apply (rule wp_mono [OF less [OF shorter]])
      subgoal
        by (elim exE conjE, rule step, assumption+) (simp_all add: errorCountAfter_def del: verdict.simps)
      subgoal
        by (elim exE conjE, rule wp_returnI, rule early, assumption+) (simp_all del: verdict.simps)
      done
  qed
qed

section \<open>What the verdict means\<close>

lemma verdict_append:
  "verdict t a (bs @ cs) = (case verdict t a bs of
     Some r \<Rightarrow> Some r | None \<Rightarrow> verdict t (a + int (count_list (concat bs) ApiError)) cs)"
  by (induction bs arbitrary: a) (simp_all add: ac_simps split: option.split)

lemma verdict_None:
  "verdict t a bs = None \<Longrightarrow> Healthy \<notin> set (concat bs) \<and> Unhealthy \<notin> set (concat bs)
     \<and> (ApiError \<in> set (concat bs) \<longrightarrow> a + int (count_list (concat bs) ApiError) \<le> t div 2)"
proof (induction bs arbitrary: a)
  case (Cons b bs)
  then have b: "Healthy \<notin> set b" "Unhealthy \<notin> set b"
      "ApiError \<in> set b \<Longrightarrow> a + int (count_list b ApiError) \<le> t div 2"
      "verdict t (a + int (count_list b ApiError)) bs = None"
    by (auto split: if_splits)
  have z: "ApiError \<notin> set xs \<Longrightarrow> count_list xs ApiError = 0" for xs
    by (simp add: count_list_0_iff)
  from Cons.IH [OF b(4)] b(1-3) z [of "concat bs"] show ?case
    by (auto simp: ac_simps)
qed simp

text \<open>The codes of all answers that a list of batches got.\<close>

definition answersOf :: "(string \<times> HealthCheckResponseCode) list list \<Rightarrow> HealthCheckResponseCode list" where
  "answersOf bs = concat (map (map snd) bs)"

text \<open>The table of verdicts: what the new answers must be like for each reason.\<close>

definition verdictFits :: "int \<Rightarrow> HealthCheckResponseCode list \<Rightarrow> Response \<Rightarrow> bool" where
  "verdictFits nrAllPeers codes r =
     (case Reason r of
        HealthyBecauseCRNotFound \<Rightarrow> IsHealthy r \<and> Healthy \<in> set codes
      | UnHealthyBecausePeersResponse \<Rightarrow> \<not> IsHealthy r \<and> Unhealthy \<in> set codes \<and> Healthy \<notin> set codes
      | HealthyBecauseMostPeersCantAccessAPIServer \<Rightarrow>
          IsHealthy r \<and> Healthy \<notin> set codes \<and> Unhealthy \<notin> set codes
          \<and> nrAllPeers < 2 * int (count_list codes ApiError)
      | _ \<Rightarrow> False)"

lemma verdict_fits:
  assumes "verdict t 0 bs = Some r" and "verdict t 0 (butlast bs) = None" and "bs \<noteq> []"
  shows "verdictFits t (concat bs) r"
proof -
  let ?b = "last bs" and ?pre = "concat (butlast bs)"
  have bs: "bs = butlast bs @ [?b]" using assms(3) by simp
  have "verdict t 0 (butlast bs @ [?b]) = Some r" using assms(1) bs by simp
  then have v: "verdict t (int (count_list ?pre ApiError)) [?b] = Some r"
    unfolding verdict_append assms(2) by simp
  have c: "concat bs = ?pre @ ?b" by (subst bs) simp
  show ?thesis
    using v verdict_None [OF assms(2)]
    unfolding verdictFits_def c by (auto simp: respond_def split: if_splits)
qed

lemma verdict_reasons:
  "verdict t a bs = Some r \<Longrightarrow> Reason r \<in> {HealthyBecauseCRNotFound, UnHealthyBecausePeersResponse,
     HealthyBecauseMostPeersCantAccessAPIServer}"
  by (induction bs arbitrary: a) (auto simp: respond_def split: if_splits)

lemma getWorkerPeersResponse_spec:
  fixes c :: "'w ApiConnectivityCheckConfig" and s :: "'w acs"
  defines "n \<equiv> wrap64 (ac_errorCount s + 1)" and "peers \<equiv> GetPeersAddresses (acc_Peers c (ac_world s)) Worker"
  assumes "\<not> n < acc_MaxErrorsThreshold c" and "peers \<noteq> []"
    and run: "run_state (getWorkerPeersResponse c) s = (r, s')"
  obtains early s1 where "run_state (askBatches c (int (length peers)) peers 0) (s\<lparr>ac_errorCount := n\<rparr>) = (early, s1)"
    and "case early of Some x \<Rightarrow> r = x \<and> s' = s1
       | None \<Rightarrow> \<exists>t w. run_state (acc_Now c) (ac_world s1) = (t, w) \<and> s' = s1\<lparr>ac_world := w\<rparr>
           \<and> r = (if ac_timeOfLastPeerResponse s1 + acc_MaxTimeForNoPeersResponse c < t
                  then respond False UnHealthyBecauseNodeIsIsolated
                  else respond True HealthyBecauseNoPeersResponseNotReachedTimeout)"
proof -
  obtain early s1 where e: "run_state (askBatches c (int (length peers)) peers 0) (s\<lparr>ac_errorCount := n\<rparr>) = (early, s1)"
    by fastforce
  have "case early of Some x \<Rightarrow> r = x \<and> s' = s1
       | None \<Rightarrow> \<exists>t w. run_state (acc_Now c) (ac_world s1) = (t, w) \<and> s' = s1\<lparr>ac_world := w\<rparr>
           \<and> r = (if ac_timeOfLastPeerResponse s1 + acc_MaxTimeForNoPeersResponse c < t
                  then respond False UnHealthyBecauseNodeIsIsolated
                  else respond True HealthyBecauseNoPeersResponseNotReachedTimeout)"
    using run e assms(3,4)
    by (auto simp: getWorkerPeersResponse_def n_def peers_def now_def inWorld_def time_after_def time_add_def
        split: option.splits prod.splits if_splits)
  with e that show ?thesis by blast
qed

section \<open>Properties\<close>

text \<open>
  The counts of a batch do not depend on the order in which the peers' answers arrive, and every
  answer is counted at most once.
\<close>

theorem peer_counts_order_independent:
  assumes "mset codes = mset codes'"
  shows "sumPeersResponses codes = sumPeersResponses codes'
     \<and> (let n = sumPeersResponses codes
        in rc_healthy n + rc_unhealthy n + rc_apiErrors n + rc_noResponse n \<le> int (length codes))"
proof -
  have "count_list codes = count_list codes'"
    using assms by (metis count_mset ext)
  moreover have "count_list xs Healthy + count_list xs Unhealthy + count_list xs ApiError + count_list xs RequestFailed
      \<le> length xs" for xs
    by (induction xs) auto
  ultimately show ?thesis
    by (simp add: sumPeersResponses_eq Let_def mset_eq_length [OF assms] flip: of_nat_add)
qed

theorem peer_counts_order_independent_witness:
  "sumPeersResponses [Healthy, ApiError, RequestFailed] = sumPeersResponses [RequestFailed, Healthy, ApiError]"
  using peer_counts_order_independent [of "[Healthy, ApiError, RequestFailed]" "[RequestFailed, Healthy, ApiError]"]
  by simp

text \<open>
  C22: when the peers' answers decide, they justify the verdict. A node is called unhealthy by its
  peers only when one of them said so and none said it is healthy; healthy because no remediation
  exists only when a peer said so, and then the error count starts again; healthy because of the API
  server only when more than half of all peers could not reach it and none said anything else.
\<close>

theorem peers_verdict_justified:
  assumes "run_state (getWorkerPeersResponse c) s = (r, s')"
    and "Reason r \<in> {HealthyBecauseCRNotFound, UnHealthyBecausePeersResponse, HealthyBecauseMostPeersCantAccessAPIServer}"
  shows "acc_MaxErrorsThreshold c \<le> wrap64 (ac_errorCount s + 1)
     \<and> (\<exists>bs. ac_asked s' = ac_asked s @ bs
          \<and> verdictFits (int (length (GetPeersAddresses (acc_Peers c (ac_world s)) Worker))) (answersOf bs) r)
     \<and> ac_errorCount s' = (if Reason r = HealthyBecauseCRNotFound then 0 else wrap64 (ac_errorCount s + 1))"
proof -
  let ?n = "wrap64 (ac_errorCount s + 1)" and ?peers = "GetPeersAddresses (acc_Peers c (ac_world s)) Worker"
  have n: "\<not> ?n < acc_MaxErrorsThreshold c" and p: "?peers \<noteq> []"
    using assms by (auto simp: getWorkerPeersResponse_def respond_def split: if_splits)
  obtain early s1 where e: "run_state (askBatches c (int (length ?peers)) ?peers 0) (s\<lparr>ac_errorCount := ?n\<rparr>) = (early, s1)"
    and r: "case early of Some x \<Rightarrow> r = x \<and> s' = s1
       | None \<Rightarrow> \<exists>t w. run_state (acc_Now c) (ac_world s1) = (t, w) \<and> s' = s1\<lparr>ac_world := w\<rparr>
           \<and> r = (if ac_timeOfLastPeerResponse s1 + acc_MaxTimeForNoPeersResponse c < t
                  then respond False UnHealthyBecauseNodeIsIsolated
                  else respond True HealthyBecauseNoPeersResponseNotReachedTimeout)"
    using getWorkerPeersResponse_spec [OF n p assms(1)] by blast
  have early: "early = Some r" "s' = s1"
    using r assms(2) by (auto simp: respond_def split: option.splits if_splits)
  obtain bs where bs: "ac_asked s1 = ac_asked s @ bs" "verdict (int (length ?peers)) 0 (map (map snd) bs) = Some r"
      "bs \<noteq> [] \<longrightarrow> verdict (int (length ?peers)) 0 (map (map snd) (butlast bs)) = None"
    and cnt: "ac_errorCount s1 = errorCountAfter (Some r) ?n"
    using wp_run [OF askBatches_verdict e] unfolding askedBy_def early by auto
  have "bs \<noteq> []" using bs(2) by auto
  then have fits: "verdictFits (int (length ?peers)) (answersOf bs) r"
    using verdict_fits [OF bs(2)] bs(3) by (simp add: answersOf_def map_butlast)
  have "ac_errorCount s1 = (if Reason r = HealthyBecauseCRNotFound then 0 else ?n)"
    using cnt fits by (cases r) (auto simp: errorCountAfter_def respond_def verdictFits_def)
  with n bs(1) fits early show ?thesis by auto
qed

text \<open>An agent whose peers answer by address, at a fixed time.\<close>

record agentWorld =
  aw_now :: instant
  aw_peers :: Peers
  aw_reboots :: nat

definition exampleCheck :: "(string \<Rightarrow> int result) \<Rightarrow> agentWorld ApiConnectivityCheckConfig" where
  "exampleCheck answer =
     \<lparr>acc_MyNodeName = ''node-0'', acc_MyMachineName = '''', acc_MaxErrorsThreshold = 3, acc_PeerHealthPort = 30001,
      acc_MaxTimeForNoPeersResponse = 30 * Second, acc_Peers = aw_peers, acc_Now = gets aw_now,
      acc_GetClientCredentials = returnM None, acc_Dial = (\<lambda>_. returnM None),
      acc_IsHealthy = (\<lambda>addr req. returnM (answer addr)), acc_CloseConn = (\<lambda>_. returnM None), acc_Readyz = returnM (ReadyzStatus 500),
      acc_Reboot = do { modify (\<lambda>w. w\<lparr>aw_reboots := Suc (aw_reboots w)\<rparr>); returnM (Ret None) }\<rparr>"

definition exampleAgent :: "string list \<Rightarrow> instant \<Rightarrow> agentWorld acs" where
  "exampleAgent addresses t =
     \<lparr>ac_world = \<lparr>aw_now = t, aw_peers = (New ''node-0'' 1 1)\<lparr>pe_workerPeersAddresses := addresses\<rparr>, aw_reboots = 0\<rparr>,
      ac_errorCount = 2, ac_timeOfLastPeerResponse = 0, ac_clientCreds = False, ac_asked = []\<rparr>"

lemmas check_run_defs = exampleCheck_def exampleAgent_def getWorkerPeersResponse_def askBatch_def
  getHealthStatusFromPeers_def getHealthStatusFromPeer_def initClientCreds_def inWorld_def now_def NewClient_def Client_Close_def
  popPeerIPs_eq GetPeersAddresses_def sumPeersResponses_def New_def respond_def

lemma exampleAgent_asked [simp]: "ac_asked (exampleAgent as t) = []"
  by (simp add: exampleAgent_def)

lemma exampleAgent_peers [simp]:
  "GetPeersAddresses (acc_Peers (exampleCheck f) (ac_world (exampleAgent as t))) Worker = as"
  by (simp add: exampleAgent_def exampleCheck_def GetPeersAddresses_def)

lemma wrap64_3: "wrap64 3 = 3"
  by (simp add: wrap64_id is_int64_def min_int64_def max_int64_def)

lemma exampleAgent_unhealthy:
  "fst (run_state (getWorkerPeersResponse (exampleCheck (\<lambda>a. Inr Unhealthy))) (exampleAgent [''10.0.0.1''] 0))
     = respond False UnHealthyBecausePeersResponse"
  by (simp add: check_run_defs askBatches.simps [of _ 1] GetNextBatchSize_first wrap64_3)

theorem peers_verdict_justified_witness:
  "\<exists>bs. ac_asked (snd (run_state (getWorkerPeersResponse (exampleCheck (\<lambda>a. Inr Unhealthy))) (exampleAgent [''10.0.0.1''] 0))) = bs
     \<and> Unhealthy \<in> set (answersOf bs) \<and> Healthy \<notin> set (answersOf bs)"
  using peers_verdict_justified [OF surjective_pairing, of "exampleCheck (\<lambda>a. Inr Unhealthy)" "exampleAgent [''10.0.0.1''] 0"]
  by (auto simp: exampleAgent_unhealthy respond_def verdictFits_def)

text \<open>
  C21: a node counts as isolated only after it has asked every peer once, in the batches that the
  manager counts, without hearing from any of them about a remediation, with API errors of at most
  half of them, and more than the configured time after the last answer of a peer. With all that it
  counts as healthy when that time has not passed yet.
\<close>

theorem isolation_verdict:
  assumes "run_state (getWorkerPeersResponse c) s = (r, s')"
    and "Reason r \<in> {UnHealthyBecauseNodeIsIsolated, HealthyBecauseNoPeersResponseNotReachedTimeout}"
  defines "peers \<equiv> GetPeersAddresses (acc_Peers c (ac_world s)) Worker"
  shows "acc_MaxErrorsThreshold c \<le> wrap64 (ac_errorCount s + 1)
     \<and> (\<exists>bs. ac_asked s' = ac_asked s @ bs \<and> concat (map (map fst) bs) = peers
          \<and> map (\<lambda>b. int (length b)) bs = batchSizes GetNextBatchSize (int (length peers)) (int (length peers))
          \<and> int (length bs) = GetNrOfBatches (int (length peers))
          \<and> Healthy \<notin> set (answersOf bs) \<and> Unhealthy \<notin> set (answersOf bs)
          \<and> 2 * int (count_list (answersOf bs) ApiError) \<le> int (length peers))
     \<and> (\<exists>w. ac_world s' = snd (run_state (acc_Now c) w)
          \<and> (IsHealthy r \<longleftrightarrow> fst (run_state (acc_Now c) w)
               \<le> ac_timeOfLastPeerResponse s' + acc_MaxTimeForNoPeersResponse c))
     \<and> (IsHealthy r \<longleftrightarrow> Reason r = HealthyBecauseNoPeersResponseNotReachedTimeout)"
proof -
  let ?n = "wrap64 (ac_errorCount s + 1)" and ?t = "int (length peers)"
  have n: "\<not> ?n < acc_MaxErrorsThreshold c" and p: "GetPeersAddresses (acc_Peers c (ac_world s)) Worker \<noteq> []"
    using assms(1,2) by (auto simp: getWorkerPeersResponse_def respond_def split: if_splits)
  obtain early s1 where e: "run_state (askBatches c ?t peers 0) (s\<lparr>ac_errorCount := ?n\<rparr>) = (early, s1)"
    and r: "case early of Some x \<Rightarrow> r = x \<and> s' = s1
       | None \<Rightarrow> \<exists>t w. run_state (acc_Now c) (ac_world s1) = (t, w) \<and> s' = s1\<lparr>ac_world := w\<rparr>
           \<and> r = (if ac_timeOfLastPeerResponse s1 + acc_MaxTimeForNoPeersResponse c < t
                  then respond False UnHealthyBecauseNodeIsIsolated
                  else respond True HealthyBecauseNoPeersResponseNotReachedTimeout)"
    using getWorkerPeersResponse_spec [OF n p assms(1)] unfolding peers_def by blast
  have "verdict ?t 0 bs \<noteq> Some r" for bs
    using verdict_reasons [of ?t 0 bs r] assms(2) by auto
  then have early: "early = None"
    using wp_run [OF askBatches_verdict e] r by (cases early) (auto simp: askedBy_def)
  then obtain t w where t: "run_state (acc_Now c) (ac_world s1) = (t, w)" "s' = s1\<lparr>ac_world := w\<rparr>"
    "r = (if ac_timeOfLastPeerResponse s1 + acc_MaxTimeForNoPeersResponse c < t
          then respond False UnHealthyBecauseNodeIsIsolated
          else respond True HealthyBecauseNoPeersResponseNotReachedTimeout)"
    using r by auto
  obtain bs where bs: "ac_asked s1 = ac_asked s @ bs" "askedBatches ?t peers bs True"
      "verdict ?t 0 (map (map snd) bs) = None"
    using wp_run [OF askBatches_verdict e] unfolding askedBy_def early by auto
  have all: "concat (map (map fst) bs) = peers" "map (\<lambda>b. int (length b)) bs = batchSizes GetNextBatchSize ?t ?t"
    using bs(2) by (auto simp: askedBatches_def)
  have "int (length bs) = GetNrOfBatches ?t"
    using arg_cong [OF all(2), of length] by (simp add: GetNrOfBatches_length)
  moreover have "2 * int (count_list (answersOf bs) ApiError) \<le> ?t"
    using verdict_None [OF bs(3)] count_list_0_iff [of "answersOf bs" ApiError] by (auto simp: answersOf_def)
  moreover have "Healthy \<notin> set (answersOf bs)" "Unhealthy \<notin> set (answersOf bs)"
    using verdict_None [OF bs(3)] by (simp_all add: answersOf_def)
  ultimately show ?thesis
    using n all bs(1) t by (auto simp: respond_def intro!: exI [of _ bs] exI [of _ "ac_world s1"])
qed

lemma exampleAgent_isolated:
  "fst (run_state (getWorkerPeersResponse (exampleCheck (\<lambda>a. Inl (ErrMsg ''timeout''))))
     (exampleAgent [''10.0.0.1''] (31 * Second))) = respond False UnHealthyBecauseNodeIsIsolated"
  by (simp add: check_run_defs askBatches.simps GetNextBatchSize_first wrap64_3 time_after_def time_add_def)

theorem isolation_verdict_witness:
  "\<exists>bs. ac_asked (snd (run_state (getWorkerPeersResponse (exampleCheck (\<lambda>a. Inl (ErrMsg ''timeout''))))
     (exampleAgent [''10.0.0.1''] (31 * Second)))) = bs \<and> concat (map (map fst) bs) = [''10.0.0.1'']"
  using isolation_verdict [OF surjective_pairing, of "exampleCheck (\<lambda>a. Inl (ErrMsg ''timeout''))"
      "exampleAgent [''10.0.0.1''] (31 * Second)"]
  unfolding exampleAgent_isolated exampleAgent_peers exampleAgent_asked by (simp add: respond_def)

text \<open>When all peers answer alike, so does a batch.\<close>

lemma count_list_replicated: "count_list (replicate n x) y = (if x = y then n else 0)"
  by (induction n) auto

lemma askAll_alike:
  assumes "\<And>a s1. fst (run_state (getHealthStatusFromPeer c a) s1) = code"
  shows "wp (askAll c as) (\<lambda>codes _. codes = replicate (length as) code) s"
proof (induction as arbitrary: s)
  case (Cons a as)
  have "wp (getHealthStatusFromPeer c a) (\<lambda>x _. x = code) s"
    using assms [of a s] by (simp add: wp_def case_prod_beta)
  then show ?case
    unfolding askAll.simps by (rule wp_seq) (rule wp_seq [OF Cons], simp)
qed simp

text \<open>Without any answer the loop does not decide and leaves the time of the last answer alone.\<close>

lemma askBatches_silent:
  assumes "\<And>a s1. fst (run_state (getHealthStatusFromPeer c a) s1) = RequestFailed"
  shows "wp (askBatches c t peers 0) (\<lambda>early s'. early = None \<and> ac_timeOfLastPeerResponse s' = ac_timeOfLastPeerResponse s
     \<and> ac_errorCount s' = ac_errorCount s) s"
proof (induction "length peers" arbitrary: peers s rule: less_induct)
  case less
  show ?case
  proof (cases "peers = []")
    case True
    then show ?thesis by (subst askBatches.simps) simp
  next
    case False
    define k where "k = nat (GetNextBatchSize t (int (length peers)))"
    have "length (drop k peers) < length peers"
      using False GetNextBatchSize_pos [of "int (length peers)" t] by (simp add: k_def)
    note IH = less [OF this]
    have all: "wp (askAll c as) (\<lambda>codes s1. keeps acFrame s s1 \<and> codes = replicate (length as) RequestFailed) s" for as
      using framed_wp [OF keeps_askAll, of c as s] askAll_alike [OF assms, of as s] by (simp add: wp_conj)
    have none: "count_list (replicate n RequestFailed) x = 0" if "x \<in> {Healthy, Unhealthy, ApiError}" for n x
      using that by (auto simp: count_list_0_iff)
    have "wp (getHealthStatusFromPeers c as) (\<lambda>n s1. rc_healthy n = 0 \<and> rc_unhealthy n = 0 \<and> rc_apiErrors n = 0
        \<and> ac_timeOfLastPeerResponse s1 = ac_timeOfLastPeerResponse s \<and> ac_errorCount s1 = ac_errorCount s) s" for as
      unfolding getHealthStatusFromPeers_def
      by (rule wp_seq [OF all]) (auto simp: sumPeersResponses_eq none keeps_def acFrame_def)
    then have "wp (askBatch c t as 0) (\<lambda>r s1. r = (None, 0) \<and> ac_timeOfLastPeerResponse s1 = ac_timeOfLastPeerResponse s
        \<and> ac_errorCount s1 = ac_errorCount s) s" for as
      unfolding askBatch_def by (rule wp_seq) simp
    then show ?thesis
      unfolding askBatches.simps [of c t peers] popPeerIPs_eq Let_def fst_conv snd_conv k_def [symmetric]
      using False IH
      by (simp only: if_False) (rule wp_seq, assumption, fastforce elim: wp_mono)
  qed
qed

text \<open>When all peers give the same decisive answer, the first batch decides.\<close>

lemma askBatches_alike:
  assumes "\<And>a s1. fst (run_state (getHealthStatusFromPeer c a) s1) = code" and "peers \<noteq> []" and "code \<in> {Healthy, Unhealthy}"
  shows "wp (askBatches c t peers 0) (\<lambda>early s'.
     early = Some (if code = Healthy then respond True HealthyBecauseCRNotFound else respond False UnHealthyBecausePeersResponse)
     \<and> ac_errorCount s' = (if code = Healthy then 0 else ac_errorCount s)) s"
proof -
  define k where "k = nat (GetNextBatchSize t (int (length peers)))"
  have k: "0 < length (take k peers)"
    using assms(2) GetNextBatchSize_pos [of "int (length peers)" t] by (simp add: k_def)
  have count: "wp (askAll c as) (\<lambda>_ s1. ac_errorCount s1 = ac_errorCount s) s" for as
    by (rule wp_mono [OF framed_wp [OF keeps_askAll]]) (simp add: keeps_def acFrame_def)
  then have "wp (askAll c as) (\<lambda>codes s1. ac_errorCount s1 = ac_errorCount s \<and> codes = replicate (length as) code) s" for as
    using askAll_alike [OF assms(1)] by (simp add: wp_conj)
  then have ask: "wp (getHealthStatusFromPeers c as) (\<lambda>n s1. ac_errorCount s1 = ac_errorCount s
      \<and> n = sumPeersResponses (replicate (length as) code)) s" for as
    unfolding getHealthStatusFromPeers_def by (rule wp_seq) simp
  have upd: "wp (do { x \<leftarrow> now c; modify (\<lambda>s. s\<lparr>ac_timeOfLastPeerResponse := x\<rparr>) })
      (\<lambda>_ s2. ac_errorCount s2 = ac_errorCount s1) s1" for s1
    by (auto simp: now_def inWorld_def wp_def split: prod.splits)
  have "wp (askBatch c t (take k peers) 0) (\<lambda>r s'.
     fst r = Some (if code = Healthy then respond True HealthyBecauseCRNotFound else respond False UnHealthyBecausePeersResponse)
     \<and> ac_errorCount s' = (if code = Healthy then 0 else ac_errorCount s)) s"
    unfolding askBatch_def Let_def
    apply (rule wp_seq [OF ask])
    apply (rule wp_seq [where P = "\<lambda>_ s2. ac_errorCount s2 = ac_errorCount s"])
    subgoal for n s1 using k assms(3) upd [of s1] by (auto simp: sumPeersResponses_eq count_list_replicated simp del: wp_bind)
    subgoal using k assms(3) by (auto simp: sumPeersResponses_eq count_list_replicated)
    done
  then show ?thesis
    unfolding askBatches.simps [of c t peers] popPeerIPs_eq Let_def fst_conv snd_conv k_def [symmetric]
    using assms(2) by (simp only: if_False) (rule wp_seq, assumption, auto)
qed

text \<open>What makes a worker count as isolated in a round that starts in the state \<^term>\<open>s\<close> and world \<^term>\<open>w\<close>.\<close>

lemma isolated_round:
  assumes "acc_MaxErrorsThreshold c \<le> wrap64 (ac_errorCount s + 1)"
    and "GetPeersAddresses (acc_Peers c (ac_world s)) Worker \<noteq> []"
    and "\<And>a s1. fst (run_state (getHealthStatusFromPeer c a) s1) = RequestFailed"
    and "\<And>w1. ac_timeOfLastPeerResponse s + acc_MaxTimeForNoPeersResponse c < fst (run_state (acc_Now c) w1)"
    and "\<And>m. controlPlaneManager = Some m \<Longrightarrow> \<not> Manager_IsControlPlane m"
  shows "wp (isConsideredHealthy c pr controlPlaneManager) (\<lambda>healthy _. \<not> healthy) s"
proof -
  obtain r s2 where r: "run_state (getWorkerPeersResponse c) s = (r, s2)" by fastforce
  have n: "\<not> wrap64 (ac_errorCount s + 1) < acc_MaxErrorsThreshold c" using assms(1) by simp
  obtain early s1 where e: "run_state (askBatches c (int (length (GetPeersAddresses (acc_Peers c (ac_world s)) Worker)))
        (GetPeersAddresses (acc_Peers c (ac_world s)) Worker) 0) (s\<lparr>ac_errorCount := wrap64 (ac_errorCount s + 1)\<rparr>)
      = (early, s1)"
    and v: "case early of Some x \<Rightarrow> r = x \<and> s2 = s1
       | None \<Rightarrow> \<exists>t w. run_state (acc_Now c) (ac_world s1) = (t, w) \<and> s2 = s1\<lparr>ac_world := w\<rparr>
           \<and> r = (if ac_timeOfLastPeerResponse s1 + acc_MaxTimeForNoPeersResponse c < t
                  then respond False UnHealthyBecauseNodeIsIsolated
                  else respond True HealthyBecauseNoPeersResponseNotReachedTimeout)"
    using getWorkerPeersResponse_spec [OF n assms(2) r] by blast
  have "early = None" "ac_timeOfLastPeerResponse s1 = ac_timeOfLastPeerResponse s"
    using wp_run [OF askBatches_silent [OF assms(3)] e] by simp_all
  moreover have "ac_timeOfLastPeerResponse s + acc_MaxTimeForNoPeersResponse c < t"
    if "run_state (acc_Now c) w1 = (t, w2)" for w1 t w2
    using assms(4) [of w1] that by simp
  ultimately have "\<not> IsHealthy r"
    using v by (auto simp: respond_def split: if_splits)
  then show ?thesis
    using r assms(5) by (cases controlPlaneManager) (simp_all add: isConsideredHealthy_def wp_def)
qed

lemma checkOnce_reboots:
  assumes "run_state (acc_Readyz c) (ac_world s) = (ready, w)" and "readyzFails ready"
    and "run_state (isConsideredHealthy c pr m) (s\<lparr>ac_world := w\<rparr>) = (False, s1)"
    and "run_state (acc_Reboot c) (ac_world s1) = (out, w2)"
  shows "run_state (checkOnce c pr m) s
     = (case out of Ret err \<Rightarrow> Ret True | Panic \<Rightarrow> Panic, s1\<lparr>ac_world := w2\<rparr>)"
  using assms by (simp add: checkOnce_def inWorld_def)

end
