(* ===== verification/Api_Loop.thy ===== *)
theory Api_Loop
  imports Api_Check
begin

text \<open>
  The loop of the API connectivity check (\<^verbatim>\<open>Start\<close> in \<^verbatim>\<open>pkg/apicheck/check.go\<close>) and what the error
  threshold means over its rounds: no reboot before the threshold, and a reboot at the threshold on a
  worker that stays isolated.
\<close>

section \<open>The loop\<close>

text \<open>
  The rounds until the context is done, with what each of them answered: whether it triggered a
  reboot. The list says before each round whether the context is done; at its end the loop still
  runs. A panic ends the process.
\<close>

fun checkLoop ::
  "'w ApiConnectivityCheckConfig \<Rightarrow> 'w probes \<Rightarrow> Manager option \<Rightarrow> bool list \<Rightarrow> ('w acs, bool list outcome) state" where
  "checkLoop c pr controlPlaneManager [] = returnM (Ret [])"
| "checkLoop c pr controlPlaneManager (ctxDone # rounds) =
     (if ctxDone then returnM (Ret [])
      else do {
        r \<leftarrow> checkOnce c pr controlPlaneManager;
        case r of
          Panic \<Rightarrow> returnM Panic
        | Ret triggered \<Rightarrow> do {
            rest \<leftarrow> checkLoop c pr controlPlaneManager rounds;
            returnM (case rest of Panic \<Rightarrow> Panic | Ret ts \<Rightarrow> Ret (triggered # ts))
          }
      })"

text \<open>\<^verbatim>\<open>Start\<close>: an error of the client set ends it at once, otherwise it returns when the context is done.\<close>

definition ApiCheck_Start ::
  "'w ApiConnectivityCheckConfig \<Rightarrow> 'w probes \<Rightarrow> Manager option \<Rightarrow> error option \<Rightarrow> bool list \<Rightarrow>
   ('w acs, (error option \<times> bool list) outcome) state" where
  "ApiCheck_Start c pr controlPlaneManager newClientSetError rounds =
     (case newClientSetError of
        Some err \<Rightarrow> returnM (Ret (Some err, []))
      | None \<Rightarrow> do {
          r \<leftarrow> checkLoop c pr controlPlaneManager rounds;
          returnM (case r of Panic \<Rightarrow> Panic | Ret ts \<Rightarrow> Ret (None, ts))
        })"

section \<open>The error count\<close>

definition countKept :: "'w acs \<Rightarrow> 'w acs \<Rightarrow> bool" where
  "countKept s s' \<longleftrightarrow> ac_errorCount s' = ac_errorCount s \<or> ac_errorCount s' = 0"

interpretation counted: frame_relation countKept
  by unfold_locales (auto simp: countKept_def)

lemmas counted_rules = counted.framed_returnM counted.framed_gets counted.framed_bind

lemma countKept_simps [simp]:
  "countKept s (s\<lparr>ac_world := w\<rparr>)" "countKept s (s\<lparr>ac_asked := x\<rparr>)"
  "countKept s (s\<lparr>ac_timeOfLastPeerResponse := t\<rparr>)" "countKept s (s\<lparr>ac_errorCount := 0\<rparr>)"
  by (simp_all add: countKept_def)

lemma counted_askAll: "framed countKept (askAll c as)"
  using keeps_askAll by (rule framed_mono) (simp add: keeps_def acFrame_def countKept_def)

lemma counted_getHealthStatusFromPeers: "framed countKept (getHealthStatusFromPeers c as)"
  unfolding getHealthStatusFromPeers_def by (intro framed_intros counted_rules counted_askAll) simp

lemma counted_askBatch: "framed countKept (askBatch c t as a)"
  unfolding askBatch_def now_def Let_def
  by (intro framed_intros counted_rules counted_getHealthStatusFromPeers framed_inWorld) simp_all

lemma counted_askBatches: "framed countKept (askBatches c t peers a)"
proof (induction "length peers" arbitrary: peers a rule: less_induct)
  case less
  have "peers \<noteq> [] \<Longrightarrow> length (snd (popPeerIPs peers (GetNextBatchSize t (int (length peers))))) < length peers"
    by (simp add: popPeerIPs_eq GetNextBatchSize_pos)
  with less show ?case
    by (subst askBatches.simps) (auto simp: Let_def intro!: framed_intros counted_rules counted_askBatch)
qed

lemma getWorkerPeersResponse_count:
  "wp (getWorkerPeersResponse c) (\<lambda>r s'. ac_errorCount s' \<in> {wrap64 (ac_errorCount s + 1), 0}
     \<and> (\<not> IsHealthy r \<longrightarrow> acc_MaxErrorsThreshold c \<le> wrap64 (ac_errorCount s + 1))) s"
proof -
  let ?n = "wrap64 (ac_errorCount s + 1)" and ?s = "s\<lparr>ac_errorCount := wrap64 (ac_errorCount s + 1)\<rparr>"
  show ?thesis
  proof (cases "?n < acc_MaxErrorsThreshold c")
    case True
    then show ?thesis by (simp add: getWorkerPeersResponse_def respond_def)
  next
    case False
    define rest where "rest = (do {
       peersToAsk \<leftarrow> gets (\<lambda>s. GetPeersAddresses (acc_Peers c (ac_world s)) Worker);
       if peersToAsk = [] then returnM (respond True HealthyBecauseNoPeersWereFound)
       else do {
         early \<leftarrow> askBatches c (int (length peersToAsk)) peersToAsk 0;
         case early of
           Some r \<Rightarrow> returnM r
         | None \<Rightarrow> do {
             t \<leftarrow> now c;
             last \<leftarrow> gets ac_timeOfLastPeerResponse;
             if time_after t (time_add last (acc_MaxTimeForNoPeersResponse c))
             then returnM (respond False UnHealthyBecauseNodeIsIsolated)
             else returnM (respond True HealthyBecauseNoPeersResponseNotReachedTimeout)
           }
       }
     } :: ('a acs, Response) state)"
    have "framed countKept rest"
      unfolding rest_def now_def by (intro framed_intros counted_rules counted_askBatches framed_inWorld) simp_all
    then have "wp rest (\<lambda>_. countKept ?s) ?s" by (rule framed_wp)
    moreover have "wp (getWorkerPeersResponse c) Q s = wp rest Q ?s" for Q
      using False by (simp add: getWorkerPeersResponse_def rest_def)
    ultimately show ?thesis using False by (auto elim!: wp_mono simp: countKept_def)
  qed
qed

text \<open>A worker: there is no control plane manager, or it says that the node is not a control plane node.\<close>

definition isWorker :: "Manager option \<Rightarrow> bool" where
  "isWorker controlPlaneManager = (case controlPlaneManager of None \<Rightarrow> True | Some m \<Rightarrow> \<not> Manager_IsControlPlane m)"

lemma checkOnce_count:
  assumes "run_state (checkOnce c pr m) s = (Ret triggered, s')" and "isWorker m"
    and "0 \<le> ac_errorCount s" and "ac_errorCount s < max_int64"
  shows "0 \<le> ac_errorCount s'" "ac_errorCount s' \<le> ac_errorCount s + 1"
    and "triggered \<Longrightarrow> acc_MaxErrorsThreshold c \<le> ac_errorCount s + 1"
proof -
  have n: "wrap64 (ac_errorCount s + 1) = ac_errorCount s + 1"
    using assms(3,4) by (intro wrap64_id) (simp add: is_int64_def min_int64_def max_int64_def)
  have healthy: "isConsideredHealthy c pr m = do { r \<leftarrow> getWorkerPeersResponse c; returnM (IsHealthy r) }"
    using assms(2) by (simp add: isConsideredHealthy_def isWorker_def split: option.splits)
  have verdict: "ac_errorCount s2 \<in> {ac_errorCount s + 1, 0} \<and> (\<not> b \<longrightarrow> acc_MaxErrorsThreshold c \<le> ac_errorCount s + 1)"
    if "run_state (isConsideredHealthy c pr m) s1 = (b, s2)" "ac_errorCount s1 = ac_errorCount s" for s1 b s2
  proof -
    from that(1) obtain r where "run_state (getWorkerPeersResponse c) s1 = (r, s2)" "b = IsHealthy r"
      by (auto simp: healthy split: prod.splits)
    then show ?thesis using wp_run [OF getWorkerPeersResponse_count] that(2) n by fastforce
  qed
  have "0 \<le> ac_errorCount s' \<and> ac_errorCount s' \<le> ac_errorCount s + 1
      \<and> (triggered \<longrightarrow> acc_MaxErrorsThreshold c \<le> ac_errorCount s + 1)"
    using assms(1,3) by (auto simp: checkOnce_def inWorld_def split: prod.splits if_splits outcome.splits dest!: verdict)
  then show "0 \<le> ac_errorCount s'" "ac_errorCount s' \<le> ac_errorCount s + 1"
    "triggered \<Longrightarrow> acc_MaxErrorsThreshold c \<le> ac_errorCount s + 1" by auto
qed

section \<open>The threshold over the rounds\<close>

text \<open>
  C12: No worker triggers a reboot before the error threshold: in a loop that starts with error count e,
  the round with number i, counted from 0, triggers a reboot only if e + i + 1 reaches the threshold.
\<close>

theorem reboot_needs_threshold:
  assumes "run_state (checkLoop c pr m rounds) s = (Ret ts, s')" and "isWorker m"
    and "0 \<le> ac_errorCount s" and "ac_errorCount s + int (length rounds) \<le> max_int64"
    and "i < length ts" and "ts ! i"
  shows "acc_MaxErrorsThreshold c \<le> ac_errorCount s + int i + 1"
  using assms(1,3-)
proof (induction rounds arbitrary: s ts i)
  case (Cons ctxDone rounds)
  from Cons.prems(1,4) have go: "\<not> ctxDone" by (auto split: if_splits)
  with Cons.prems(1) obtain triggered ts' s1 where once: "run_state (checkOnce c pr m) s = (Ret triggered, s1)"
    and rest: "run_state (checkLoop c pr m rounds) s1 = (Ret ts', s')" and ts: "ts = triggered # ts'"
    by (auto split: prod.splits outcome.splits)
  have "ac_errorCount s < max_int64" using Cons.prems(3) by simp
  note count = checkOnce_count [OF once assms(2) Cons.prems(2) this]
  show ?case
  proof (cases i)
    case 0
    then show ?thesis using count(3) Cons.prems(5) by (simp add: ts)
  next
    case (Suc j)
    have "acc_MaxErrorsThreshold c \<le> ac_errorCount s1 + int j + 1"
      using Cons.prems(3-5) count(1,2) by (intro Cons.IH [OF rest]) (simp_all add: ts Suc)
    then show ?thesis using count(2) by (simp add: Suc)
  qed
qed simp

text \<open>
  A node that is cut off: the readiness requests fail, there are peers to ask, and none of them can be
  asked successfully. A round on a worker that is cut off and has not heard of a peer for too long
  counts the error, and triggers the reboot at the threshold.
\<close>

definition cutOff :: "'w ApiConnectivityCheckConfig \<Rightarrow> bool" where
  "cutOff c \<longleftrightarrow>
     (\<forall>w. readyzFails (fst (run_state (acc_Readyz c) w)) \<and> GetPeersAddresses (acc_Peers c w) Worker \<noteq> [])
     \<and> (\<forall>a s. fst (run_state (getHealthStatusFromPeer c a) s) = RequestFailed)"

definition staysIsolated :: "'w ApiConnectivityCheckConfig \<Rightarrow> instant \<Rightarrow> bool" where
  "staysIsolated c lastResponse \<longleftrightarrow> cutOff c
     \<and> (\<forall>w. lastResponse + acc_MaxTimeForNoPeersResponse c < fst (run_state (acc_Now c) w)
        \<and> fst (run_state (acc_Reboot c) w) \<noteq> Panic)"

lemma getWorkerPeersResponse_isolated:
  assumes "staysIsolated c (ac_timeOfLastPeerResponse s)"
  shows "wp (getWorkerPeersResponse c) (\<lambda>r s'. ac_errorCount s' = wrap64 (ac_errorCount s + 1)
     \<and> ac_timeOfLastPeerResponse s' = ac_timeOfLastPeerResponse s
     \<and> (IsHealthy r \<longleftrightarrow> wrap64 (ac_errorCount s + 1) < acc_MaxErrorsThreshold c)) s"
proof (rule wpI)
  fix r s'
  assume run: "run_state (getWorkerPeersResponse c) s = (r, s')"
  let ?n = "wrap64 (ac_errorCount s + 1)"
  have silent: "fst (run_state (getHealthStatusFromPeer c a) s1) = RequestFailed" for a s1
    using assms by (simp add: staysIsolated_def cutOff_def)
  have peers: "GetPeersAddresses (acc_Peers c (ac_world s)) Worker \<noteq> []"
    using assms by (simp add: staysIsolated_def cutOff_def)
  have time: "ac_timeOfLastPeerResponse s + acc_MaxTimeForNoPeersResponse c < t" if "run_state (acc_Now c) w1 = (t, w2)" for w1 t w2
    using assms that by (auto simp: staysIsolated_def dest: spec [of _ w1])
  show "ac_errorCount s' = ?n \<and> ac_timeOfLastPeerResponse s' = ac_timeOfLastPeerResponse s
      \<and> (IsHealthy r \<longleftrightarrow> ?n < acc_MaxErrorsThreshold c)"
  proof (cases "?n < acc_MaxErrorsThreshold c")
    case True
    then show ?thesis using run by (auto simp: getWorkerPeersResponse_def respond_def)
  next
    case False
    obtain early s1 where e: "run_state (askBatches c (int (length (GetPeersAddresses (acc_Peers c (ac_world s)) Worker)))
          (GetPeersAddresses (acc_Peers c (ac_world s)) Worker) 0) (s\<lparr>ac_errorCount := ?n\<rparr>) = (early, s1)"
      and v: "case early of Some x \<Rightarrow> r = x \<and> s' = s1
         | None \<Rightarrow> \<exists>t w. run_state (acc_Now c) (ac_world s1) = (t, w) \<and> s' = s1\<lparr>ac_world := w\<rparr>
             \<and> r = (if ac_timeOfLastPeerResponse s1 + acc_MaxTimeForNoPeersResponse c < t
                    then respond False UnHealthyBecauseNodeIsIsolated
                    else respond True HealthyBecauseNoPeersResponseNotReachedTimeout)"
      using getWorkerPeersResponse_spec [OF False peers run] by blast
    have "early = None" "ac_timeOfLastPeerResponse s1 = ac_timeOfLastPeerResponse s" "ac_errorCount s1 = ?n"
      using wp_run [OF askBatches_silent [OF silent] e] by simp_all
    then show ?thesis using v False by (auto simp: respond_def dest: time)
  qed
qed

lemma checkOnce_isolated:
  assumes "staysIsolated c (ac_timeOfLastPeerResponse s)" and "isWorker m"
    and "0 \<le> ac_errorCount s" and "ac_errorCount s < max_int64"
  shows "\<exists>s'. run_state (checkOnce c pr m) s = (Ret (acc_MaxErrorsThreshold c \<le> ac_errorCount s + 1), s')
     \<and> ac_errorCount s' = ac_errorCount s + 1 \<and> ac_timeOfLastPeerResponse s' = ac_timeOfLastPeerResponse s"
proof -
  have n: "wrap64 (ac_errorCount s + 1) = ac_errorCount s + 1"
    using assms(3,4) by (intro wrap64_id) (simp add: is_int64_def min_int64_def max_int64_def)
  have healthy: "isConsideredHealthy c pr m = do { r \<leftarrow> getWorkerPeersResponse c; returnM (IsHealthy r) }"
    using assms(2) by (simp add: isConsideredHealthy_def isWorker_def split: option.splits)
  obtain ready w where ready: "run_state (acc_Readyz c) (ac_world s) = (ready, w)" by fastforce
  obtain r s1 where r: "run_state (getWorkerPeersResponse c) (s\<lparr>ac_world := w\<rparr>) = (r, s1)" by fastforce
  have v: "ac_errorCount s1 = ac_errorCount s + 1" "ac_timeOfLastPeerResponse s1 = ac_timeOfLastPeerResponse s"
      "IsHealthy r \<longleftrightarrow> ac_errorCount s + 1 < acc_MaxErrorsThreshold c"
    using wp_run [OF getWorkerPeersResponse_isolated r] assms(1) n by simp_all
  obtain out w2 where out: "run_state (acc_Reboot c) (ac_world s1) = (out, w2)" by fastforce
  have "readyzFails ready" "out \<noteq> Panic"
    using assms(1) ready out by (auto simp: staysIsolated_def cutOff_def dest: spec [of _ "ac_world s"] spec [of _ "ac_world s1"])
  then show ?thesis
    using ready r v out by (cases out) (auto simp: checkOnce_def inWorld_def healthy)
qed

text \<open>
  C11: A worker that stays isolated is rebooted by the threshold: with failing readiness requests,
  silent peers and the time without an answer exceeded, a loop of as many rounds as the error count
  misses from the threshold contains a round that triggers the reboot.
\<close>

theorem isolated_worker_rebooted_by_threshold:
  assumes "staysIsolated c (ac_timeOfLastPeerResponse s)" and "isWorker m" and "0 \<le> ac_errorCount s"
    and "0 < n" and "acc_MaxErrorsThreshold c \<le> ac_errorCount s + int n" and "ac_errorCount s + int n \<le> max_int64"
  shows "\<exists>ts s'. run_state (checkLoop c pr m (replicate n False)) s = (Ret ts, s') \<and> length ts = n \<and> ts ! (n - 1)"
  using assms
proof (induction n arbitrary: s)
  case (Suc n)
  obtain s1 where once: "run_state (checkOnce c pr m) s = (Ret (acc_MaxErrorsThreshold c \<le> ac_errorCount s + 1), s1)"
      "ac_errorCount s1 = ac_errorCount s + 1" "ac_timeOfLastPeerResponse s1 = ac_timeOfLastPeerResponse s"
    using checkOnce_isolated [OF Suc.prems(1-3)] Suc.prems(6) by fastforce
  show ?case
  proof (cases "n = 0")
    case True
    then show ?thesis using once(1) Suc.prems(5) by simp
  next
    case False
    obtain ts s' where "run_state (checkLoop c pr m (replicate n False)) s1 = (Ret ts, s')" "length ts = n" "ts ! (n - 1)"
      using Suc.IH [of s1] False Suc.prems once(2,3) by auto
    then show ?thesis using once(1) False by (auto simp: nth_Cons')
  qed
qed simp

section \<open>Witnesses\<close>

definition loneCheck :: "agentWorld ApiConnectivityCheckConfig" where
  "loneCheck = (exampleCheck (\<lambda>a. Inl (ErrMsg ''timeout'')))\<lparr>acc_Now := returnM (31 * Second),
     acc_Peers := (\<lambda>w. (New ''node-0'' 1 1)\<lparr>pe_workerPeersAddresses := [''10.0.0.1'']\<rparr>)\<rparr>"

definition noProbes :: "agentWorld probes" where
  "noProbes = \<lparr>pr_NewPinger = (\<lambda>_. returnM None), pr_RunPinger = (\<lambda>_. returnM None),
     pr_NewRequest = (\<lambda>_. returnM None), pr_Do = (\<lambda>_. returnM None)\<rparr>"

lemma loneCheck_isolated: "staysIsolated loneCheck 0"
  by (simp add: staysIsolated_def cutOff_def loneCheck_def check_run_defs readyzFails_def split: if_split)

lemma lone_start: "ac_timeOfLastPeerResponse (exampleAgent as t) = 0" "ac_errorCount (exampleAgent as t) = 2"
  "acc_MaxErrorsThreshold loneCheck = 3"
  by (simp_all add: exampleAgent_def loneCheck_def exampleCheck_def)

theorem reboot_needs_threshold_witness:
  "\<exists>s'. run_state (checkLoop loneCheck noProbes None [False]) (exampleAgent [''10.0.0.1''] 0) = (Ret [True], s')
     \<and> acc_MaxErrorsThreshold loneCheck \<le> ac_errorCount (exampleAgent [''10.0.0.1''] 0) + 1"
proof -
  obtain s' where run: "run_state (checkLoop loneCheck noProbes None [False]) (exampleAgent [''10.0.0.1''] 0) = (Ret [True], s')"
    using checkOnce_isolated [of loneCheck "exampleAgent [''10.0.0.1''] 0" None noProbes]
    by (auto simp: loneCheck_isolated lone_start isWorker_def max_int64_def)
  then show ?thesis using reboot_needs_threshold [OF run, of 0] by (simp add: lone_start isWorker_def max_int64_def)
qed

theorem isolated_worker_rebooted_by_threshold_witness:
  "\<exists>ts s'. run_state (checkLoop loneCheck noProbes None (replicate 3 False))
     ((exampleAgent [''10.0.0.1''] 0)\<lparr>ac_errorCount := 0\<rparr>) = (Ret ts, s') \<and> length ts = 3 \<and> ts ! 2"
  using isolated_worker_rebooted_by_threshold [of loneCheck "(exampleAgent [''10.0.0.1''] 0)\<lparr>ac_errorCount := 0\<rparr>" None 3 noProbes]
  by (simp add: loneCheck_isolated lone_start isWorker_def max_int64_def)

end
