(* ===== verification/Peer_Server.thy ===== *)
theory Peer_Server
  imports Certificates Api_Loop
begin

text \<open>
  The peer health server (\<^verbatim>\<open>Start\<close> in \<^verbatim>\<open>pkg/peerhealth/server.go\<close>), and an agent whose peers run it: what
  the agent's check answers when it cannot reach the API server while its peers can.
\<close>

section \<open>The server\<close>

definition connectionTimeout :: duration where
  "connectionTimeout = 5 * Second"

text \<open>
  The client, the reader and the certificate reader are arguments of the operations that use them; the
  port is what is left of the object.
\<close>

record Server =
  srv_port :: int

definition NewServer :: "int \<Rightarrow> Server result" where
  "NewServer port = Inr \<lparr>srv_port = port\<rparr>"

text \<open>
  The calls of the network and of gRPC. \<^verbatim>\<open>gn_NewServer\<close> makes the gRPC server with its connection timeout
  and its credentials and registers the service.
\<close>

record ('s, 'p, 'c) grpcNet =
  gn_Listen :: "string \<Rightarrow> string \<Rightarrow> ('s, error option) state"
  gn_NewServer :: "duration \<Rightarrow> ('p, 'c) tlsConfig \<Rightarrow> ('s, unit) state"
  gn_Stop :: "('s, unit) state"

text \<open>
  What the server waits for: the goroutine that serves returns, and sends its error when it has one, or
  the context is done. The list has the events in the order in which they arrive; \<^term>\<open>None\<close> is a server
  that still runs, \<^term>\<open>Some\<close> its result.
\<close>

datatype serveEvent = ServeReturned "error option" | CtxDone

fun awaitEnd :: "('s, 'p, 'c) grpcNet \<Rightarrow> serveEvent list \<Rightarrow> ('s, error option option) state" where
  "awaitEnd net [] = returnM None"
| "awaitEnd net (ServeReturned None # events) = awaitEnd net events"
| "awaitEnd net (ServeReturned (Some err) # events) = returnM (Some (Some err))"
| "awaitEnd net (CtxDone # events) = do { gn_Stop net; returnM (Some None) }"

definition Server_Start ::
  "('w, 'k, 'p, 'c) crypto \<Rightarrow> 's certReader \<Rightarrow> ('s, 'p, 'c) grpcNet \<Rightarrow> Server \<Rightarrow> serveEvent list \<Rightarrow>
   ('s, error option option) state" where
  "Server_Start cr getCerts net s events = do {
     creds \<leftarrow> GetServerCredentialsFromCerts cr getCerts;
     case creds of
       Inl err \<Rightarrow> returnM (Some (Some err))
     | Inr serverCreds \<Rightarrow> do {
         err \<leftarrow> gn_Listen net ''tcp'' ('':'' @ Itoa (srv_port s));
         case err of
           Some e \<Rightarrow> returnM (Some (Some e))
         | None \<Rightarrow> do {
             gn_NewServer net connectionTimeout serverCreds;
             awaitEnd net events
           }
       }
   }"

text \<open>
  A server never serves without verified clients: its runs do not depend on what gRPC would do with
  credentials that do not require and verify client certificates, or that allow TLS before 1.3.
\<close>

definition verifying :: "('p, 'c) tlsConfig \<Rightarrow> bool" where
  "verifying tls \<longleftrightarrow> tls_ClientAuth tls = RequireAndVerifyClientCert \<and> tls_ClientCAs tls \<noteq> None
     \<and> tls_MinVersion tls = TLSMinVersion \<and> tls_Certificates tls \<noteq> []"

theorem server_verifies_clients:
  assumes "\<And>t tls. verifying tls \<Longrightarrow> f t tls = gn_NewServer net t tls"
  shows "Server_Start cr getCerts (net\<lparr>gn_NewServer := f\<rparr>) s events = Server_Start cr getCerts net s events"
proof -
  let ?net = "net\<lparr>gn_NewServer := f\<rparr>"
  have await: "awaitEnd ?net es = awaitEnd net es" for es
    by (induction es rule: awaitEnd.induct [of "\<lambda>_. _" net]) simp_all
  have "verifying tls"
    if "run_state (GetServerCredentialsFromCerts cr getCerts) w = (Inr tls, w')" for tls w w'
    using that by (auto simp: GetServerCredentialsFromCerts_def verifying_def split: prod.splits sum.splits)
  then show ?thesis
    using assms await
    by (intro state.expand) (auto simp: Server_Start_def fun_eq_iff split: prod.splits sum.splits option.splits)
qed

section \<open>An agent whose peers run the server\<close>

text \<open>The call of a peer: the client reads the status of the response; an error of the server is an error of the call.\<close>

definition callPeer :: "(string \<Rightarrow> 'w client) \<Rightarrow> string \<Rightarrow> HealthRequest \<Rightarrow> ('w, int result) state" where
  "callPeer clientOf addr req = do {
     r \<leftarrow> Server_IsHealthy (clientOf addr) req;
     returnM (case r of Inl e \<Rightarrow> Inl e | Inr response \<Rightarrow> Inr (sint (hres_Status response)))
   }"

text \<open>
  The peers are reachable and run the server, and each of them gets the remediations \<^term>\<open>snrs\<close> from the
  API server, none of them owned by a machine alone.
\<close>

definition peersServe ::
  "(string \<Rightarrow> 'w client) \<Rightarrow> SelfNodeRemediation list \<Rightarrow> 'w ApiConnectivityCheckConfig \<Rightarrow> bool" where
  "peersServe clientOf snrs c \<longleftrightarrow>
     acc_IsHealthy c = callPeer clientOf
   \<and> (\<forall>w. fst (run_state (acc_GetClientCredentials c) w) = None) \<and> (\<forall>a w. fst (run_state (acc_Dial c a) w) = None)
   \<and> (\<forall>a w. fst (run_state (cl_ListSnrs (clientOf a)) w) = Inr snrs)
   \<and> list_all (\<lambda>snr. isOwnedByNHC snr \<noteq> None \<or> isOwnedByMachine snr = None) snrs"

definition remediated :: "'w ApiConnectivityCheckConfig \<Rightarrow> SelfNodeRemediation list \<Rightarrow> bool" where
  "remediated c snrs = list_ex (directMatch (acc_MyNodeName c) (acc_MyMachineName c)) snrs"

lemma served_code:
  assumes "peersServe clientOf snrs c" and "acc_MyNodeName c \<noteq> ''''"
  shows "fst (run_state (getHealthStatusFromPeer c a) s) = (if remediated c snrs then Unhealthy else Healthy)"
proof -
  let ?req = "\<lparr>hr_NodeName = acc_MyNodeName c, hr_MachineName = acc_MyMachineName c\<rparr>"
  let ?code = "if remediated c snrs then Unhealthy else Healthy"
  have list: "fst (run_state (cl_ListSnrs (clientOf b)) w) = Inr snrs" for b w
    using assms(1) by (simp add: peersServe_def)
  have match: "run_state (matchLoop (clientOf b) (acc_MyNodeName c) (acc_MyMachineName c) snrs) w = (toResponse ?code, w)" for b w
    using assms(1) matchLoop_direct [of snrs "clientOf b" "acc_MyNodeName c" "acc_MyMachineName c" w]
    by (auto simp: peersServe_def remediated_def list_all_iff list_ex_iff)
  have "fst (run_state (callPeer clientOf b ?req) w) = Inr ?code" for b w
  proof -
    obtain w' where "run_state (cl_ListSnrs (clientOf b)) w = (Inr snrs, w')" using list [of b w] by (metis prod.collapse)
    then show ?thesis
      using match [of b w'] assms(2) by (simp add: callPeer_def Server_IsHealthy_def toResponse_status)
  qed
  then have answer: "run_state (acc_IsHealthy c b ?req) w = (x, w') \<Longrightarrow> x = Inr ?code" for b w x w'
    using assms(1) by (metis fst_conv peersServe_def)
  have creds: "run_state (acc_GetClientCredentials c) w = (x, w') \<Longrightarrow> x = None" for w x w'
    using assms(1) by (metis fst_conv peersServe_def)
  have dial: "run_state (acc_Dial c b) w = (x, w') \<Longrightarrow> x = None" for b w x w'
    using assms(1) by (metis fst_conv peersServe_def)
  show ?thesis
    by (auto simp: getHealthStatusFromPeer_def initClientCreds_def inWorld_def NewClient_def Client_Close_def Let_def
        split: prod.split option.split sum.split dest!: answer creds dial)
qed

section \<open>Properties\<close>


definition servedCheck :: "agentWorld ApiConnectivityCheckConfig" where
  "servedCheck = loneCheck\<lparr>acc_IsHealthy := callPeer (\<lambda>_. (staticClient [])\<lparr>cl_ListSnrs := returnM (Inr [ownedSnr ''node-0'' []])\<rparr>)\<rparr>"


end
