(* ===== verification/Timing.thy ===== *)
theory Timing
  imports Api_Loop Calculator
begin

text \<open>
  How long a worker that is cut off takes to request its own reboot: the check loop of
  \<^verbatim>\<open>pkg/apicheck/check.go\<close> against a clock. This is the time that the manager's calculator
  (\<^verbatim>\<open>pkg/reboot/calculator.go\<close>) has to allow for.
\<close>

section \<open>The clock\<close>

text \<open>
  The clock is a part of the world. Reading it takes no time; the readiness request is over after the
  timeout of its context (\<^verbatim>\<open>ApiServerTimeout\<close>); a batch, whose requests run concurrently, is over after
  the timeouts for dialling and for the request (\<^verbatim>\<open>PeerDialTimeout\<close>, \<^verbatim>\<open>PeerRequestTimeout\<close>).
\<close>

definition timely :: "('w \<Rightarrow> instant) \<Rightarrow> duration \<Rightarrow> duration \<Rightarrow> 'w ApiConnectivityCheckConfig \<Rightarrow> bool" where
  "timely clk apiTimeout batchTimeout c \<longleftrightarrow>
     (\<forall>w t w'. run_state (acc_Now c) w = (t, w') \<longrightarrow> t = clk w \<and> clk w' = clk w)
   \<and> (\<forall>w r w'. run_state (acc_Readyz c) w = (r, w') \<longrightarrow> clk w \<le> clk w' \<and> clk w' \<le> clk w + apiTimeout)
   \<and> (\<forall>as s codes s'. run_state (askAll c as) s = (codes, s') \<longrightarrow>
        clk (ac_world s) \<le> clk (ac_world s') \<and> clk (ac_world s') \<le> clk (ac_world s) + batchTimeout)"

text \<open>Between the clock readings of two states at most \<^term>\<open>d\<close> have passed.\<close>

definition within :: "('w \<Rightarrow> instant) \<Rightarrow> duration \<Rightarrow> 'w acs \<Rightarrow> 'w acs \<Rightarrow> bool" where
  "within clk d s s' \<longleftrightarrow> clk (ac_world s) \<le> clk (ac_world s') \<and> clk (ac_world s') \<le> clk (ac_world s) + d"

lemma within_trans: "within clk d s s1 \<Longrightarrow> within clk e s1 s2 \<Longrightarrow> within clk (d + e) s s2"
  by (simp add: within_def)

lemma within_refl: "0 \<le> d \<Longrightarrow> within clk d s s"
  by (simp add: within_def)

lemma within_upd [simp]:
  "within clk d s (s'\<lparr>ac_asked := x\<rparr>) = within clk d s s'" "within clk d s (s'\<lparr>ac_errorCount := n\<rparr>) = within clk d s s'"
  "within clk d s (s'\<lparr>ac_timeOfLastPeerResponse := t\<rparr>) = within clk d s s'"
  "within clk d (s\<lparr>ac_errorCount := n\<rparr>) s' = within clk d s s'"
  by (simp_all add: within_def)

lemma timely_nonneg:
  assumes "timely clk a b c"
  shows "0 \<le> a" "0 \<le> b"
proof -
  fix s :: "'a acs"
  obtain r w' where "run_state (acc_Readyz c) (ac_world s) = (r, w')" by fastforce
  with assms have "clk (ac_world s) \<le> clk w'" "clk w' \<le> clk (ac_world s) + a" unfolding timely_def by blast+
  then show "0 \<le> a" by linarith
  have "run_state (askAll c []) s = ([], s)" by simp
  with assms have "clk (ac_world s) \<le> clk (ac_world s) + b" unfolding timely_def by blast
  then show "0 \<le> b" by simp
qed

lemma now_timed:
  assumes "timely clk a b c"
  shows "wp (now c) (\<lambda>t s'. t = clk (ac_world s) \<and> (\<exists>w. s' = s\<lparr>ac_world := w\<rparr> \<and> clk w = clk (ac_world s))) s"
  using assms by (auto simp: now_def inWorld_def timely_def wp_def split: prod.splits)

section \<open>A round\<close>

lemma askBatch_timed:
  assumes "timely clk a b c"
  shows "wp (askBatch c t as errs) (\<lambda>_. within clk b s) s"
proof -
  have "wp (getHealthStatusFromPeers c as) (\<lambda>_. within clk b s) s"
    using assms unfolding getHealthStatusFromPeers_def
    by (auto simp: wp_def timely_def within_def split: prod.splits)
  moreover have "wp (if p then do { x \<leftarrow> now c; modify (\<lambda>s. s\<lparr>ac_timeOfLastPeerResponse := x\<rparr>) } else returnM ())
      (\<lambda>_. within clk b s) s1" if "within clk b s s1" for p s1
    using that by (auto simp: within_def intro!: wp_mono [OF now_timed [OF assms]])
  ultimately show ?thesis
    unfolding askBatch_def Let_def
    by (elim wp_seq) (rule wp_seq, assumption, auto)
qed

text \<open>The loop over the batches takes as many batch times as the manager counts batches.\<close>

lemma askBatches_timed:
  assumes "timely clk a b c"
  shows "wp (askBatches c t peers errs) (\<lambda>_. within clk (b * int (length (batchSizes GetNextBatchSize t (int (length peers))))) s) s"
proof (induction "length peers" arbitrary: peers errs s rule: less_induct)
  case less
  have b: "0 \<le> b" using timely_nonneg(2) [OF assms] .
  show ?case
  proof (cases "peers = []")
    case True
    then show ?thesis by (subst askBatches.simps) (simp add: within_def snrBatch.batchSizes_done)
  next
    case False
    let ?n = "int (length peers)"
    define k where "k = nat (GetNextBatchSize t ?n)"
    have k: "int k = GetNextBatchSize t ?n" "k \<le> length peers" "length (drop k peers) < length peers"
      using False GetNextBatchSize_pos [of ?n t] GetNextBatchSize_le [of t ?n] by (simp_all add: k_def)
    have l: "length (batchSizes GetNextBatchSize t ?n) = Suc (length (batchSizes GetNextBatchSize t (int (length (drop k peers)))))"
      using False k(1,2) snrBatch.batchSizes_step [of ?n t] by (simp add: of_nat_diff)
    let ?rest = "b * int (length (batchSizes GetNextBatchSize t (int (length (drop k peers)))))"
    have total: "within clk (b * int (length (batchSizes GetNextBatchSize t ?n))) s s'"
      if "within clk b s s1" "within clk ?rest s1 s'" for s1 s'
      using within_trans [OF that] by (simp add: l algebra_simps)
    have "0 \<le> ?rest" using b by simp
    then have stop: "within clk (b * int (length (batchSizes GetNextBatchSize t ?n))) s s1" if "within clk b s s1" for s1
      using total [OF that within_refl] by blast
    show ?thesis
      unfolding askBatches.simps [of c t peers] popPeerIPs_eq Let_def fst_conv snd_conv k_def [symmetric]
      using False
      by (simp only: if_False)
        (rule wp_seq [OF askBatch_timed [OF assms]],
          auto split: option.split intro: stop wp_mono [OF less [OF k(3)]] total)
  qed
qed

text \<open>The verdict of a round on a worker that is cut off, with the time it takes.\<close>

definition batchesToAsk :: "'w ApiConnectivityCheckConfig \<Rightarrow> 'w \<Rightarrow> int" where
  "batchesToAsk c w = GetNrOfBatches (int (length (GetPeersAddresses (acc_Peers c w) Worker)))"

definition roundVerdict :: "('w \<Rightarrow> instant) \<Rightarrow> duration \<Rightarrow> 'w ApiConnectivityCheckConfig \<Rightarrow> 'w acs \<Rightarrow> bool \<Rightarrow> 'w acs \<Rightarrow> bool" where
  "roundVerdict clk limit c s healthy s' \<longleftrightarrow>
     ac_errorCount s' = wrap64 (ac_errorCount s + 1) \<and> ac_timeOfLastPeerResponse s' = ac_timeOfLastPeerResponse s
   \<and> (if ac_errorCount s' < acc_MaxErrorsThreshold c then healthy \<and> clk (ac_world s') = clk (ac_world s)
      else within clk limit s s'
         \<and> (healthy \<longleftrightarrow> clk (ac_world s') \<le> ac_timeOfLastPeerResponse s + acc_MaxTimeForNoPeersResponse c))"

lemma getWorkerPeersResponse_timed:
  assumes "cutOff c" and "timely clk a b c"
  shows "wp (getWorkerPeersResponse c) (\<lambda>r. roundVerdict clk (b * batchesToAsk c (ac_world s)) c s (IsHealthy r)) s"
proof (rule wpI)
  fix r s'
  assume run: "run_state (getWorkerPeersResponse c) s = (r, s')"
  let ?n = "wrap64 (ac_errorCount s + 1)" and ?peers = "GetPeersAddresses (acc_Peers c (ac_world s)) Worker"
  show "roundVerdict clk (b * batchesToAsk c (ac_world s)) c s (IsHealthy r) s'"
  proof (cases "?n < acc_MaxErrorsThreshold c")
    case True
    then show ?thesis using run by (auto simp: getWorkerPeersResponse_def respond_def roundVerdict_def)
  next
    case False
    have peers: "?peers \<noteq> []" and silent: "\<And>x s1. fst (run_state (getHealthStatusFromPeer c x) s1) = RequestFailed"
      using assms(1) by (simp_all add: cutOff_def)
    obtain early s1 where e: "run_state (askBatches c (int (length ?peers)) ?peers 0) (s\<lparr>ac_errorCount := ?n\<rparr>) = (early, s1)"
      and v: "case early of Some x \<Rightarrow> r = x \<and> s' = s1
         | None \<Rightarrow> \<exists>t w. run_state (acc_Now c) (ac_world s1) = (t, w) \<and> s' = s1\<lparr>ac_world := w\<rparr>
             \<and> r = (if ac_timeOfLastPeerResponse s1 + acc_MaxTimeForNoPeersResponse c < t
                    then respond False UnHealthyBecauseNodeIsIsolated
                    else respond True HealthyBecauseNoPeersResponseNotReachedTimeout)"
      using getWorkerPeersResponse_spec [OF False peers run] by blast
    have s1: "early = None" "ac_timeOfLastPeerResponse s1 = ac_timeOfLastPeerResponse s" "ac_errorCount s1 = ?n"
      using wp_run [OF askBatches_silent [OF silent] e] by simp_all
    have "within clk (b * batchesToAsk c (ac_world s)) s s1"
      using wp_run [OF askBatches_timed [OF assms(2)] e] by (simp add: batchesToAsk_def GetNrOfBatches_length)
    moreover obtain t w where "run_state (acc_Now c) (ac_world s1) = (t, w)" "s' = s1\<lparr>ac_world := w\<rparr>"
        "r = (if ac_timeOfLastPeerResponse s1 + acc_MaxTimeForNoPeersResponse c < t
              then respond False UnHealthyBecauseNodeIsIsolated
              else respond True HealthyBecauseNoPeersResponseNotReachedTimeout)"
      using v s1(1) by auto
    moreover from this(1) have "t = clk (ac_world s1)" "clk w = clk (ac_world s1)"
      using assms(2) unfolding timely_def by blast+
    ultimately show ?thesis using s1 False by (auto simp: roundVerdict_def within_def respond_def)
  qed
qed

text \<open>A round that requests the reboot: \<^term>\<open>s1\<close> is the state in which it calls the rebooter.\<close>

definition requestsReboot ::
  "'w ApiConnectivityCheckConfig \<Rightarrow> 'w probes \<Rightarrow> Manager option \<Rightarrow> 'w acs \<Rightarrow> 'w acs \<Rightarrow> bool" where
  "requestsReboot c pr m s s1 \<longleftrightarrow>
     readyzFails (fst (run_state (acc_Readyz c) (ac_world s)))
   \<and> run_state (isConsideredHealthy c pr m) (s\<lparr>ac_world := snd (run_state (acc_Readyz c) (ac_world s))\<rparr>) = (False, s1)"

text \<open>Every round returns quietly or requests the reboot, and does so in time.\<close>

definition roundTime :: "duration \<Rightarrow> duration \<Rightarrow> 'w ApiConnectivityCheckConfig \<Rightarrow> 'w acs \<Rightarrow> duration" where
  "roundTime apiTimeout batchesTimeout c s1 =
     apiTimeout + (if ac_errorCount s1 < acc_MaxErrorsThreshold c then 0 else batchesTimeout)"

lemma round_timed:
  assumes "cutOff c" and "timely clk a b c" and "isWorker m" and "0 \<le> ac_errorCount s" and "ac_errorCount s < max_int64"
    and "\<And>w. batchesToAsk c w \<le> n"
  obtains s1 where "ac_errorCount s1 = ac_errorCount s + 1" and "ac_timeOfLastPeerResponse s1 = ac_timeOfLastPeerResponse s"
    and "within clk (roundTime a (b * n) c s1) s s1"
    and "if ac_errorCount s1 < acc_MaxErrorsThreshold c
            \<or> clk (ac_world s1) \<le> ac_timeOfLastPeerResponse s + acc_MaxTimeForNoPeersResponse c
         then run_state (checkOnce c pr m) s = (Ret False, s1) else requestsReboot c pr m s s1"
proof -
  have e: "wrap64 (ac_errorCount s + 1) = ac_errorCount s + 1"
    using assms(4,5) by (intro wrap64_id) (simp add: is_int64_def min_int64_def max_int64_def)
  have healthy: "isConsideredHealthy c pr m = do { r \<leftarrow> getWorkerPeersResponse c; returnM (IsHealthy r) }"
    using assms(3) by (simp add: isConsideredHealthy_def isWorker_def split: option.splits)
  obtain ready w where ready: "run_state (acc_Readyz c) (ac_world s) = (ready, w)" by fastforce
  let ?s = "s\<lparr>ac_world := w\<rparr>"
  have w: "clk (ac_world s) \<le> clk w" "clk w \<le> clk (ac_world s) + a" and fails: "readyzFails ready"
    using assms(1,2) ready unfolding timely_def cutOff_def by (blast, blast, metis fst_conv)
  obtain r s1 where r: "run_state (getWorkerPeersResponse c) ?s = (r, s1)" by fastforce
  note v = wp_run [OF getWorkerPeersResponse_timed [OF assms(1,2)] r]
  have "b * batchesToAsk c w \<le> b * n"
    using timely_nonneg(2) [OF assms(2)] assms(6) by (rule mult_left_mono [rotated])
  then have "within clk (roundTime a (b * n) c s1) s s1"
    using v w by (auto simp: roundVerdict_def within_def roundTime_def)
  moreover have "run_state (checkOnce c pr m) s = (Ret False, s1)" if "IsHealthy r"
    using that ready fails r by (simp add: checkOnce_def inWorld_def healthy)
  moreover have "requestsReboot c pr m s s1" if "\<not> IsHealthy r"
    using that ready fails r by (simp add: requestsReboot_def healthy)
  ultimately show ?thesis
    using v e by (intro that [of s1]) (auto simp: roundVerdict_def split: if_splits)
qed

section \<open>The rounds\<close>

text \<open>
  The rounds since the state \<^term>\<open>s0\<close>, none of which requested the reboot. Before every round the loop
  waits for the check interval (\<^verbatim>\<open>wait.UntilWithContext\<close> starts its timer after the function has
  returned); meanwhile the world may change in any way.
\<close>

inductive quietRounds ::
  "'w ApiConnectivityCheckConfig \<Rightarrow> 'w probes \<Rightarrow> Manager option \<Rightarrow> ('w \<Rightarrow> instant) \<Rightarrow> duration \<Rightarrow>
   'w acs \<Rightarrow> nat \<Rightarrow> 'w acs \<Rightarrow> bool"
  for c pr m clk interval s0 where
  start: "quietRounds c pr m clk interval s0 0 s0"
| round: "quietRounds c pr m clk interval s0 k s \<Longrightarrow> clk w = clk (ac_world s) + interval \<Longrightarrow>
    run_state (checkOnce c pr m) (s\<lparr>ac_world := w\<rparr>) = (Ret False, s') \<Longrightarrow>
    quietRounds c pr m clk interval s0 (Suc k) s'"

text \<open>
  The time from the moment a node is cut off to its request for the reboot: the rounds up to the
  threshold, or the time without an answer of a peer and one more round, and the batches of the round
  that decides.
\<close>

definition rebootDeadline :: "'w ApiConnectivityCheckConfig \<Rightarrow> duration \<Rightarrow> duration \<Rightarrow> duration \<Rightarrow> duration" where
  "rebootDeadline c interval apiTimeout batchesTimeout =
     max (acc_MaxErrorsThreshold c * (interval + apiTimeout)) (acc_MaxTimeForNoPeersResponse c + interval + apiTimeout)
     + batchesTimeout"

definition quietInv :: "('w \<Rightarrow> instant) \<Rightarrow> duration \<Rightarrow> duration \<Rightarrow> 'w ApiConnectivityCheckConfig \<Rightarrow> 'w acs \<Rightarrow> nat \<Rightarrow> 'w acs \<Rightarrow> bool" where
  "quietInv clk interval apiTimeout c s0 k s \<longleftrightarrow>
     ac_errorCount s = int k \<and> ac_timeOfLastPeerResponse s = ac_timeOfLastPeerResponse s0
   \<and> clk (ac_world s0) + int k * interval \<le> clk (ac_world s)
   \<and> (if int k < acc_MaxErrorsThreshold c then clk (ac_world s) \<le> clk (ac_world s0) + int k * (interval + apiTimeout)
      else clk (ac_world s) \<le> ac_timeOfLastPeerResponse s0 + acc_MaxTimeForNoPeersResponse c)"

text \<open>One more round after quiet ones: it is in time, and keeps the invariant when it is quiet too.\<close>

lemma next_round:
  assumes "cutOff c" and "timely clk a b c" and "isWorker m" and "\<And>w. batchesToAsk c w \<le> n"
    and "quietInv clk interval a c s0 k s" and "int k < max_int64" and "clk w = clk (ac_world s) + interval"
    and "ac_timeOfLastPeerResponse s0 \<le> clk (ac_world s0)" and "0 \<le> interval" and "0 \<le> n"
  obtains s1 where "clk (ac_world s1) \<le> clk (ac_world s0) + rebootDeadline c interval a (b * n)"
    and "run_state (checkOnce c pr m) (s\<lparr>ac_world := w\<rparr>) = (Ret False, s1) \<and> quietInv clk interval a c s0 (Suc k) s1
       \<or> requestsReboot c pr m (s\<lparr>ac_world := w\<rparr>) s1"
proof -
  let ?s = "s\<lparr>ac_world := w\<rparr>" and ?N = "acc_MaxErrorsThreshold c" and ?M = "acc_MaxTimeForNoPeersResponse c"
  note ab = timely_nonneg [OF assms(2)]
  have k: "ac_errorCount s = int k" "ac_timeOfLastPeerResponse s = ac_timeOfLastPeerResponse s0"
      "clk (ac_world s0) + int k * interval \<le> clk (ac_world s)"
    using assms(5) by (simp_all add: quietInv_def)
  obtain s1 where s1: "ac_errorCount s1 = int k + 1" "ac_timeOfLastPeerResponse s1 = ac_timeOfLastPeerResponse s0"
      "clk w \<le> clk (ac_world s1)" "clk (ac_world s1) \<le> clk w + roundTime a (b * n) c s1"
      "if ac_errorCount s1 < ?N \<or> clk (ac_world s1) \<le> ac_timeOfLastPeerResponse s0 + ?M
       then run_state (checkOnce c pr m) ?s = (Ret False, s1) else requestsReboot c pr m ?s s1"
    using assms(4,6) k by (auto intro: round_timed [OF assms(1-3), of ?s n pr] simp: within_def)
  have more: "(1 + int k) * x = int k * x + x" for x by (simp add: algebra_simps)
  have batches: "0 \<le> b * n" using ab(2) assms(10) by simp
  have early: "clk (ac_world s1) \<le> clk (ac_world s0) + (1 + int k) * (interval + a) + (if int k + 1 < ?N then 0 else b * n)"
    if "int k < ?N"
    using that assms(5,7) s1(1,4) unfolding more by (simp add: quietInv_def roundTime_def split: if_splits)
  have late: "clk (ac_world s1) \<le> clk (ac_world s0) + ?M + interval + a + b * n" if "\<not> int k < ?N"
    using that assms(5,7,8) s1(1,4) by (simp add: quietInv_def roundTime_def)
  have "clk (ac_world s1) \<le> clk (ac_world s0) + rebootDeadline c interval a (b * n)"
  proof (cases "int k < ?N")
    case True
    then have "(1 + int k) * (interval + a) \<le> ?N * (interval + a)"
      using assms(9) ab(1) by (intro mult_right_mono) simp_all
    then show ?thesis using early [OF True] batches by (simp add: rebootDeadline_def split: if_splits)
  qed (use late in \<open>simp add: rebootDeadline_def\<close>)
  moreover have "quietInv clk interval a c s0 (Suc k) s1"
    if "ac_errorCount s1 < ?N \<or> clk (ac_world s1) \<le> ac_timeOfLastPeerResponse s0 + ?M"
    using that s1(1-3) k(3) assms(7) early by (auto simp: quietInv_def more)
  ultimately show ?thesis using s1(5) by (intro that [of s1]) (auto split: if_splits)
qed

lemma requestsReboot_not_quiet:
  "requestsReboot c pr m s s1 \<Longrightarrow> run_state (checkOnce c pr m) s \<noteq> (Ret False, s2)"
  by (auto simp: requestsReboot_def checkOnce_def inWorld_def split: prod.splits if_splits outcome.splits)

lemma quietRounds_inv:
  assumes "quietRounds c pr m clk interval s0 k s"
    and "cutOff c" and "timely clk a b c" and "isWorker m" and "\<And>w. batchesToAsk c w \<le> n" and "0 \<le> n"
    and "ac_errorCount s0 = 0" and "ac_timeOfLastPeerResponse s0 \<le> clk (ac_world s0)" and "0 \<le> interval"
    and "1 \<le> acc_MaxErrorsThreshold c" and "int k \<le> max_int64"
  shows "quietInv clk interval a c s0 k s"
  using assms(1,11)
proof (induction rule: quietRounds.induct)
  case start
  then show ?case using assms(7,8,10) by (simp add: quietInv_def)
next
  case (round k s w s')
  then have inv: "quietInv clk interval a c s0 k s" and k: "int k < max_int64" by simp_all
  obtain s1 where "run_state (checkOnce c pr m) (s\<lparr>ac_world := w\<rparr>) = (Ret False, s1) \<and> quietInv clk interval a c s0 (Suc k) s1
       \<or> requestsReboot c pr m (s\<lparr>ac_world := w\<rparr>) s1"
    using next_round [OF assms(2-5) inv k round.hyps(2) assms(8,9,6)] by metis
  then show ?case using round.hyps(3) requestsReboot_not_quiet by fastforce
qed

text \<open>A request for the reboot after quiet rounds is in time.\<close>

lemma request_in_time:
  assumes "cutOff c" and "timely clk a b c" and "isWorker m"
    and "\<And>w. batchesToAsk c w \<le> n" and "0 \<le> n" and "1 \<le> acc_MaxErrorsThreshold c" and "0 \<le> interval"
    and "ac_errorCount s0 = 0" and "ac_timeOfLastPeerResponse s0 \<le> clk (ac_world s0)"
    and "quietRounds c pr m clk interval s0 k s" and "int k < max_int64" and "clk w = clk (ac_world s) + interval"
    and "requestsReboot c pr m (s\<lparr>ac_world := w\<rparr>) s1"
  shows "clk (ac_world s1) \<le> clk (ac_world s0) + rebootDeadline c interval a (b * n)"
proof -
  have k: "int k \<le> max_int64" using assms(11) by simp
  note inv = quietRounds_inv [OF assms(10,1-5,8,9,7,6) k]
  obtain s2 where "clk (ac_world s2) \<le> clk (ac_world s0) + rebootDeadline c interval a (b * n)"
      "requestsReboot c pr m (s\<lparr>ac_world := w\<rparr>) s2"
    using next_round [OF assms(1-4) inv assms(11,12,9,7,5)] requestsReboot_not_quiet [OF assms(13)] by metis
  then show ?thesis using assms(13) by (simp add: requestsReboot_def)
qed

section \<open>The manager's allowance\<close>

text \<open>
  The calculated minimum covers the deadline of an agent with the same configuration, with the
  watchdog's timeout on top. Where the threshold dominates, the thirty seconds for the reboot itself
  are left over as well.
\<close>

lemma minimum_covers_deadline:
  assumes "specNonneg spec" and "acc_MaxErrorsThreshold c = cs_MaxApiErrorThreshold spec"
    and "acc_MaxTimeForNoPeersResponse c = MaxTimeForNoPeersResponse" and "0 \<le> n"
  defines "round \<equiv> the (cs_ApiCheckInterval spec) + the (cs_ApiServerTimeout spec)"
    and "batch \<equiv> the (cs_PeerDialTimeout spec) + the (cs_PeerRequestTimeout spec)"
    and "deadline \<equiv> rebootDeadline c (the (cs_ApiCheckInterval spec)) (the (cs_ApiServerTimeout spec))
           ((the (cs_PeerDialTimeout spec) + the (cs_PeerRequestTimeout spec)) * n)"
  shows "deadline + watchdogTimeout \<le> idealMinimum spec n watchdogTimeout"
    and "min (30 * Second) (n * batch) \<le> (cs_MaxApiErrorThreshold spec - 1) * round \<Longrightarrow>
         deadline + watchdogTimeout + 30 * Second \<le> idealMinimum spec n watchdogTimeout"
proof -
  let ?N = "cs_MaxApiErrorThreshold spec"
  have nonneg: "0 \<le> round" "0 \<le> n * batch" "1 \<le> ?N"
    using assms(1,4) by (auto simp: specNonneg_def round_def batch_def)
  have d: "deadline = max (?N * round) (30 * Second + round) + n * batch"
    by (simp add: deadline_def rebootDeadline_def round_def batch_def assms(2,3) MaxTimeForNoPeersResponse_def mult.commute)
  have i: "idealMinimum spec n watchdogTimeout = ?N * round + max (30 * Second) (n * batch) + watchdogTimeout + 30 * Second"
    by (simp add: idealMinimum_def round_def batch_def)
  have r: "round \<le> ?N * round" "(?N - 1) * round = ?N * round - round"
    using nonneg mult_ge_right by (simp_all add: left_diff_distrib)
  show "deadline + watchdogTimeout \<le> idealMinimum spec n watchdogTimeout"
    unfolding d i using nonneg r(1) by (simp add: max_def)
  show "min (30 * Second) (n * batch) \<le> (?N - 1) * round \<Longrightarrow>
      deadline + watchdogTimeout + 30 * Second \<le> idealMinimum spec n watchdogTimeout"
    unfolding d i r(2) using nonneg r(1) by (simp add: max_def min_def split: if_splits)
qed

text \<open>A duration that the calculator answers is at least the minimum for \<^term>\<open>n\<close> batches.\<close>

lemma GetRebootDuration_minimum:
  assumes "run_state (GetRebootDuration cal node) w = (Ret (Inr d), w')" and "calc_snrConfig cal = Some config"
    and "specComplete (cfg_Spec config)" and "specNonneg (cfg_Spec config)" and "0 \<le> watchdogTimeoutOrDefault node"
    and "idealMinimum (cfg_Spec config) 14 (watchdogTimeoutOrDefault node) \<le> max_int64"
    and "\<And>nodes w'. run_state (cl_ListNodes (calc_client cal) [ReqExists WorkerRole]) w = (Inr nodes, w') \<Longrightarrow>
           n \<le> GetNrOfBatches (int (length nodes))"
  shows "idealMinimum (cfg_Spec config) n (watchdogTimeoutOrDefault node) \<le> d"
proof -
  let ?spec = "cfg_Spec config" and ?W = "watchdogTimeoutOrDefault node"
  have b: "0 \<le> the (cs_PeerDialTimeout ?spec) + the (cs_PeerRequestTimeout ?spec)"
    using assms(4) by (simp add: specNonneg_def)
  have mono: "idealMinimum ?spec p ?W \<le> idealMinimum ?spec q ?W" if "p \<le> q" for p q
    using mult_right_mono [OF that b] by (simp add: idealMinimum_def max_def)
  have "0 \<le> cs_MaxApiErrorThreshold ?spec * (the (cs_ApiCheckInterval ?spec) + the (cs_ApiServerTimeout ?spec))"
    using assms(4) by (simp add: specNonneg_def)
  then have peers: "the (cs_PeerDialTimeout ?spec) + the (cs_PeerRequestTimeout ?spec) \<le> max_int64"
    using assms(5,6) b by (simp add: idealMinimum_def max_def split: if_splits)
  obtain x w1 where x: "run_state (cl_ListNodes (calc_client cal) [ReqExists WorkerRole]) w = (x, w1)" by fastforce
  obtain nodes where nodes: "x = Inr nodes"
    using assms(1,2,3) x
    by (cases x) (auto simp: GetRebootDuration_def calculateMinimumRebootDuration_def calcNumOfBatches_def specComplete_def
        split: option.splits)
  note l = x [unfolded nodes]
  have "minimumAt cal node w = idealMinimum ?spec (GetNrOfBatches (int (length nodes))) ?W"
    using calculateMinimum_ideal [OF assms(3-5) l _ peers] mono [OF GetNrOfBatches_le] assms(2,6)
    by (simp add: minimumAt_def order_trans [of _ "idealMinimum ?spec 14 ?W"])
  moreover have "minimumAt cal node w \<le> d" using calc.getDuration_ge [OF assms(1)] .
  ultimately show ?thesis using mono [OF assms(7) [OF l]] by simp
qed

section \<open>Properties\<close>

text \<open>
  C9: a worker that is cut off requests its reboot in time. Take the loop of a worker from the moment it
  is cut off, with error count 0, against a clock: calls end by their timeouts, and the loop waits for
  the check interval before each round. After any number of rounds without a request, the next round
  either requests the reboot, or is quiet; either way it comes to its verdict by the deadline: the
  threshold times interval and API timeout, or the time without answers plus one more interval and API
  timeout, plus the batches of peers with their timeouts. And rounds are quiet only below the threshold
  or while their number times the interval is within the time without answers, so a request comes.
\<close>

theorem isolated_worker_reboots_by_deadline:
  assumes "cutOff c" and "timely clk apiTimeout batchTimeout c" and "isWorker m"
    and "\<And>w. batchesToAsk c w \<le> n" and "0 \<le> n" and "1 \<le> acc_MaxErrorsThreshold c" and "0 \<le> interval"
    and "ac_errorCount s0 = 0" and "ac_timeOfLastPeerResponse s0 \<le> clk (ac_world s0)"
    and "quietRounds c pr m clk interval s0 k s" and "int k < max_int64" and "clk w = clk (ac_world s) + interval"
  shows "\<exists>s1. clk (ac_world s1) \<le> clk (ac_world s0) + rebootDeadline c interval apiTimeout (batchTimeout * n)
     \<and> (requestsReboot c pr m (s\<lparr>ac_world := w\<rparr>) s1
        \<or> run_state (checkOnce c pr m) (s\<lparr>ac_world := w\<rparr>) = (Ret False, s1)
          \<and> (int (Suc k) < acc_MaxErrorsThreshold c \<or> int (Suc k) * interval \<le> acc_MaxTimeForNoPeersResponse c))"
proof -
  have k: "int k \<le> max_int64" using assms(11) by simp
  note inv = quietRounds_inv [OF assms(10,1-5,8,9,7,6) k]
  obtain s1 where s1: "clk (ac_world s1) \<le> clk (ac_world s0) + rebootDeadline c interval apiTimeout (batchTimeout * n)"
      "run_state (checkOnce c pr m) (s\<lparr>ac_world := w\<rparr>) = (Ret False, s1) \<and> quietInv clk interval apiTimeout c s0 (Suc k) s1
       \<or> requestsReboot c pr m (s\<lparr>ac_world := w\<rparr>) s1"
    using next_round [OF assms(1-4) inv assms(11,12,9,7,5)] by metis
  moreover have "int (Suc k) < acc_MaxErrorsThreshold c \<or> int (Suc k) * interval \<le> acc_MaxTimeForNoPeersResponse c"
    if "quietInv clk interval apiTimeout c s0 (Suc k) s1"
    using that assms(9) by (auto simp: quietInv_def split: if_splits)
  ultimately show ?thesis by blast
qed

section \<open>Witnesses\<close>

text \<open>
  An agent with the default times whose readiness requests run into their timeout and whose requests
  to the only peer fail at the next full ten seconds.
\<close>

definition nextTen :: "instant \<Rightarrow> instant" where
  "nextTen t = - ((- t) div (10 * Second)) * (10 * Second)"

lemma nextTen_bounds: "t \<le> nextTen t" "nextTen t \<le> t + 10 * Second"
proof -
  have "- t = 10 * Second * ((- t) div (10 * Second)) + (- t) mod (10 * Second)" by simp
  moreover have "0 \<le> (- t) mod (10 * Second)" "(- t) mod (10 * Second) < 10 * Second" by simp_all
  ultimately show "t \<le> nextTen t" "nextTen t \<le> t + 10 * Second"
    unfolding nextTen_def by (simp_all add: mult.commute)
qed

lemma nextTen_idem: "nextTen (nextTen t) = nextTen t"
  by (simp add: nextTen_def)

definition timedCheck :: "agentWorld ApiConnectivityCheckConfig" where
  "timedCheck = loneCheck\<lparr>acc_Now := gets aw_now,
     acc_Readyz := do { modify (\<lambda>w. w\<lparr>aw_now := aw_now w + 5 * Second\<rparr>); returnM (ReadyzError (ErrMsg ''timeout'')) },
     acc_IsHealthy := (\<lambda>addr req. do { modify (\<lambda>w. w\<lparr>aw_now := nextTen (aw_now w)\<rparr>); returnM (Inl (ErrMsg ''timeout'')) })\<rparr>"

lemmas timed_run_defs = timedCheck_def loneCheck_def check_run_defs

lemma timedCheck_sel [simp]:
  "acc_MaxErrorsThreshold timedCheck = 3" "acc_MaxTimeForNoPeersResponse timedCheck = 30 * Second"
  "batchesToAsk timedCheck w = 1"
  by (simp_all add: timed_run_defs batchesToAsk_def GetNrOfBatches_closed)

lemma timed_request:
  "run_state (getHealthStatusFromPeer timedCheck a) s =
     (RequestFailed, s\<lparr>ac_clientCreds := True, ac_world := (ac_world s)\<lparr>aw_now := nextTen (aw_now (ac_world s))\<rparr>\<rparr>)"
  by (simp add: timed_run_defs split: if_split)

lemma timed_askAll:
  "\<exists>codes. run_state (askAll timedCheck as) s =
     (codes, if as = [] then s else s\<lparr>ac_clientCreds := True, ac_world := (ac_world s)\<lparr>aw_now := nextTen (aw_now (ac_world s))\<rparr>\<rparr>)"
proof (induction as arbitrary: s)
  case (Cons a as)
  let ?s = "s\<lparr>ac_clientCreds := True, ac_world := (ac_world s)\<lparr>aw_now := nextTen (aw_now (ac_world s))\<rparr>\<rparr>"
  show ?case using Cons [of ?s] by (auto simp: timed_request nextTen_idem)
qed simp

lemma timedCheck_timely: "timely aw_now (5 * Second) (10 * Second) timedCheck"
  unfolding timely_def
proof (intro conjI allI impI)
  fix as s codes s' assume run: "run_state (askAll timedCheck as) s = (codes, s')"
  obtain codes' where "run_state (askAll timedCheck as) s =
     (codes', if as = [] then s else s\<lparr>ac_clientCreds := True, ac_world := (ac_world s)\<lparr>aw_now := nextTen (aw_now (ac_world s))\<rparr>\<rparr>)"
    using timed_askAll by blast
  with run have "aw_now (ac_world s') \<in> {aw_now (ac_world s), nextTen (aw_now (ac_world s))}" by (auto split: if_splits)
  then show "aw_now (ac_world s) \<le> aw_now (ac_world s')" "aw_now (ac_world s') \<le> aw_now (ac_world s) + 10 * Second"
    using nextTen_bounds [of "aw_now (ac_world s)"] by auto
qed (auto simp: timedCheck_def)

lemma timedCheck_cutOff: "cutOff timedCheck"
  unfolding cutOff_def timed_request by (simp add: timed_run_defs readyzFails_def)

text \<open>The agent after \<^term>\<open>k\<close> rounds below the threshold, each of twenty seconds.\<close>

definition timedAgent :: "nat \<Rightarrow> agentWorld acs" where
  "timedAgent k = (exampleAgent [''10.0.0.1''] (int k * 20 * Second))\<lparr>ac_errorCount := int k\<rparr>"

definition timedWait :: "nat \<Rightarrow> agentWorld" where
  "timedWait k = (ac_world (timedAgent k))\<lparr>aw_now := int k * 20 * Second + 15 * Second\<rparr>"

lemma timedAgent_clock [simp]: "aw_now (ac_world (timedAgent k)) = int k * 20 * Second"
  "aw_now (timedWait k) = aw_now (ac_world (timedAgent k)) + 15 * Second"
  "ac_errorCount (timedAgent k) = int k" "ac_timeOfLastPeerResponse (timedAgent k) = 0"
  by (simp_all add: timedAgent_def timedWait_def exampleAgent_def)

lemma timed_round:
  assumes "int k < 2"
  shows "run_state (checkOnce timedCheck noProbes None) ((timedAgent k)\<lparr>ac_world := timedWait k\<rparr>) = (Ret False, timedAgent (Suc k))"
proof -
  have "wrap64 (int k + 1) = int k + 1"
    using assms by (intro wrap64_id) (simp add: is_int64_def min_int64_def max_int64_def)
  then show ?thesis
    using assms
    by (simp add: checkOnce_def isConsideredHealthy_def timed_run_defs readyzFails_def timedAgent_def timedWait_def)
qed

lemma timed_quiet: "quietRounds timedCheck noProbes None aw_now (15 * Second) (timedAgent 0) 2 (timedAgent 2)"
proof -
  have "quietRounds timedCheck noProbes None aw_now (15 * Second) (timedAgent 0) (Suc 0) (timedAgent (Suc 0))"
    using quietRounds.round [OF quietRounds.start timedAgent_clock(2) timed_round] by simp
  from quietRounds.round [OF this timedAgent_clock(2) timed_round] show ?thesis
    by (simp add: numeral_2_eq_2)
qed

lemma timed_request_comes:
  "\<exists>s1. requestsReboot timedCheck noProbes None ((timedAgent 2)\<lparr>ac_world := timedWait 2\<rparr>) s1"
proof -
  let ?s = "(timedAgent 2)\<lparr>ac_world := timedWait 2\<rparr>"
  show ?thesis
    by (rule round_timed [OF timedCheck_cutOff timedCheck_timely, of None ?s 1 noProbes])
      (auto simp: isWorker_def max_int64_def within_def split: if_splits)
qed

theorem isolated_worker_reboots_by_deadline_witness:
  "\<exists>s1. aw_now (ac_world s1) \<le> 70 * Second
     \<and> requestsReboot timedCheck noProbes None ((timedAgent 2)\<lparr>ac_world := timedWait 2\<rparr>) s1"
  using isolated_worker_reboots_by_deadline [OF timedCheck_cutOff timedCheck_timely, of None 1 "15 * Second" "timedAgent 0"
      noProbes 2 "timedAgent 2" "timedWait 2"] timed_quiet
  by (simp add: isWorker_def max_int64_def rebootDeadline_def)

end
