(* ===== verification/Unstructured.thy ===== *)
theory Unstructured
  imports Prelude
begin

text \<open>
  Objects without a type, as the operator renders, merges and applies them: JSON values, the accessors
  of nested fields (\<^verbatim>\<open>unstructured/helpers.go\<close> of the vendored API machinery) and those of the object's
  metadata (\<^verbatim>\<open>unstructured/unstructured.go\<close>). The text of an accessor error names the path only; the
  offending value is not rendered.
\<close>

section \<open>JSON values and nested fields\<close>

datatype json =
    JNull
  | JBool bool
  | JInt int
  | JFloat string
  | JString string
  | JArr "json list"
  | JObj "string \<Rightarrow> json option"

type_synonym uns = "string \<Rightarrow> json option"

definition jsonPath :: "string list \<Rightarrow> string" where
  "jsonPath fields = concat (map (\<lambda>f. ''.'' @ f) fields)"

definition accessorError :: "string list \<Rightarrow> error" where
  "accessorError fields = ErrMsg (jsonPath fields @ '' accessor error'')"

text \<open>
  \<^verbatim>\<open>NestedFieldNoCopy\<close>: the loop over the fields, with the part of the path already walked; the answer
  is absent when the field is not found.
\<close>

fun nestedFieldLoop :: "string list \<Rightarrow> json \<Rightarrow> string list \<Rightarrow> json option result" where
  "nestedFieldLoop walked val [] = Inr (Some val)"
| "nestedFieldLoop walked val (field # fields) =
     (case val of
        JNull \<Rightarrow> Inr None
      | JObj m \<Rightarrow> (case m field of None \<Rightarrow> Inr None | Some v \<Rightarrow> nestedFieldLoop (walked @ [field]) v fields)
      | _ \<Rightarrow> Inl (accessorError (walked @ [field])))"

definition NestedField :: "uns \<Rightarrow> string list \<Rightarrow> json option result" where
  "NestedField obj fields = nestedFieldLoop [] (JObj obj) fields"

definition NestedString :: "uns \<Rightarrow> string list \<Rightarrow> string option result" where
  "NestedString obj fields =
     (case NestedField obj fields of
        Inl e \<Rightarrow> Inl e
      | Inr None \<Rightarrow> Inr None
      | Inr (Some v) \<Rightarrow> (case v of JString s \<Rightarrow> Inr (Some s) | _ \<Rightarrow> Inl (accessorError fields)))"

definition NestedInt64 :: "uns \<Rightarrow> string list \<Rightarrow> int option result" where
  "NestedInt64 obj fields =
     (case NestedField obj fields of
        Inl e \<Rightarrow> Inl e
      | Inr None \<Rightarrow> Inr None
      | Inr (Some v) \<Rightarrow> (case v of JInt i \<Rightarrow> Inr (Some i) | _ \<Rightarrow> Inl (accessorError fields)))"

fun stringItems :: "json list \<Rightarrow> string list option" where
  "stringItems [] = Some []"
| "stringItems (v # vs) =
     (case v of JString s \<Rightarrow> (case stringItems vs of Some ss \<Rightarrow> Some (s # ss) | None \<Rightarrow> None) | _ \<Rightarrow> None)"

definition NestedStringSlice :: "uns \<Rightarrow> string list \<Rightarrow> string list option result" where
  "NestedStringSlice obj fields =
     (case NestedField obj fields of
        Inl e \<Rightarrow> Inl e
      | Inr None \<Rightarrow> Inr None
      | Inr (Some v) \<Rightarrow>
          (case v of
             JArr vs \<Rightarrow> (case stringItems vs of Some ss \<Rightarrow> Inr (Some ss) | None \<Rightarrow> Inl (accessorError fields))
           | _ \<Rightarrow> Inl (accessorError fields)))"

definition NestedSlice :: "uns \<Rightarrow> string list \<Rightarrow> json list option result" where
  "NestedSlice obj fields =
     (case NestedField obj fields of
        Inl e \<Rightarrow> Inl e
      | Inr None \<Rightarrow> Inr None
      | Inr (Some v) \<Rightarrow> (case v of JArr vs \<Rightarrow> Inr (Some vs) | _ \<Rightarrow> Inl (accessorError fields)))"

text \<open>A map of strings: the answer is an error when a value is not a string.\<close>

definition isString :: "json \<Rightarrow> bool" where
  "isString v = (case v of JString s \<Rightarrow> True | _ \<Rightarrow> False)"

definition stringMap :: "uns \<Rightarrow> (string \<rightharpoonup> string)" where
  "stringMap m k = (case m k of Some (JString s) \<Rightarrow> Some s | _ \<Rightarrow> None)"

definition NestedStringMap :: "uns \<Rightarrow> string list \<Rightarrow> (string \<rightharpoonup> string) option result" where
  "NestedStringMap obj fields =
     (case NestedField obj fields of
        Inl e \<Rightarrow> Inl e
      | Inr None \<Rightarrow> Inr None
      | Inr (Some v) \<Rightarrow>
          (case v of
             JObj m \<Rightarrow> if \<forall>x \<in> ran m. isString x then Inr (Some (stringMap m)) else Inl (accessorError fields)
           | _ \<Rightarrow> Inl (accessorError fields)))"

text \<open>
  \<^verbatim>\<open>setNestedFieldNoCopy\<close> on a non-empty path. A missing level is made; an error leaves the object as it
  is, since levels are made only below the last existing one.
\<close>

fun setNestedLoop :: "string list \<Rightarrow> uns \<Rightarrow> json \<Rightarrow> string list \<Rightarrow> uns result" where
  "setNestedLoop walked m v [] = Inr m"
| "setNestedLoop walked m v [field] = Inr (m(field \<mapsto> v))"
| "setNestedLoop walked m v (field # fields) =
     (case m field of
        Some (JObj m') \<Rightarrow>
          (case setNestedLoop (walked @ [field]) m' v fields of Inl e \<Rightarrow> Inl e | Inr x \<Rightarrow> Inr (m(field \<mapsto> JObj x)))
      | Some _ \<Rightarrow>
          Inl (ErrMsg (''value cannot be set because '' @ jsonPath (walked @ [field]) @ '' is not a map[string]interface{}''))
      | None \<Rightarrow>
          (case setNestedLoop (walked @ [field]) (\<lambda>_. None) v fields of Inl e \<Rightarrow> Inl e | Inr x \<Rightarrow> Inr (m(field \<mapsto> JObj x))))"

definition SetNestedField :: "uns \<Rightarrow> json \<Rightarrow> string list \<Rightarrow> uns result" where
  "SetNestedField obj v fields = setNestedLoop [] obj v fields"

definition SetNestedStringSlice :: "uns \<Rightarrow> string list \<Rightarrow> string list \<Rightarrow> uns result" where
  "SetNestedStringSlice obj ss fields = SetNestedField obj (JArr (map JString ss)) fields"

definition SetNestedSlice :: "uns \<Rightarrow> json list \<Rightarrow> string list \<Rightarrow> uns result" where
  "SetNestedSlice obj vs fields = SetNestedField obj (JArr vs) fields"

fun RemoveNestedField :: "uns \<Rightarrow> string list \<Rightarrow> uns" where
  "RemoveNestedField m [] = m"
| "RemoveNestedField m [field] = m(field := None)"
| "RemoveNestedField m (field # fields) =
     (case m field of Some (JObj m') \<Rightarrow> m(field \<mapsto> JObj (RemoveNestedField m' fields)) | _ \<Rightarrow> m)"

section \<open>Metadata\<close>

text \<open>The getters answer with a zero value on errors, the setters ignore errors.\<close>

definition getNestedString :: "uns \<Rightarrow> string list \<Rightarrow> string" where
  "getNestedString obj fields = (case NestedString obj fields of Inr (Some s) \<Rightarrow> s | _ \<Rightarrow> '''')"

definition setNestedIgnore :: "uns \<Rightarrow> json \<Rightarrow> string list \<Rightarrow> uns" where
  "setNestedIgnore obj v fields = (case SetNestedField obj v fields of Inl e \<Rightarrow> obj | Inr obj' \<Rightarrow> obj')"

definition GetName :: "uns \<Rightarrow> string" where
  "GetName u = getNestedString u [''metadata'', ''name'']"

definition GetNamespace :: "uns \<Rightarrow> string" where
  "GetNamespace u = getNestedString u [''metadata'', ''namespace'']"

definition GetKind :: "uns \<Rightarrow> string" where
  "GetKind u = getNestedString u [''kind'']"

text \<open>A string field of the metadata that is removed when it is empty: \<^verbatim>\<open>uid\<close>, \<^verbatim>\<open>resourceVersion\<close>, \<^verbatim>\<open>selfLink\<close>.\<close>

definition getMetaString :: "string \<Rightarrow> uns \<Rightarrow> string" where
  "getMetaString f u = getNestedString u [''metadata'', f]"

definition setMetaString :: "string \<Rightarrow> string \<Rightarrow> uns \<Rightarrow> uns" where
  "setMetaString f s u =
     (if s = '''' then RemoveNestedField u [''metadata'', f] else setNestedIgnore u (JString s) [''metadata'', f])"

definition GetGeneration :: "uns \<Rightarrow> int" where
  "GetGeneration u = (case NestedInt64 u [''metadata'', ''generation''] of Inr (Some i) \<Rightarrow> i | _ \<Rightarrow> 0)"

definition SetGeneration :: "int \<Rightarrow> uns \<Rightarrow> uns" where
  "SetGeneration i u =
     (if i = 0 then RemoveNestedField u [''metadata'', ''generation'']
      else setNestedIgnore u (JInt i) [''metadata'', ''generation''])"

text \<open>Labels and annotations: \<^verbatim>\<open>NestedStringMap\<close> and \<^verbatim>\<open>SetNestedStringMap\<close>, a nil map on error.\<close>

definition getMetaMap :: "string \<Rightarrow> uns \<Rightarrow> gomap" where
  "getMetaMap f u = (case NestedStringMap u [''metadata'', f] of Inr (Some m) \<Rightarrow> Some m | _ \<Rightarrow> None)"

definition jsonMap :: "(string \<rightharpoonup> string) \<Rightarrow> json" where
  "jsonMap m = JObj (\<lambda>k. map_option JString (m k))"

definition setMetaMap :: "string \<Rightarrow> gomap \<Rightarrow> uns \<Rightarrow> uns" where
  "setMetaMap f m u =
     (case m of
        None \<Rightarrow> RemoveNestedField u [''metadata'', f]
      | Some m' \<Rightarrow> setNestedIgnore u (jsonMap m') [''metadata'', f])"

abbreviation GetAnnotations :: "uns \<Rightarrow> gomap" where "GetAnnotations \<equiv> getMetaMap ''annotations''"

abbreviation SetAnnotations :: "gomap \<Rightarrow> uns \<Rightarrow> uns" where "SetAnnotations \<equiv> setMetaMap ''annotations''"

abbreviation GetLabels :: "uns \<Rightarrow> gomap" where "GetLabels \<equiv> getMetaMap ''labels''"

abbreviation SetLabels :: "gomap \<Rightarrow> uns \<Rightarrow> uns" where "SetLabels \<equiv> setMetaMap ''labels''"

definition GetFinalizers :: "uns \<Rightarrow> string list option" where
  "GetFinalizers u = (case NestedStringSlice u [''metadata'', ''finalizers''] of Inr x \<Rightarrow> x | Inl e \<Rightarrow> None)"

definition SetFinalizers :: "string list option \<Rightarrow> uns \<Rightarrow> uns" where
  "SetFinalizers fs u =
     (case fs of
        None \<Rightarrow> RemoveNestedField u [''metadata'', ''finalizers'']
      | Some ss \<Rightarrow> setNestedIgnore u (JArr (map JString ss)) [''metadata'', ''finalizers''])"

text \<open>
  Two fields are converted to typed values and back: a timestamp is parsed and printed again, a list
  of managed fields converted entry by entry. The conversions are parameters: the printed time, if it
  is not the zero time, and the converted entries, if all can be converted (converting back does not
  fail).
\<close>

record codec =
  cd_time :: "string \<Rightarrow> string option"
  cd_managedFields :: "json list \<Rightarrow> json list option"

definition copyCreationTimestamp :: "codec \<Rightarrow> uns \<Rightarrow> uns \<Rightarrow> uns" where
  "copyCreationTimestamp cd current updated =
     (case cd_time cd (getMetaString ''creationTimestamp'' current) of
        None \<Rightarrow> RemoveNestedField updated [''metadata'', ''creationTimestamp'']
      | Some ts \<Rightarrow> setNestedIgnore updated (JString ts) [''metadata'', ''creationTimestamp''])"

definition copyManagedFields :: "codec \<Rightarrow> uns \<Rightarrow> uns \<Rightarrow> uns" where
  "copyManagedFields cd current updated =
     (case (case NestedSlice current [''metadata'', ''managedFields''] of
              Inr (Some items) \<Rightarrow> cd_managedFields cd items | _ \<Rightarrow> None) of
        None \<Rightarrow> RemoveNestedField updated [''metadata'', ''managedFields'']
      | Some items \<Rightarrow> setNestedIgnore updated (JArr items) [''metadata'', ''managedFields''])"

section \<open>Group, version and kind\<close>

record GroupVersionKind =
  gvk_Group :: string
  gvk_Version :: string
  gvk_Kind :: string

definition ParseGroupVersion :: "string \<Rightarrow> (string \<times> string) option" where
  "ParseGroupVersion gv =
     (if gv = '''' \<or> gv = ''/'' then Some ('''', '''')
      else if count_list gv (CHR ''/'') = 0 then Some ('''', gv)
      else if count_list gv (CHR ''/'') = 1
      then Some (takeWhile (\<lambda>c. c \<noteq> CHR ''/'') gv, tl (dropWhile (\<lambda>c. c \<noteq> CHR ''/'') gv))
      else None)"

definition getGVK :: "uns \<Rightarrow> GroupVersionKind" where
  "getGVK u =
     (case ParseGroupVersion (getNestedString u [''apiVersion'']) of
        None \<Rightarrow> \<lparr>gvk_Group = '''', gvk_Version = '''', gvk_Kind = ''''\<rparr>
      | Some (g, v) \<Rightarrow> \<lparr>gvk_Group = g, gvk_Version = v, gvk_Kind = GetKind u\<rparr>)"

definition gvkString :: "GroupVersionKind \<Rightarrow> string" where
  "gvkString g = gvk_Group g @ ''/'' @ gvk_Version g @ '', Kind='' @ gvk_Kind g"

end
