(* ===== verification/Render.thy ===== *)
theory Render
  imports Unstructured
begin

text \<open>
  Rendering the manifests of the agent (\<^verbatim>\<open>pkg/render\<close>): walking a directory, filling in templates and
  decoding the objects. The file system, the template engine of Go's standard library and the YAML
  decoder are parameters; \<^verbatim>\<open>fieldEngine\<close> below is the part of the engine that the manifests of the
  repository use.
\<close>

section \<open>Data and functions of the templates\<close>

datatype renderValue = RInt int | RString string | RBool bool

type_synonym renderMap = "string \<rightharpoonup> renderValue"

datatype templateFunc = FuncGetOr | FuncIsSet | FuncOther string

record Data =
  d_Funcs :: "(string \<rightharpoonup> templateFunc) option"
  d_Data :: renderMap

definition MakeRenderData :: Data where
  "MakeRenderData = \<lparr>d_Funcs = Some Map.empty, d_Data = Map.empty\<rparr>"

definition getOr :: "renderMap \<Rightarrow> string \<Rightarrow> string \<Rightarrow> renderValue" where
  "getOr m key fallback =
     (case m key of
        None \<Rightarrow> RString fallback
      | Some (RString s) \<Rightarrow> if s = '''' then RString fallback else RString s
      | Some val \<Rightarrow> val)"

definition isSet :: "renderMap \<Rightarrow> string \<Rightarrow> renderValue" where
  "isSet m key = (case m key of None \<Rightarrow> RBool False | Some val \<Rightarrow> val)"

section \<open>Rendering\<close>

text \<open>
  The file system: the calls \<^verbatim>\<open>filepath.Walk\<close> makes, a path with what is known of it (an error, or
  whether it is a directory), and the contents of files. The decoder answers with the objects it
  decodes and the error at which it stopped, if it did not reach the end of the input.
\<close>

record 't renderEnv =
  re_Walk :: "string \<Rightarrow> (string \<times> bool result) list"
  re_ReadFile :: "string \<Rightarrow> string result"
  re_Parse :: "string \<Rightarrow> (string \<rightharpoonup> templateFunc) \<Rightarrow> string \<Rightarrow> 't result"
  re_Execute :: "'t \<Rightarrow> renderMap \<Rightarrow> string result"
  re_Decode :: "string \<Rightarrow> uns list \<times> error option"

definition renderTemplate :: "'t renderEnv \<Rightarrow> string \<Rightarrow> Data \<Rightarrow> string result" where
  "renderTemplate re path d =
     (let funcs = (case d_Funcs d of None \<Rightarrow> Map.empty | Some fs \<Rightarrow> fs);
          funcs = funcs(''getOr'' \<mapsto> FuncGetOr, ''isSet'' \<mapsto> FuncIsSet)
      in case re_ReadFile re path of
           Inl err \<Rightarrow> Inl (Wrapped err (''failed to read manifest '' @ path))
         | Inr source \<Rightarrow>
             (case re_Parse re path funcs source of
                Inl err \<Rightarrow> Inl (Wrapped err (''failed to parse manifest '' @ path @ '' as template''))
              | Inr tmpl \<Rightarrow>
                  (case re_Execute re tmpl (d_Data d) of
                     Inl err \<Rightarrow> Inl (Wrapped err (''failed to render manifest '' @ path))
                   | Inr rendered \<Rightarrow> Inr rendered)))"

definition isSpace :: "char \<Rightarrow> bool" where
  "isSpace c \<longleftrightarrow> c \<in> set [CHR '' '', CHR 0x09, CHR 0x0A, CHR 0x0B, CHR 0x0C, CHR 0x0D]"

text \<open>\<^verbatim>\<open>strings.TrimSpace\<close> leaves nothing of a text of white space only.\<close>

definition Template :: "'t renderEnv \<Rightarrow> string \<Rightarrow> Data \<Rightarrow> uns list result" where
  "Template re path d =
     (case renderTemplate re path d of
        Inl err \<Rightarrow> Inl err
      | Inr rendered \<Rightarrow>
          if list_all isSpace rendered then Inr []
          else (case re_Decode re rendered of
                  (out, None) \<Rightarrow> Inr out
                | (out, Some err) \<Rightarrow> Inl (Wrapped err (''failed to unmarshal manifest '' @ path))))"

definition HasSuffix :: "string \<Rightarrow> string \<Rightarrow> bool" where
  "HasSuffix s suffix \<longleftrightarrow> length suffix \<le> length s \<and> drop (length s - length suffix) s = suffix"

definition isManifest :: "string \<Rightarrow> bool" where
  "isManifest path \<longleftrightarrow> HasSuffix path ''.yml'' \<or> HasSuffix path ''.yaml'' \<or> HasSuffix path ''.json''"

fun walkManifests :: "'t renderEnv \<Rightarrow> Data \<Rightarrow> uns list \<Rightarrow> (string \<times> bool result) list \<Rightarrow> uns list result" where
  "walkManifests re d out [] = Inr out"
| "walkManifests re d out ((path, info) # entries) =
     (case info of
        Inl err \<Rightarrow> Inl err
      | Inr isDir \<Rightarrow>
          if isDir then walkManifests re d out entries
          else if \<not> isManifest path then walkManifests re d out entries
          else (case Template re path d of
                  Inl err \<Rightarrow> Inl err
                | Inr objs \<Rightarrow> walkManifests re d (out @ objs) entries))"

definition Dir :: "'t renderEnv \<Rightarrow> string \<Rightarrow> Data \<Rightarrow> uns list result" where
  "Dir re manifestDir d =
     (case walkManifests re d [] (re_Walk re manifestDir) of
        Inl err \<Rightarrow> Inl (Wrapped err ''error rendering manifests'')
      | Inr out \<Rightarrow> Inr out)"

section \<open>The actions the manifests use\<close>

text \<open>
  A template of literal text and field actions \<^verbatim>\<open>{{.Name}}\<close>. The option \<^verbatim>\<open>missingkey=error\<close> makes a
  missing key an error; a number prints in decimal.
\<close>

datatype segment = Lit string | Field string

definition printValue :: "renderValue \<Rightarrow> string" where
  "printValue v =
     (case v of RInt i \<Rightarrow> Itoa i | RString s \<Rightarrow> s | RBool b \<Rightarrow> if b then ''true'' else ''false'')"

fun executeSegments :: "segment list \<Rightarrow> renderMap \<Rightarrow> string result" where
  "executeSegments [] m = Inr []"
| "executeSegments (Lit s # segs) m =
     (case executeSegments segs m of Inl err \<Rightarrow> Inl err | Inr t \<Rightarrow> Inr (s @ t))"
| "executeSegments (Field f # segs) m =
     (case m f of
        None \<Rightarrow> Inl (ErrMsg (''map has no entry for key '' @ f))
      | Some v \<Rightarrow> (case executeSegments segs m of Inl err \<Rightarrow> Inl err | Inr t \<Rightarrow> Inr (printValue v @ t)))"

section \<open>Lemmas\<close>

lemma walkManifests_acc:
  "walkManifests re d out es =
     (case walkManifests re d [] es of Inl err \<Rightarrow> Inl err | Inr objs \<Rightarrow> Inr (out @ objs))"
proof (induction es arbitrary: out)
  case (Cons e es)
  obtain path info where e: "e = (path, info)" by (cases e)
  show ?case
  proof (cases "info = Inr False \<and> isManifest path \<and> (\<exists>objs. Template re path d = Inr objs)")
    case True
    then obtain objs where "Template re path d = Inr objs" by blast
    with True show ?thesis
      using Cons.IH [of "out @ objs"] Cons.IH [of objs] by (simp add: e split: sum.split)
  next
    case False
    then show ?thesis using Cons.IH [of out] by (auto simp: e split: sum.split)
  qed
qed simp

text \<open>The manifests of a directory, in the order of the walk.\<close>

definition manifests :: "(string \<times> bool result) list \<Rightarrow> string list" where
  "manifests es = map fst (filter (\<lambda>(path, info). info = Inr False \<and> isManifest path) es)"

lemma parts_Cons:
  "(\<exists>parts. list_all2 P (x # xs) parts \<and> objs = concat parts) \<longleftrightarrow>
     (\<exists>part zs. P x part \<and> list_all2 P xs zs \<and> objs = part @ concat zs)"
proof
  assume "\<exists>part zs. P x part \<and> list_all2 P xs zs \<and> objs = part @ concat zs"
  then obtain part zs where "list_all2 P (x # xs) (part # zs)" "objs = concat (part # zs)" by auto
  then show "\<exists>parts. list_all2 P (x # xs) parts \<and> objs = concat parts" by blast
qed (force simp: list_all2_Cons1)

lemma walkManifests_Inr:
  "walkManifests re d [] es = Inr objs \<longleftrightarrow>
     list_all (\<lambda>e. \<not> isl (snd e)) es
     \<and> (\<exists>parts. list_all2 (\<lambda>path part. Template re path d = Inr part) (manifests es) parts \<and> objs = concat parts)"
proof (induction es arbitrary: objs)
  case (Cons e es)
  obtain path info where e: "e = (path, info)" by (cases e)
  show ?case
  proof (cases "info = Inr False \<and> isManifest path")
    case True
    have "walkManifests re d [] (e # es) = Inr objs \<longleftrightarrow>
        (\<exists>part rest. Template re path d = Inr part \<and> walkManifests re d [] es = Inr rest \<and> objs = part @ rest)"
    proof (cases "Template re path d")
      case (Inr part)
      have "walkManifests re d [] (e # es) = walkManifests re d part es" using True Inr by (simp add: e)
      then show ?thesis
        by (subst (asm) walkManifests_acc) (cases "walkManifests re d [] es", auto simp: Inr)
    qed (simp add: e True)
    moreover have "manifests (e # es) = path # manifests es" using True by (simp add: e manifests_def)
    ultimately show ?thesis
      using True by (simp only: Cons.IH parts_Cons) (auto simp: e)
  next
    case False
    then show ?thesis by (auto simp: e Cons.IH manifests_def split: sum.splits)
  qed
qed (auto simp: manifests_def)

text \<open>
  Rendering a directory gives the objects of all its manifests, in the order of the walk, and
  fails when a path cannot be visited or a manifest cannot be rendered; other files are ignored.
\<close>

theorem Dir_renders_manifests:
  "Dir re dir d = Inr objs \<longleftrightarrow>
     list_all (\<lambda>e. \<not> isl (snd e)) (re_Walk re dir)
     \<and> (\<exists>parts. list_all2 (\<lambda>path part. Template re path d = Inr part) (manifests (re_Walk re dir)) parts \<and> objs = concat parts)"
  unfolding walkManifests_Inr [symmetric] by (simp add: Dir_def split: sum.split)

end
