(* ===== verification/Apply.thy ===== *)
theory Apply
  imports Unstructured
begin

text \<open>
  Applying a rendered object to the cluster (\<^verbatim>\<open>pkg/apply/merge.go\<close>, \<^verbatim>\<open>pkg/apply/apply.go\<close>): the merge of
  the desired object with the existing one, and the decision to create, update or leave it alone.
  Objects are values here; the code mutates the desired object in place, which callers do not read
  again after an error.
\<close>

section \<open>Merging\<close>

definition mergeMap :: "string \<Rightarrow> uns \<Rightarrow> uns \<Rightarrow> uns" where
  "mergeMap f current updated =
     (let updatedMap = (case getMetaMap f updated of None \<Rightarrow> Map.empty | Some m \<Rightarrow> m);
          curMap = (case getMetaMap f current of None \<Rightarrow> Map.empty | Some m \<Rightarrow> m);
          curMap = curMap ++ updatedMap
      in if curMap \<noteq> Map.empty then setMetaMap f (Some curMap) updated else updated)"

definition mergeAnnotations :: "uns \<Rightarrow> uns \<Rightarrow> uns" where
  "mergeAnnotations = mergeMap ''annotations''"

definition mergeLabels :: "uns \<Rightarrow> uns \<Rightarrow> uns" where
  "mergeLabels = mergeMap ''labels''"

definition mergeMetadataForUpdate :: "codec \<Rightarrow> uns \<Rightarrow> uns \<Rightarrow> uns" where
  "mergeMetadataForUpdate cd current updated =
     (let updated = copyCreationTimestamp cd current updated;
          updated = setMetaString ''selfLink'' (getMetaString ''selfLink'' current) updated;
          updated = SetGeneration (GetGeneration current) updated;
          updated = setMetaString ''uid'' (getMetaString ''uid'' current) updated;
          updated = setMetaString ''resourceVersion'' (getMetaString ''resourceVersion'' current) updated;
          updated = copyManagedFields cd current updated;
          updated = SetFinalizers (GetFinalizers current) updated;
          updated = mergeAnnotations current updated
      in mergeLabels current updated)"

definition deploymentRevisionAnnotation :: string where
  "deploymentRevisionAnnotation = ''deployment.kubernetes.io/revision''"

definition mergeDeploymentForUpdate :: "uns \<Rightarrow> uns \<Rightarrow> uns result" where
  "mergeDeploymentForUpdate current updated =
     (if gvk_Group (getGVK updated) = ''apps'' \<and> gvk_Kind (getGVK updated) = ''Deployment''
      then let updatedAnnotations = (case GetAnnotations updated of None \<Rightarrow> Map.empty | Some m \<Rightarrow> m);
               updatedAnnotations =
                 (case map_get (GetAnnotations current) deploymentRevisionAnnotation of
                    Some anno \<Rightarrow> updatedAnnotations(deploymentRevisionAnnotation \<mapsto> anno)
                  | None \<Rightarrow> updatedAnnotations)
           in Inr (SetAnnotations (Some updatedAnnotations) updated)
      else Inr updated)"

text \<open>A field of the current object, read by \<^term>\<open>get\<close>, is copied when it is there.\<close>

definition copyField :: "'a option result \<Rightarrow> ('a \<Rightarrow> json) \<Rightarrow> string list \<Rightarrow> uns \<Rightarrow> uns result" where
  "copyField found encode path updated =
     (case found of
        Inl err \<Rightarrow> Inl err
      | Inr None \<Rightarrow> Inr updated
      | Inr (Some v) \<Rightarrow> SetNestedField updated (encode v) path)"

definition jsonStrings :: "string list \<Rightarrow> json" where
  "jsonStrings ss = JArr (map JString ss)"

definition bindResult :: "'a result \<Rightarrow> ('a \<Rightarrow> 'b result) \<Rightarrow> 'b result" where
  "bindResult r f = (case r of Inl err \<Rightarrow> Inl err | Inr x \<Rightarrow> f x)"

definition mergeServiceForUpdate :: "uns \<Rightarrow> uns \<Rightarrow> uns result" where
  "mergeServiceForUpdate current updated =
     (if gvk_Group (getGVK updated) = '''' \<and> gvk_Kind (getGVK updated) = ''Service''
      then bindResult (copyField (NestedString current [''spec'', ''clusterIP'']) JString [''spec'', ''clusterIP''] updated) (\<lambda>updated.
           bindResult (copyField (NestedStringSlice current [''spec'', ''clusterIPs'']) jsonStrings [''spec'', ''clusterIPs''] updated) (\<lambda>updated.
           bindResult (copyField (NestedStringSlice current [''spec'', ''ipFamilies'']) jsonStrings [''spec'', ''ipFamilies''] updated) (\<lambda>updated.
           bindResult (NestedString current [''spec'', ''ipFamilyPolicy'']) (\<lambda>old.
           bindResult (NestedString updated [''spec'', ''ipFamilyPolicy'']) (\<lambda>new.
             if new = None then copyField (Inr old) JString [''spec'', ''ipFamilyPolicy''] updated else Inr updated)))))
      else Inr updated)"

definition mergeServiceAccountForUpdate :: "uns \<Rightarrow> uns \<Rightarrow> uns result" where
  "mergeServiceAccountForUpdate current updated =
     (if gvk_Group (getGVK updated) = '''' \<and> gvk_Kind (getGVK updated) = ''ServiceAccount''
      then bindResult (copyField (NestedSlice current [''secrets'']) JArr [''secrets''] updated) (\<lambda>updated.
           copyField (NestedSlice current [''imagePullSecrets'']) JArr [''imagePullSecrets''] updated)
      else Inr updated)"

definition MergeObjectForUpdate :: "codec \<Rightarrow> uns \<Rightarrow> uns \<Rightarrow> uns result" where
  "MergeObjectForUpdate cd current updated =
     bindResult (mergeDeploymentForUpdate current updated) (\<lambda>updated.
     bindResult (mergeServiceForUpdate current updated) (\<lambda>updated.
     bindResult (mergeServiceAccountForUpdate current updated) (\<lambda>updated.
       Inr (mergeMetadataForUpdate cd current updated))))"

definition IsObjectSupported :: "uns \<Rightarrow> error option" where
  "IsObjectSupported obj =
     (if gvk_Group (getGVK obj) = '''' \<and> gvk_Kind (getGVK obj) = ''ServiceAccount''
      then case NestedSlice obj [''secrets''] of
             Inl err \<Rightarrow> Some err
           | Inr (Some (s # ss)) \<Rightarrow> Some (ErrMsg ''cannot create ServiceAccount with secrets'')
           | Inr _ \<Rightarrow> None
      else None)"

section \<open>Applying\<close>

record 'w unsClient =
  uc_Get :: "GroupVersionKind \<Rightarrow> string \<Rightarrow> string \<Rightarrow> ('w, uns result) state"
  uc_Create :: "uns \<Rightarrow> ('w, error option) state"
  uc_Update :: "uns \<Rightarrow> ('w, error option) state"

text \<open>
  \<^verbatim>\<open>equality.Semantic.DeepEqual\<close> on two decoded objects is equality of their values: a decoded object
  has no nil maps or slices, and map entries have no order.
\<close>

definition ApplyObject :: "'w unsClient \<Rightarrow> codec \<Rightarrow> uns \<Rightarrow> ('w, error option) state" where
  "ApplyObject cl cd obj =
     (if GetName obj = '''' then returnM (Some (ErrMsg (''Object '' @ gvkString (getGVK obj) @ '' has no name'')))
      else
        let objDesc = ''('' @ gvkString (getGVK obj) @ '') '' @ GetNamespace obj @ ''/'' @ GetName obj in
        case IsObjectSupported obj of
          Some err \<Rightarrow> returnM (Some (Wrapped err (''object '' @ objDesc @ '' unsupported'')))
        | None \<Rightarrow> do {
            r \<leftarrow> uc_Get cl (getGVK obj) (GetNamespace obj) (GetName obj);
            case r of
              Inl err \<Rightarrow>
                if IsNotFound err then do {
                  err' \<leftarrow> uc_Create cl obj;
                  returnM (Wrapf err' (''could not create '' @ objDesc))
                }
                else returnM (Some (Wrapped err (''could not retrieve existing '' @ objDesc)))
            | Inr existing \<Rightarrow>
                (case MergeObjectForUpdate cd existing obj of
                   Inl err \<Rightarrow> returnM (Some (Wrapped err (''could not merge object '' @ objDesc @ '' with existing'')))
                 | Inr merged \<Rightarrow>
                     if existing \<noteq> merged then do {
                       err' \<leftarrow> uc_Update cl merged;
                       returnM (Wrapf err' (''could not update object '' @ objDesc))
                     }
                     else returnM None)
          })"

section \<open>Metadata as a map\<close>

declare RemoveNestedField.simps [simp del]

definition metaOf :: "uns \<Rightarrow> uns" where
  "metaOf u = (case u ''metadata'' of Some (JObj m) \<Rightarrow> m | _ \<Rightarrow> (\<lambda>_. None))"

definition hasMeta :: "uns \<Rightarrow> bool" where
  "hasMeta u \<longleftrightarrow> u ''metadata'' = Some (JObj (metaOf u))"

definition withMeta :: "uns \<Rightarrow> uns \<Rightarrow> uns" where
  "withMeta u m = u(''metadata'' \<mapsto> JObj m)"

lemma meta_simps [simp]:
  "metaOf (withMeta u m) = m" "hasMeta (withMeta u m)" "withMeta (withMeta u m) m' = withMeta u m'"
  "hasMeta u \<Longrightarrow> withMeta u (metaOf u) = u"
  by (auto simp: metaOf_def withMeta_def hasMeta_def fun_eq_iff)

lemma set_meta:
  assumes "hasMeta u"
  shows "setNestedIgnore u v [''metadata'', f] = withMeta u ((metaOf u)(f \<mapsto> v))"
    and "RemoveNestedField u [''metadata'', f] = withMeta u ((metaOf u)(f := None))"
  using assms by (simp_all add: hasMeta_def setNestedIgnore_def SetNestedField_def withMeta_def RemoveNestedField.simps)

lemma NestedField_meta: "hasMeta u \<Longrightarrow> NestedField u [''metadata'', f] = Inr (metaOf u f)"
  by (simp add: NestedField_def hasMeta_def split: option.split)

text \<open>The value that each step of the merge stores in the metadata, or none when it removes the field.\<close>

definition optString :: "string \<Rightarrow> json option" where
  "optString s = (if s = '''' then None else Some (JString s))"

definition optInt :: "int \<Rightarrow> json option" where
  "optInt i = (if i = 0 then None else Some (JInt i))"

lemma setMetaString_eq: "hasMeta u \<Longrightarrow> setMetaString f s u = withMeta u ((metaOf u)(f := optString s))"
  by (simp add: setMetaString_def optString_def set_meta)

lemma SetGeneration_eq: "hasMeta u \<Longrightarrow> SetGeneration i u = withMeta u ((metaOf u)(''generation'' := optInt i))"
  by (simp add: SetGeneration_def optInt_def set_meta)

lemma SetFinalizers_eq:
  "hasMeta u \<Longrightarrow> SetFinalizers fs u = withMeta u ((metaOf u)(''finalizers'' := map_option (\<lambda>ss. JArr (map JString ss)) fs))"
  by (simp add: SetFinalizers_def set_meta split: option.split)

lemma setMetaMap_eq: "hasMeta u \<Longrightarrow> setMetaMap f m u = withMeta u ((metaOf u)(f := map_option jsonMap m))"
  by (simp add: setMetaMap_def set_meta split: option.split)

definition timeField :: "codec \<Rightarrow> uns \<Rightarrow> json option" where
  "timeField cd current = map_option JString (cd_time cd (getMetaString ''creationTimestamp'' current))"

definition managedField :: "codec \<Rightarrow> uns \<Rightarrow> json option" where
  "managedField cd current =
     map_option JArr (case NestedSlice current [''metadata'', ''managedFields''] of
        Inr (Some items) \<Rightarrow> cd_managedFields cd items | _ \<Rightarrow> None)"

lemma copy_eq:
  assumes "hasMeta u"
  shows "copyCreationTimestamp cd c u = withMeta u ((metaOf u)(''creationTimestamp'' := timeField cd c))"
    and "copyManagedFields cd c u = withMeta u ((metaOf u)(''managedFields'' := managedField cd c))"
  using assms by (simp_all add: copyCreationTimestamp_def copyManagedFields_def timeField_def managedField_def set_meta
      split: option.split)

text \<open>The getters read the metadata, whether or not the object has any.\<close>

lemma nested_meta:
  "NestedField u [''metadata'', f] = Inr (metaOf u f) \<or> metaOf u f = None \<and> (\<exists>e. NestedField u [''metadata'', f] = Inl e)"
  by (auto simp: NestedField_def metaOf_def split: option.split json.split)

lemma getMetaString_eq: "getMetaString f u = (case metaOf u f of Some (JString s) \<Rightarrow> s | _ \<Rightarrow> '''')"
  using nested_meta [of u f]
  by (auto simp: getMetaString_def getNestedString_def NestedString_def split: option.split json.split)

lemma GetGeneration_eq: "GetGeneration u = (case metaOf u ''generation'' of Some (JInt i) \<Rightarrow> i | _ \<Rightarrow> 0)"
  using nested_meta [of u "''generation''"]
  by (auto simp: GetGeneration_def NestedInt64_def split: option.split json.split)

lemma GetFinalizers_eq:
  "GetFinalizers u = (case metaOf u ''finalizers'' of Some (JArr vs) \<Rightarrow> stringItems vs | _ \<Rightarrow> None)"
  using nested_meta [of u "''finalizers''"]
  by (auto simp: GetFinalizers_def NestedStringSlice_def split: option.split json.split)

definition readMap :: "json option \<Rightarrow> gomap" where
  "readMap x = (case x of Some (JObj m) \<Rightarrow> if \<forall>x \<in> ran m. isString x then Some (stringMap m) else None | _ \<Rightarrow> None)"

lemma getMetaMap_eq: "getMetaMap f u = readMap (metaOf u f)"
  using nested_meta [of u f]
  by (auto simp: getMetaMap_def NestedStringMap_def readMap_def split: option.split json.split)

lemma managedField_eq:
  "managedField cd u =
     map_option JArr (case metaOf u ''managedFields'' of Some (JArr items) \<Rightarrow> cd_managedFields cd items | _ \<Rightarrow> None)"
  using nested_meta [of u "''managedFields''"]
  by (auto simp: managedField_def NestedSlice_def split: option.split json.split)

lemma names_eq: "GetName u = getMetaString ''name'' u" "GetNamespace u = getMetaString ''namespace'' u"
  by (simp_all add: GetName_def GetNamespace_def getMetaString_def)

lemma named_hasMeta: "GetName u \<noteq> '''' \<Longrightarrow> hasMeta u"
  by (simp add: names_eq getMetaString_eq metaOf_def hasMeta_def split: option.splits json.splits)

lemma top_withMeta: "f \<noteq> ''metadata'' \<Longrightarrow> NestedField (withMeta u m) (f # path) = NestedField u (f # path)"
  by (simp add: NestedField_def withMeta_def)

lemma getGVK_cong:
  "u ''apiVersion'' = v ''apiVersion'' \<Longrightarrow> u ''kind'' = v ''kind'' \<Longrightarrow> getGVK u = getGVK v"
proof -
  assume eq: "u ''apiVersion'' = v ''apiVersion''" "u ''kind'' = v ''kind''"
  have "getNestedString u [f] = getNestedString v [f]" if "u f = v f" for f
    using that by (simp add: getNestedString_def NestedString_def NestedField_def)
  then have "getNestedString u [''apiVersion''] = getNestedString v [''apiVersion'']" "GetKind u = GetKind v"
    using eq by (simp_all add: GetKind_def)
  then show ?thesis by (simp add: getGVK_def split: option.split)
qed

lemma getGVK_withMeta [simp]: "getGVK (withMeta u m) = getGVK u"
  by (rule getGVK_cong) (simp_all add: withMeta_def)

text \<open>Round trips of the stored forms.\<close>

lemma stringItems_map [simp]: "stringItems (map JString ss) = Some ss"
  by (induction ss) auto

lemma optString_read [simp]: "(case optString s of Some (JString s) \<Rightarrow> s | _ \<Rightarrow> '''') = s"
  by (simp add: optString_def)

lemma optInt_read [simp]: "(case optInt i of Some (JInt i) \<Rightarrow> i | _ \<Rightarrow> 0) = i"
  by (simp add: optInt_def)

lemma jsonMap_read [simp]: "readMap (Some (jsonMap m)) = Some m" "readMap None = None"
  by (auto simp: readMap_def jsonMap_def stringMap_def isString_def ran_def fun_eq_iff split: option.split)

section \<open>What the merge stores\<close>

definition mapOr :: "gomap \<Rightarrow> (string \<rightharpoonup> string)" where
  "mapOr m = (case m of None \<Rightarrow> Map.empty | Some f \<Rightarrow> f)"

definition mergedField :: "gomap \<Rightarrow> json option \<Rightarrow> json option" where
  "mergedField c x = (let m = mapOr c ++ mapOr (readMap x) in if m \<noteq> Map.empty then Some (jsonMap m) else x)"

lemma mergeMap_eq:
  "hasMeta u \<Longrightarrow> mergeMap f c u = withMeta u ((metaOf u)(f := mergedField (getMetaMap f c) (metaOf u f)))"
  by (simp add: mergeMap_def Let_def mergedField_def mapOr_def getMetaMap_eq [of f u] setMetaMap_eq)

definition mergedMeta :: "codec \<Rightarrow> uns \<Rightarrow> uns \<Rightarrow> uns" where
  "mergedMeta cd c m = m
     (''creationTimestamp'' := timeField cd c, ''selfLink'' := optString (getMetaString ''selfLink'' c),
      ''generation'' := optInt (GetGeneration c), ''uid'' := optString (getMetaString ''uid'' c),
      ''resourceVersion'' := optString (getMetaString ''resourceVersion'' c),
      ''managedFields'' := managedField cd c,
      ''finalizers'' := map_option (\<lambda>ss. JArr (map JString ss)) (GetFinalizers c),
      ''annotations'' := mergedField (GetAnnotations c) (m ''annotations''),
      ''labels'' := mergedField (GetLabels c) (m ''labels''))"

lemma mergeMetadata_eq:
  "hasMeta u \<Longrightarrow> mergeMetadataForUpdate cd c u = withMeta u (mergedMeta cd c (metaOf u))"
  by (simp add: mergeMetadataForUpdate_def Let_def copy_eq setMetaString_eq SetGeneration_eq SetFinalizers_eq
      mergeAnnotations_def mergeLabels_def mergeMap_eq mergedMeta_def)

text \<open>Writing a nested field: other top-level fields stay, the field reads back, its siblings stay.\<close>

lemma setNested_top: "setNestedLoop w m v (f # fs) = Inr x \<Longrightarrow> g \<noteq> f \<Longrightarrow> x g = m g"
  by (cases fs) (auto split: option.splits json.splits sum.splits)

lemma setNested_step:
  assumes "setNestedLoop w m v (f # g # fs) = Inr x"
  obtains m' x' where "setNestedLoop (w @ [f]) m' v (g # fs) = Inr x'" "x = m(f \<mapsto> JObj x')"
  using assms by (auto split: option.splits json.splits sum.splits)

lemma setNested_read:
  "setNestedLoop w m v (f # fs) = Inr x \<Longrightarrow> nestedFieldLoop w' (JObj x) (f # fs) = Inr (Some v)"
proof (induction fs arbitrary: w m f x w')
  case (Cons g fs)
  from Cons.prems obtain m' x' where x: "setNestedLoop (w @ [f]) m' v (g # fs) = Inr x'" "x = m(f \<mapsto> JObj x')"
    by (rule setNested_step)
  show ?case using Cons.IH [OF x(1), of "w' @ [f]"] by (simp add: x(2))
qed auto

lemma setNested_sibling:
  "SetNestedField m v [f, a] = Inr x \<Longrightarrow> a \<noteq> b \<Longrightarrow> NestedField x [f, b] = NestedField m [f, b]"
  by (auto simp: SetNestedField_def NestedField_def split: option.splits json.splits)

lemma SetNestedField_read: "SetNestedField m v (f # fs) = Inr x \<Longrightarrow> NestedField x (f # fs) = Inr (Some v)"
  unfolding SetNestedField_def NestedField_def by (rule setNested_read)

text \<open>The parts of an object that name it.\<close>

definition sameHead :: "uns \<Rightarrow> uns \<Rightarrow> bool" where
  "sameHead u v \<longleftrightarrow> (\<forall>f \<in> {''metadata'', ''apiVersion'', ''kind''}. u f = v f)"

lemma sameHead_refl [simp]: "sameHead u u"
  by (simp add: sameHead_def)

lemma sameHead_trans: "sameHead u v \<Longrightarrow> sameHead v w \<Longrightarrow> sameHead u w"
  by (simp add: sameHead_def)

lemma SetNestedField_head:
  "SetNestedField u v (f # fs) = Inr x \<Longrightarrow> f \<notin> {''metadata'', ''apiVersion'', ''kind''} \<Longrightarrow> sameHead x u"
  by (auto simp: SetNestedField_def sameHead_def dest: setNested_top)

lemma copyField_head:
  "copyField r e (f # fs) u = Inr x \<Longrightarrow> f \<notin> {''metadata'', ''apiVersion'', ''kind''} \<Longrightarrow> sameHead x u"
  by (auto simp: copyField_def split: sum.splits option.splits intro: SetNestedField_head)

lemma bindResult_Inr: "bindResult r f = Inr y \<longleftrightarrow> (\<exists>x. r = Inr x \<and> f x = Inr y)"
  by (cases r) (simp_all add: bindResult_def)

lemma mergeService_head: "mergeServiceForUpdate c o' = Inr u \<Longrightarrow> sameHead u o'"
  by (auto simp: mergeServiceForUpdate_def bindResult_Inr split: if_split_asm option.split_asm
      dest!: copyField_head SetNestedField_head intro: sameHead_trans)

lemma mergeServiceAccount_head: "mergeServiceAccountForUpdate c o' = Inr u \<Longrightarrow> sameHead u o'"
  by (auto simp: mergeServiceAccountForUpdate_def bindResult_Inr split: if_splits
      dest!: copyField_head intro: sameHead_trans)

lemma sameHead_eq: "sameHead u v \<Longrightarrow> metaOf u = metaOf v" "sameHead u v \<Longrightarrow> hasMeta u = hasMeta v"
  "sameHead u v \<Longrightarrow> getGVK u = getGVK v"
  by (auto simp: sameHead_def metaOf_def hasMeta_def intro: getGVK_cong)

definition isDeployment :: "uns \<Rightarrow> bool" where
  "isDeployment u \<longleftrightarrow> gvk_Group (getGVK u) = ''apps'' \<and> gvk_Kind (getGVK u) = ''Deployment''"

definition deploymentAnnotations :: "uns \<Rightarrow> uns \<Rightarrow> (string \<rightharpoonup> string)" where
  "deploymentAnnotations c u =
     (case map_get (GetAnnotations c) deploymentRevisionAnnotation of
        Some anno \<Rightarrow> (mapOr (GetAnnotations u))(deploymentRevisionAnnotation \<mapsto> anno)
      | None \<Rightarrow> mapOr (GetAnnotations u))"

definition deployed :: "uns \<Rightarrow> uns \<Rightarrow> uns" where
  "deployed c u =
     (if isDeployment u then withMeta u ((metaOf u)(''annotations'' \<mapsto> jsonMap (deploymentAnnotations c u))) else u)"

lemma mergeDeployment_eq: "hasMeta u \<Longrightarrow> mergeDeploymentForUpdate c u = Inr (deployed c u)"
  by (simp add: mergeDeploymentForUpdate_def deployed_def isDeployment_def deploymentAnnotations_def mapOr_def
      setMetaMap_eq Let_def split: option.split)

lemma deployed_simps [simp]:
  "hasMeta u \<Longrightarrow> hasMeta (deployed c u)" "getGVK (deployed c u) = getGVK u"
  "f \<noteq> ''annotations'' \<Longrightarrow> metaOf (deployed c u) f = metaOf u f"
  by (simp_all add: deployed_def)

lemma deployed_top [simp]: "f \<noteq> ''metadata'' \<Longrightarrow> deployed c u f = u f"
  by (simp add: deployed_def withMeta_def)

text \<open>Every merge ends with the metadata of an intermediate object that has the head of the desired one.\<close>

lemma merge_shape:
  assumes "MergeObjectForUpdate cd c obj = Inr u" and "GetName obj \<noteq> ''''"
  obtains v where "sameHead v (deployed c obj)" "u = withMeta v (mergedMeta cd c (metaOf (deployed c obj)))"
    "getGVK u = getGVK obj"
proof -
  have meta: "hasMeta (deployed c obj)" using assms(2) by (simp add: named_hasMeta)
  from assms obtain s v where s: "mergeServiceForUpdate c (deployed c obj) = Inr s"
    and v: "mergeServiceAccountForUpdate c s = Inr v" and u: "u = mergeMetadataForUpdate cd c v"
    by (auto simp: MergeObjectForUpdate_def bindResult_Inr mergeDeployment_eq named_hasMeta)
  have head: "sameHead v (deployed c obj)"
    using mergeService_head [OF s] mergeServiceAccount_head [OF v] by (auto intro: sameHead_trans)
  then have "u = withMeta v (mergedMeta cd c (metaOf (deployed c obj)))"
    using meta by (simp add: u mergeMetadata_eq sameHead_eq)
  then show ?thesis using head by (auto intro: that simp: sameHead_eq(3) [OF head])
qed

lemma mergedMeta_simps:
  "mergedMeta cd c m ''creationTimestamp'' = timeField cd c"
  "mergedMeta cd c m ''selfLink'' = optString (getMetaString ''selfLink'' c)"
  "mergedMeta cd c m ''generation'' = optInt (GetGeneration c)"
  "mergedMeta cd c m ''uid'' = optString (getMetaString ''uid'' c)"
  "mergedMeta cd c m ''resourceVersion'' = optString (getMetaString ''resourceVersion'' c)"
  "mergedMeta cd c m ''managedFields'' = managedField cd c"
  "mergedMeta cd c m ''finalizers'' = map_option (\<lambda>ss. JArr (map JString ss)) (GetFinalizers c)"
  "mergedMeta cd c m ''annotations'' = mergedField (GetAnnotations c) (m ''annotations'')"
  "mergedMeta cd c m ''labels'' = mergedField (GetLabels c) (m ''labels'')"
  "mergedMeta cd c m ''name'' = m ''name''" "mergedMeta cd c m ''namespace'' = m ''namespace''"
  by (simp_all add: mergedMeta_def)

lemma map_get_mapOr: "map_get m k = mapOr m k"
  by (simp add: map_get_def mapOr_def split: option.split)

lemma mergedField_get: "map_get (readMap (mergedField c x)) k = (mapOr c ++ mapOr (readMap x)) k"
proof (cases "mapOr c ++ mapOr (readMap x) = Map.empty")
  case True
  then have "mapOr (readMap x) k = None" by auto
  with True show ?thesis by (simp add: mergedField_def map_get_mapOr)
next
  case False
  then show ?thesis by (simp add: mergedField_def map_get_def)
qed

text \<open>
  A successful merge keeps what the API server owns of the existing object (uid, resource version,
  self link, generation, finalizers), keeps the name, namespace and kind of the desired one, and
  joins the labels with the desired value winning.
\<close>

theorem merge_metadata:
  assumes "MergeObjectForUpdate cd current obj = Inr merged" and "GetName obj \<noteq> ''''"
  shows "(\<forall>f \<in> {''uid'', ''resourceVersion'', ''selfLink''}. getMetaString f merged = getMetaString f current)
    \<and> GetGeneration merged = GetGeneration current \<and> GetFinalizers merged = GetFinalizers current
    \<and> GetName merged = GetName obj \<and> GetNamespace merged = GetNamespace obj \<and> getGVK merged = getGVK obj
    \<and> (\<forall>k. map_get (GetLabels merged) k =
             (case map_get (GetLabels obj) k of Some v \<Rightarrow> Some v | None \<Rightarrow> map_get (GetLabels current) k))"
proof -
  from assms obtain v where u: "merged = withMeta v (mergedMeta cd current (metaOf (deployed current obj)))"
    and gvk: "getGVK merged = getGVK obj"
    by (rule merge_shape)
  then have "getGVK v = getGVK obj" by simp
  moreover have "map_get (GetLabels merged) k =
      (case map_get (GetLabels obj) k of Some v \<Rightarrow> Some v | None \<Rightarrow> map_get (GetLabels current) k)" for k
    by (simp add: u getMetaMap_eq [of _ "withMeta _ _"] mergedMeta_simps mergedField_get map_add_def)
       (simp add: getMetaMap_eq map_get_mapOr split: option.split)
  moreover have "GetFinalizers merged = GetFinalizers current"
    by (cases "GetFinalizers current") (simp_all add: u GetFinalizers_eq [of "withMeta _ _"] mergedMeta_simps)
  ultimately show ?thesis
    by (simp add: u names_eq getMetaString_eq [of _ "withMeta _ _"] GetGeneration_eq [of "withMeta _ _"]
        mergedMeta_simps getMetaString_eq [of _ obj])
qed

lemma copyField_sibling:
  "copyField r e [f, a] y = Inr x \<Longrightarrow> a \<noteq> b \<Longrightarrow> NestedField x [f, b] = NestedField y [f, b]"
  by (auto simp: copyField_def split: sum.splits option.splits dest: setNested_sibling)

text \<open>
  The cluster IP of an existing service is never changed by a merge.
\<close>

theorem merge_keeps_cluster_ip:
  assumes "MergeObjectForUpdate cd current obj = Inr merged" and "GetName obj \<noteq> ''''"
    and "gvk_Group (getGVK obj) = ''''" and "gvk_Kind (getGVK obj) = ''Service''"
    and "NestedString current [''spec'', ''clusterIP''] = Inr (Some ip)"
  shows "NestedString merged [''spec'', ''clusterIP''] = Inr (Some ip)"
proof -
  let ?d = "deployed current obj"
  from assms(1,2) obtain s v where s: "mergeServiceForUpdate current ?d = Inr s"
    and v: "mergeServiceAccountForUpdate current s = Inr v" and u: "merged = mergeMetadataForUpdate cd current v"
    by (auto simp: MergeObjectForUpdate_def bindResult_Inr mergeDeployment_eq named_hasMeta)
  have head: "sameHead s ?d" using s by (rule mergeService_head)
  then have "v = s" using v assms(3,4) by (simp add: mergeServiceAccountForUpdate_def sameHead_eq(3))
  then have merged: "merged = withMeta s (mergedMeta cd current (metaOf s))"
    using head assms(2) by (simp add: u mergeMetadata_eq sameHead_eq(2) named_hasMeta)
  from s obtain x1 x2 x3 where x1: "copyField (Inr (Some ip)) JString [''spec'', ''clusterIP''] ?d = Inr x1"
    and "copyField (NestedStringSlice current [''spec'', ''clusterIPs'']) jsonStrings [''spec'', ''clusterIPs''] x1 = Inr x2"
    and "copyField (NestedStringSlice current [''spec'', ''ipFamilies'']) jsonStrings [''spec'', ''ipFamilies''] x2 = Inr x3"
    and "s = x3 \<or> (\<exists>old. copyField (Inr old) JString [''spec'', ''ipFamilyPolicy''] x3 = Inr s)"
    using assms(3-5) by (auto simp: mergeServiceForUpdate_def bindResult_Inr split: if_splits)
  then have "NestedField s [''spec'', ''clusterIP''] = NestedField x1 [''spec'', ''clusterIP'']"
    by (auto dest!: copyField_sibling [where b = "''clusterIP''"])
  also have "\<dots> = Inr (Some (JString ip))" using x1 by (simp add: copyField_def SetNestedField_read)
  finally show ?thesis by (simp add: merged NestedString_def top_withMeta)
qed

section \<open>Applying again\<close>

text \<open>
  What converting a value twice gives: a printed time parses to itself, an absent one to none, and
  converted entries convert to themselves.
\<close>

definition codecStable :: "codec \<Rightarrow> bool" where
  "codecStable cd \<longleftrightarrow>
     cd_time cd '''' = None \<and> (\<forall>s t. cd_time cd s = Some t \<longrightarrow> cd_time cd t = Some t)
     \<and> (\<forall>xs ys. cd_managedFields cd xs = Some ys \<longrightarrow> cd_managedFields cd ys = Some ys)"

lemma timeField_again:
  "codecStable cd \<Longrightarrow> metaOf u ''creationTimestamp'' = timeField cd c \<Longrightarrow> timeField cd u = timeField cd c"
  by (cases "cd_time cd (getMetaString ''creationTimestamp'' c)")
     (auto simp: timeField_def [of _ u] timeField_def [of _ c] getMetaString_eq [of _ u] codecStable_def)

lemma managedField_again:
  "codecStable cd \<Longrightarrow> metaOf u ''managedFields'' = managedField cd c \<Longrightarrow> managedField cd u = managedField cd c"
  by (cases "managedField cd c")
     (auto simp: managedField_eq codecStable_def split: option.splits json.splits)

lemma mergedField_again: "mergedField (readMap (mergedField C x)) x = mergedField C x"
proof (cases "mapOr C ++ mapOr (readMap x) = Map.empty")
  case True
  then have "mapOr (readMap x) = Map.empty" by auto
  with True show ?thesis by (simp add: mergedField_def)
next
  case False
  moreover have "mapOr C ++ mapOr (readMap x) ++ mapOr (readMap x) = mapOr C ++ mapOr (readMap x)"
    by (simp add: map_add_def fun_eq_iff split: option.split)
  ultimately show ?thesis by (simp add: mergedField_def mapOr_def [of "Some _"])
qed

lemma deployed_again:
  assumes "metaOf u ''annotations'' = mergedField (GetAnnotations c) (metaOf (deployed c obj) ''annotations'')"
  shows "deployed u obj = deployed c obj"
proof (cases "isDeployment obj")
  case True
  have "map_get (GetAnnotations u) k = (mapOr (GetAnnotations c) ++ deploymentAnnotations c obj) k" for k
    using True by (simp add: getMetaMap_eq [of _ u] assms mergedField_get deployed_def mapOr_def [of "Some _"])
  then have "deploymentAnnotations u obj = deploymentAnnotations c obj"
    by (auto simp: deploymentAnnotations_def map_add_def map_get_mapOr fun_eq_iff split: option.splits)
  then show ?thesis by (simp add: deployed_def)
qed (simp add: deployed_def)

lemma merge_plain:
  assumes "GetName obj \<noteq> ''''"
    and "gvk_Group (getGVK obj) \<noteq> '''' \<or> gvk_Kind (getGVK obj) \<notin> {''Service'', ''ServiceAccount''}"
  shows "MergeObjectForUpdate cd c obj = Inr (withMeta obj (mergedMeta cd c (metaOf (deployed c obj))))"
  using assms by (auto simp: MergeObjectForUpdate_def bindResult_def mergeDeployment_eq named_hasMeta mergeMetadata_eq
      mergeServiceForUpdate_def mergeServiceAccountForUpdate_def deployed_def)

lemma merge_again:
  assumes stable: "codecStable cd" and name: "GetName obj \<noteq> ''''"
    and kind: "gvk_Group (getGVK obj) \<noteq> '''' \<or> gvk_Kind (getGVK obj) \<notin> {''Service'', ''ServiceAccount''}"
    and first: "MergeObjectForUpdate cd c obj = Inr u"
  shows "MergeObjectForUpdate cd u obj = Inr u"
proof -
  note plain = merge_plain [OF name kind]
  have u: "u = withMeta obj (mergedMeta cd c (metaOf (deployed c obj)))" using first plain by simp
  have "mergedMeta cd u m = mergedMeta cd c m" if "m = metaOf (deployed c obj)" for m
  proof -
    have "GetFinalizers u = GetFinalizers c"
      by (cases "GetFinalizers c") (simp_all add: u GetFinalizers_eq [of "withMeta _ _"] mergedMeta_simps)
    moreover have "getMetaString f u = getMetaString f c" if "f \<in> {''uid'', ''resourceVersion'', ''selfLink''}" for f
      using that by (auto simp: u getMetaString_eq [of _ "withMeta _ _"] mergedMeta_simps)
    moreover have "GetGeneration u = GetGeneration c"
      by (simp add: u GetGeneration_eq [of "withMeta _ _"] mergedMeta_simps)
    moreover have "mergedField (getMetaMap f u) (m f) = mergedField (getMetaMap f c) (m f)" if "f \<in> {''annotations'', ''labels''}" for f
      using that \<open>m = _\<close> by (auto simp: u getMetaMap_eq [of _ "withMeta _ _"] mergedMeta_simps mergedField_again)
    ultimately show ?thesis
      by (simp add: mergedMeta_def timeField_again [OF stable] managedField_again [OF stable] u mergedMeta_simps)
  qed
  moreover have "deployed u obj = deployed c obj"
    by (rule deployed_again) (simp add: u mergedMeta_simps)
  ultimately show ?thesis by (simp add: plain u)
qed


text \<open>A client over a store of one object.\<close>

definition oneObject :: "uns option unsClient" where
  "oneObject = \<lparr>
     uc_Get = (\<lambda>g ns n. gets (\<lambda>w. case w of None \<Rightarrow> Inl (ApiStatus NotFound ''not found'') | Some u \<Rightarrow> Inr u)),
     uc_Create = (\<lambda>u. State (\<lambda>w. (None, Some u))), uc_Update = (\<lambda>u. State (\<lambda>w. (None, Some u)))\<rparr>"

definition plainCodec :: codec where
  "plainCodec = \<lparr>cd_time = (\<lambda>s. if s = '''' then None else Some s), cd_managedFields = Some\<rparr>"

definition exampleDs :: uns where
  "exampleDs = [''apiVersion'' \<mapsto> JString ''apps/v1'', ''kind'' \<mapsto> JString ''DaemonSet'',
     ''metadata'' \<mapsto> JObj [''name'' \<mapsto> JString ''snr-ds'']]"

definition exampleService :: uns where
  "exampleService = [''apiVersion'' \<mapsto> JString ''v1'', ''kind'' \<mapsto> JString ''Service'',
     ''metadata'' \<mapsto> JObj [''name'' \<mapsto> JString ''svc'']]"

lemma plainCodec_stable: "codecStable plainCodec"
  by (auto simp: codecStable_def plainCodec_def split: if_splits)

lemma example_gvk:
  "getGVK exampleDs = \<lparr>gvk_Group = ''apps'', gvk_Version = ''v1'', gvk_Kind = ''DaemonSet''\<rparr>"
  "getGVK exampleService = \<lparr>gvk_Group = '''', gvk_Version = ''v1'', gvk_Kind = ''Service''\<rparr>"
  "GetName exampleDs = ''snr-ds''" "GetName exampleService = ''svc''"
  by (simp_all add: getGVK_def exampleDs_def exampleService_def getNestedString_def NestedString_def NestedField_def
      ParseGroupVersion_def GetKind_def GetName_def)

definition storedDs :: uns where
  "storedDs = withMeta exampleDs [''name'' \<mapsto> JString ''snr-ds'', ''uid'' \<mapsto> JString ''u1'']"

definition storedService :: uns where
  "storedService = exampleService(''spec'' \<mapsto> JObj [''clusterIP'' \<mapsto> JString ''10.0.0.7''])"

theorem merge_metadata_witness:
  "\<exists>merged. MergeObjectForUpdate plainCodec storedDs exampleDs = Inr merged
     \<and> getMetaString ''uid'' merged = ''u1'' \<and> GetName merged = ''snr-ds''"
proof -
  obtain merged where "MergeObjectForUpdate plainCodec storedDs exampleDs = Inr merged"
    using merge_plain [of exampleDs plainCodec storedDs] by (simp add: example_gvk)
  moreover have "getMetaString ''uid'' storedDs = ''u1''" by (simp add: storedDs_def getMetaString_eq)
  ultimately show ?thesis using merge_metadata [of plainCodec storedDs exampleDs] by (auto simp: example_gvk)
qed


theorem merge_keeps_cluster_ip_witness:
  "\<exists>merged. MergeObjectForUpdate plainCodec storedService exampleService = Inr merged
     \<and> NestedString merged [''spec'', ''clusterIP''] = Inr (Some ''10.0.0.7'')"
proof -
  have spec: "NestedField storedService [''spec'', f] =
      Inr (if f = ''clusterIP'' then Some (JString ''10.0.0.7'') else None)" for f
    by (simp add: storedService_def NestedField_def)
  let ?s = "exampleService(''spec'' \<mapsto> JObj [''clusterIP'' \<mapsto> JString ''10.0.0.7''])"
  have "deployed storedService exampleService = exampleService"
    by (simp add: deployed_def isDeployment_def example_gvk)
  moreover have "mergeServiceForUpdate storedService exampleService = Inr ?s"
    by (simp add: mergeServiceForUpdate_def bindResult_def example_gvk copyField_def NestedString_def
        NestedStringSlice_def spec SetNestedField_def)
       (simp add: exampleService_def NestedField_def copyField_def)
  moreover have "getGVK ?s = getGVK exampleService" by (rule getGVK_cong) simp_all
  ultimately have "\<exists>merged. MergeObjectForUpdate plainCodec storedService exampleService = Inr merged"
    by (simp add: MergeObjectForUpdate_def bindResult_def mergeDeployment_eq named_hasMeta example_gvk
        mergeServiceAccountForUpdate_def)
  then show ?thesis
    using merge_keeps_cluster_ip [of plainCodec storedService exampleService _ "''10.0.0.7''"]
    by (auto simp: example_gvk NestedString_def spec)
qed

end
