(* ===== verification/Webhooks.thy ===== *)
theory Webhooks
  imports Calculator Taints
begin

text \<open>
  Admission of the custom resources: the validating and defaulting webhooks of
  \<^verbatim>\<open>api/v1alpha1/*_webhook.go\<close>, the default objects of \<^verbatim>\<open>api/v1alpha1/*_types.go\<close> and the two start-up
  tasks that create them (\<^verbatim>\<open>pkg/snrconfighelper\<close>, \<^verbatim>\<open>pkg/template\<close>).
\<close>

section \<open>The configuration webhook\<close>

text \<open>A webhook answers with warnings and an error.\<close>

type_synonym admission = "string list \<times> error option"

record field =
  fld_name :: string
  fld_durationValue :: duration
  fld_minDurationValue :: duration

definition minDurPeerApiServerTimeout :: duration where "minDurPeerApiServerTimeout = 10 * Millisecond"

definition minDurApiServerTimeout :: duration where "minDurApiServerTimeout = 10 * Millisecond"

definition minDurPeerDialTimeout :: duration where "minDurPeerDialTimeout = 10 * Millisecond"

definition minDurPeerRequestTimeout :: duration where "minDurPeerRequestTimeout = 10 * Millisecond"

definition minDurApiCheckInterval :: duration where "minDurApiCheckInterval = 1 * Second"

definition minDurPeerUpdateInterval :: duration where "minDurPeerUpdateInterval = 10 * Second"

text \<open>
  \<^verbatim>\<open>Duration.String\<close>, exact for the minima above: whole milliseconds below a second, whole seconds
  below a minute.
\<close>

definition durationString :: "duration \<Rightarrow> string" where
  "durationString d = (if d < Second then Itoa (d div Millisecond) @ ''ms'' else Itoa (d div Second) @ ''s'')"

definition validate :: "field \<Rightarrow> error option" where
  "validate f =
     (if fld_durationValue f < fld_minDurationValue f
      then Some (ErrMsg (fld_name f @ '' cannot be less than '' @ durationString (fld_minDurationValue f)))
      else None)"

text \<open>The loop that collects the messages.\<close>

fun validateFields :: "field list \<Rightarrow> string \<Rightarrow> string" where
  "validateFields [] errMsg = errMsg"
| "validateFields (f # fs) errMsg =
     (case validate f of
        None \<Rightarrow> validateFields fs errMsg
      | Some err \<Rightarrow> validateFields fs (errMsg @ [CHR 0x0A] @ error_str err))"

text \<open>The fields with their values; a missing pointer is a nil dereference.\<close>

definition timeFields :: "SelfNodeRemediationConfigSpec \<Rightarrow> field list option" where
  "timeFields s =
     (case (cs_PeerApiServerTimeout s, cs_ApiServerTimeout s, cs_PeerDialTimeout s, cs_PeerRequestTimeout s,
            cs_ApiCheckInterval s, cs_PeerUpdateInterval s) of
        (Some pas, Some as, Some pd, Some pr, Some ac, Some pu) \<Rightarrow>
          Some [\<lparr>fld_name = ''PeerApiServerTimeout'', fld_durationValue = pas, fld_minDurationValue = minDurPeerApiServerTimeout\<rparr>,
                \<lparr>fld_name = ''ApiServerTimeout'', fld_durationValue = as, fld_minDurationValue = minDurApiServerTimeout\<rparr>,
                \<lparr>fld_name = ''PeerDialTimeout'', fld_durationValue = pd, fld_minDurationValue = minDurPeerDialTimeout\<rparr>,
                \<lparr>fld_name = ''PeerRequestTimeout'', fld_durationValue = pr, fld_minDurationValue = minDurPeerRequestTimeout\<rparr>,
                \<lparr>fld_name = ''ApiCheckInterval'', fld_durationValue = ac, fld_minDurationValue = minDurApiCheckInterval\<rparr>,
                \<lparr>fld_name = ''PeerUpdateInterval'', fld_durationValue = pu, fld_minDurationValue = minDurPeerUpdateInterval\<rparr>]
      | _ \<Rightarrow> None)"

definition validateTimes :: "SelfNodeRemediationConfig \<Rightarrow> error option outcome" where
  "validateTimes r =
     (case timeFields (cfg_Spec r) of
        None \<Rightarrow> Panic
      | Some fs \<Rightarrow>
          let errMsg = validateFields fs ''''
          in Ret (if errMsg \<noteq> '''' then Some (ErrMsg errMsg) else None))"

definition validateToleration :: "Toleration \<Rightarrow> error option" where
  "validateToleration toleration =
     (let operatorErr =
            (if tol_Operator toleration = '''' then None
             else if tol_Operator toleration = ''Equal'' then None
             else if tol_Operator toleration = ''Exists''
             then (if tol_Value toleration \<noteq> ''''
                   then Some (ErrMsg ''invalid value for toleration, value must be empty for Operator value is Exists'')
                   else None)
             else Some (ErrMsg (''invalid operator for toleration: '' @ tol_Operator toleration)))
      in case operatorErr of
           Some err \<Rightarrow> Some err
         | None \<Rightarrow>
             if tol_Effect toleration = '''' then None
             else if tol_Effect toleration = ''NoSchedule'' \<or> tol_Effect toleration = ''PreferNoSchedule''
                  \<or> tol_Effect toleration = ''NoExecute'' then None
             else Some (ErrMsg (''invalid taint effect for toleration: '' @ tol_Effect toleration)))"

fun validateTolerations :: "Toleration list \<Rightarrow> error option" where
  "validateTolerations [] = None"
| "validateTolerations (t # ts) = (case validateToleration t of Some err \<Rightarrow> Some err | None \<Rightarrow> validateTolerations ts)"

definition validateCustomTolerations :: "SelfNodeRemediationConfig \<Rightarrow> error option" where
  "validateCustomTolerations r = validateTolerations (cs_CustomDsTolerations (cfg_Spec r))"

definition validateSingleton :: "env \<Rightarrow> SelfNodeRemediationConfig \<Rightarrow> error option" where
  "validateSingleton env r =
     (if om_Name (cfg_Meta r) \<noteq> ConfigCRName
      then Some (ErrMsg (''to enforce only one SelfNodeRemediationConfig in the cluster, a name other than ''
                   @ ConfigCRName @ '' is not allowed''))
      else case GetDeploymentNamespace env of
             Inl err \<Rightarrow> Some (ErrMsg ''failed to verify the deployment namespace SelfNodeRemediationConfig can not be created'')
           | Inr ns \<Rightarrow>
               if ns \<noteq> om_Namespace (cfg_Meta r)
               then Some (ErrMsg (''SelfNodeRemediationConfig is only allowed to be created in the namespace: '' @ ns))
               else None)"

definition Config_ValidateCreate :: "env \<Rightarrow> SelfNodeRemediationConfig \<Rightarrow> admission outcome" where
  "Config_ValidateCreate env r =
     (case validateTimes r of
        Panic \<Rightarrow> Panic
      | Ret err \<Rightarrow> Ret ([], NewAggregate [err, validateCustomTolerations r, validateSingleton env r]))"

definition Config_ValidateUpdate :: "SelfNodeRemediationConfig \<Rightarrow> admission outcome" where
  "Config_ValidateUpdate r =
     (case validateTimes r of
        Panic \<Rightarrow> Panic
      | Ret err \<Rightarrow> Ret ([], NewAggregate [err, validateCustomTolerations r]))"

definition Config_ValidateDelete :: "env \<Rightarrow> SelfNodeRemediationConfig \<Rightarrow> admission" where
  "Config_ValidateDelete env r =
     (if om_Name (cfg_Meta r) = ConfigCRName
      then case GetDeploymentNamespace env of
             Inl err \<Rightarrow> ([], Some err)
           | Inr deploymentNs \<Rightarrow>
               if deploymentNs = om_Namespace (cfg_Meta r)
               then ([''The default configuration is deleted, Self Node Remediation is now disabled''], None)
               else ([], None)
      else ([], None))"

section \<open>The remediation and template webhooks\<close>

record SelfNodeRemediationTemplate =
  tpl_Meta :: ObjectMeta
  tpl_RemediationStrategy :: string

definition validateStrategy :: "OutOfServiceFlags \<Rightarrow> string \<Rightarrow> error option" where
  "validateStrategy flags remediationStrategy =
     (if remediationStrategy = OutOfServiceTaintRemediationStrategy \<and> \<not> IsOutOfServiceTaintSupported flags
      then Some (ErrMsg (OutOfServiceTaintRemediationStrategy
             @ '' remediation strategy is not supported at kubernetes version lower than 1.26, please use a different remediation strategy''))
      else None)"

definition Snr_ValidateCreate :: "OutOfServiceFlags \<Rightarrow> SelfNodeRemediation \<Rightarrow> admission" where
  "Snr_ValidateCreate flags r = ([], validateStrategy flags (snr_RemediationStrategy r))"

definition Snr_ValidateUpdate :: "OutOfServiceFlags \<Rightarrow> SelfNodeRemediation \<Rightarrow> admission" where
  "Snr_ValidateUpdate flags r = ([], validateStrategy flags (snr_RemediationStrategy r))"

definition Snr_ValidateDelete :: "SelfNodeRemediation \<Rightarrow> admission" where
  "Snr_ValidateDelete r = ([], None)"

definition MultipleTemplatesSupportedAnnotation :: string where
  "MultipleTemplatesSupportedAnnotation = ''remediation.medik8s.io/multiple-templates-support''"

definition Template_Default :: "SelfNodeRemediationTemplate \<Rightarrow> SelfNodeRemediationTemplate" where
  "Template_Default r =
     (let annotations = (case om_Annotations (tpl_Meta r) of None \<Rightarrow> Map.empty | Some m \<Rightarrow> m);
          annotations = (if annotations MultipleTemplatesSupportedAnnotation = None
                         then annotations(MultipleTemplatesSupportedAnnotation \<mapsto> ''true'') else annotations)
      in r\<lparr>tpl_Meta := (tpl_Meta r)\<lparr>om_Annotations := Some annotations\<rparr>\<rparr>)"

definition Template_ValidateCreate :: "OutOfServiceFlags \<Rightarrow> SelfNodeRemediationTemplate \<Rightarrow> admission" where
  "Template_ValidateCreate flags r = ([], validateStrategy flags (tpl_RemediationStrategy r))"

definition Template_ValidateUpdate :: "OutOfServiceFlags \<Rightarrow> SelfNodeRemediationTemplate \<Rightarrow> admission" where
  "Template_ValidateUpdate flags r = ([], validateStrategy flags (tpl_RemediationStrategy r))"

definition Template_ValidateDelete :: "SelfNodeRemediationTemplate \<Rightarrow> admission" where
  "Template_ValidateDelete r = ([], None)"

section \<open>Default objects and their creation\<close>

definition newMeta :: "string \<Rightarrow> gomap \<Rightarrow> ObjectMeta" where
  "newMeta name labels =
     \<lparr>om_Name = name, om_Namespace = '''', om_CreationTimestamp = 0, om_DeletionTimestamp = None, om_Annotations = None,
      om_Labels = labels, om_Finalizers = [], om_OwnerReferences = []\<rparr>"

definition NewDefaultSelfNodeRemediationConfig :: SelfNodeRemediationConfig where
  "NewDefaultSelfNodeRemediationConfig =
     \<lparr>cfg_Meta = newMeta ConfigCRName None,
      cfg_Spec =
        \<lparr>cs_WatchdogFilePath = ''/dev/watchdog'', cs_SafeTimeToAssumeNodeRebootedSeconds = None,
         cs_PeerApiServerTimeout = None, cs_ApiCheckInterval = None, cs_PeerUpdateInterval = None,
         cs_ApiServerTimeout = None, cs_PeerDialTimeout = None, cs_PeerRequestTimeout = None,
         cs_MaxApiErrorThreshold = 0, cs_IsSoftwareRebootEnabled = True, cs_EndpointHealthCheckUrl = '''',
         cs_HostPort = 0, cs_CustomDsTolerations = []\<rparr>\<rparr>"

text \<open>
  The defaults that the API server fills in for absent fields, from the \<^verbatim>\<open>kubebuilder:default\<close> markers
  of the configuration, for an object that a Go client sends: a field with the tag \<^verbatim>\<open>omitempty\<close> is
  absent when it is empty, zero or false, so the software reboot cannot be switched off this way.
\<close>

definition crdDefaults :: "SelfNodeRemediationConfigSpec \<Rightarrow> SelfNodeRemediationConfigSpec" where
  "crdDefaults s =
     (let dflt = (\<lambda>d x. Some (case x of None \<Rightarrow> d | Some v \<Rightarrow> v))
      in s\<lparr>cs_WatchdogFilePath := (if cs_WatchdogFilePath s = '''' then ''/dev/watchdog'' else cs_WatchdogFilePath s),
           cs_PeerApiServerTimeout := dflt (5 * Second) (cs_PeerApiServerTimeout s),
           cs_ApiCheckInterval := dflt (15 * Second) (cs_ApiCheckInterval s),
           cs_PeerUpdateInterval := dflt (15 * 60 * Second) (cs_PeerUpdateInterval s),
           cs_ApiServerTimeout := dflt (5 * Second) (cs_ApiServerTimeout s),
           cs_PeerDialTimeout := dflt (5 * Second) (cs_PeerDialTimeout s),
           cs_PeerRequestTimeout := dflt (5 * Second) (cs_PeerRequestTimeout s),
           cs_MaxApiErrorThreshold := (if cs_MaxApiErrorThreshold s = 0 then 3 else cs_MaxApiErrorThreshold s),
           cs_IsSoftwareRebootEnabled := True,
           cs_HostPort := (if cs_HostPort s = 0 then 30001 else cs_HostPort s)\<rparr>)"

definition defaultTemplateName :: string where
  "defaultTemplateName = ''self-node-remediation-automatic-strategy-template''"

definition DefaultTemplate :: string where
  "DefaultTemplate = ''remediation.medik8s.io/default-template''"

definition NewRemediationTemplates :: "SelfNodeRemediationTemplate list" where
  "NewRemediationTemplates =
     [\<lparr>tpl_Meta = newMeta defaultTemplateName (Some [DefaultTemplate \<mapsto> ''true'']),
       tpl_RemediationStrategy = AutomaticRemediationStrategy\<rparr>]"

text \<open>The two start-up tasks; creating an object is a call to the API server.\<close>

definition newConfigIfNotExist ::
  "(SelfNodeRemediationConfig \<Rightarrow> ('w, error option) state) \<Rightarrow> env \<Rightarrow> ('w, error option) state" where
  "newConfigIfNotExist create env =
     (case GetDeploymentNamespace env of
        Inl err \<Rightarrow> returnM (Some (Wrapped err ''unable to get the deployment namespace''))
      | Inr ns \<Rightarrow> do {
          let config = NewDefaultSelfNodeRemediationConfig;
          err \<leftarrow> create (config\<lparr>cfg_Meta := (cfg_Meta config)\<lparr>om_Namespace := ns\<rparr>\<rparr>);
          returnM (case err of
              None \<Rightarrow> None
            | Some e \<Rightarrow> if \<not> IsAlreadyExists e
                        then Some (Wrapped e ''failed to create a default self node remediation config CR'') else None)
        })"

fun createTemplates ::
  "(SelfNodeRemediationTemplate \<Rightarrow> ('w, error option) state) \<Rightarrow> string \<Rightarrow> SelfNodeRemediationTemplate list
     \<Rightarrow> ('w, error option) state" where
  "createTemplates create ns [] = returnM None"
| "createTemplates create ns (template # templates) = do {
     err \<leftarrow> create (template\<lparr>tpl_Meta := (tpl_Meta template)\<lparr>om_Namespace := ns\<rparr>\<rparr>);
     case err of
       None \<Rightarrow> createTemplates create ns templates
     | Some e \<Rightarrow> if \<not> IsAlreadyExists e
                 then returnM (Some (Wrapped e ''failed to create self node remediation template CR''))
                 else createTemplates create ns templates
   }"

definition newTemplatesIfNotExist ::
  "(SelfNodeRemediationTemplate \<Rightarrow> ('w, error option) state) \<Rightarrow> env \<Rightarrow> ('w, error option) state" where
  "newTemplatesIfNotExist create env =
     (case GetDeploymentNamespace env of
        Inl err \<Rightarrow> returnM (Some (Wrapped err ''unable to get the deployment namespace''))
      | Inr ns \<Rightarrow> createTemplates create ns NewRemediationTemplates)"

text \<open>What the framework runs of them; the second one waits first.\<close>

definition ConfigInitializer_Start ::
  "(SelfNodeRemediationConfig \<Rightarrow> ('w, error option) state) \<Rightarrow> env \<Rightarrow> ('w, error option) state" where
  "ConfigInitializer_Start create env = newConfigIfNotExist create env"

definition Creator_Start ::
  "(duration \<Rightarrow> ('w, unit) state) \<Rightarrow> (SelfNodeRemediationTemplate \<Rightarrow> ('w, error option) state) \<Rightarrow> env \<Rightarrow>
   ('w, error option) state" where
  "Creator_Start sleep create env = do {
     sleep (10 * Second);
     newTemplatesIfNotExist create env
   }"

section \<open>Lemmas\<close>

lemmas minDurs = minDurPeerApiServerTimeout_def minDurApiServerTimeout_def minDurPeerDialTimeout_def
  minDurPeerRequestTimeout_def minDurApiCheckInterval_def minDurPeerUpdateInterval_def

text \<open>The collected message is empty exactly when every field is at least its minimum.\<close>

lemma validateFields_append: "\<exists>msg. validateFields fs e = e @ msg \<and> (msg = [] \<longleftrightarrow> (\<forall>f \<in> set fs. validate f = None))"
proof (induction fs arbitrary: e)
  case (Cons f fs)
  show ?case
  proof (cases "validate f")
    case None
    with Cons [of e] show ?thesis by simp
  next
    case (Some err)
    with Cons [of "e @ [CHR 0x0A] @ error_str err"] show ?thesis by auto
  qed
qed simp

lemma validate_None: "validate f = None \<longleftrightarrow> fld_minDurationValue f \<le> fld_durationValue f"
  by (auto simp: validate_def)

definition timesOk :: "SelfNodeRemediationConfigSpec \<Rightarrow> bool" where
  "timesOk s \<longleftrightarrow>
     (\<exists>a b c d e f. cs_PeerApiServerTimeout s = Some a \<and> cs_ApiServerTimeout s = Some b \<and> cs_PeerDialTimeout s = Some c
        \<and> cs_PeerRequestTimeout s = Some d \<and> cs_ApiCheckInterval s = Some e \<and> cs_PeerUpdateInterval s = Some f
        \<and> 10 * Millisecond \<le> a \<and> 10 * Millisecond \<le> b \<and> 10 * Millisecond \<le> c \<and> 10 * Millisecond \<le> d
        \<and> Second \<le> e \<and> 10 * Second \<le> f)"

lemma validateTimes_accepts: "validateTimes r = Ret None \<longleftrightarrow> timesOk (cfg_Spec r)"
proof (cases "timeFields (cfg_Spec r)")
  case None
  then show ?thesis
    by (auto simp: validateTimes_def timesOk_def timeFields_def split: option.splits)
next
  case (Some fs)
  obtain msg where m: "validateFields fs [] = msg" "msg = [] \<longleftrightarrow> (\<forall>f \<in> set fs. validate f = None)"
    using validateFields_append [of fs "[]"] by auto
  have "validateTimes r = Ret None \<longleftrightarrow> (\<forall>f \<in> set fs. validate f = None)"
    using Some m by (simp add: validateTimes_def)
  also have "\<dots> \<longleftrightarrow> timesOk (cfg_Spec r)"
    using Some by (auto simp: timeFields_def timesOk_def validate_None minDurs split: option.splits)
  finally show ?thesis .
qed

lemma validateTimes_panics: "validateTimes r = Panic \<longleftrightarrow> timeFields (cfg_Spec r) = None"
  by (simp add: validateTimes_def Let_def split: option.split)

definition tolerationOk :: "Toleration \<Rightarrow> bool" where
  "tolerationOk t \<longleftrightarrow>
     tol_Operator t \<in> {'''', ''Equal'', ''Exists''} \<and> (tol_Operator t = ''Exists'' \<longrightarrow> tol_Value t = '''')
     \<and> tol_Effect t \<in> {'''', ''NoSchedule'', ''PreferNoSchedule'', ''NoExecute''}"

lemma validateToleration_accepts: "validateToleration t = None \<longleftrightarrow> tolerationOk t"
  by (auto simp: validateToleration_def tolerationOk_def Let_def)

lemma validateTolerations_accepts: "validateTolerations ts = None \<longleftrightarrow> (\<forall>t \<in> set ts. tolerationOk t)"
  by (induction ts) (auto simp: validateToleration_accepts [symmetric] split: option.splits)

lemma validateSingleton_accepts:
  "validateSingleton env r = None \<longleftrightarrow>
     om_Name (cfg_Meta r) = ConfigCRName \<and> GetDeploymentNamespace env = Inr (om_Namespace (cfg_Meta r))"
  by (auto simp: validateSingleton_def split: sum.splits)

lemma NewAggregate_None: "NewAggregate es = None \<longleftrightarrow> (\<forall>e \<in> set es. e = None)"
  by (induction es) (auto simp: NewAggregate_def List.map_filter_def Let_def)

section \<open>Properties\<close>

text \<open>
  C25: a configuration is admitted on creation exactly when its six times are set and at least their
  minima, every custom toleration is valid, and it is the one configuration of the operator: its name
  is the fixed one and its namespace the namespace of the deployment.
\<close>

theorem config_admission:
  "Config_ValidateCreate env r = Ret (warnings, None) \<longleftrightarrow>
     warnings = [] \<and> timesOk (cfg_Spec r)
     \<and> list_all tolerationOk (cs_CustomDsTolerations (cfg_Spec r))
     \<and> om_Name (cfg_Meta r) = ConfigCRName \<and> GetDeploymentNamespace env = Inr (om_Namespace (cfg_Meta r))"
proof -
  have "Config_ValidateCreate env r = Ret (warnings, None) \<longleftrightarrow>
      warnings = [] \<and> validateTimes r = Ret None \<and> validateCustomTolerations r = None \<and> validateSingleton env r = None"
    by (cases "validateTimes r") (auto simp: Config_ValidateCreate_def NewAggregate_None)
  then show ?thesis
    by (simp add: validateTimes_accepts validateSingleton_accepts validateCustomTolerations_def
        validateTolerations_accepts list_all_iff)
qed

lemma timesOk_no_panic:
  assumes "timesOk (cfg_Spec config)"
  shows "fst (run_state (GetRebootDuration \<lparr>calc_client = cl, calc_snrConfig = Some config\<rparr> node) w) \<noteq> Panic"
proof -
  obtain b c d e where t: "cs_ApiServerTimeout (cfg_Spec config) = Some b" "cs_PeerDialTimeout (cfg_Spec config) = Some c"
      "cs_PeerRequestTimeout (cfg_Spec config) = Some d" "cs_ApiCheckInterval (cfg_Spec config) = Some e"
    using assms by (auto simp: timesOk_def)
  have m: "fst (run_state (calculateMinimumRebootDuration cl (cfg_Spec config) t') w) \<noteq> Panic" for t'
    using t by (auto simp: calculateMinimumRebootDuration_def Let_def split: prod.split sum.split)
  have "run_state (GetRebootDuration \<lparr>calc_client = cl, calc_snrConfig = Some config\<rparr> node) w = (Panic, w') \<Longrightarrow> False" for w'
    using m [of "watchdogTimeoutOrDefault node"]
    by (auto simp: GetRebootDuration_def Let_def split: prod.splits outcome.splits sum.splits option.splits if_splits)
  then show ?thesis by (metis prod.collapse)
qed

text \<open>
  A configuration that passed the webhook on creation or update never makes the duration
  calculator of the manager panic, whatever the cluster and the node look like, although the
  calculator dereferences four pointer fields without a check.
\<close>

theorem admitted_config_calculates:
  assumes "Config_ValidateCreate env config = Ret (warnings, None) \<or> Config_ValidateUpdate config = Ret (warnings, None)"
  shows "fst (run_state (GetRebootDuration \<lparr>calc_client = cl, calc_snrConfig = Some config\<rparr> node) w) \<noteq> Panic"
proof -
  have "validateTimes config = Ret None"
    using assms by (cases "validateTimes config")
      (auto simp: Config_ValidateCreate_def Config_ValidateUpdate_def NewAggregate_None)
  then show ?thesis by (intro timesOk_no_panic) (simp add: validateTimes_accepts)
qed

definition operatorEnv :: env where
  "operatorEnv = [''DEPLOYMENT_NAMESPACE'' \<mapsto> ''op'']"

definition operatorConfig :: SelfNodeRemediationConfig where
  "operatorConfig = \<lparr>cfg_Meta = (newMeta ConfigCRName None)\<lparr>om_Namespace := ''op''\<rparr>,
     cfg_Spec = crdDefaults (cfg_Spec NewDefaultSelfNodeRemediationConfig)\<rparr>"

lemma operatorConfig_timesOk: "timesOk (cfg_Spec operatorConfig)"
  by (simp add: operatorConfig_def crdDefaults_def NewDefaultSelfNodeRemediationConfig_def timesOk_def Let_def)

lemma operatorConfig_update: "Config_ValidateUpdate operatorConfig = Ret ([], None)"
  using operatorConfig_timesOk
  by (simp add: validateTimes_accepts [symmetric] Config_ValidateUpdate_def NewAggregate_None validateCustomTolerations_def)
    (simp add: operatorConfig_def crdDefaults_def NewDefaultSelfNodeRemediationConfig_def Let_def)

theorem admitted_config_calculates_witness:
  "fst (run_state (GetRebootDuration \<lparr>calc_client = staticClient [], calc_snrConfig = Some operatorConfig\<rparr> (exampleNode ''10'')) ())
     \<noteq> Panic"
  by (rule admitted_config_calculates [where env = operatorEnv and warnings = "[]"]) (simp add: operatorConfig_update)

text \<open>
  The start-up task creates a configuration that is admitted once the API server has filled in the
  declared defaults. Without them the webhook panics on it: the default object leaves the time fields
  unset.
\<close>

theorem default_config_admitted:
  assumes "GetDeploymentNamespace env = Inr ns"
  shows "\<exists>config. newConfigIfNotExist create env = do {
       err \<leftarrow> create config;
       returnM (case err of None \<Rightarrow> None
         | Some e \<Rightarrow> if \<not> IsAlreadyExists e
                     then Some (Wrapped e ''failed to create a default self node remediation config CR'') else None)
     }
     \<and> Config_ValidateCreate env (config\<lparr>cfg_Spec := crdDefaults (cfg_Spec config)\<rparr>) = Ret ([], None)
     \<and> Config_ValidateCreate env config = Panic"
proof -
  let ?c = "NewDefaultSelfNodeRemediationConfig\<lparr>cfg_Meta := (cfg_Meta NewDefaultSelfNodeRemediationConfig)\<lparr>om_Namespace := ns\<rparr>\<rparr>"
  let ?d = "?c\<lparr>cfg_Spec := crdDefaults (cfg_Spec ?c)\<rparr>"
  have "validateTimes ?d = Ret None"
    using operatorConfig_timesOk by (simp add: validateTimes_accepts operatorConfig_def)
  moreover have "validateCustomTolerations ?d = None"
    by (simp add: validateCustomTolerations_def crdDefaults_def NewDefaultSelfNodeRemediationConfig_def Let_def)
  moreover have "validateSingleton env ?d = None"
    using assms by (simp add: validateSingleton_accepts NewDefaultSelfNodeRemediationConfig_def newMeta_def)
  ultimately have "Config_ValidateCreate env ?d = Ret ([], None)"
    by (simp add: Config_ValidateCreate_def NewAggregate_None)
  moreover have "Config_ValidateCreate env ?c = Panic"
    by (simp add: Config_ValidateCreate_def validateTimes_def timeFields_def NewDefaultSelfNodeRemediationConfig_def)
  ultimately show ?thesis
    using assms by (intro exI [of _ ?c]) (simp add: newConfigIfNotExist_def)
qed

theorem default_config_admitted_witness:
  "\<exists>config. Config_ValidateCreate operatorEnv (config\<lparr>cfg_Spec := crdDefaults (cfg_Spec config)\<rparr>) = Ret ([], None)
     \<and> Config_ValidateCreate operatorEnv config = Panic"
  using default_config_admitted [of operatorEnv "''op''" "\<lambda>_. returnM None"]
  by (auto simp: operatorEnv_def GetDeploymentNamespace_def)

text \<open>
  The defaulting of templates keeps a value that is already there and is idempotent, and the default
  templates of the operator pass its own webhook in every version of the server.
\<close>

lemma Template_Default_idem: "Template_Default (Template_Default r) = Template_Default r"
  by (simp add: Template_Default_def Let_def split: option.split)

lemma Template_Default_keeps:
  "map_get (om_Annotations (tpl_Meta r)) k = Some v \<Longrightarrow>
   map_get (om_Annotations (tpl_Meta (Template_Default r))) k = Some v"
  by (auto simp: Template_Default_def map_get_def Let_def split: option.splits)

lemma default_templates_admitted: "t \<in> set NewRemediationTemplates \<Longrightarrow> Template_ValidateCreate flags t = ([], None)"
  by (simp add: NewRemediationTemplates_def Template_ValidateCreate_def validateStrategy_def
      AutomaticRemediationStrategy_def OutOfServiceTaintRemediationStrategy_def)

end
