(* ===== verification/Config_Controller.thy ===== *)
theory Config_Controller
  imports Certificates Render Apply Webhooks Snr_Controller
begin

text \<open>
  The configuration controller of the manager
  (\<^verbatim>\<open>controllers/selfnoderemediationconfig_controller.go\<close>): it hands the configuration to the duration
  calculator, makes sure the certificates exist, installs the daemon set of the agents and enables
  remediations that were disabled for want of a configuration. Setting an owner reference and
  converting a toleration are library routines and parameters of the reconciler. The state is the
  cluster and the calculator that the remediation controller shares.
\<close>

section \<open>State\<close>

definition lastChangedAnnotationKey :: string where
  "lastChangedAnnotationKey = ''snr.medik8s.io/force-deletion-revision''"

record ('w, 't, 'k, 'p, 'c) configReconciler =
  cc_Client :: "'w client"
  cc_Uns :: "'w unsClient"
  cc_Secrets :: "'w secretClient"
  cc_GetDaemonSet :: "string \<Rightarrow> string \<Rightarrow> ('w, ObjectMeta result) state"
  cc_DeleteDaemonSet :: "ObjectMeta \<Rightarrow> ('w, error option) state"
  cc_SetControllerReference :: "SelfNodeRemediationConfig \<Rightarrow> uns \<Rightarrow> uns result"
  cc_ToUnstructured :: "Toleration \<Rightarrow> json result"
  cc_Codec :: codec
  cc_Render :: "'t renderEnv"
  cc_Crypto :: "('w, 'k, 'p, 'c) crypto"
  cc_Env :: env
  cc_InstallFileFolder :: string
  cc_Namespace :: string

record 'w cfgState =
  cf_world :: 'w
  cf_calculator :: "'w calculator"

definition onCluster :: "('w, 'a) state \<Rightarrow> ('w cfgState, 'a) state" where
  "onCluster = zoom cf_world (\<lambda>w s. s\<lparr>cf_world := w\<rparr>)"

section \<open>Certificates\<close>

definition withStorage :: "string \<Rightarrow> ('w SecretCertStorage, 'a) state \<Rightarrow> ('w, 'a) state" where
  "withStorage namespace m =
     State (\<lambda>w. case run_state m (NewSecretCertStorage namespace w) of (a, st) \<Rightarrow> (a, scs_world st))"

definition syncCerts :: "('w, 't, 'k, 'p, 'c) configReconciler \<Rightarrow> SelfNodeRemediationConfig \<Rightarrow> ('w, error option) state" where
  "syncCerts r cr = withStorage (om_Namespace (cfg_Meta cr)) (do {
     g \<leftarrow> GetCerts (cc_Secrets r);
     case g of
       Inr pem \<Rightarrow> returnM None
     | Inl err \<Rightarrow>
         if \<not> IsNotFound err then returnM (Some err)
         else do {
           c \<leftarrow> onStoreWorld (CreateCerts (cc_Crypto r));
           case c of
             Inl err \<Rightarrow> returnM (Some err)
           | Inr (ca, cert, key) \<Rightarrow> StoreCerts (cc_Secrets r) ca cert key
         }
   })"

section \<open>The daemon set\<close>

definition formatBool :: "bool \<Rightarrow> string" where
  "formatBool b = (if b then ''true'' else ''false'')"

text \<open>The data of the templates; a missing time is a nil dereference.\<close>

definition renderData :: "env \<Rightarrow> SelfNodeRemediationConfig \<Rightarrow> Data outcome" where
  "renderData env snrConfig =
     (let spec = cfg_Spec snrConfig;
          watchdogPath = (if cs_WatchdogFilePath spec = '''' then ''/dev/watchdog'' else cs_WatchdogFilePath spec)
      in case (cs_PeerApiServerTimeout spec, cs_ApiCheckInterval spec, cs_PeerUpdateInterval spec,
               cs_ApiServerTimeout spec, cs_PeerDialTimeout spec, cs_PeerRequestTimeout spec) of
           (Some peerApiServerTimeout, Some apiCheckInterval, Some peerUpdateInterval,
            Some apiServerTimeout, Some peerDialTimeout, Some peerRequestTimeout) \<Rightarrow>
             Ret (MakeRenderData\<lparr>d_Data := [
               ''Image'' \<mapsto> RString (Getenv env ''SELF_NODE_REMEDIATION_IMAGE''),
               ''Namespace'' \<mapsto> RString (om_Namespace (cfg_Meta snrConfig)),
               ''WatchdogPath'' \<mapsto> RString watchdogPath,
               ''PeerApiServerTimeout'' \<mapsto> RInt peerApiServerTimeout,
               ''ApiCheckInterval'' \<mapsto> RInt apiCheckInterval,
               ''PeerUpdateInterval'' \<mapsto> RInt peerUpdateInterval,
               ''ApiServerTimeout'' \<mapsto> RInt apiServerTimeout,
               ''PeerDialTimeout'' \<mapsto> RInt peerDialTimeout,
               ''PeerRequestTimeout'' \<mapsto> RInt peerRequestTimeout,
               ''MaxApiErrorThreshold'' \<mapsto> RInt (cs_MaxApiErrorThreshold spec),
               ''EndpointHealthCheckUrl'' \<mapsto> RString (cs_EndpointHealthCheckUrl spec),
               ''HostPort'' \<mapsto> RInt (cs_HostPort spec),
               ''IsSoftwareRebootEnabled'' \<mapsto>
                 RString ([CHR 0x22] @ formatBool (cs_IsSoftwareRebootEnabled spec) @ [CHR 0x22])]\<rparr>)
         | _ \<Rightarrow> Panic)"

fun convertTolerationsToUnstructed :: "(Toleration \<Rightarrow> json result) \<Rightarrow> Toleration list \<Rightarrow> json list result" where
  "convertTolerationsToUnstructed toUnstructured [] = Inr []"
| "convertTolerationsToUnstructed toUnstructured (toleration # tolerations) =
     (case toUnstructured toleration of
        Inl err \<Rightarrow> Inl err
      | Inr converted \<Rightarrow>
          (case convertTolerationsToUnstructed toUnstructured tolerations of
             Inl err \<Rightarrow> Inl err
           | Inr rest \<Rightarrow> Inr (converted # rest)))"

definition tolerationsPath :: "string list" where
  "tolerationsPath = [''spec'', ''template'', ''spec'', ''tolerations'']"

definition updateDsTolerations :: "(Toleration \<Rightarrow> json result) \<Rightarrow> uns list \<Rightarrow> Toleration list \<Rightarrow> uns list result" where
  "updateDsTolerations toUnstructured objs tolerations =
     (case objs of
        [ds] \<Rightarrow>
          if tolerations = [] then Inr [ds]
          else (case NestedSlice ds tolerationsPath of
                  Inl err \<Rightarrow> Inl err
                | Inr found \<Rightarrow>
                    let existingTolerations = (case found of None \<Rightarrow> [] | Some ts \<Rightarrow> ts) in
                    (case convertTolerationsToUnstructed toUnstructured tolerations of
                       Inl err \<Rightarrow> Inl err
                     | Inr convertedTolerations \<Rightarrow>
                         (case SetNestedSlice ds (existingTolerations @ convertedTolerations) tolerationsPath of
                            Inl err \<Rightarrow> Inl err
                          | Inr ds' \<Rightarrow> Inr [ds'])))
      | _ \<Rightarrow> Inl (ErrMsg ''/install folder does not contain exectly one ds object''))"

definition removeOldDsOnOperatorUpdate ::
  "('w, 't, 'k, 'p, 'c) configReconciler \<Rightarrow> string \<Rightarrow> string \<Rightarrow> ('w, error option) state" where
  "removeOldDsOnOperatorUpdate r dsName lastVersion = do {
     g \<leftarrow> cc_GetDaemonSet r (cc_Namespace r) dsName;
     case g of
       Inl err \<Rightarrow>
         if \<not> IsNotFound err then returnM (Some (Wrapped err ''unable to fetch daemon set'')) else returnM None
     | Inr ds \<Rightarrow>
         if map_val (om_Annotations ds) lastChangedAnnotationKey = lastVersion then returnM None
         else do {
           err \<leftarrow> cc_DeleteDaemonSet r ds;
           returnM (Wrapf err ''unable to delete old daemon set'')
         }
   }"

text \<open>The text of the wrapped error names the object by its name; the code prints all of it.\<close>

definition syncK8sResource ::
  "('w, 't, 'k, 'p, 'c) configReconciler \<Rightarrow> SelfNodeRemediationConfig \<Rightarrow> uns \<Rightarrow> ('w, error option) state" where
  "syncK8sResource r cr obj =
     (case (if GetKind obj \<noteq> ''ClusterRole'' \<and> GetKind obj \<noteq> ''ClusterRoleBinding''
            then cc_SetControllerReference r cr obj else Inr obj) of
        Inl err \<Rightarrow> returnM (Some err)
      | Inr obj' \<Rightarrow> do {
          err \<leftarrow> ApplyObject (cc_Uns r) (cc_Codec r) obj';
          returnM (Wrapf err (''failed to apply object '' @ GetName obj'))
        })"

fun syncObjects ::
  "('w, 't, 'k, 'p, 'c) configReconciler \<Rightarrow> SelfNodeRemediationConfig \<Rightarrow> uns list \<Rightarrow> ('w, error option) state" where
  "syncObjects r snrConfig [] = returnM None"
| "syncObjects r snrConfig (obj # objs) = do {
     err \<leftarrow> removeOldDsOnOperatorUpdate r (GetName obj) (map_val (GetAnnotations obj) lastChangedAnnotationKey);
     case err of
       Some err \<Rightarrow> returnM (Some err)
     | None \<Rightarrow> do {
         err \<leftarrow> syncK8sResource r snrConfig obj;
         case err of
           Some err \<Rightarrow> returnM (Some err)
         | None \<Rightarrow> syncObjects r snrConfig objs
       }
   }"

definition syncConfigDaemonSet ::
  "('w, 't, 'k, 'p, 'c) configReconciler \<Rightarrow> SelfNodeRemediationConfig \<Rightarrow> ('w, error option outcome) state" where
  "syncConfigDaemonSet r snrConfig =
     (case renderData (cc_Env r) snrConfig of
        Panic \<Rightarrow> returnM Panic
      | Ret data \<Rightarrow>
          (case Dir (cc_Render r) (cc_InstallFileFolder r) data of
             Inl err \<Rightarrow> returnM (Ret (Some err))
           | Inr objs \<Rightarrow>
               (case updateDsTolerations (cc_ToUnstructured r) objs (cs_CustomDsTolerations (cfg_Spec snrConfig)) of
                  Inl err \<Rightarrow> returnM (Ret (Some err))
                | Inr objs \<Rightarrow> do {
                    err \<leftarrow> syncObjects r snrConfig objs;
                    returnM (Ret err)
                  })))"

section \<open>Enabling remediations\<close>

fun enableLoop :: "'w client \<Rightarrow> SelfNodeRemediation list \<Rightarrow> ('w, error option) state" where
  "enableLoop cl [] = returnM None"
| "enableLoop cl (cr # crs) =
     (if IsStatusConditionTrue (st_Conditions (snr_Status cr)) DisabledConditionType
      then do {
        u \<leftarrow> cl_StatusUpdateSnr cl (cr\<lparr>snr_Status := (snr_Status cr)\<lparr>st_Conditions :=
               RemoveStatusCondition (st_Conditions (snr_Status cr)) DisabledConditionType\<rparr>\<rparr>);
        case u of
          Inl err \<Rightarrow> returnM (Some err)
        | Inr cr' \<Rightarrow> enableLoop cl crs
      }
      else enableLoop cl crs)"

definition setCRsEnabledStatus :: "'w client \<Rightarrow> ('w, error option) state" where
  "setCRsEnabledStatus cl = do {
     l \<leftarrow> cl_ListSnrs cl;
     case l of
       Inl err \<Rightarrow> returnM (Some err)
     | Inr crs \<Rightarrow> enableLoop cl crs
   }"

section \<open>Reconciling\<close>

text \<open>A requeue after one second is the answer to a conflict; other errors are returned.\<close>

definition Config_Reconcile ::
  "('w, 't, 'k, 'p, 'c) configReconciler \<Rightarrow> string \<Rightarrow> string \<Rightarrow> ('w cfgState, reconcileResult) state" where
  "Config_Reconcile r reqNamespace reqName =
     (if reqName \<noteq> ConfigCRName \<or> reqNamespace \<noteq> cc_Namespace r then returnM (Ret (emptyResult, None))
      else do {
        g \<leftarrow> onCluster (cl_GetConfig (cc_Client r) reqNamespace reqName);
        case g of
          Inl err \<Rightarrow> returnM (Ret (emptyResult, if IsNotFound err then None else Some err))
        | Inr config \<Rightarrow>
            if om_DeletionTimestamp (cfg_Meta config) \<noteq> None then returnM (Ret (emptyResult, None))
            else do {
              modify (\<lambda>s. s\<lparr>cf_calculator := SetConfig (Some config) (cf_calculator s)\<rparr>);
              err \<leftarrow> onCluster (syncCerts r config);
              case err of
                Some err \<Rightarrow> returnM (Ret (emptyResult, Some err))
              | None \<Rightarrow> do {
                  d \<leftarrow> onCluster (syncConfigDaemonSet r config);
                  case d of
                    Panic \<Rightarrow> returnM Panic
                  | Ret (Some err) \<Rightarrow>
                      if IsConflict err then returnM (Ret (requeueAfter Second, None))
                      else returnM (Ret (emptyResult, Some err))
                  | Ret None \<Rightarrow> do {
                      err \<leftarrow> onCluster (setCRsEnabledStatus (cc_Client r));
                      returnM (Ret (emptyResult, err))
                    }
                }
            }
      })"

text \<open>Which events of an owned daemon set start a reconcile: an update only when the generation changed.\<close>

datatype dsEvent = DsCreate | DsUpdate int int | DsDelete | DsGeneric

fun dsPredicate :: "dsEvent \<Rightarrow> bool" where
  "dsPredicate (DsUpdate oldGeneration newGeneration) \<longleftrightarrow> newGeneration \<noteq> oldGeneration"
| "dsPredicate DsDelete \<longleftrightarrow> True"
| "dsPredicate DsCreate \<longleftrightarrow> True"
| "dsPredicate DsGeneric \<longleftrightarrow> True"

section \<open>Lemmas\<close>

lemma run_onCluster [simp]:
  "run_state (onCluster m) s = (case run_state m (cf_world s) of (a, w) \<Rightarrow> (a, s\<lparr>cf_world := w\<rparr>))"
  by (simp add: onCluster_def)

lemma renderData_panics: "renderData env config = Panic \<longleftrightarrow> timeFields (cfg_Spec config) = None"
  by (auto simp: renderData_def timeFields_def Let_def split: option.splits)

lemma syncConfigDaemonSet_no_panic:
  "renderData (cc_Env r) config \<noteq> Panic \<Longrightarrow> fst (run_state (syncConfigDaemonSet r config) w) \<noteq> Panic"
  by (auto simp: syncConfigDaemonSet_def split: outcome.splits sum.splits prod.splits)

text \<open>
  C23: The configuration the duration calculator works with changes only to the configuration of the
  operator's own name and namespace, as it was just read and unless it is being deleted, and then it
  always changes: before certificates and daemon set are synchronised, so also when these fail.
\<close>

theorem calculator_gets_operator_config:
  "cf_calculator (snd (run_state (Config_Reconcile r ns n) s)) =
     (case (n = ConfigCRName \<and> ns = cc_Namespace r, fst (run_state (cl_GetConfig (cc_Client r) ns n) (cf_world s))) of
        (True, Inr config) \<Rightarrow>
          if om_DeletionTimestamp (cfg_Meta config) = None then SetConfig (Some config) (cf_calculator s)
          else cf_calculator s
      | _ \<Rightarrow> cf_calculator s)"
  by (auto simp: Config_Reconcile_def split: prod.split sum.split option.split outcome.split)

text \<open>
  C24: A configuration that the webhook admits never makes the configuration controller panic,
  although it dereferences six pointer fields without a check.
\<close>

theorem admitted_config_reconciles:
  assumes "\<And>config. fst (run_state (cl_GetConfig (cc_Client r) ns n) (cf_world s)) = Inr config \<Longrightarrow>
     \<exists>warnings. Config_ValidateUpdate config = Ret (warnings, None)"
  shows "fst (run_state (Config_Reconcile r ns n) s) \<noteq> Panic"
proof -
  have "renderData (cc_Env r) config \<noteq> Panic"
    if "fst (run_state (cl_GetConfig (cc_Client r) ns n) (cf_world s)) = Inr config" for config
  proof -
    have "validateTimes config \<noteq> Panic" using assms [OF that] by (auto simp: Config_ValidateUpdate_def)
    then show ?thesis by (simp add: renderData_panics validateTimes_panics)
  qed
  then have sync: "fst (run_state (syncConfigDaemonSet r config) w) \<noteq> Panic"
    if "fst (run_state (cl_GetConfig (cc_Client r) ns n) (cf_world s)) = Inr config" for config w
    by (rule syncConfigDaemonSet_no_panic [OF _]) (use that in blast)
  show ?thesis
  proof
    assume "fst (run_state (Config_Reconcile r ns n) s) = Panic"
    then obtain config w w' where "fst (run_state (cl_GetConfig (cc_Client r) ns n) (cf_world s)) = Inr config"
        "run_state (syncConfigDaemonSet r config) w = (Panic, w')"
      by (auto simp: Config_Reconcile_def split: prod.splits sum.splits option.splits outcome.splits if_splits)
    then show False using sync [of config w] by simp
  qed
qed

lemma convert_all:
  "convertTolerationsToUnstructed f ts = Inr js \<Longrightarrow> list_all2 (\<lambda>t j. f t = Inr j) ts js"
  by (induction ts arbitrary: js) (auto simp: list_all2_Cons1 split: sum.splits)

text \<open>
  The custom tolerations of the configuration are appended to those of the one rendered daemon
  set, in order, and nothing outside its specification changes.
\<close>

theorem custom_tolerations_appended:
  assumes "updateDsTolerations toUnstructured [ds] tolerations = Inr objs" and "tolerations \<noteq> []"
  shows "\<exists>ds' existing converted. objs = [ds'] \<and> NestedSlice ds tolerationsPath = Inr existing
     \<and> list_all2 (\<lambda>t j. toUnstructured t = Inr j) tolerations converted
     \<and> NestedSlice ds' tolerationsPath = Inr (Some ((case existing of None \<Rightarrow> [] | Some ts \<Rightarrow> ts) @ converted))
     \<and> (\<forall>f. f \<noteq> ''spec'' \<longrightarrow> ds' f = ds f)"
proof -
  from assms obtain existing converted ds' where e: "NestedSlice ds tolerationsPath = Inr existing"
    and c: "convertTolerationsToUnstructed toUnstructured tolerations = Inr converted"
    and s: "SetNestedSlice ds ((case existing of None \<Rightarrow> [] | Some ts \<Rightarrow> ts) @ converted) tolerationsPath = Inr ds'"
    and o': "objs = [ds']"
    by (auto simp: updateDsTolerations_def Let_def split: sum.splits)
  have "NestedField ds' tolerationsPath = Inr (Some (JArr ((case existing of None \<Rightarrow> [] | Some ts \<Rightarrow> ts) @ converted)))"
    using s unfolding SetNestedSlice_def tolerationsPath_def by (rule SetNestedField_read)
  then have read: "NestedSlice ds' tolerationsPath = Inr (Some ((case existing of None \<Rightarrow> [] | Some ts \<Rightarrow> ts) @ converted))"
    by (simp add: NestedSlice_def)
  have "ds' f = ds f" if "f \<noteq> ''spec''" for f
    using s that unfolding SetNestedSlice_def SetNestedField_def tolerationsPath_def by (rule setNested_top)
  with e convert_all [OF c] read o' show ?thesis by blast
qed

text \<open>
  On the operator's update the old daemon set is deleted exactly when its revision annotation
  differs from the one of the rendered manifest: the code answers without a delete otherwise.
\<close>

theorem old_daemonset_deleted_on_revision_change:
  assumes "run_state (cc_GetDaemonSet r (cc_Namespace r) dsName) w = (Inr ds, w1)"
  shows "run_state (removeOldDsOnOperatorUpdate r dsName lastVersion) w =
     (if map_val (om_Annotations ds) lastChangedAnnotationKey = lastVersion then (None, w1)
      else case run_state (cc_DeleteDaemonSet r ds) w1 of
             (err, w2) \<Rightarrow> (Wrapf err ''unable to delete old daemon set'', w2))"
  using assms by (simp add: removeOldDsOnOperatorUpdate_def)

definition isDisabled :: "SelfNodeRemediation \<Rightarrow> bool" where
  "isDisabled cr \<longleftrightarrow> IsStatusConditionTrue (st_Conditions (snr_Status cr)) DisabledConditionType"

definition enabled :: "SelfNodeRemediation \<Rightarrow> SelfNodeRemediation" where
  "enabled cr = cr\<lparr>snr_Status := (snr_Status cr)\<lparr>st_Conditions :=
     RemoveStatusCondition (st_Conditions (snr_Status cr)) DisabledConditionType\<rparr>\<rparr>"

lemma enableLoop_updates:
  assumes "\<And>snr w. \<exists>snr' w'. run_state (cl_StatusUpdateSnr cl snr) w = (Inr snr', w') \<and> updates w' = updates w @ [snr]"
  shows "\<exists>w'. run_state (enableLoop cl crs) w = (None, w') \<and> updates w' = updates w @ map enabled (filter isDisabled crs)"
proof (induction crs arbitrary: w)
  case (Cons cr crs)
  show ?case
  proof (cases "isDisabled cr")
    case True
    obtain snr' w1 where u: "run_state (cl_StatusUpdateSnr cl (enabled cr)) w = (Inr snr', w1)"
      "updates w1 = updates w @ [enabled cr]" using assms by blast
    then show ?thesis using Cons.IH [of w1] True by (auto simp: isDisabled_def enabled_def)
  next
    case False
    then show ?thesis using Cons.IH [of w] by (simp add: isDisabled_def)
  qed
qed simp

lemma enabled_not_disabled: "\<not> isDisabled (enabled cr)"
  by (simp add: isDisabled_def enabled_def IsStatusConditionTrue_def present_iff_find)



section \<open>Witnesses\<close>

text \<open>A small cluster: one secret, one daemon set, and the status updates written so far.\<close>

record cfgWorld =
  cw_secret :: "Secret option"
  cw_keys :: nat
  cw_ds :: "ObjectMeta option"
  cw_updates :: "SelfNodeRemediation list"

definition onSecret :: "(Secret option, 'a) state \<Rightarrow> (cfgWorld, 'a) state" where
  "onSecret = zoom cw_secret (\<lambda>x w. w\<lparr>cw_secret := x\<rparr>)"

definition disabledSnr :: SelfNodeRemediation where
  "disabledSnr = \<lparr>snr_Meta = emptyMeta\<lparr>om_Name := ''worker-1''\<rparr>, snr_RemediationStrategy = ''Automatic'',
     snr_Status = \<lparr>st_TimeAssumedRebooted = None, st_Phase = None, st_LastError = '''',
       st_Conditions = [\<lparr>c_Type = DisabledConditionType, c_Status = ConditionTrue, c_Reason = ''r'', c_Message = '''',
         c_LastTransitionTime = None, c_ObservedGeneration = 0\<rparr>]\<rparr>\<rparr>"

definition cfgClient :: "cfgWorld client" where
  "cfgClient = (staticClient [])\<lparr>
     cl_GetConfig := (\<lambda>ns n. returnM (Inr operatorConfig)), cl_ListSnrs := returnM (Inr [disabledSnr]),
     cl_StatusUpdateSnr := (\<lambda>s. State (\<lambda>w. (Inr s, w\<lparr>cw_updates := cw_updates w @ [s]\<rparr>)))\<rparr>"

definition cfgCrypto :: "(cfgWorld, nat, string, string) crypto" where
  "cfgCrypto = \<lparr>
     cr_Now = gets (\<lambda>w. int (cw_keys w)), cr_AddDate = cr_AddDate countingCrypto,
     cr_GenerateKey = (\<lambda>bits. State (\<lambda>w. (Inr (cw_keys w), w\<lparr>cw_keys := Suc (cw_keys w)\<rparr>))),
     cr_CreateCertificate = (\<lambda>cert ca k caKey. returnM (Inr (nat_digits k))),
     cr_MarshalPKCS1PrivateKey = nat_digits, cr_pemEncode = (\<lambda>t b. Inr b),
     cr_X509KeyPair = cr_X509KeyPair countingCrypto, cr_AppendCertsFromPEM = Some\<rparr>"

definition cfgReconciler :: "(cfgWorld, segment list, nat, string, string) configReconciler" where
  "cfgReconciler = \<lparr>
     cc_Client = cfgClient,
     cc_Uns = \<lparr>uc_Get = (\<lambda>g ns n. returnM (Inl (ApiStatus NotFound n))), uc_Create = (\<lambda>u. returnM None),
               uc_Update = (\<lambda>u. returnM None)\<rparr>,
     cc_Secrets = \<lparr>sc_GetSecret = (\<lambda>ns n. onSecret (sc_GetSecret secretStore ns n)),
                   sc_CreateSecret = (\<lambda>s. onSecret (sc_CreateSecret secretStore s))\<rparr>,
     cc_GetDaemonSet = (\<lambda>ns n. gets (\<lambda>w. case cw_ds w of None \<Rightarrow> Inl (ApiStatus NotFound n) | Some m \<Rightarrow> Inr m)),
     cc_DeleteDaemonSet = (\<lambda>m. State (\<lambda>w. (None, w\<lparr>cw_ds := None\<rparr>))),
     cc_SetControllerReference = (\<lambda>c u. Inr u),
     cc_ToUnstructured = (\<lambda>t. Inr (JObj [''key'' \<mapsto> JString (tol_Key t)])),
     cc_Codec = plainCodec,
     cc_Render = \<lparr>re_Walk = (\<lambda>dir. []), re_ReadFile = (\<lambda>p. Inr ''''), re_Parse = (\<lambda>p fs s. Inr [Lit s]),
                  re_Execute = executeSegments, re_Decode = (\<lambda>s. ([], None))\<rparr>,
     cc_Crypto = cfgCrypto, cc_Env = operatorEnv, cc_InstallFileFolder = ''./install'', cc_Namespace = ''op''\<rparr>"

definition cfgWorld0 :: cfgWorld where
  "cfgWorld0 = \<lparr>cw_secret = None, cw_keys = 3,
     cw_ds = Some (emptyMeta\<lparr>om_Annotations := Some [lastChangedAnnotationKey \<mapsto> ''0'']\<rparr>), cw_updates = []\<rparr>"

lemma cfgCrypto_sound: "cryptoSound cfgCrypto"
  by (auto simp: cryptoSound_def madeBy_def cfgCrypto_def countingCrypto_def)

lemma cfgCrypto_run:
  "run_state (CreateCerts cfgCrypto) cfgWorld0 =
     (Inr (nat_digits 3, nat_digits 4, nat_digits 4), cfgWorld0\<lparr>cw_keys := 5\<rparr>)"
  by (simp add: CreateCerts_def createCertTemplate_def createPrivKey_def selfSign_def sign_def certToPEM_def privKeyToPEM_def
      toPem_eq orReturn_def cfgCrypto_def cfgWorld0_def Let_def)

lemma operatorConfig_ns: "om_Namespace (cfg_Meta operatorConfig) = ''op''"
  by (simp add: operatorConfig_def)


theorem admitted_config_reconciles_witness:
  "fst (run_state (Config_Reconcile cfgReconciler ''op'' ConfigCRName) \<lparr>cf_world = cfgWorld0, cf_calculator = NewCalculator cfgClient\<rparr>) \<noteq> Panic"
  by (rule admitted_config_reconciles) (simp add: cfgReconciler_def cfgClient_def operatorConfig_update)

definition exampleToleration :: Toleration where
  "exampleToleration = \<lparr>tol_Key = ''gpu'', tol_Operator = ''Exists'', tol_Value = '''', tol_Effect = ''NoSchedule''\<rparr>"

theorem custom_tolerations_appended_witness:
  "\<exists>ds'. updateDsTolerations (cc_ToUnstructured cfgReconciler) [exampleDs] [exampleToleration] = Inr [ds']
     \<and> NestedSlice ds' tolerationsPath = Inr (Some [JObj [''key'' \<mapsto> JString ''gpu'']]) \<and> ds' ''kind'' = exampleDs ''kind''"
proof -
  have found: "NestedSlice exampleDs tolerationsPath = Inr None"
    by (simp add: NestedSlice_def NestedField_def exampleDs_def tolerationsPath_def)
  have set: "\<exists>ds'. SetNestedSlice exampleDs ts tolerationsPath = Inr ds'" for ts
    by (simp add: SetNestedSlice_def SetNestedField_def tolerationsPath_def exampleDs_def)
  obtain ds' where u: "updateDsTolerations (cc_ToUnstructured cfgReconciler) [exampleDs] [exampleToleration] = Inr [ds']"
    using set [of "[JObj [''key'' \<mapsto> JString (tol_Key exampleToleration)]]"]
    by (auto simp: updateDsTolerations_def found cfgReconciler_def)
  from custom_tolerations_appended [OF u] show ?thesis using u
    by (auto simp: found list_all2_Cons1 cfgReconciler_def exampleToleration_def)
qed

theorem old_daemonset_deleted_on_revision_change_witness:
  "run_state (removeOldDsOnOperatorUpdate cfgReconciler ''self-node-remediation-ds'' ''1'') cfgWorld0
     = (None, cfgWorld0\<lparr>cw_ds := None\<rparr>)"
  by (subst old_daemonset_deleted_on_revision_change [where ?w1.0 = cfgWorld0 and ds = "the (cw_ds cfgWorld0)"])
     (simp_all add: cfgReconciler_def cfgWorld0_def map_val_def map_get_def)

lemma cfgClient_simps:
  "cl_ListSnrs cfgClient = returnM (Inr [disabledSnr])"
  "run_state (cl_StatusUpdateSnr cfgClient s) w = (Inr s, w\<lparr>cw_updates := cw_updates w @ [s]\<rparr>)"
  "cw_updates cfgWorld0 = []" "isDisabled disabledSnr"
  by (simp_all add: cfgClient_def cfgWorld0_def isDisabled_def disabledSnr_def IsStatusConditionTrue_def)


end
