(* ===== verification/Startup.thy ===== *)
theory Startup
  imports Config_Controller
begin

text \<open>
  Starting the process (\<^verbatim>\<open>main.go\<close>): the environment of an agent, the set-up of manager and agent, and
  the order in which their parts are registered before anything runs. What is registered is a
  history variable. The controller-runtime manager, the constructors that can fail for reasons outside
  the repository and the process exit are parameters or outcomes.
\<close>

section \<open>Reading the environment\<close>

datatype 'a process = Go 'a | Exited

definition nodeNameEnvVar :: string where "nodeNameEnvVar = ''MY_NODE_NAME''"

definition machineAnnotation :: string where "machineAnnotation = ''machine.openshift.io/machine''"

definition getIntEnvVarOrDie :: "env \<Rightarrow> string \<Rightarrow> int process" where
  "getIntEnvVarOrDie env varName =
     (case Atoi (Getenv env varName) of Inl err \<Rightarrow> Exited | Inr intVar \<Rightarrow> Go intVar)"

definition getDurEnvVarOrDie :: "env \<Rightarrow> string \<Rightarrow> duration process" where
  "getDurEnvVarOrDie env varName =
     (case getIntEnvVarOrDie env varName of Exited \<Rightarrow> Exited | Go intVar \<Rightarrow> Go intVar)"

text \<open>\<^verbatim>\<open>cache.SplitMetaNamespaceKey\<close>: a name, or a namespace and a name.\<close>

definition splitSlash :: "string \<Rightarrow> string \<times> string option" where
  "splitSlash s =
     (case dropWhile (\<lambda>c. c \<noteq> CHR ''/'') s of
        [] \<Rightarrow> (s, None)
      | c # rest \<Rightarrow> (takeWhile (\<lambda>c. c \<noteq> CHR ''/'') s, Some rest))"

definition SplitMetaNamespaceKey :: "string \<Rightarrow> (string \<times> string) result" where
  "SplitMetaNamespaceKey key =
     (case splitSlash key of
        (name, None) \<Rightarrow> Inr ('''', name)
      | (namespace, Some name) \<Rightarrow>
          if CHR ''/'' \<in> set name
          then Inl (ErrMsg (''unexpected key format: '' @ [CHR 0x22] @ key @ [CHR 0x22]))
          else Inr (namespace, name))"

definition getMachineName :: "'w client \<Rightarrow> string \<Rightarrow> ('w, string result) state" where
  "getMachineName reader myNodeName = do {
     r \<leftarrow> cl_GetNode reader myNodeName;
     returnM (case r of
         Inl err \<Rightarrow> Inl err
       | Inr node \<Rightarrow>
           (case map_get (om_Annotations (n_Meta node)) machineAnnotation of
              Some namespacedMachine \<Rightarrow>
                (case SplitMetaNamespaceKey namespacedMachine of
                   Inl err \<Rightarrow> Inl err
                 | Inr (_, machineName) \<Rightarrow> Inr machineName)
            | None \<Rightarrow> Inr ''''))
   }"

section \<open>The web hook server\<close>

record webhookOptions =
  wo_Port :: int
  wo_CertDir :: string
  wo_CertName :: string
  wo_KeyName :: string
  wo_NextProtos :: "string list option"

definition WebhookCertDir :: string where "WebhookCertDir = ''/apiserver.local.config/certificates''"

definition WebhookCertName :: string where "WebhookCertName = ''apiserver.crt''"

definition WebhookKeyName :: string where "WebhookKeyName = ''apiserver.key''"

text \<open>Without HTTP/2 the only protocol offered is HTTP/1.1.\<close>

definition tlsOpts :: "bool \<Rightarrow> string list option" where
  "tlsOpts enableHTTP2 = (if \<not> enableHTTP2 then Some [''http/1.1''] else None)"

definition getWebhookServer :: "(string \<Rightarrow> ('w, bool) state) \<Rightarrow> string list option \<Rightarrow> ('w, webhookOptions) state" where
  "getWebhookServer stat nextProtos = do {
     let options = \<lparr>wo_Port = 9443, wo_CertDir = '''', wo_CertName = '''', wo_KeyName = '''', wo_NextProtos = nextProtos\<rparr>;
     certThere \<leftarrow> stat (WebhookCertDir @ ''/'' @ WebhookCertName);
     keyThere \<leftarrow> (if certThere then stat (WebhookCertDir @ ''/'' @ WebhookKeyName) else returnM False);
     returnM (if keyThere
              then options\<lparr>wo_CertDir := WebhookCertDir, wo_CertName := WebhookCertName, wo_KeyName := WebhookKeyName\<rparr>
              else options)
   }"

section \<open>Setting up\<close>

record apiCheckOptions =
  ao_MyNodeName :: string
  ao_MyMachineName :: string
  ao_CheckInterval :: duration
  ao_MaxErrorsThreshold :: int
  ao_ApiServerTimeout :: duration
  ao_PeerDialTimeout :: duration
  ao_PeerRequestTimeout :: duration
  ao_PeerHealthPort :: int
  ao_MaxTimeForNoPeersResponse :: duration

text \<open>The parts that are registered with the manager, with the values they are built from.\<close>

datatype part =
    ConfigWebhook
  | TemplateWebhook
  | RemediationWebhook
  | ConfigController string
  | ConfigInitializer
  | TemplateCreator
  | RemediationController bool string string
  | WatchdogRunnable
  | PeersRunnable string duration duration
  | ControlPlaneRunnable string
  | ApiCheckRunnable apiCheckOptions
  | PeerHealthServer int

record 'w startupEnv =
  se_Client :: "'w client"
  se_Env :: env
  se_Register :: "part \<Rightarrow> ('w, error option) state"
  se_NewLinux :: "('w, error option) state"
  se_GetTimeout :: "('w, duration) state"
  se_NewServer :: "int \<Rightarrow> ('w, error option) state"
  se_Stat :: "string \<Rightarrow> ('w, bool) state"
  se_NewManager :: "webhookOptions \<Rightarrow> ('w, error option) state"
  se_InitTaintFlags :: "('w, error option) state"
  se_AddHealthzCheck :: "('w, error option) state"
  se_AddReadyzCheck :: "('w, error option) state"
  se_Start :: "('w, error option) state"

record 'w startup =
  su_world :: 'w
  su_registered :: "part list"
  su_started :: bool

definition onProc :: "('w, 'a) state \<Rightarrow> ('w startup, 'a) state" where
  "onProc = zoom su_world (\<lambda>w s. s\<lparr>su_world := w\<rparr>)"

definition andThen :: "('s, 'a process) state \<Rightarrow> ('a \<Rightarrow> ('s, 'b process) state) \<Rightarrow> ('s, 'b process) state" where
  "andThen m f = do { r \<leftarrow> m; case r of Exited \<Rightarrow> returnM Exited | Go x \<Rightarrow> f x }"

text \<open>A step whose error ends the process.\<close>

definition orExit :: "('w, error option) state \<Rightarrow> ('w startup, unit process) state" where
  "orExit m = do { err \<leftarrow> onProc m; returnM (case err of Some e \<Rightarrow> Exited | None \<Rightarrow> Go ()) }"

definition register :: "'w startupEnv \<Rightarrow> part \<Rightarrow> ('w startup, unit process) state" where
  "register se p = andThen (orExit (se_Register se p)) (\<lambda>_. do {
     modify (\<lambda>s. s\<lparr>su_registered := su_registered s @ [p]\<rparr>);
     returnM (Go ())
   })"

definition orElse :: "'a result \<Rightarrow> 'a process" where
  "orElse r = (case r of Inl err \<Rightarrow> Exited | Inr x \<Rightarrow> Go x)"

definition initSelfNodeRemediationManager :: "'w startupEnv \<Rightarrow> ('w startup, unit process) state" where
  "initSelfNodeRemediationManager se =
     andThen (register se ConfigWebhook) (\<lambda>_.
     andThen (register se TemplateWebhook) (\<lambda>_.
     andThen (register se RemediationWebhook) (\<lambda>_.
     andThen (returnM (orElse (GetDeploymentNamespace (se_Env se)))) (\<lambda>ns.
     andThen (register se (ConfigController ns)) (\<lambda>_.
     andThen (register se ConfigInitializer) (\<lambda>_.
     andThen (register se TemplateCreator) (\<lambda>_.
     let myNodeName = Getenv (se_Env se) nodeNameEnvVar in
     register se (RemediationController False myNodeName ns))))))))"

text \<open>
  The agent. A watchdog that cannot be made is only logged; its timeout is read before it is started.
\<close>

definition initWatchdog :: "'w startupEnv \<Rightarrow> ('w startup, (bool \<times> duration) process) state" where
  "initWatchdog se = do {
     err \<leftarrow> onProc (se_NewLinux se);
     case err of
       Some e \<Rightarrow> returnM (Go (False, 0))
     | None \<Rightarrow> andThen (register se WatchdogRunnable) (\<lambda>_. do {
         watchdogTimeout \<leftarrow> onProc (se_GetTimeout se);
         returnM (Go (True, watchdogTimeout))
       })
   }"

definition initSelfNodeRemediationAgent :: "'w startupEnv \<Rightarrow> ('w startup, unit process) state" where
  "initSelfNodeRemediationAgent se =
     (let env = se_Env se; myNodeName = Getenv env nodeNameEnvVar in
      if myNodeName = '''' then returnM Exited
      else
      andThen (returnM (orElse (GetDeploymentNamespace env))) (\<lambda>ns.
      andThen (initWatchdog se) (\<lambda>(wasWatchdogInitiated, watchdogTimeout).
      andThen (orExit (UpdateNodeAnnotations (se_Client se) env wasWatchdogInitiated watchdogTimeout myNodeName)) (\<lambda>_.
      andThen (returnM (getDurEnvVarOrDie env ''PEER_UPDATE_INTERVAL'')) (\<lambda>peerUpdateInterval.
      andThen (returnM (getDurEnvVarOrDie env ''PEER_API_SERVER_TIMEOUT'')) (\<lambda>peerApiServerTimeout.
      andThen (register se (PeersRunnable myNodeName peerUpdateInterval peerApiServerTimeout)) (\<lambda>_.
      andThen (returnM (getDurEnvVarOrDie env ''API_CHECK_INTERVAL'')) (\<lambda>apiCheckInterval.
      andThen (returnM (getIntEnvVarOrDie env ''MAX_API_ERROR_THRESHOLD'')) (\<lambda>maxErrorThreshold.
      andThen (returnM (getDurEnvVarOrDie env ''API_SERVER_TIMEOUT'')) (\<lambda>apiServerTimeout.
      andThen (returnM (getDurEnvVarOrDie env ''PEER_DIAL_TIMEOUT'')) (\<lambda>peerDialTimeout.
      andThen (returnM (getDurEnvVarOrDie env ''PEER_REQUEST_TIMEOUT'')) (\<lambda>peerRequestTimeout.
      andThen (returnM (getIntEnvVarOrDie env ''HOST_PORT'')) (\<lambda>peerHealthDefaultPort.
      andThen (do { m \<leftarrow> onProc (getMachineName (se_Client se) myNodeName); returnM (orElse m) }) (\<lambda>machineName.
      let apiConnectivityCheckConfig = \<lparr>ao_MyNodeName = myNodeName, ao_MyMachineName = machineName,
            ao_CheckInterval = apiCheckInterval, ao_MaxErrorsThreshold = maxErrorThreshold,
            ao_ApiServerTimeout = apiServerTimeout, ao_PeerDialTimeout = peerDialTimeout,
            ao_PeerRequestTimeout = peerRequestTimeout, ao_PeerHealthPort = peerHealthDefaultPort,
            ao_MaxTimeForNoPeersResponse = MaxTimeForNoPeersResponse\<rparr> in
      andThen (register se (ControlPlaneRunnable myNodeName)) (\<lambda>_.
      andThen (register se (ApiCheckRunnable apiConnectivityCheckConfig)) (\<lambda>_.
      andThen (register se (RemediationController True myNodeName ns)) (\<lambda>_.
      andThen (orExit (se_NewServer se peerHealthDefaultPort)) (\<lambda>_.
      register se (PeerHealthServer peerHealthDefaultPort)))))))))))))))))))"

text \<open>An error of the taint flags is only logged.\<close>

definition main :: "'w startupEnv \<Rightarrow> bool \<Rightarrow> bool \<Rightarrow> ('w startup, unit process) state" where
  "main se enableHTTP2 isManager = do {
     server \<leftarrow> onProc (getWebhookServer (se_Stat se) (tlsOpts enableHTTP2));
     andThen (orExit (se_NewManager se server)) (\<lambda>_. do {
       err \<leftarrow> onProc (se_InitTaintFlags se);
       andThen (if isManager then initSelfNodeRemediationManager se else initSelfNodeRemediationAgent se) (\<lambda>_.
       andThen (orExit (se_AddHealthzCheck se)) (\<lambda>_.
       andThen (orExit (se_AddReadyzCheck se)) (\<lambda>_. do {
         modify (\<lambda>s. s\<lparr>su_started := True\<rparr>);
         orExit (se_Start se)
       })))
     })
   }"

section \<open>Lemmas\<close>

lemma run_onProc:
  "run_state (onProc m) s = (a, s') \<longleftrightarrow> (\<exists>w. run_state m (su_world s) = (a, w) \<and> s' = s\<lparr>su_world := w\<rparr>)"
  by (auto simp: onProc_def split: prod.splits)

lemma andThen_Go:
  "run_state (andThen m f) s = (Go y, s'') \<longleftrightarrow>
     (\<exists>x s'. run_state m s = (Go x, s') \<and> run_state (f x) s' = (Go y, s''))"
  by (auto simp: andThen_def split: prod.splits process.splits)

lemma andThen_run:
  "run_state (andThen m f) s = (r, s'') \<longleftrightarrow>
     r = Exited \<and> run_state m s = (Exited, s'') \<or>
     (\<exists>x s'. run_state m s = (Go x, s') \<and> run_state (f x) s' = (r, s''))"
  by (auto simp: andThen_def split: prod.splits process.splits)

lemma returnM_Go: "run_state (returnM r) s = (Go x, s') \<longleftrightarrow> r = Go x \<and> s' = s"
  by auto

lemma orExit_Go:
  "run_state (orExit m) s = (Go x, s') \<Longrightarrow> su_registered s' = su_registered s \<and> su_started s' = su_started s"
  by (auto simp: orExit_def run_bind_iff run_onProc simp del: run_state_bind)

lemma register_Go:
  "run_state (register se p) s = (Go x, s') \<Longrightarrow>
     su_registered s' = su_registered s @ [p] \<and> su_started s' = su_started s"
  by (auto simp: register_def andThen_Go dest!: orExit_Go)

lemma initWatchdog_Go:
  "run_state (initWatchdog se) s = (Go x, s') \<Longrightarrow>
     su_registered s' = su_registered s @ (if fst x then [WatchdogRunnable] else []) \<and> su_started s' = su_started s"
  by (auto simp: initWatchdog_def andThen_Go run_bind_iff run_onProc split: option.splits dest!: register_Go
      simp del: run_state_bind)

text \<open>Setting up never marks the process as started.\<close>

lemma keeps_onProc [framed_intros]: "framed (keeps su_started) (onProc m)"
  by (rule framedI) (auto simp: keeps_def run_onProc)

lemma keeps_andThen [framed_intros]:
  "framed (keeps su_started) m \<Longrightarrow> (\<And>x. framed (keeps su_started) (f x)) \<Longrightarrow> framed (keeps su_started) (andThen m f)"
  unfolding andThen_def
  by (rule keeps_rules, assumption) (auto split: process.split intro: keeps_rules)

lemma keeps_orExit [framed_intros]: "framed (keeps su_started) (orExit m)"
  unfolding orExit_def by (intro keeps_rules framed_intros)

lemma keeps_register [framed_intros]: "framed (keeps su_started) (register se p)"
  unfolding register_def by (intro keeps_rules framed_intros) (simp add: keeps_def)

lemma keeps_initWatchdog [framed_intros]: "framed (keeps su_started) (initWatchdog se)"
  unfolding initWatchdog_def by (intro keeps_rules framed_intros)

lemma keeps_manager [framed_intros]: "framed (keeps su_started) (initSelfNodeRemediationManager se)"
  unfolding initSelfNodeRemediationManager_def Let_def by (intro keeps_rules framed_intros)

lemma keeps_agent [framed_intros]: "framed (keeps su_started) (initSelfNodeRemediationAgent se)"
  unfolding initSelfNodeRemediationAgent_def Let_def by (intro keeps_rules framed_intros)

text \<open>A process that was started has been set up.\<close>

lemma main_started:
  assumes "run_state (main se http2 isManager) s = (res, s')" and "su_started s'" and "\<not> su_started s"
  obtains s1 s2 where "su_registered s1 = su_registered s"
    "run_state (if isManager then initSelfNodeRemediationManager se else initSelfNodeRemediationAgent se) s1 = (Go (), s2)"
    "su_registered s' = su_registered s2"
proof -
  let ?init = "if isManager then initSelfNodeRemediationManager se else initSelfNodeRemediationAgent se"
  define ran where
    "ran ps ps' \<longleftrightarrow> (\<exists>t t'. su_registered t = ps \<and> run_state ?init t = (Go (), t') \<and> su_registered t' = ps')" for ps ps'
  have init: "su_started t' = su_started t \<and> (a = Go () \<longrightarrow> ran (su_registered t) (su_registered t'))"
    if "run_state ?init t = (a, t')" for a t t'
  proof -
    have "framed (keeps su_started) ?init" by (intro framed_intros)
    then show ?thesis using that by (auto dest: framedD simp: keeps_def ran_def)
  qed
  have exit: "su_started t' = su_started t \<and> su_registered t' = su_registered t"
    if "run_state (orExit m) t = (a, t')" for m :: "('a, error option) state" and a t t'
    using that by (auto simp: orExit_def run_bind_iff run_onProc simp del: run_state_bind)
  note run = assms(1) [unfolded main_def run_bind_iff andThen_run run_onProc]
  have "ran (su_registered s) (su_registered s')"
    using run by (elim exE conjE disjE; insert assms(2,3)) (auto dest!: exit init)
  then show thesis by (auto intro: that simp: ran_def)
qed

text \<open>The parts of a complete set-up.\<close>

lemma manager_registered:
  assumes "run_state (initSelfNodeRemediationManager se) s = (Go x, s')"
  shows "\<exists>ns. GetDeploymentNamespace (se_Env se) = Inr ns
     \<and> su_registered s' = su_registered s @ [ConfigWebhook, TemplateWebhook, RemediationWebhook, ConfigController ns,
          ConfigInitializer, TemplateCreator, RemediationController False (Getenv (se_Env se) nodeNameEnvVar) ns]"
  using assms unfolding initSelfNodeRemediationManager_def Let_def andThen_Go returnM_Go
  by (auto simp: orElse_def split: sum.splits dest!: register_Go)

definition agentParts :: "env \<Rightarrow> bool \<Rightarrow> string \<Rightarrow> string \<Rightarrow> part list \<Rightarrow> bool" where
  "agentParts env wd ns machineName parts \<longleftrightarrow>
     (\<exists>pui pat aci met ast pdt prt port.
        getDurEnvVarOrDie env ''PEER_UPDATE_INTERVAL'' = Go pui \<and> getDurEnvVarOrDie env ''PEER_API_SERVER_TIMEOUT'' = Go pat
        \<and> getDurEnvVarOrDie env ''API_CHECK_INTERVAL'' = Go aci \<and> getIntEnvVarOrDie env ''MAX_API_ERROR_THRESHOLD'' = Go met
        \<and> getDurEnvVarOrDie env ''API_SERVER_TIMEOUT'' = Go ast \<and> getDurEnvVarOrDie env ''PEER_DIAL_TIMEOUT'' = Go pdt
        \<and> getDurEnvVarOrDie env ''PEER_REQUEST_TIMEOUT'' = Go prt \<and> getIntEnvVarOrDie env ''HOST_PORT'' = Go port
        \<and> parts = (if wd then [WatchdogRunnable] else []) @ [PeersRunnable (Getenv env nodeNameEnvVar) pui pat,
             ControlPlaneRunnable (Getenv env nodeNameEnvVar),
             ApiCheckRunnable \<lparr>ao_MyNodeName = Getenv env nodeNameEnvVar, ao_MyMachineName = machineName, ao_CheckInterval = aci,
               ao_MaxErrorsThreshold = met, ao_ApiServerTimeout = ast, ao_PeerDialTimeout = pdt,
               ao_PeerRequestTimeout = prt, ao_PeerHealthPort = port, ao_MaxTimeForNoPeersResponse = 30 * Second\<rparr>,
             RemediationController True (Getenv env nodeNameEnvVar) ns, PeerHealthServer port])"

lemma agent_registered:
  assumes "run_state (initSelfNodeRemediationAgent se) s = (Go x, s')"
  shows "\<exists>wd ns machineName parts. Getenv (se_Env se) nodeNameEnvVar \<noteq> '''' \<and> GetDeploymentNamespace (se_Env se) = Inr ns
     \<and> agentParts (se_Env se) wd ns machineName parts \<and> su_registered s' = su_registered s @ parts"
proof -
  have "Getenv (se_Env se) nodeNameEnvVar \<noteq> ''''"
    using assms by (auto simp: initSelfNodeRemediationAgent_def Let_def)
  then show ?thesis
    using assms unfolding initSelfNodeRemediationAgent_def Let_def andThen_Go returnM_Go
    by (simp only: if_False case_prod_unfold andThen_Go returnM_Go run_bind_iff)
       (fastforce dest!: register_Go orExit_Go initWatchdog_Go
         simp: run_onProc agentParts_def MaxTimeForNoPeersResponse_def orElse_def split: sum.splits)
qed


section \<open>From the configuration to the agent\<close>

text \<open>
  The environment of the agent's container, as \<^verbatim>\<open>install/self-node-remediation-deamonset.yaml\<close> declares
  the values that come from the configuration: a field action each, in quotes where the manifest has
  them. A quoted YAML scalar stands for the text between the quotes.
\<close>

definition quoted :: "string \<Rightarrow> segment list" where
  "quoted f = [Lit [CHR 0x22], Field f, Lit [CHR 0x22]]"

definition manifestEnv :: "(string \<times> segment list) list" where
  "manifestEnv = [
     (''PEER_API_SERVER_TIMEOUT'', quoted ''PeerApiServerTimeout''), (''API_CHECK_INTERVAL'', quoted ''ApiCheckInterval''),
     (''PEER_UPDATE_INTERVAL'', quoted ''PeerUpdateInterval''), (''API_SERVER_TIMEOUT'', quoted ''ApiServerTimeout''),
     (''PEER_DIAL_TIMEOUT'', quoted ''PeerDialTimeout''), (''PEER_REQUEST_TIMEOUT'', quoted ''PeerRequestTimeout''),
     (''MAX_API_ERROR_THRESHOLD'', quoted ''MaxApiErrorThreshold''),
     (''IS_SOFTWARE_REBOOT_ENABLED'', [Field ''IsSoftwareRebootEnabled'']), (''HOST_PORT'', quoted ''HostPort'')]"

definition yamlScalar :: "string \<Rightarrow> string" where
  "yamlScalar s = (if s \<noteq> [] \<and> hd s = CHR 0x22 \<and> last s = CHR 0x22 then butlast (tl s) else s)"

definition containerEnv :: "Data \<Rightarrow> env" where
  "containerEnv d v =
     (case map_of manifestEnv v of
        None \<Rightarrow> None
      | Some segs \<Rightarrow> (case executeSegments segs (d_Data d) of Inl err \<Rightarrow> None | Inr s \<Rightarrow> Some (yamlScalar s)))"

lemma manifest_lookup:
  "map_of manifestEnv ''PEER_UPDATE_INTERVAL'' = Some (quoted ''PeerUpdateInterval'')"
  "map_of manifestEnv ''PEER_API_SERVER_TIMEOUT'' = Some (quoted ''PeerApiServerTimeout'')"
  "map_of manifestEnv ''API_CHECK_INTERVAL'' = Some (quoted ''ApiCheckInterval'')"
  "map_of manifestEnv ''MAX_API_ERROR_THRESHOLD'' = Some (quoted ''MaxApiErrorThreshold'')"
  "map_of manifestEnv ''API_SERVER_TIMEOUT'' = Some (quoted ''ApiServerTimeout'')"
  "map_of manifestEnv ''PEER_DIAL_TIMEOUT'' = Some (quoted ''PeerDialTimeout'')"
  "map_of manifestEnv ''PEER_REQUEST_TIMEOUT'' = Some (quoted ''PeerRequestTimeout'')"
  "map_of manifestEnv ''HOST_PORT'' = Some (quoted ''HostPort'')"
  "map_of manifestEnv ''IS_SOFTWARE_REBOOT_ENABLED'' = Some [Field ''IsSoftwareRebootEnabled'']"
  by (simp_all add: manifestEnv_def)

lemma execute_quoted:
  "m f = Some (RInt i) \<Longrightarrow> executeSegments (quoted f) m = Inr ([CHR 0x22] @ Itoa i @ [CHR 0x22])"
  by (simp add: quoted_def printValue_def)

lemma yamlScalar_quoted [simp]: "yamlScalar ([CHR 0x22] @ s @ [CHR 0x22]) = s"
  by (simp add: yamlScalar_def)

lemma containerEnv_int:
  "map_of manifestEnv v = Some (quoted f) \<Longrightarrow> d_Data d f = Some (RInt i) \<Longrightarrow> containerEnv d v = Some (Itoa i)"
  unfolding containerEnv_def by (simp only: execute_quoted option.case sum.case yamlScalar_quoted)

lemma renderData_fields:
  assumes "renderData env config = Ret d"
  obtains pat aci pui ast pdt prt
  where "cs_PeerApiServerTimeout (cfg_Spec config) = Some pat" "cs_ApiCheckInterval (cfg_Spec config) = Some aci"
    "cs_PeerUpdateInterval (cfg_Spec config) = Some pui" "cs_ApiServerTimeout (cfg_Spec config) = Some ast"
    "cs_PeerDialTimeout (cfg_Spec config) = Some pdt" "cs_PeerRequestTimeout (cfg_Spec config) = Some prt"
    "d_Data d ''PeerApiServerTimeout'' = Some (RInt pat)" "d_Data d ''ApiCheckInterval'' = Some (RInt aci)"
    "d_Data d ''PeerUpdateInterval'' = Some (RInt pui)" "d_Data d ''ApiServerTimeout'' = Some (RInt ast)"
    "d_Data d ''PeerDialTimeout'' = Some (RInt pdt)" "d_Data d ''PeerRequestTimeout'' = Some (RInt prt)"
    "d_Data d ''MaxApiErrorThreshold'' = Some (RInt (cs_MaxApiErrorThreshold (cfg_Spec config)))"
    "d_Data d ''HostPort'' = Some (RInt (cs_HostPort (cfg_Spec config)))"
    "d_Data d ''IsSoftwareRebootEnabled'' =
       Some (RString ([CHR 0x22] @ formatBool (cs_IsSoftwareRebootEnabled (cfg_Spec config)) @ [CHR 0x22]))"
  using assms by (auto simp: renderData_def Let_def split: option.splits)

definition int64s :: "SelfNodeRemediationConfigSpec \<Rightarrow> bool" where
  "int64s spec \<longleftrightarrow>
     (\<forall>t \<in> {cs_PeerApiServerTimeout spec, cs_ApiCheckInterval spec, cs_PeerUpdateInterval spec, cs_ApiServerTimeout spec,
            cs_PeerDialTimeout spec, cs_PeerRequestTimeout spec, Some (cs_MaxApiErrorThreshold spec), Some (cs_HostPort spec)}.
        is_int64 (the t))"

lemma container_vars:
  assumes "renderData env config = Ret d" and "spec = cfg_Spec config"
    and "\<And>v. v \<in> set (map fst manifestEnv) \<Longrightarrow> se_Env se v = containerEnv d v"
    and "int64s spec"
  obtains pat aci pui ast pdt prt where "cs_PeerApiServerTimeout spec = Some pat" "cs_ApiCheckInterval spec = Some aci"
    "cs_PeerUpdateInterval spec = Some pui" "cs_ApiServerTimeout spec = Some ast" "cs_PeerDialTimeout spec = Some pdt"
    "cs_PeerRequestTimeout spec = Some prt"
    "getIntEnvVarOrDie (se_Env se) ''PEER_UPDATE_INTERVAL'' = Go pui"
    "getIntEnvVarOrDie (se_Env se) ''PEER_API_SERVER_TIMEOUT'' = Go pat"
    "getIntEnvVarOrDie (se_Env se) ''API_CHECK_INTERVAL'' = Go aci"
    "getIntEnvVarOrDie (se_Env se) ''MAX_API_ERROR_THRESHOLD'' = Go (cs_MaxApiErrorThreshold spec)"
    "getIntEnvVarOrDie (se_Env se) ''API_SERVER_TIMEOUT'' = Go ast"
    "getIntEnvVarOrDie (se_Env se) ''PEER_DIAL_TIMEOUT'' = Go pdt"
    "getIntEnvVarOrDie (se_Env se) ''PEER_REQUEST_TIMEOUT'' = Go prt"
    "getIntEnvVarOrDie (se_Env se) ''HOST_PORT'' = Go (cs_HostPort spec)"
    "IsSoftwareRebootEnabled (se_Env se) = Inr (cs_IsSoftwareRebootEnabled spec)"
proof -
  obtain pat aci pui ast pdt prt where spec: "cs_PeerApiServerTimeout spec = Some pat" "cs_ApiCheckInterval spec = Some aci"
      "cs_PeerUpdateInterval spec = Some pui" "cs_ApiServerTimeout spec = Some ast" "cs_PeerDialTimeout spec = Some pdt"
      "cs_PeerRequestTimeout spec = Some prt"
    and d: "d_Data d ''PeerApiServerTimeout'' = Some (RInt pat)" "d_Data d ''ApiCheckInterval'' = Some (RInt aci)"
      "d_Data d ''PeerUpdateInterval'' = Some (RInt pui)" "d_Data d ''ApiServerTimeout'' = Some (RInt ast)"
      "d_Data d ''PeerDialTimeout'' = Some (RInt pdt)" "d_Data d ''PeerRequestTimeout'' = Some (RInt prt)"
      "d_Data d ''MaxApiErrorThreshold'' = Some (RInt (cs_MaxApiErrorThreshold spec))"
      "d_Data d ''HostPort'' = Some (RInt (cs_HostPort spec))"
      "d_Data d ''IsSoftwareRebootEnabled'' =
         Some (RString ([CHR 0x22] @ formatBool (cs_IsSoftwareRebootEnabled spec) @ [CHR 0x22]))"
    using assms(1) unfolding assms(2) by (rule renderData_fields)
  have int: "getIntEnvVarOrDie (se_Env se) v = Go i"
    if "map_of manifestEnv v = Some (quoted f)" "d_Data d f = Some (RInt i)" "is_int64 i" for v f i
  proof -
    have "v \<in> set (map fst manifestEnv)" using map_of_SomeD [OF that(1)] by force
    then have "se_Env se v = Some (Itoa i)" using assms(3) containerEnv_int [OF that(1,2)] by simp
    then show ?thesis using that(3) by (simp add: getIntEnvVarOrDie_def Getenv_def)
  qed
  have i64: "is_int64 pui" "is_int64 pat" "is_int64 aci" "is_int64 ast" "is_int64 pdt" "is_int64 prt"
    "is_int64 (cs_MaxApiErrorThreshold spec)" "is_int64 (cs_HostPort spec)"
    using assms(4) by (simp_all add: int64s_def spec)
  have vars: "getIntEnvVarOrDie (se_Env se) ''PEER_UPDATE_INTERVAL'' = Go pui"
    "getIntEnvVarOrDie (se_Env se) ''PEER_API_SERVER_TIMEOUT'' = Go pat"
    "getIntEnvVarOrDie (se_Env se) ''API_CHECK_INTERVAL'' = Go aci"
    "getIntEnvVarOrDie (se_Env se) ''MAX_API_ERROR_THRESHOLD'' = Go (cs_MaxApiErrorThreshold spec)"
    "getIntEnvVarOrDie (se_Env se) ''API_SERVER_TIMEOUT'' = Go ast"
    "getIntEnvVarOrDie (se_Env se) ''PEER_DIAL_TIMEOUT'' = Go pdt"
    "getIntEnvVarOrDie (se_Env se) ''PEER_REQUEST_TIMEOUT'' = Go prt"
    "getIntEnvVarOrDie (se_Env se) ''HOST_PORT'' = Go (cs_HostPort spec)"
    by (simp_all add: int [OF manifest_lookup(1) d(3)] int [OF manifest_lookup(2) d(1)] int [OF manifest_lookup(3) d(2)]
        int [OF manifest_lookup(4) d(7)] int [OF manifest_lookup(5) d(4)] int [OF manifest_lookup(6) d(5)]
        int [OF manifest_lookup(7) d(6)] int [OF manifest_lookup(8) d(8)] i64)
  have "se_Env se ''IS_SOFTWARE_REBOOT_ENABLED'' = containerEnv d ''IS_SOFTWARE_REBOOT_ENABLED''"
    by (rule assms(3)) (simp add: manifestEnv_def)
  also have "\<dots> = Some (formatBool (cs_IsSoftwareRebootEnabled spec))"
    by (simp add: containerEnv_def manifest_lookup d(9) printValue_def yamlScalar_def)
  finally have "IsSoftwareRebootEnabled (se_Env se) = Inr (cs_IsSoftwareRebootEnabled spec)"
    by (simp add: IsSoftwareRebootEnabled_def Getenv_def ParseBool_def formatBool_def)
  with spec vars show ?thesis by (rule that)
qed


section \<open>Witnesses\<close>

text \<open>A start-up in which every call succeeds, and the environment of an agent's container.\<close>

definition smoothStartup :: "env \<Rightarrow> unit startupEnv" where
  "smoothStartup env = \<lparr>
     se_Client = (staticClient [])\<lparr>cl_GetNode := (\<lambda>n. returnM (Inr (exampleNode ''10'')))\<rparr>, se_Env = env,
     se_Register = (\<lambda>p. returnM None), se_NewLinux = returnM None, se_GetTimeout = returnM 0,
     se_NewServer = (\<lambda>p. returnM None), se_Stat = (\<lambda>f. returnM True), se_NewManager = (\<lambda>s. returnM None),
     se_InitTaintFlags = returnM None, se_AddHealthzCheck = returnM None, se_AddReadyzCheck = returnM None,
     se_Start = returnM None\<rparr>"

definition freshProcess :: "unit startup" where
  "freshProcess = \<lparr>su_world = (), su_registered = [], su_started = False\<rparr>"


definition agentEnv :: env where
  "agentEnv v =
     (case renderData operatorEnv operatorConfig of
        Ret d \<Rightarrow> (containerEnv d ++ [''MY_NODE_NAME'' \<mapsto> ''worker-1'', ''DEPLOYMENT_NAMESPACE'' \<mapsto> ''op'']) v
      | Panic \<Rightarrow> None)"


end
