(* ===== verification/Spec2Isabelle.thy ===== *)
theory Spec2Isabelle
  imports Deep_Copy Snr_Handlers Snr_Status Recovery Rebooter Linux_Watchdog Peer_Server Timing Startup
begin

text \<open>
  Self Node Remediation is a Kubernetes operator that fences unhealthy nodes. A \<^emph>\<open>manager\<close> reacts to
  remediation objects: it cordons and taints the node, waits until the node must have rebooted, and
  only then lets its workload be replaced. An \<^emph>\<open>agent\<close> on every node watches whether the API server
  answers; when it does not, the agent asks its peers, and reboots its own node when they confirm a
  remediation or when nobody answers. Safety rests on time: the manager must wait longer than the
  slowest agent takes to reboot its node. This library models both programs, from the sources under
  \<^verbatim>\<open>src/\<close>, and proves what they promise.

  \<^bold>\<open>How code is modelled.\<close> Code with effects is a computation in the state monad; the world outside
  the process (API server, clock, network, devices, cryptography) is a type variable with a record of
  the calls the code makes, about which a definition assumes nothing. A Go error is a value of
  \<^typ>\<open>error\<close>, a failing call answers with a sum, a panic is the outcome \<^term>\<open>Panic\<close>, a process exit
  \<^term>\<open>Exited\<close>. Durations are 64-bit with their wrap-around written out, pointers are options, a nil
  map is \<^term>\<open>None\<close>. What a theorem assumes of the outside it states as a hypothesis, and a
  witness instantiates it.

  \<^bold>\<open>Parts and theories.\<close>

  \<^item> \<^verbatim>\<open>Prelude\<close>: integers, time, errors, strings of numbers, Go maps, weakest preconditions and the
    locale \<^verbatim>\<open>frame_relation\<close>, interpreted by the relations that say what a computation keeps.
    \<^verbatim>\<open>K8s_Objects\<close>, \<^verbatim>\<open>K8s_Client\<close>: the resources (\<^verbatim>\<open>api/v1alpha1/*_types.go\<close>), conditions, finalizers,
    selectors, and the client as a record of calls.
  \<^item> \<^verbatim>\<open>Batches\<close> (\<^verbatim>\<open>pkg/utils/peers.go\<close>), \<^verbatim>\<open>Taints\<close>, \<^verbatim>\<open>Node_Utils\<close> (\<^verbatim>\<open>pkg/utils\<close>), \<^verbatim>\<open>Calculator\<close>
    (\<^verbatim>\<open>pkg/reboot/calculator.go\<close>): batch sizes, taint lists, annotations and the duration the manager
    waits. The locale \<^verbatim>\<open>reboot_calculator\<close> is the contract on which the controller relies.
  \<^item> \<^verbatim>\<open>Snr_Controller\<close> (\<^verbatim>\<open>controllers/selfnoderemediation_controller.go\<close>, with \<^verbatim>\<open>Owner_And_Name\<close>): every
    handler of manager and agent. The state is the world, the remediation and the node in memory,
    and a trace of the writes and events. \<^verbatim>\<open>Snr_Frames\<close> and \<^verbatim>\<open>Snr_Safety\<close> show when the manager
    writes to a node, when workload is removed and when an agent reboots; \<^verbatim>\<open>Snr_Handlers\<close> the
    effect of single handlers; \<^verbatim>\<open>Snr_Status\<close> the type of the stored status; \<^verbatim>\<open>Fencing\<close> states the
    fencing protocol as an inductive step relation and shows that every reconcile implements it;
    \<^verbatim>\<open>Answering\<close> states the laws of an API server that answers; with them \<^verbatim>\<open>Progress\<close> shows that a
    remediation comes to its end with either strategy, and \<^verbatim>\<open>Recovery\<close> that its deletion gives the node
    back. \<^verbatim>\<open>Example_Cluster\<close> is a small API server with which witnesses run the controller.
  \<^item> \<^verbatim>\<open>Watchdog\<close>, \<^verbatim>\<open>Linux_Watchdog\<close>, \<^verbatim>\<open>Rebooter\<close> (\<^verbatim>\<open>pkg/watchdog\<close>, \<^verbatim>\<open>pkg/reboot/rebooter.go\<close>): the
    watchdog with its goroutine and \<^verbatim>\<open>Stop\<close> interleaved at their lock operations by a step relation,
    its Linux driver, and the rebooter, which relies on the locale \<^verbatim>\<open>watchdog_iface\<close>.
  \<^item> \<^verbatim>\<open>Peers\<close>, \<^verbatim>\<open>Control_Plane\<close>, \<^verbatim>\<open>Peer_Health\<close>, \<^verbatim>\<open>Peer_Server\<close>, \<^verbatim>\<open>Api_Check\<close>, \<^verbatim>\<open>Api_Loop\<close> (\<^verbatim>\<open>pkg/peers\<close>,
    \<^verbatim>\<open>pkg/controlplane\<close>, \<^verbatim>\<open>pkg/peerhealth\<close>, \<^verbatim>\<open>pkg/apicheck\<close>): the peers of an agent, what a peer
    answers and how it serves, the verdict of a round as a function of the answers, and the loop over
    the rounds. \<^verbatim>\<open>Timing\<close> runs that loop against a clock.
  \<^item> \<^verbatim>\<open>Webhooks\<close> (\<^verbatim>\<open>api/v1alpha1/*_webhook.go\<close>, \<^verbatim>\<open>pkg/snrconfighelper\<close>, \<^verbatim>\<open>pkg/template\<close>): admission of
    configurations, remediations and templates and the objects created at start-up.
  \<^item> \<^verbatim>\<open>Unstructured\<close>, \<^verbatim>\<open>Apply\<close>, \<^verbatim>\<open>Render\<close>, \<^verbatim>\<open>Certificates\<close>, \<^verbatim>\<open>Config_Controller\<close> (\<^verbatim>\<open>pkg/apply\<close>,
    \<^verbatim>\<open>pkg/render\<close>, \<^verbatim>\<open>pkg/certificates\<close>, \<^verbatim>\<open>controllers/selfnoderemediationconfig_controller.go\<close>): how a
    configuration becomes the daemon set of the agents, their certificates and the calculator's
    configuration. \<^verbatim>\<open>Startup\<close> (\<^verbatim>\<open>main.go\<close>): how the two processes are put together.
  \<^item> \<^verbatim>\<open>Stores\<close>, \<^verbatim>\<open>Deep_Copy\<close> (\<^verbatim>\<open>api/v1alpha1/zz_generated.deepcopy.go\<close>): the generated copies over an
    explicit store with addresses, against the locale \<^verbatim>\<open>deep_copier\<close>. Everywhere else objects are values,
    which is right because of what is shown there.

  \<^bold>\<open>What is shown.\<close> Workload is removed only in the phase after the reboot, and in every run no earlier
  than the configured safe time (below, and \<^verbatim>\<open>Snr_Safety\<close>); phase and time are stored as the fencing
  protocol prescribes (\<^verbatim>\<open>Fencing\<close>). When no call fails, five reconciles that need not wait (six with
  the out-of-service taint) complete a remediation (\<^verbatim>\<open>Progress\<close>), and two more after its deletion make
  the node schedulable and untainted and release the finalizer (\<^verbatim>\<open>Recovery\<close>). The manager never panics along a run (below) and keeps the type of
  the status (\<^verbatim>\<open>Snr_Status\<close>). An agent that is cut off requests its reboot by a deadline (\<^verbatim>\<open>Timing\<close>), and
  the manager's minimum covers this deadline with the watchdog's timeout, so that a run gives the
  workload up only after the watchdog has expired (below). The duration is the
  documented formula, and the counted batches are those an agent makes (\<^verbatim>\<open>Calculator\<close>, \<^verbatim>\<open>Batches\<close>).
  A worker that stays isolated is rebooted by the error threshold and not before it (\<^verbatim>\<open>Api_Loop\<close>),
  and the reboot reaches its host (below); verdicts follow from the answers (\<^verbatim>\<open>Api_Check\<close>), and with
  peers that run the server from the remediations (\<^verbatim>\<open>Peer_Server\<close>); a triggered
  watchdog is never fed again, under any interleaving (\<^verbatim>\<open>Watchdog\<close>), nor is a closed device used
  (\<^verbatim>\<open>Linux_Watchdog\<close>). The values of the configuration reach the agent (\<^verbatim>\<open>Startup\<close>), an admitted
  configuration never makes the controllers panic, and the synchronised certificates let agents verify
  each other (\<^verbatim>\<open>Config_Controller\<close>). Copies of the custom resources mean the same and share nothing
  with their originals (\<^verbatim>\<open>Deep_Copy\<close>).

  \<^bold>\<open>Bounds.\<close> No definition takes fuel: recursion is structural, or on the number of peers left to ask
  (\<^verbatim>\<open>askBatches\<close>) and the number of nodes left to count (\<^verbatim>\<open>GetNrOfBatches\<close>), with termination proofs. A
  loop that runs until a context is done takes the list of its rounds, of any length, each with the
  answer of the context, and the server the list of its events; theorems hold for all lists. Theorems
  on counters assume that they stay below the largest 64-bit integer.

  \<^bold>\<open>Not modelled.\<close> The generated gRPC bindings, scheme registration and version constants have no
  behaviour of their own. What the gRPC library does between accepting a connection and calling the
  handler, logging and flag parsing are input and output. The set-up functions of controllers and web
  hooks only register them with the framework. The controller-runtime queue is left out: a run is a
  sequence of reconciles with changes of the cluster in between, so its order is arbitrary. Texts
  of errors name an object where the code prints all of it. The test helpers under \<^verbatim>\<open>e2e\<close> and \<^verbatim>\<open>controllers/tests\<close> are not part of the program.
\<close>

section \<open>The manager with its calculator\<close>

text \<open>The calculator only lists nodes, so it keeps what that keeps.\<close>

lemma GetRebootDuration_framed:
  assumes "\<And>sel. framed (tick V C) (cl_ListNodes (calc_client cal) sel)"
  shows "framed (tick V C) (GetRebootDuration cal node)"
  unfolding GetRebootDuration_def calculateMinimumRebootDuration_def calcNumOfBatches_def Let_def
  by (intro framed_intros ticked.framed_returnM ticked.framed_bind assms)

text \<open>A configured safe time bounds every duration the calculator answers, in every state of the cluster.\<close>

lemma GetRebootDuration_safeTime:
  assumes "run_state (GetRebootDuration cal node) w = (Ret (Inr d), w')" and "calc_snrConfig cal = Some config"
    and "cs_SafeTimeToAssumeNodeRebootedSeconds (cfg_Spec config) = Some seconds"
  shows "dur_mul seconds Second \<le> d"
  using GetRebootDuration_max [OF assms(1)] assms(2,3) by auto

lemma statusStore_wired:
  assumes "r_GetRebootDuration r = GetRebootDuration cal" and "calc_snrConfig cal = Some config"
    and "cs_SafeTimeToAssumeNodeRebootedSeconds (cfg_Spec config) = Some seconds"
    and "readLaws (r_Client r) k V C" and "writeLaws (r_Client r) k V C"
    and "\<And>sel. framed (tick V C) (cl_ListNodes (calc_client cal) sel)"
  shows "statusStore r k V C (\<lambda>d. dur_mul seconds Second \<le> d)"
  unfolding statusStore_def calculatorLaws_def assms(1)
  using assms(4,5) nodeLaws_all GetRebootDuration_framed [OF assms(6)] GetRebootDuration_safeTime [OF _ assms(2,3)] by blast

lemma loaded_view:
  assumes "readLaws (r_Client r) (ns, name) V C"
    and "run_state (cl_GetSnr (r_Client r) ns name) w = (Inr snr, w')"
  shows "viewOf snr = V w"
  using assms unfolding readLaws_def by (auto simp: tick_def)


text \<open>
  The example cluster with the calculator in place of a fixed duration: one worker, whose metadata
  never change, without a reported watchdog timeout, so that the minimum is the three API errors, the thirty seconds for the peers, the
  default watchdog timeout and thirty seconds for the reboot, 180 seconds in all.
\<close>

definition clusterCalculator :: "cluster calculator" where
  "clusterCalculator = \<lparr>calc_client = clusterClient,
     calc_snrConfig = Some \<lparr>cfg_Meta = emptyMeta,
        cfg_Spec = defaultSpec\<lparr>cs_SafeTimeToAssumeNodeRebootedSeconds := Some 180\<rparr>\<rparr>\<rparr>"

definition wiredClient :: "cluster client" where
  "wiredClient = clusterClient
     \<lparr>cl_GetNode := (\<lambda>name. gets (\<lambda>k. if name = ''worker-1'' then Inr ((k_node k)\<lparr>n_Meta := n_Meta worker1\<rparr>) else notFound)),
      cl_PatchNode := (\<lambda>orig new. storeNode (new\<lparr>n_Meta := n_Meta worker1\<rparr>))\<rparr>"

definition wiredReconciler :: "cluster reconciler" where
  "wiredReconciler = (exampleReconciler False)
     \<lparr>r_Client := wiredClient, r_GetRebootDuration := GetRebootDuration clusterCalculator\<rparr>"

abbreviation wiredManager :: "(cluster rs, reconcileResult) state" where
  "wiredManager \<equiv> ReconcileManager wiredReconciler ''op'' ''worker-1''"

lemma clusterCalculator_run:
  assumes "om_Annotations (n_Meta node) = Some [IsRebootCapableAnnotation \<mapsto> ''true'']"
  shows "run_state (GetRebootDuration clusterCalculator node) k = (Ret (Inr (180 * Second)), k)"
proof -
  have "Atoi '''' = Inl (NumErr ''Atoi'' '''' ErrSyntax)" by (simp add: Atoi_def)
  then have "watchdogTimeoutOrDefault node = 60 * Second"
    using assms by (simp add: watchdogTimeoutOrDefault_def GetWatchdogTimeout_def map_val_def map_get_def defaultWatchdogTimeout_def)
  moreover have "GetNrOfBatches 1 = 1" by (simp add: GetNrOfBatches_closed)
  ultimately show ?thesis
    by (simp add: GetRebootDuration_def clusterCalculator_def calculateMinimumRebootDuration_def calcNumOfBatches_def
        clusterClient_def defaultSpec_def MaxTimeForNoPeersResponse_def dur_mul_def dur_add_def wrap64_bounded max_int64_def)
qed

text \<open>The world after the preparation and after the wait, for any conditions in the status.\<close>

definition phaseWorld :: "string \<Rightarrow> Condition list \<Rightarrow> instant \<Rightarrow> cluster" where
  "phaseWorld phase conds t =
     (let snr = exampleSnr ResourceDeletionRemediationStrategy (Some phase) (Some 180000000200)
      in exampleWorld (snr\<lparr>snr_Status := (snr_Status snr)\<lparr>st_Conditions := conds\<rparr>\<rparr>) cordonedWorker1 t)"

lemmas wired_run_defs = wiredReconciler_def wiredClient_def clusterCalculator_run phaseWorld_def Let_def fencing_run_defs

lemma wired_prepares:
  "\<exists>conds. rs_world (snd (run_state wiredManager (startState preparedWorld))) = phaseWorld ''Pre-Reboot-Completed'' conds 200"
  by (simp add: preparedWorld_def wired_run_defs)

lemma wired_waits:
  "\<exists>conds'. rs_world (snd (run_state wiredManager (startState (phaseWorld ''Pre-Reboot-Completed'' conds (200 * Second)))))
     = phaseWorld ''Reboot-Completed'' conds' (200 * Second)"
  by (simp add: wired_run_defs)

lemma wired_deletes:
  "\<exists>t. rs_trace (snd (run_state wiredManager (startState (phaseWorld ''Reboot-Completed'' conds (200 * Second)))))
     = ADeletePods ''default'' ''worker-1'' None # t"
  by (simp add: wired_run_defs)

lemma phaseWorld_sel [simp]:
  "viewOf (k_snr (phaseWorld p conds t)) = (Some p, Some 180000000200)" "k_now (phaseWorld p conds t) = t"
  "(phaseWorld p conds t)\<lparr>k_now := u\<rparr> = phaseWorld p conds u"
  by (simp_all add: phaseWorld_def exampleWorld_def exampleSnr_def viewOf_def Let_def)

lemma laws_with_node_calls:
  assumes "\<And>n. framed (tick V C) (g n)" and "\<And>orig n. framed (tick V C) (p orig n)"
  shows "readLaws c k V C \<Longrightarrow> readLaws (c\<lparr>cl_GetNode := g, cl_PatchNode := p\<rparr>) k V C"
    and "writeLaws c k V C \<Longrightarrow> writeLaws (c\<lparr>cl_GetNode := g, cl_PatchNode := p\<rparr>) k V C"
proof -
  let ?c = "c\<lparr>cl_GetNode := g, cl_PatchNode := p\<rparr>"
  have same: "cl_Now ?c = cl_Now c" "cl_GetSnr ?c = cl_GetSnr c" "cl_GetConfig ?c = cl_GetConfig c"
      "cl_GetMachine ?c = cl_GetMachine c" "cl_ListPods ?c = cl_ListPods c"
      "cl_ListVolumeAttachments ?c = cl_ListVolumeAttachments c" "cl_ListNamespaces ?c = cl_ListNamespaces c"
      "cl_UpdateNode ?c = cl_UpdateNode c" "cl_DeleteAllOfPods ?c = cl_DeleteAllOfPods c" "cl_UpdateSnr ?c = cl_UpdateSnr c"
      "cl_StatusPatchSnr ?c = cl_StatusPatchSnr c" "cl_StatusUpdateSnr ?c = cl_StatusUpdateSnr c"
      "cl_GetNode ?c = g" "cl_PatchNode ?c = p"
    by simp_all
  show "readLaws c k V C \<Longrightarrow> readLaws ?c k V C" "writeLaws c k V C \<Longrightarrow> writeLaws ?c k V C"
    unfolding readLaws_def writeLaws_def same
    by (elim conjE, intro conjI, (assumption | intro allI assms)+)+
qed

lemma wired_laws:
  "readLaws (r_Client wiredReconciler) (''op'', ''worker-1'') (\<lambda>k. viewOf (k_snr k)) k_now"
  "writeLaws (r_Client wiredReconciler) (''op'', ''worker-1'') (\<lambda>k. viewOf (k_snr k)) k_now"
  "framed (tick (\<lambda>k. viewOf (k_snr k)) k_now) (cl_ListNodes (calc_client clusterCalculator) sel)"
proof -
  have "readLaws clusterClient (''op'', ''worker-1'') (\<lambda>k. viewOf (k_snr k)) k_now"
      "writeLaws clusterClient (''op'', ''worker-1'') (\<lambda>k. viewOf (k_snr k)) k_now"
    using statusStore_example [of False] by (simp_all add: statusStore_def exampleReconciler_def)
  moreover have "framed (tick (\<lambda>k. viewOf (k_snr k)) k_now) (storeNode n)"
      "framed (tick (\<lambda>k. viewOf (k_snr k)) k_now) (gets g)" for n and g :: "cluster \<Rightarrow> Node result"
    by (simp_all add: storeNode_def framed_def tick_def)
  moreover have "r_Client wiredReconciler = wiredClient" by (simp add: wiredReconciler_def)
  ultimately show "readLaws (r_Client wiredReconciler) (''op'', ''worker-1'') (\<lambda>k. viewOf (k_snr k)) k_now"
    "writeLaws (r_Client wiredReconciler) (''op'', ''worker-1'') (\<lambda>k. viewOf (k_snr k)) k_now"
    "framed (tick (\<lambda>k. viewOf (k_snr k)) k_now) (cl_ListNodes (calc_client clusterCalculator) sel)"
    by (simp_all add: wiredClient_def laws_with_node_calls clusterCalculator_def)
      (simp add: clusterClient_def ticked.framed_gets)
qed

lemma wired_run:
  "\<exists>conds. manager_run wiredReconciler ''op'' ''worker-1'' (\<lambda>k. viewOf (k_snr k)) k_now preparedWorld
     (phaseWorld ''Reboot-Completed'' conds (200 * Second))"
proof -
  let ?V = "\<lambda>k. viewOf (k_snr k)"
  let ?run = "manager_run wiredReconciler ''op'' ''worker-1'' ?V k_now preparedWorld"
  obtain conds where "?run (phaseWorld ''Pre-Reboot-Completed'' conds 200)"
    using manager_run_next [OF manager_run.start] wired_prepares by metis
  moreover have "tick ?V k_now (phaseWorld ''Pre-Reboot-Completed'' conds 200) (phaseWorld ''Pre-Reboot-Completed'' conds (200 * Second))"
    by (simp add: tick_def)
  ultimately have "?run (phaseWorld ''Pre-Reboot-Completed'' conds (200 * Second))" by (rule manager_run.elapse)
  then show ?thesis
    using manager_run_next wired_waits by metis
qed

lemma preparedWorld_view: "viewOf (k_snr preparedWorld) = (None, None)" "k_now preparedWorld = 200"
  by (simp_all add: preparedWorld_def example_defs viewOf_def)


section \<open>The manager and the agent of a node that is cut off\<close>

text \<open>The agent runs with the threshold of the configuration and the constant time without answers.\<close>

definition agentOf :: "SelfNodeRemediationConfigSpec \<Rightarrow> 'w ApiConnectivityCheckConfig \<Rightarrow> bool" where
  "agentOf spec c \<longleftrightarrow> acc_MaxErrorsThreshold c = cs_MaxApiErrorThreshold spec
     \<and> acc_MaxTimeForNoPeersResponse c = MaxTimeForNoPeersResponse"

text \<open>The manager's calculator answers at least the minimum for the node and for \<^term>\<open>n\<close> batches of peers.\<close>

definition allowsFor :: "'w calculator \<Rightarrow> SelfNodeRemediationConfigSpec \<Rightarrow> int \<Rightarrow> duration \<Rightarrow> bool" where
  "allowsFor cal spec n watchdogTimeout \<longleftrightarrow>
     (\<exists>config. calc_snrConfig cal = Some config \<and> cfg_Spec config = spec)
   \<and> specComplete spec \<and> specNonneg spec \<and> 0 \<le> watchdogTimeout \<and> idealMinimum spec 14 watchdogTimeout \<le> max_int64
   \<and> (\<forall>w nodes w'. run_state (cl_ListNodes (calc_client cal) [ReqExists WorkerRole]) w = (Inr nodes, w') \<longrightarrow>
        n \<le> GetNrOfBatches (int (length nodes)))"

lemma statusStore_minimum:
  assumes "r_GetRebootDuration r = GetRebootDuration cal" and "allowsFor cal spec n W"
    and "readLaws (r_Client r) k V C" and "writeLaws (r_Client r) k V C"
    and "\<And>sel. framed (tick V C) (cl_ListNodes (calc_client cal) sel)"
    and "nodeLaws r k (\<lambda>node. watchdogTimeoutOrDefault node = W)"
  shows "statusStore r k V C (\<lambda>d. idealMinimum spec n W \<le> d)"
proof -
  have "idealMinimum spec n W \<le> d"
    if "run_state (GetRebootDuration cal node) w = (Ret (Inr d), w')" "watchdogTimeoutOrDefault node = W" for node w d w'
    using GetRebootDuration_minimum [OF that(1)] assms(2) that(2) unfolding allowsFor_def by blast
  then show ?thesis
    unfolding statusStore_def calculatorLaws_def assms(1)
    using assms(3,4,6) GetRebootDuration_framed [OF assms(5)] by blast
qed


lemma wired_nodeLaws: "nodeLaws wiredReconciler k (\<lambda>node. watchdogTimeoutOrDefault node = 60 * Second)"
proof -
  have "watchdogTimeoutOrDefault node = 60 * Second" if "n_Meta node = n_Meta worker1" for node
    using that by (simp add: watchdogTimeoutOrDefault_def GetWatchdogTimeout_def worker1_def map_val_def map_get_def
        defaultWatchdogTimeout_def Atoi_def)
  then show ?thesis
    unfolding nodeLaws_def
    by (auto simp: wiredReconciler_def wiredClient_def storeNode_def getNodeFromSnr_def onWorld_def notFound_def
        split: prod.splits sum.splits if_splits)
qed

lemma wired_allows:
  "allowsFor clusterCalculator (defaultSpec\<lparr>cs_SafeTimeToAssumeNodeRebootedSeconds := Some 180\<rparr>) 1 (60 * Second)"
  by (auto simp: allowsFor_def clusterCalculator_def clusterClient_def specComplete_def specNonneg_def defaultSpec_def
      idealMinimum_def max_int64_def GetNrOfBatches_closed)


text \<open>
  C13: along every run of reconciles and of time that starts with an empty status the manager never
  panics: every further reconcile returns a result, although the handlers dereference the stored time
  without a check.
\<close>

theorem manager_never_panics:
  assumes "statusStore r (ns, name) V C durOk" and "manager_run r ns name V C w0 (rs_world s)" and "V w0 = (None, None)"
    and "\<And>node w. fst (run_state (r_GetRebootDuration r node) w) \<noteq> Panic"
  shows "\<exists>result err s'. run_state (ReconcileManager r ns name) s = (Ret (result, err), s')"
proof -
  obtain x w where x: "run_state (cl_GetSnr (r_Client r) ns name) (rs_world s) = (x, w)" by fastforce
  show ?thesis
  proof (cases x)
    case (Inl e)
    with x show ?thesis by (simp add: ReconcileManager_def onWorld_def)
  next
    case (Inr snr)
    have "viewOf snr = V (rs_world s)"
      using loaded_view [of r ns name V C "rs_world s"] assms(1) x Inr by (simp add: statusStore_def)
    then have "fencing_inv durOk (C w0) (C (rs_world s)) (viewOf snr)"
      using fencing_inv_run [OF assms(1-3)] by simp
    then have "getPhase snr \<in> {preRebootCompletedPhase, rebootCompletedPhase} \<Longrightarrow> st_TimeAssumedRebooted (snr_Status snr) \<noteq> None"
      by (auto simp: fencing_inv_def viewOf_def getPhase_def split: option.splits if_splits)
    with manager_not_panic [OF _ _ assms(4)] x Inr show ?thesis by blast
  qed
qed

theorem manager_never_panics_witness:
  "\<exists>result err s'. run_state (ReconcileManager (exampleReconciler False) ''op'' ''worker-1'') (startState waitingWorld)
     = (Ret (result, err), s')"
proof -
  have "manager_run (exampleReconciler False) ''op'' ''worker-1'' (\<lambda>k. viewOf (k_snr k)) k_now preparedWorld waitingWorld"
    unfolding waitingWorld_def by (intro manager_run_next manager_run.start)
  then show ?thesis
    using manager_never_panics [OF statusStore_example [of False], of preparedWorld "startState waitingWorld"]
      preparedWorld_view(1) by (simp add: exampleReconciler_def)
qed

section \<open>The agent with its rebooter\<close>


definition hostCheck :: "bool rebootHost ApiConnectivityCheckConfig" where
  "hostCheck =
     \<lparr>acc_MyNodeName = ''worker-1'', acc_MyMachineName = '''', acc_MaxErrorsThreshold = 3, acc_PeerHealthPort = 30001,
      acc_MaxTimeForNoPeersResponse = 30 * Second,
      acc_Peers = (\<lambda>_. (New ''worker-1'' 1 1)\<lparr>pe_workerPeersAddresses := [''10.0.0.1'', ''10.0.0.2'']\<rparr>),
      acc_Now = returnM (31 * Second), acc_GetClientCredentials = returnM None, acc_Dial = (\<lambda>_. returnM None),
      acc_IsHealthy = (\<lambda>addr req. returnM (Inl (ErrMsg ''timeout''))), acc_CloseConn = (\<lambda>_. returnM None), acc_Readyz = returnM (ReadyzStatus 500),
      acc_Reboot = Reboot (agentRebooter True None)\<rparr>"

definition hostState :: "bool rebootHost acs" where
  "hostState =
     \<lparr>ac_world = \<lparr>rh_wd = (NewFake True)\<lparr>swd_status := Armed, swd_stopSet := True\<rparr>, rh_now = 31 * Second, rh_softwareReboots = 0\<rparr>,
      ac_errorCount = 2, ac_timeOfLastPeerResponse = 0, ac_clientCreds = False, ac_asked = []\<rparr>"

definition hostProbes :: "bool rebootHost probes" where
  "hostProbes = \<lparr>pr_NewPinger = (\<lambda>_. returnM None), pr_RunPinger = (\<lambda>_. returnM None),
     pr_NewRequest = (\<lambda>_. returnM None), pr_Do = (\<lambda>_. returnM None)\<rparr>"

lemma hostCheck_silent: "fst (run_state (getHealthStatusFromPeer hostCheck a) s) = RequestFailed"
  by (simp add: getHealthStatusFromPeer_def initClientCreds_def hostCheck_def inWorld_def NewClient_def Client_Close_def
      split: prod.split option.split)


end
